(* ===== verification/HM_Prelude.thy ===== *)
theory HM_Prelude
  imports Main "HOL-Library.List_Lexorder" "HOL-Library.Char_ord" "HOL-Library.Sublist"
begin

text \<open>
  Shared vocabulary of the development: identifiers and instants, Rust's fallible results as
  sums, the fixed-width integer operations the sources use (saturating and checked addition,
  checked narrowing), the parts of the standard string library the sources call (Unicode
  scalar values of a UTF-8 string, white space, control characters, decimal printing, suffix
  trimming), ordered maps (\<open>BTreeMap\<close>) as sorted association lists, and two locales every
  persisted lifecycle of the program is an instance of.

  An instant (\<open>DateTime<Utc>\<close>) is an integer count of nanoseconds. Sums that chrono checks for
  range are an argument of the definitions that use them. A UUID is a natural number: the
  sources compare identifiers for equality and order only.
\<close>

named_theorems lifecycle_simps \<open>transition tables of the persisted state machines\<close>
named_theorems result_simps \<open>case analysis of fallible results\<close>
named_theorems store_simps \<open>reads after writes of the relational tables\<close>

type_synonym datetime = int
type_synonym uuid = nat
type_synonym endpoint_id = string
type_synonym 'a rust_result = "string + 'a"

section \<open>Fixed-width integers\<close>

abbreviation u16_max :: nat where "u16_max \<equiv> 65535"
abbreviation u32_max :: nat where "u32_max \<equiv> 4294967295"
abbreviation u64_max :: nat where "u64_max \<equiv> 18446744073709551615"
abbreviation i64_max :: nat where "i64_max \<equiv> 9223372036854775807"

definition saturating_add :: "nat \<Rightarrow> nat \<Rightarrow> nat \<Rightarrow> nat" where
  "saturating_add hi a b = min hi (a + b)"

definition checked_add :: "nat \<Rightarrow> nat \<Rightarrow> nat \<Rightarrow> nat option" where
  "checked_add hi a b = (if a + b \<le> hi then Some (a + b) else None)"

text \<open>\<open>i64::try_from\<close> on an unsigned value.\<close>

definition try_i64 :: "nat \<Rightarrow> int option" where
  "try_i64 n = (if n \<le> i64_max then Some (int n) else None)"

lemma saturating_add_le [simp]: "saturating_add hi a b \<le> hi"
  by (simp add: saturating_add_def)

lemma saturating_add_exact: "a + b \<le> hi \<Longrightarrow> saturating_add hi a b = a + b"
  by (simp add: saturating_add_def)

lemma saturating_add_mono: "a \<le> hi \<Longrightarrow> a \<le> saturating_add hi a b"
  by (simp add: saturating_add_def)

lemma checked_add_Some_iff: "checked_add hi a b = Some c \<longleftrightarrow> c = a + b \<and> a + b \<le> hi"
  by (auto simp: checked_add_def)

section \<open>Results\<close>

text \<open>The \<open>?\<close> operator: an error returns at once, a value continues.\<close>

definition and_then :: "'e + 'a \<Rightarrow> ('a \<Rightarrow> 'e + 'b) \<Rightarrow> 'e + 'b" where
  "and_then r f = (case r of Inl e \<Rightarrow> Inl e | Inr x \<Rightarrow> f x)"

definition ok_or :: "'a option \<Rightarrow> 'e \<Rightarrow> 'e + 'a" where
  "ok_or m e = (case m of None \<Rightarrow> Inl e | Some x \<Rightarrow> Inr x)"

definition is_ok :: "'e + 'a \<Rightarrow> bool" where
  "is_ok r = (case r of Inl _ \<Rightarrow> False | Inr _ \<Rightarrow> True)"

lemma and_then_simps [simp]:
  "and_then (Inl e) f = Inl e" "and_then (Inr x) f = f x"
  by (simp_all add: and_then_def)

lemma and_then_Inr_iff [result_simps]:
  "and_then r f = Inr y \<longleftrightarrow> (\<exists>x. r = Inr x \<and> f x = Inr y)"
  by (cases r) simp_all

lemma and_then_Inl_iff [result_simps]:
  "and_then r f = Inl e \<longleftrightarrow> r = Inl e \<or> (\<exists>x. r = Inr x \<and> f x = Inl e)"
  by (cases r) auto

lemma ok_or_simps [simp]:
  "ok_or None e = Inl e" "ok_or (Some x) e = Inr x"
  by (simp_all add: ok_or_def)

lemma ok_or_Inr_iff [result_simps]: "ok_or m e = Inr x \<longleftrightarrow> m = Some x"
  by (cases m) simp_all

lemma guard_Inr_iff [result_simps]: "(if b then Inl e else r) = Inr x \<longleftrightarrow> \<not> b \<and> r = Inr x"
  by simp

lemma is_ok_simps [simp]: "is_ok (Inr x)" "\<not> is_ok (Inl e)"
  by (simp_all add: is_ok_def)

section \<open>Strings of the standard library\<close>

text \<open>
  A Rust string is a valid UTF-8 byte sequence; an Isabelle \<^typ>\<open>char\<close> is one byte. The scalar
  values (\<open>str::chars\<close>) are decoded from the leading byte of each sequence.
\<close>

fun utf8_scalars :: "nat list \<Rightarrow> nat list" where
  "utf8_scalars (b # c # d # e # bs) =
     (if b < 128 then b # utf8_scalars (c # d # e # bs)
      else if b < 224 then ((b - 192) * 64 + (c - 128)) # utf8_scalars (d # e # bs)
      else if b < 240 then ((b - 224) * 4096 + (c - 128) * 64 + (d - 128)) # utf8_scalars (e # bs)
      else ((b - 240) * 262144 + (c - 128) * 4096 + (d - 128) * 64 + (e - 128)) # utf8_scalars bs)"
| "utf8_scalars [b, c, d] =
     (if b < 128 then b # utf8_scalars [c, d]
      else if b < 224 then ((b - 192) * 64 + (c - 128)) # utf8_scalars [d]
      else [(b - 224) * 4096 + (c - 128) * 64 + (d - 128)])"
| "utf8_scalars [b, c] =
     (if b < 128 then b # utf8_scalars [c] else [(b - 192) * 64 + (c - 128)])"
| "utf8_scalars [b] = [b]"
| "utf8_scalars [] = []"

definition rust_chars :: "string \<Rightarrow> nat list" where
  "rust_chars s = utf8_scalars (map of_char s)"

text \<open>The Unicode \<open>White_Space\<close> property (\<open>char::is_whitespace\<close>).\<close>

definition is_whitespace :: "nat \<Rightarrow> bool" where
  "is_whitespace c \<longleftrightarrow> (9 \<le> c \<and> c \<le> 13) \<or> c = 32 \<or> c = 133 \<or> c = 160 \<or> c = 5760 \<or>
     (8192 \<le> c \<and> c \<le> 8202) \<or> c = 8232 \<or> c = 8233 \<or> c = 8239 \<or> c = 8287 \<or> c = 12288"

text \<open>The Unicode general category \<open>Cc\<close> (\<open>char::is_control\<close>).\<close>

definition is_control :: "nat \<Rightarrow> bool" where
  "is_control c \<longleftrightarrow> c \<le> 31 \<or> (127 \<le> c \<and> c \<le> 159)"

text \<open>\<open>s.trim().is_empty()\<close>: every scalar value is white space.\<close>

definition trim_is_empty :: "string \<Rightarrow> bool" where
  "trim_is_empty s \<longleftrightarrow> list_all is_whitespace (rust_chars s)"

text \<open>\<open>s.split_whitespace().count()\<close>.\<close>

fun word_count :: "bool \<Rightarrow> nat list \<Rightarrow> nat" where
  "word_count inside [] = 0"
| "word_count inside (c # cs) =
     (if is_whitespace c then word_count False cs
      else if inside then word_count True cs
      else Suc (word_count True cs))"

definition split_whitespace_count :: "string \<Rightarrow> nat" where
  "split_whitespace_count s = word_count False (rust_chars s)"

definition is_ascii_digit :: "char \<Rightarrow> bool" where
  "is_ascii_digit c \<longleftrightarrow> 48 \<le> (of_char c :: nat) \<and> (of_char c :: nat) \<le> 57"

definition to_ascii_lowercase :: "string \<Rightarrow> string" where
  "to_ascii_lowercase s =
     map (\<lambda>c. if 65 \<le> (of_char c :: nat) \<and> (of_char c :: nat) \<le> 90
              then char_of ((of_char c :: nat) + 32) else c) s"

text \<open>Decimal printing of an unsigned integer.\<close>

fun show_nat :: "nat \<Rightarrow> string" where
  "show_nat n = (if n < 10 then [char_of (48 + n)] else show_nat (n div 10) @ [char_of (48 + n mod 10)])"

declare show_nat.simps [simp del]

lemma show_nat_small [simp]: "n < 10 \<Longrightarrow> show_nat n = [char_of (48 + n)]"
  by (subst show_nat.simps) simp

lemma char_of_digit_one [simp]: "char_of (49::nat) = CHR ''1''"
  by code_simp

lemma show_nat_nonempty [simp]: "show_nat n \<noteq> []"
  by (subst show_nat.simps) simp

text \<open>Lower-case hexadecimal text of a digest.\<close>

definition hex_digits :: string where
  "hex_digits = ''0123456789abcdef''"

fun hex :: "nat list \<Rightarrow> string" where
  "hex [] = []"
| "hex (b # bs) = hex_digits ! (b div 16) # hex_digits ! (b mod 16) # hex bs"

text \<open>\<open>str::contains\<close> for a string pattern and \<open>str::trim_end_matches\<close>.\<close>

definition str_contains :: "string \<Rightarrow> string \<Rightarrow> bool" where
  "str_contains s pat \<longleftrightarrow> sublist pat s"

function trim_end_matches :: "string \<Rightarrow> string \<Rightarrow> string" where
  "trim_end_matches pat s =
     (if pat \<noteq> [] \<and> suffix pat s then trim_end_matches pat (take (length s - length pat) s) else s)"
  by pat_completeness auto
termination
  by (relation "measure (\<lambda>(pat, s). length s)") (auto simp: suffix_def)

declare trim_end_matches.simps [simp del]

section \<open>Ordered maps\<close>

text \<open>
  \<open>BTreeMap\<close> as an association list with strictly increasing keys: \<open>get\<close> is \<^const>\<open>map_of\<close>,
  iteration is the list itself.
\<close>

type_synonym ('k, 'v) btree = "('k \<times> 'v) list"

fun btree_insert :: "'k::linorder \<Rightarrow> 'v \<Rightarrow> ('k, 'v) btree \<Rightarrow> ('k, 'v) btree" where
  "btree_insert k v [] = [(k, v)]"
| "btree_insert k v ((a, b) # xs) =
     (if k < a then (k, v) # (a, b) # xs
      else if k = a then (k, v) # xs
      else (a, b) # btree_insert k v xs)"

definition btree_wf :: "('k::linorder, 'v) btree \<Rightarrow> bool" where
  "btree_wf m \<longleftrightarrow> sorted_wrt (<) (map fst m)"

definition btree_of_list :: "('k::linorder \<times> 'v) list \<Rightarrow> ('k, 'v) btree" where
  "btree_of_list xs = fold (\<lambda>(k, v) m. btree_insert k v m) xs []"

text \<open>What a client of an ordered map relies on.\<close>

locale ordered_map =
  fixes lookup :: "'m \<Rightarrow> 'k::linorder \<Rightarrow> 'v option"
    and insert :: "'k \<Rightarrow> 'v \<Rightarrow> 'm \<Rightarrow> 'm"
    and entries :: "'m \<Rightarrow> ('k \<times> 'v) list"
    and wf :: "'m \<Rightarrow> bool"
  assumes lookup_insert: "wf m \<Longrightarrow> lookup (insert k v m) = (lookup m)(k \<mapsto> v)"
    and wf_insert: "wf m \<Longrightarrow> wf (insert k v m)"
    and lookup_entries: "wf m \<Longrightarrow> lookup m = map_of (entries m)"
    and entries_sorted: "wf m \<Longrightarrow> sorted_wrt (<) (map fst (entries m))"
begin

lemma lookup_insert_same: "wf m \<Longrightarrow> lookup (insert k v m) k = Some v"
  by (simp add: lookup_insert)

lemma lookup_insert_other: "wf m \<Longrightarrow> k \<noteq> j \<Longrightarrow> lookup (insert k v m) j = lookup m j"
  by (simp add: lookup_insert)

lemma distinct_keys: "wf m \<Longrightarrow> distinct (map fst (entries m))"
  using entries_sorted strict_sorted_iff by blast

lemma entry_lookup: "wf m \<Longrightarrow> (k, v) \<in> set (entries m) \<longleftrightarrow> lookup m k = Some v"
  by (simp add: lookup_entries distinct_keys)

lemma dom_insert: "wf m \<Longrightarrow> dom (lookup (insert k v m)) = Set.insert k (dom (lookup m))"
  by (simp add: lookup_insert)

end

lemma map_of_btree_insert [simp]: "map_of (btree_insert k v m) = (map_of m)(k \<mapsto> v)"
  by (induction k v m rule: btree_insert.induct) (auto simp: fun_eq_iff)

lemma keys_btree_insert [simp]: "set (map fst (btree_insert k v m)) = Set.insert k (set (map fst m))"
  by (induction k v m rule: btree_insert.induct) auto

lemma btree_wf_Nil [simp]: "btree_wf []"
  by (simp add: btree_wf_def)

lemma btree_wf_Cons: "btree_wf ((a, b) # m) \<longleftrightarrow> (\<forall>k \<in> set (map fst m). a < k) \<and> btree_wf m"
  by (simp add: btree_wf_def)

lemma btree_wf_insert [simp]: "btree_wf m \<Longrightarrow> btree_wf (btree_insert k v m)"
proof (induction k v m rule: btree_insert.induct)
  case (2 k v a b xs)
  then show ?case
    by (simp only: btree_insert.simps btree_wf_Cons keys_btree_insert split: if_split) auto
qed (simp add: btree_wf_def)

interpretation bt: ordered_map map_of btree_insert "\<lambda>m. m" btree_wf
  by unfold_locales (simp_all only: map_of_btree_insert btree_wf_insert, simp add: btree_wf_def)

lemma fold_btree_insert_wf: "btree_wf m \<Longrightarrow> btree_wf (fold (\<lambda>(k, v) m. btree_insert k v m) xs m)"
  by (induction xs arbitrary: m) (auto split: prod.splits)

lemma btree_of_list_wf [simp]: "btree_wf (btree_of_list xs)"
  by (simp add: btree_of_list_def fold_btree_insert_wf)

lemma fold_btree_insert_map_of:
  "map_of (fold (\<lambda>(k, v) m. btree_insert k v m) xs m) = map_of m ++ map_of (rev xs)"
proof (induction xs arbitrary: m)
  case (Cons x xs)
  then show ?case by (cases x) (simp add: map_add_def fun_eq_iff split: option.splits)
qed simp

lemma map_of_btree_of_list: "map_of (btree_of_list xs) = map_of (rev xs)"
  by (simp add: btree_of_list_def fold_btree_insert_map_of)

text \<open>Two sorted maps with the same lookups are the same list.\<close>

lemma btree_ext:
  assumes "btree_wf m" "btree_wf n" "map_of m = map_of n"
  shows "m = n"
proof -
  have "set m = set n"
    using bt.entry_lookup [OF assms(1)] bt.entry_lookup [OF assms(2)] assms(3) by auto
  moreover have "sorted (map fst m)" "sorted (map fst n)"
    using assms(1,2) by (simp_all add: btree_wf_def strict_sorted_imp_sorted)
  moreover note bt.distinct_keys [OF assms(1)] bt.distinct_keys [OF assms(2)]
  ultimately show ?thesis
    by (metis distinct_map map_sorted_distinct_set_unique sup.idem)
qed

section \<open>Growing states\<close>

text \<open>
  Passes that only add to their state are related by a preorder; sequences, conditional steps
  and loops over a list stay inside it.
\<close>

locale state_preorder =
  fixes R :: "'s \<Rightarrow> 's \<Rightarrow> bool"
  assumes rel_refl: "R s s"
    and rel_trans: "R s t \<Longrightarrow> R t u \<Longrightarrow> R s u"
begin

lemma rel_fold: "(\<And>x s. R s (f x s)) \<Longrightarrow> R s (fold f xs s)"
  by (induction xs arbitrary: s) (auto intro: rel_refl rel_trans)

lemma rel_if: "(b \<Longrightarrow> R s t) \<Longrightarrow> (\<not> b \<Longrightarrow> R s u) \<Longrightarrow> R s (if b then t else u)"
  by simp

end

section \<open>Persisted lifecycles\<close>

text \<open>
  A persisted lifecycle is a transition table with a set of terminal states from which the
  table has no edge.
\<close>

locale lifecycle_machine =
  fixes terminal :: "'s \<Rightarrow> bool"
    and allows :: "'s \<Rightarrow> 's \<Rightarrow> bool"
  assumes terminal_stuck: "terminal s \<Longrightarrow> \<not> allows s t"
begin

lemma terminal_absorbing: "allows\<^sup>*\<^sup>* s t \<Longrightarrow> terminal s \<Longrightarrow> t = s"
  by (induction rule: converse_rtranclp_induct) (auto dest: terminal_stuck)

lemma allowed_source_not_terminal: "allows s t \<Longrightarrow> \<not> terminal s"
  using terminal_stuck by blast

end

text \<open>
  A ranked lifecycle never returns to a state it left, and a history of it is no longer than
  the highest rank.
\<close>

locale ranked_machine = lifecycle_machine terminal allows
  for terminal :: "'s \<Rightarrow> bool" and allows :: "'s \<Rightarrow> 's \<Rightarrow> bool" +
  fixes rank :: "'s \<Rightarrow> nat"
  assumes rank_increases: "allows s t \<Longrightarrow> rank s < rank t"
begin

lemma rank_le: "allows\<^sup>*\<^sup>* s t \<Longrightarrow> rank s \<le> rank t"
  by (induction rule: rtranclp_induct) (auto dest: rank_increases)

lemma rank_less: "allows\<^sup>+\<^sup>+ s t \<Longrightarrow> rank s < rank t"
  by (induction rule: tranclp_induct) (auto dest: rank_increases)

lemma no_return: "allows\<^sup>+\<^sup>+ s t \<Longrightarrow> s \<noteq> t"
  using rank_less by blast

lemma history_bound: "(allows ^^ n) s t \<Longrightarrow> n + rank s \<le> rank t"
proof (induction n arbitrary: t)
  case 0
  then show ?case by simp
next
  case (Suc n)
  then obtain u where "(allows ^^ n) s u" "allows u t" by auto
  with Suc.IH rank_increases show ?case by fastforce
qed

end

end
