(* ===== verification/Device_Lifecycle.thy ===== *)
theory Device_Lifecycle
  imports HM_Prelude
begin

text \<open>
  The enrollment lifecycle, availability, chronology and freshness of a device
  (\<open>homemagic-domain/src/lifecycle.rs\<close>) and the repair records an operator closes
  (\<open>homemagic-domain/src/repair.rs\<close>). The lemmas give the complete transition table, the
  chronology invariant of the timestamps, the agreement of \<open>evaluate\<close> with \<open>stale_at\<close> and
  \<open>offline_at\<close>, and the at-most-once closing of a repair.
\<close>

section \<open>Enrollment lifecycle\<close>

datatype DeviceLifecycle = Candidate | Enrolled | Stale | Removed

datatype LifecycleTrigger = Enroll | MarkStale | Rediscover | Remove

datatype LifecycleTransitionError = LifecycleTransitionError DeviceLifecycle LifecycleTrigger

fun DeviceLifecycle_transition ::
  "DeviceLifecycle \<Rightarrow> LifecycleTrigger \<Rightarrow> LifecycleTransitionError + DeviceLifecycle" where
  "DeviceLifecycle_transition Candidate Enroll = Inr Enrolled"
| "DeviceLifecycle_transition Enrolled Rediscover = Inr Enrolled"
| "DeviceLifecycle_transition Stale Rediscover = Inr Enrolled"
| "DeviceLifecycle_transition Removed Rediscover = Inr Enrolled"
| "DeviceLifecycle_transition Candidate Remove = Inr Removed"
| "DeviceLifecycle_transition Enrolled Remove = Inr Removed"
| "DeviceLifecycle_transition Stale Remove = Inr Removed"
| "DeviceLifecycle_transition Enrolled MarkStale = Inr Stale"
| "DeviceLifecycle_transition s t = Inl (LifecycleTransitionError s t)"

text \<open>A run of triggers, stopping at the first rejected one.\<close>

fun lifecycle_run :: "DeviceLifecycle \<Rightarrow> LifecycleTrigger list \<Rightarrow> LifecycleTransitionError + DeviceLifecycle" where
  "lifecycle_run s [] = Inr s"
| "lifecycle_run s (t # ts) = and_then (DeviceLifecycle_transition s t) (\<lambda>s'. lifecycle_run s' ts)"

lemma DeviceLifecycle_never_candidate_again:
  "DeviceLifecycle_transition s t = Inr s' \<Longrightarrow> s' \<noteq> Candidate"
  by (cases s; cases t) auto

lemma DeviceLifecycle_error_reports_inputs:
  "DeviceLifecycle_transition s t = Inl e \<Longrightarrow> e = LifecycleTransitionError s t"
  by (cases s; cases t) auto

lemma lifecycle_run_not_candidate:
  "lifecycle_run s ts = Inr s' \<Longrightarrow> ts \<noteq> [] \<Longrightarrow> s' \<noteq> Candidate"
proof (induction ts arbitrary: s)
  case (Cons t ts)
  then obtain u where u: "DeviceLifecycle_transition s t = Inr u" "lifecycle_run u ts = Inr s'"
    by (auto simp: and_then_Inr_iff)
  show ?case
  proof (cases ts)
    case Nil
    with u show ?thesis using DeviceLifecycle_never_candidate_again by simp
  next
    case (Cons a as)
    with Cons.IH [OF u(2)] show ?thesis by simp
  qed
qed simp

section \<open>Availability\<close>

datatype AvailabilityState = Unknown | Online | Degraded | Offline | Sleeping

record Availability =
  av_state :: AvailabilityState
  av_since :: datetime
  av_reason :: "string option"

definition Availability_unknown :: "datetime \<Rightarrow> Availability" where
  "Availability_unknown at = \<lparr>av_state = Unknown, av_since = at, av_reason = None\<rparr>"

definition Availability_transition ::
  "Availability \<Rightarrow> AvailabilityState \<Rightarrow> datetime \<Rightarrow> string option \<Rightarrow> Availability" where
  "Availability_transition a st at reason =
     (if av_state a = st \<and> av_reason a = reason then a
      else \<lparr>av_state = st, av_since = at, av_reason = reason\<rparr>)"

lemma Availability_transition_idem:
  "Availability_transition (Availability_transition a st at reason) st at' reason
     = Availability_transition a st at reason"
  by (simp add: Availability_transition_def)

section \<open>Chronology\<close>

record DeviceTimestamps =
  ts_first_seen :: datetime
  ts_last_seen :: datetime
  ts_last_success :: "datetime option"

datatype TimestampError = TimestampError datetime datetime

definition DeviceTimestamps_first_seen :: "datetime \<Rightarrow> DeviceTimestamps" where
  "DeviceTimestamps_first_seen at =
     \<lparr>ts_first_seen = at, ts_last_seen = at, ts_last_success = None\<rparr>"

definition DeviceTimestamps_validate :: "DeviceTimestamps \<Rightarrow> datetime \<Rightarrow> TimestampError + unit" where
  "DeviceTimestamps_validate t at =
     (if at < ts_first_seen t then Inl (TimestampError (ts_first_seen t) at) else Inr ())"

definition DeviceTimestamps_record_seen ::
  "DeviceTimestamps \<Rightarrow> datetime \<Rightarrow> TimestampError + DeviceTimestamps" where
  "DeviceTimestamps_record_seen t at =
     and_then (DeviceTimestamps_validate t at)
       (\<lambda>_. Inr (t\<lparr>ts_last_seen := max (ts_last_seen t) at\<rparr>))"

definition DeviceTimestamps_record_success ::
  "DeviceTimestamps \<Rightarrow> datetime \<Rightarrow> TimestampError + DeviceTimestamps" where
  "DeviceTimestamps_record_success t at =
     and_then (DeviceTimestamps_record_seen t at)
       (\<lambda>t'. Inr (t'\<lparr>ts_last_success :=
          Some (case ts_last_success t' of None \<Rightarrow> at | Some current \<Rightarrow> max current at)\<rparr>))"

text \<open>What the chronology of a device keeps: nothing precedes the first sighting, and no
  success is later than the latest sighting.\<close>

definition timestamps_wf :: "DeviceTimestamps \<Rightarrow> bool" where
  "timestamps_wf t \<longleftrightarrow> ts_first_seen t \<le> ts_last_seen t \<and>
     (case ts_last_success t of None \<Rightarrow> True
      | Some s \<Rightarrow> ts_first_seen t \<le> s \<and> s \<le> ts_last_seen t)"

datatype timestamp_event = SeenAt datetime | SuccessAt datetime

fun record_event :: "DeviceTimestamps \<Rightarrow> timestamp_event \<Rightarrow> TimestampError + DeviceTimestamps" where
  "record_event t (SeenAt at) = DeviceTimestamps_record_seen t at"
| "record_event t (SuccessAt at) = DeviceTimestamps_record_success t at"

text \<open>A rejected update leaves the record as it was.\<close>

fun record_events :: "DeviceTimestamps \<Rightarrow> timestamp_event list \<Rightarrow> DeviceTimestamps" where
  "record_events t [] = t"
| "record_events t (e # es) =
     record_events (case record_event t e of Inl _ \<Rightarrow> t | Inr t' \<Rightarrow> t') es"

lemma timestamps_wf_first: "timestamps_wf (DeviceTimestamps_first_seen at)"
  by (simp add: timestamps_wf_def DeviceTimestamps_first_seen_def)

lemma record_seen_cases:
  "DeviceTimestamps_record_seen t at =
     (if at < ts_first_seen t then Inl (TimestampError (ts_first_seen t) at)
      else Inr (t\<lparr>ts_last_seen := max (ts_last_seen t) at\<rparr>))"
  by (simp add: DeviceTimestamps_record_seen_def DeviceTimestamps_validate_def)

lemma record_seen_wf:
  assumes "timestamps_wf t" and "DeviceTimestamps_record_seen t at = Inr t'"
  shows "timestamps_wf t' \<and> ts_first_seen t' = ts_first_seen t \<and> ts_last_seen t \<le> ts_last_seen t' \<and>
    at \<le> ts_last_seen t' \<and> ts_first_seen t \<le> at"
proof -
  from assms(2) have at: "\<not> at < ts_first_seen t"
    and t': "t' = t\<lparr>ts_last_seen := max (ts_last_seen t) at\<rparr>"
    by (simp_all add: record_seen_cases split: if_splits)
  from at assms(1) show ?thesis
    unfolding t' timestamps_wf_def by (auto split: option.splits)
qed

lemma record_event_wf:
  assumes "timestamps_wf t" and "record_event t e = Inr t'"
  shows "timestamps_wf t' \<and> ts_first_seen t' = ts_first_seen t \<and> ts_last_seen t \<le> ts_last_seen t'"
proof (cases e)
  case (SeenAt at)
  with assms record_seen_wf show ?thesis by simp
next
  case (SuccessAt at)
  with assms(2) obtain u where u: "DeviceTimestamps_record_seen t at = Inr u"
    and t': "t' = u\<lparr>ts_last_success :=
      Some (case ts_last_success u of None \<Rightarrow> at | Some c \<Rightarrow> max c at)\<rparr>"
    by (auto simp: DeviceTimestamps_record_success_def and_then_Inr_iff)
  from record_seen_wf [OF assms(1) u] show ?thesis
    unfolding t' timestamps_wf_def by (auto split: option.splits)
qed

lemma record_events_wf:
  "timestamps_wf t \<Longrightarrow>
     timestamps_wf (record_events t es) \<and> ts_first_seen (record_events t es) = ts_first_seen t \<and>
     ts_last_seen t \<le> ts_last_seen (record_events t es)"
proof (induction es arbitrary: t)
  case (Cons e es)
  show ?case
  proof (cases "record_event t e")
    case (Inl err)
    with Cons.IH [OF Cons.prems] show ?thesis by simp
  next
    case (Inr u)
    note u = record_event_wf [OF Cons.prems Inr]
    with Cons.IH [of u] have "timestamps_wf (record_events u es)"
      "ts_first_seen (record_events u es) = ts_first_seen t"
      "ts_last_seen t \<le> ts_last_seen (record_events u es)"
      by linarith+
    with Inr show ?thesis by simp
  qed
qed simp

section \<open>Freshness\<close>

record FreshnessPolicy =
  stale_after_seconds :: int
  offline_after_seconds :: int

datatype FreshnessState = Unknown | Fresh | Stale | Offline | Sleeping

definition FreshnessPolicy_default :: FreshnessPolicy where
  "FreshnessPolicy_default = \<lparr>stale_after_seconds = 120, offline_after_seconds = 300\<rparr>"

definition FreshnessPolicy_new :: "int \<Rightarrow> int \<Rightarrow> unit + FreshnessPolicy" where
  "FreshnessPolicy_new stale off =
     (if stale \<le> 0 \<or> off \<le> stale then Inl ()
      else Inr \<lparr>stale_after_seconds = stale, offline_after_seconds = off\<rparr>)"

text \<open>Nanoseconds of whole seconds and the whole seconds of a duration, rounded towards zero
  (\<open>TimeDelta::seconds\<close>, \<open>TimeDelta::num_seconds\<close>).\<close>

definition seconds_ns :: "int \<Rightarrow> int" where
  "seconds_ns s = s * 1000000000"

definition num_seconds :: "int \<Rightarrow> int" where
  "num_seconds d = (if 0 \<le> d then d div 1000000000 else - (- d div 1000000000))"

definition FreshnessPolicy_stale_at ::
  "(datetime \<Rightarrow> int \<Rightarrow> datetime option) \<Rightarrow> FreshnessPolicy \<Rightarrow> datetime option \<Rightarrow> datetime option" where
  "FreshnessPolicy_stale_at add p success =
     Option.bind success (\<lambda>at. add at (seconds_ns (stale_after_seconds p)))"

definition FreshnessPolicy_offline_at ::
  "(datetime \<Rightarrow> int \<Rightarrow> datetime option) \<Rightarrow> FreshnessPolicy \<Rightarrow> datetime option \<Rightarrow> datetime option" where
  "FreshnessPolicy_offline_at add p success =
     Option.bind success (\<lambda>at. add at (seconds_ns (offline_after_seconds p)))"

definition FreshnessPolicy_evaluate ::
  "FreshnessPolicy \<Rightarrow> datetime option \<Rightarrow> AvailabilityState \<Rightarrow> datetime \<Rightarrow> FreshnessState" where
  "FreshnessPolicy_evaluate p success avail now =
     (if avail = AvailabilityState.Sleeping then FreshnessState.Sleeping
      else case success of
        None \<Rightarrow> (if avail = AvailabilityState.Offline then FreshnessState.Offline
                 else FreshnessState.Unknown)
      | Some at \<Rightarrow>
          (let elapsed = max 0 (num_seconds (now - at)) in
           if offline_after_seconds p \<le> elapsed then FreshnessState.Offline
           else if stale_after_seconds p \<le> elapsed then FreshnessState.Stale
           else FreshnessState.Fresh))"

definition policy_wf :: "FreshnessPolicy \<Rightarrow> bool" where
  "policy_wf p \<longleftrightarrow> 0 < stale_after_seconds p \<and> stale_after_seconds p < offline_after_seconds p"

lemma FreshnessPolicy_new_wf: "FreshnessPolicy_new s f = Inr p \<Longrightarrow> policy_wf p"
  by (auto simp: FreshnessPolicy_new_def policy_wf_def split: if_splits)

lemma policy_wf_default [simp]: "policy_wf FreshnessPolicy_default"
  by (simp add: policy_wf_def FreshnessPolicy_default_def)

lemma elapsed_threshold:
  "0 < s \<Longrightarrow> s \<le> max 0 (num_seconds (now - at)) \<longleftrightarrow> at + seconds_ns s \<le> now"
  unfolding num_seconds_def seconds_ns_def by (auto simp: max_def)

lemma evaluate_by_instants:
  assumes "policy_wf p" and "avail \<noteq> AvailabilityState.Sleeping"
  shows "FreshnessPolicy_evaluate p (Some at) avail now =
    (if at + seconds_ns (offline_after_seconds p) \<le> now then FreshnessState.Offline
     else if at + seconds_ns (stale_after_seconds p) \<le> now then FreshnessState.Stale
     else FreshnessState.Fresh)"
proof -
  have o: "offline_after_seconds p \<le> max 0 (num_seconds (now - at)) \<longleftrightarrow>
      at + seconds_ns (offline_after_seconds p) \<le> now"
    using assms(1) by (intro elapsed_threshold) (simp add: policy_wf_def)
  have s: "stale_after_seconds p \<le> max 0 (num_seconds (now - at)) \<longleftrightarrow>
      at + seconds_ns (stale_after_seconds p) \<le> now"
    using assms(1) by (intro elapsed_threshold) (simp add: policy_wf_def)
  show ?thesis
    unfolding FreshnessPolicy_evaluate_def Let_def option.case o s using assms(2) by simp
qed

fun freshness_age :: "FreshnessState \<Rightarrow> nat" where
  "freshness_age FreshnessState.Fresh = 0"
| "freshness_age FreshnessState.Stale = 1"
| "freshness_age FreshnessState.Offline = 2"
| "freshness_age FreshnessState.Unknown = 3"
| "freshness_age FreshnessState.Sleeping = 4"

lemma freshness_only_decays:
  assumes "policy_wf p" and "now \<le> now'"
  shows "freshness_age (FreshnessPolicy_evaluate p success avail now)
       \<le> freshness_age (FreshnessPolicy_evaluate p success avail now')"
proof (cases "avail = AvailabilityState.Sleeping")
  case True
  then show ?thesis by (simp add: FreshnessPolicy_evaluate_def)
next
  case awake: False
  show ?thesis
  proof (cases success)
    case None
    then show ?thesis by (simp add: FreshnessPolicy_evaluate_def)
  next
    case (Some at)
    have "at + seconds_ns (stale_after_seconds p) \<le> at + seconds_ns (offline_after_seconds p)"
      using assms(1) by (simp add: policy_wf_def seconds_ns_def)
    with assms(2) show ?thesis
      unfolding Some evaluate_by_instants [OF assms(1) awake] by simp
  qed
qed

section \<open>Repairs\<close>

datatype RepairKind =
    IdentityCollision uuid string "uuid list"
  | CredentialsMissing
  | CredentialsRejected
  | SecretStoreUnavailable string
  | SessionFailed string

datatype RepairStatus = Open | Resolved | Dismissed

record RepairRecord =
  rr_id :: uuid
  rr_device_id :: "uuid option"
  rr_kind :: RepairKind
  rr_summary :: string
  rr_created_at :: datetime
  rr_status :: RepairStatus
  rr_closed_at :: "datetime option"

datatype RepairTransitionError = AlreadyClosed | BeforeCreation

text \<open>The random or derived identifier is an argument.\<close>

definition RepairRecord_new ::
  "uuid \<Rightarrow> uuid option \<Rightarrow> RepairKind \<Rightarrow> string \<Rightarrow> datetime \<Rightarrow> RepairRecord" where
  "RepairRecord_new rid device kind summary at =
     \<lparr>rr_id = rid, rr_device_id = device, rr_kind = kind, rr_summary = summary,
      rr_created_at = at, rr_status = Open, rr_closed_at = None\<rparr>"

definition RepairRecord_for_device_condition ::
  "(uuid \<Rightarrow> string \<Rightarrow> uuid) \<Rightarrow> uuid \<Rightarrow> string \<Rightarrow> RepairKind \<Rightarrow> string \<Rightarrow> datetime \<Rightarrow> RepairRecord" where
  "RepairRecord_for_device_condition from_condition device condition kind summary at =
     \<lparr>rr_id = from_condition device condition, rr_device_id = Some device, rr_kind = kind,
      rr_summary = summary, rr_created_at = at, rr_status = Open, rr_closed_at = None\<rparr>"

definition RepairRecord_close ::
  "RepairRecord \<Rightarrow> RepairStatus \<Rightarrow> datetime \<Rightarrow> RepairTransitionError + RepairRecord" where
  "RepairRecord_close r st at =
     (if rr_status r \<noteq> Open then Inl AlreadyClosed
      else if at < rr_created_at r then Inl BeforeCreation
      else Inr (r\<lparr>rr_status := st, rr_closed_at := Some at\<rparr>))"

definition RepairRecord_resolve :: "RepairRecord \<Rightarrow> datetime \<Rightarrow> RepairTransitionError + RepairRecord" where
  "RepairRecord_resolve r at = RepairRecord_close r Resolved at"

definition RepairRecord_dismiss :: "RepairRecord \<Rightarrow> datetime \<Rightarrow> RepairTransitionError + RepairRecord" where
  "RepairRecord_dismiss r at = RepairRecord_close r Dismissed at"

lemma close_then_closed:
  "RepairRecord_close r st at = Inr r' \<Longrightarrow> st \<noteq> Open \<Longrightarrow>
     RepairRecord_close r' st' at' = Inl AlreadyClosed"
  by (auto simp: RepairRecord_close_def split: if_splits)

text \<open>A sequence of closing attempts; a refused one leaves the record as it was.\<close>

fun close_attempts :: "RepairRecord \<Rightarrow> (RepairStatus \<times> datetime) list \<Rightarrow> RepairRecord" where
  "close_attempts r [] = r"
| "close_attempts r ((st, at) # rest) =
     close_attempts (case RepairRecord_close r st at of Inl _ \<Rightarrow> r | Inr r' \<Rightarrow> r') rest"

lemma close_attempts_closed:
  "rr_status r \<noteq> Open \<Longrightarrow> close_attempts r attempts = r"
  by (induction r attempts rule: close_attempts.induct) (simp_all add: RepairRecord_close_def)

section \<open>Properties\<close>

text \<open>C30: For a valid freshness policy and an awake device with a successful observation, the
  freshness that \<open>evaluate\<close> reports is decided exactly by the instants \<open>stale_at\<close> and \<open>offline_at\<close>
  announce: fresh before the first, stale from the first and offline from the second on. The
  checked addition of the time library, where it returns, returns the sum.\<close>

theorem freshness_matches_announced_instants:
  assumes "policy_wf p" and "avail \<noteq> AvailabilityState.Sleeping"
    and "\<And>t d r. add t d = Some r \<Longrightarrow> r = t + d"
    and "FreshnessPolicy_stale_at add p (Some at) = Some s"
    and "FreshnessPolicy_offline_at add p (Some at) = Some f"
  shows "FreshnessPolicy_evaluate p (Some at) avail now =
    (if now < s then FreshnessState.Fresh else if now < f then FreshnessState.Stale
     else FreshnessState.Offline)"
proof -
  have "s = at + seconds_ns (stale_after_seconds p)" "f = at + seconds_ns (offline_after_seconds p)"
    using assms(3-5) by (auto simp: FreshnessPolicy_stale_at_def FreshnessPolicy_offline_at_def)
  moreover have "at + seconds_ns (stale_after_seconds p) \<le> at + seconds_ns (offline_after_seconds p)"
    using assms(1) by (simp add: policy_wf_def seconds_ns_def)
  ultimately show ?thesis by (simp add: evaluate_by_instants [OF assms(1,2)])
qed

theorem freshness_matches_announced_instants_witness:
  "FreshnessPolicy_evaluate FreshnessPolicy_default (Some 0) Online 130000000000 = FreshnessState.Stale"
proof -
  let ?add = "\<lambda>t d. if t + d < (2 ^ 70 :: int) then Some (t + d) else None"
  have sum: "\<And>t d r. ?add t d = Some r \<Longrightarrow> r = t + d" by (simp split: if_splits)
  have "FreshnessPolicy_stale_at ?add FreshnessPolicy_default (Some 0) = Some 120000000000"
    "FreshnessPolicy_offline_at ?add FreshnessPolicy_default (Some 0) = Some 300000000000"
    by (simp_all add: FreshnessPolicy_stale_at_def FreshnessPolicy_offline_at_def
        FreshnessPolicy_default_def seconds_ns_def)
  with freshness_matches_announced_instants [of FreshnessPolicy_default Online ?add, OF _ _ sum]
  show ?thesis by simp
qed

text \<open>C31: With no new observation, a device only loses freshness as time passes: from fresh to
  stale to offline, and never back.\<close>

theorem freshness_never_recovers_without_observation:
  assumes "policy_wf p" and "now \<le> now'"
  shows "freshness_age (FreshnessPolicy_evaluate p success avail now)
       \<le> freshness_age (FreshnessPolicy_evaluate p success avail now')"
  using assms by (rule freshness_only_decays)

theorem freshness_never_recovers_without_observation_witness:
  "freshness_age (FreshnessPolicy_evaluate FreshnessPolicy_default (Some 0) Online 0)
     \<le> freshness_age (FreshnessPolicy_evaluate FreshnessPolicy_default (Some 0) Online 400000000000)
   \<and> FreshnessPolicy_evaluate FreshnessPolicy_default (Some 0) Online 0 = FreshnessState.Fresh
   \<and> FreshnessPolicy_evaluate FreshnessPolicy_default (Some 0) Online 400000000000 = FreshnessState.Offline"
  using freshness_never_recovers_without_observation [of FreshnessPolicy_default 0 400000000000 "Some 0" Online]
  by (simp add: FreshnessPolicy_evaluate_def FreshnessPolicy_default_def num_seconds_def)

text \<open>C32: Whatever sightings and successes are reported, in whatever order and with whatever
  clock, the chronology of a device stays consistent: nothing precedes the first sighting, no
  success is later than the latest sighting, the first sighting never changes and the latest
  never moves back.\<close>

theorem timestamps_stay_chronological:
  "let t = record_events (DeviceTimestamps_first_seen at) es in
     timestamps_wf t \<and> ts_first_seen t = at \<and> at \<le> ts_last_seen t"
  using record_events_wf [OF timestamps_wf_first, of at es]
  by (simp add: Let_def DeviceTimestamps_first_seen_def)

text \<open>C33: A repair is closed at most once: after the first attempt that resolves or dismisses it,
  no later attempt of any kind changes the status or the closing instant, and each is refused as
  already closed.\<close>

theorem repair_closes_at_most_once:
  assumes "st \<noteq> Open" and "RepairRecord_close r st at = Inr r'"
  shows "close_attempts r' attempts = r' \<and> rr_status r' = st \<and> rr_closed_at r' = Some at \<and>
    rr_created_at r' \<le> at \<and> RepairRecord_resolve r' at' = Inl AlreadyClosed \<and>
    RepairRecord_dismiss r' at' = Inl AlreadyClosed"
proof -
  have r': "r' = r\<lparr>rr_status := st, rr_closed_at := Some at\<rparr>" "rr_created_at r \<le> at"
    using assms(2) by (auto simp: RepairRecord_close_def split: if_splits)
  with assms(1) close_attempts_closed [of r' attempts] close_then_closed [OF assms(2,1)] show ?thesis
    by (simp add: RepairRecord_resolve_def RepairRecord_dismiss_def)
qed

theorem repair_closes_at_most_once_witness:
  "\<exists>r'. RepairRecord_close (RepairRecord_new 1 None CredentialsMissing ''login'' 5) Resolved 7 = Inr r' \<and>
     close_attempts r' [(Dismissed, 8), (Open, 9)] = r' \<and> rr_closed_at r' = Some 7"
  using repair_closes_at_most_once [of Resolved "RepairRecord_new 1 None CredentialsMissing ''login'' 5" 7
      _ "[(Dismissed, 8), (Open, 9)]" 10]
  by (simp add: RepairRecord_close_def RepairRecord_new_def)

end
