(* ===== verification/Json_Value.thy ===== *)
theory Json_Value
  imports HM_Prelude "HOL-Library.Word"
begin

text \<open>
  Floating-point numbers and JSON values as the sources use them. An \<open>f64\<close> is its IEEE 754
  bit pattern; comparison follows the standard (not-a-number is unordered, the two zeros are
  equal). A JSON value (\<open>serde_json::Value\<close>) keeps integers and floats apart, as serde does,
  and its derived equality compares floats as floats.
\<close>

section \<open>IEEE 754 doubles\<close>

type_synonym f64 = "64 word"

definition f64_negative :: "f64 \<Rightarrow> bool" where
  "f64_negative w \<longleftrightarrow> 2 ^ 63 \<le> unat w"

definition f64_magnitude :: "f64 \<Rightarrow> nat" where
  "f64_magnitude w = unat w mod 2 ^ 63"

definition f64_is_nan :: "f64 \<Rightarrow> bool" where
  "f64_is_nan w \<longleftrightarrow> 9218868437227405312 < f64_magnitude w"

definition f64_is_finite :: "f64 \<Rightarrow> bool" where
  "f64_is_finite w \<longleftrightarrow> f64_magnitude w < 9218868437227405312"

text \<open>Sign and magnitude as one integer: the order of two numbers is the order of their keys.\<close>

definition f64_key :: "f64 \<Rightarrow> int" where
  "f64_key w = (if f64_negative w then - int (f64_magnitude w) else int (f64_magnitude w))"

definition f64_eq :: "f64 \<Rightarrow> f64 \<Rightarrow> bool" where
  "f64_eq a b \<longleftrightarrow> \<not> f64_is_nan a \<and> \<not> f64_is_nan b \<and> f64_key a = f64_key b"

definition f64_lt :: "f64 \<Rightarrow> f64 \<Rightarrow> bool" where
  "f64_lt a b \<longleftrightarrow> \<not> f64_is_nan a \<and> \<not> f64_is_nan b \<and> f64_key a < f64_key b"

definition f64_le :: "f64 \<Rightarrow> f64 \<Rightarrow> bool" where
  "f64_le a b \<longleftrightarrow> f64_lt a b \<or> f64_eq a b"

lemma f64_eq_refl: "f64_eq a a \<longleftrightarrow> \<not> f64_is_nan a"
  by (simp add: f64_eq_def)

lemma f64_trichotomy:
  "\<not> f64_is_nan a \<Longrightarrow> \<not> f64_is_nan b \<Longrightarrow> f64_lt a b \<or> f64_eq a b \<or> f64_lt b a"
  by (auto simp: f64_eq_def f64_lt_def)

lemma f64_lt_irrefl [simp]: "\<not> f64_lt a a"
  by (simp add: f64_lt_def)

lemma f64_lt_not_eq: "f64_lt a b \<Longrightarrow> \<not> f64_eq a b \<and> \<not> f64_lt b a"
  by (simp add: f64_lt_def f64_eq_def)

section \<open>JSON values\<close>

datatype json_number = PosInt nat | NegInt int | JFloat f64

datatype json =
    JNull
  | JBool bool
  | JNumber json_number
  | JString string
  | JArray "json list"
  | JObject "(string \<times> json) list"

fun json_number_eq :: "json_number \<Rightarrow> json_number \<Rightarrow> bool" where
  "json_number_eq (PosInt a) (PosInt b) = (a = b)"
| "json_number_eq (NegInt a) (NegInt b) = (a = b)"
| "json_number_eq (JFloat a) (JFloat b) = f64_eq a b"
| "json_number_eq _ _ = False"

fun json_eq :: "json \<Rightarrow> json \<Rightarrow> bool"
  and json_list_eq :: "json list \<Rightarrow> json list \<Rightarrow> bool"
  and json_fields_eq :: "(string \<times> json) list \<Rightarrow> (string \<times> json) list \<Rightarrow> bool" where
  "json_eq JNull JNull = True"
| "json_eq (JBool a) (JBool b) = (a = b)"
| "json_eq (JNumber a) (JNumber b) = json_number_eq a b"
| "json_eq (JString a) (JString b) = (a = b)"
| "json_eq (JArray a) (JArray b) = json_list_eq a b"
| "json_eq (JObject a) (JObject b) = json_fields_eq a b"
| "json_eq _ _ = False"
| "json_list_eq [] [] = True"
| "json_list_eq (a # as) (b # bs) = (json_eq a b \<and> json_list_eq as bs)"
| "json_list_eq _ _ = False"
| "json_fields_eq [] [] = True"
| "json_fields_eq ((k, a) # as) ((l, b) # bs) = (k = l \<and> json_eq a b \<and> json_fields_eq as bs)"
| "json_fields_eq _ _ = False"

text \<open>A value without not-a-number, as every parsed JSON text is, equals itself.\<close>

fun json_number_proper :: "json_number \<Rightarrow> bool" where
  "json_number_proper (JFloat f) = (\<not> f64_is_nan f)"
| "json_number_proper _ = True"

fun json_proper :: "json \<Rightarrow> bool"
  and json_list_proper :: "json list \<Rightarrow> bool"
  and json_fields_proper :: "(string \<times> json) list \<Rightarrow> bool" where
  "json_proper (JNumber n) = json_number_proper n"
| "json_proper (JArray a) = json_list_proper a"
| "json_proper (JObject a) = json_fields_proper a"
| "json_proper _ = True"
| "json_list_proper [] = True"
| "json_list_proper (a # as) = (json_proper a \<and> json_list_proper as)"
| "json_fields_proper [] = True"
| "json_fields_proper ((k, a) # as) = (json_proper a \<and> json_fields_proper as)"

lemma json_number_eq_refl: "json_number_proper n \<Longrightarrow> json_number_eq n n"
  by (cases n) (simp_all add: f64_eq_refl)

lemma json_eq_refl:
  shows "json_proper v \<Longrightarrow> json_eq v v"
    and "json_list_proper vs \<Longrightarrow> json_list_eq vs vs"
    and "json_fields_proper fs \<Longrightarrow> json_fields_eq fs fs"
  by (induction v and vs and fs rule: json_proper_json_list_proper_json_fields_proper.induct)
    (simp_all add: json_number_eq_refl)

definition json_opt_eq :: "json option \<Rightarrow> json option \<Rightarrow> bool" where
  "json_opt_eq a b = (case (a, b) of (None, None) \<Rightarrow> True | (Some x, Some y) \<Rightarrow> json_eq x y | _ \<Rightarrow> False)"

definition f64_opt_eq :: "f64 option \<Rightarrow> f64 option \<Rightarrow> bool" where
  "f64_opt_eq a b = (case (a, b) of (None, None) \<Rightarrow> True | (Some x, Some y) \<Rightarrow> f64_eq x y | _ \<Rightarrow> False)"

end
