(* ===== verification/Capability.thy ===== *)
theory Capability
  imports Device_Lifecycle Json_Value
begin

text \<open>
  Versioned capability contracts (\<open>homemagic-domain/src/capability.rs\<close>) and the durable device
  aggregate (\<open>homemagic-domain/src/device.rs\<close>). Risk classes are ordered by the rank the code
  gives them.
\<close>

section \<open>Risk classes\<close>

datatype RiskClass = Observe | Comfort | Mechanical | Security

fun RiskClass_rank :: "RiskClass \<Rightarrow> nat" where
  "RiskClass_rank Observe = 0"
| "RiskClass_rank Comfort = 1"
| "RiskClass_rank Mechanical = 2"
| "RiskClass_rank Security = 3"

definition RiskClass_permits :: "RiskClass \<Rightarrow> RiskClass \<Rightarrow> bool" where
  "RiskClass_permits granted requested \<longleftrightarrow> RiskClass_rank requested \<le> RiskClass_rank granted"

lemma RiskClass_rank_inject [simp]: "RiskClass_rank a = RiskClass_rank b \<longleftrightarrow> a = b"
  by (cases a; cases b) simp_all

instantiation RiskClass :: linorder
begin

definition less_eq_RiskClass :: "RiskClass \<Rightarrow> RiskClass \<Rightarrow> bool" where
  "less_eq_RiskClass a b \<longleftrightarrow> RiskClass_rank a \<le> RiskClass_rank b"

definition less_RiskClass :: "RiskClass \<Rightarrow> RiskClass \<Rightarrow> bool" where
  "less_RiskClass a b \<longleftrightarrow> RiskClass_rank a < RiskClass_rank b"

instance
  by standard (auto simp: less_eq_RiskClass_def less_RiskClass_def)

end

lemma permits_order: "RiskClass_permits granted requested \<longleftrightarrow> requested \<le> granted"
  by (simp add: RiskClass_permits_def less_eq_RiskClass_def)

lemma permits_security: "RiskClass_permits granted Security \<longleftrightarrow> granted = Security"
  by (cases granted) (simp_all add: RiskClass_permits_def)

section \<open>Capability descriptors\<close>

record CapabilityDescriptor =
  cd_name :: string
  cd_version :: nat
  cd_risk :: RiskClass

datatype CapabilityDescriptorError = EmptyName | InvalidVersion

definition CapabilityDescriptor_new ::
  "string \<Rightarrow> nat \<Rightarrow> RiskClass \<Rightarrow> CapabilityDescriptorError + CapabilityDescriptor" where
  "CapabilityDescriptor_new name version risk =
     (if trim_is_empty name then Inl EmptyName
      else if version = 0 then Inl InvalidVersion
      else Inr \<lparr>cd_name = name, cd_version = version, cd_risk = risk\<rparr>)"

definition CapabilityDescriptor_schema :: "CapabilityDescriptor \<Rightarrow> string" where
  "CapabilityDescriptor_schema d = cd_name d @ ''.v'' @ show_nat (cd_version d)"

datatype CapabilitySnapshot =
    Availability_snapshot bool
  | OnOff_snapshot bool RiskClass
  | AccessControl_snapshot "bool option"
  | Level_snapshot f64 RiskClass
  | Position_snapshot "f64 option" "string option" RiskClass
  | Power_snapshot "f64 option" "f64 option" "f64 option"
  | Energy_snapshot f64
  | Diagnostics_snapshot "string option" "string list"

fun CapabilitySnapshot_schema :: "CapabilitySnapshot \<Rightarrow> string" where
  "CapabilitySnapshot_schema (Availability_snapshot _) = ''availability.v1''"
| "CapabilitySnapshot_schema (OnOff_snapshot _ _) = ''on_off.v1''"
| "CapabilitySnapshot_schema (AccessControl_snapshot _) = ''access_control.v1''"
| "CapabilitySnapshot_schema (Level_snapshot _ _) = ''level.v1''"
| "CapabilitySnapshot_schema (Position_snapshot _ _ _) = ''position.v1''"
| "CapabilitySnapshot_schema (Power_snapshot _ _ _) = ''power.v1''"
| "CapabilitySnapshot_schema (Energy_snapshot _) = ''energy.v1''"
| "CapabilitySnapshot_schema (Diagnostics_snapshot _ _) = ''diagnostics.v1''"

definition CapabilitySnapshot_descriptor :: "CapabilitySnapshot \<Rightarrow> CapabilityDescriptor" where
  "CapabilitySnapshot_descriptor s =
     (let trimmed = trim_end_matches ''.v1'' (CapabilitySnapshot_schema s);
          (name, risk) = (case s of
              OnOff_snapshot _ r \<Rightarrow> (trimmed, r)
            | Level_snapshot _ r \<Rightarrow> (trimmed, r)
            | Position_snapshot _ _ r \<Rightarrow> (trimmed, r)
            | AccessControl_snapshot _ \<Rightarrow> (''access_control'', Security)
            | _ \<Rightarrow> (trimmed, Observe))
      in \<lparr>cd_name = name, cd_version = 1, cd_risk = risk\<rparr>)"

lemma trim_schema:
  "suffix pat s \<Longrightarrow> pat \<noteq> [] \<Longrightarrow>
     trim_end_matches pat s = trim_end_matches pat (take (length s - length pat) s)"
  by (subst trim_end_matches.simps) simp

lemma trim_no_suffix: "\<not> suffix pat s \<Longrightarrow> trim_end_matches pat s = s"
  by (subst trim_end_matches.simps) simp

lemma schema_of_snapshot_descriptor:
  "CapabilityDescriptor_schema (CapabilitySnapshot_descriptor s) = CapabilitySnapshot_schema s"
  by (cases s)
    (simp_all add: CapabilityDescriptor_schema_def CapabilitySnapshot_descriptor_def Let_def
       trim_schema trim_no_suffix suffix_to_prefix)

section \<open>Devices\<close>

record EndpointSnapshot =
  es_id :: endpoint_id
  es_name :: "string option"
  es_capabilities :: "CapabilitySnapshot list"

record NetworkLocation =
  nl_host :: string
  nl_port :: nat

record DeviceSnapshot =
  ds_id :: uuid
  ds_native_id :: string
  ds_integration :: string
  ds_name :: string
  ds_manufacturer :: string
  ds_model :: string
  ds_network :: "NetworkLocation list"
  ds_endpoints :: "EndpointSnapshot list"
  ds_observed_at :: datetime
  ds_vendor_data :: "(string, json) btree"

record DiscoveryCandidate =
  dc_installation_id :: uuid
  dc_integration_id :: uuid
  dc_snapshot :: DeviceSnapshot
  dc_discovered_at :: datetime
  dc_repairs :: "RepairRecord list"

record DeviceRecord =
  dr_installation_id :: uuid
  dr_integration_id :: uuid
  dr_snapshot :: DeviceSnapshot
  dr_lifecycle :: DeviceLifecycle
  dr_availability :: Availability
  dr_timestamps :: DeviceTimestamps
  dr_aliases :: "string set"
  dr_spaces :: "uuid set"
  dr_capability_descriptors :: "(endpoint_id, CapabilityDescriptor list) btree"

definition descriptors :: "DeviceSnapshot \<Rightarrow> (endpoint_id, CapabilityDescriptor list) btree" where
  "descriptors s = btree_of_list
     (map (\<lambda>e. (es_id e, map CapabilitySnapshot_descriptor (es_capabilities e))) (ds_endpoints s))"

definition DeviceRecord_candidate ::
  "uuid \<Rightarrow> uuid \<Rightarrow> DeviceSnapshot \<Rightarrow> datetime \<Rightarrow> DeviceRecord" where
  "DeviceRecord_candidate installation integration snapshot first_seen =
     \<lparr>dr_installation_id = installation,
      dr_integration_id = integration,
      dr_snapshot = snapshot,
      dr_lifecycle = Candidate,
      dr_availability = Availability_unknown first_seen,
      dr_timestamps = DeviceTimestamps_first_seen first_seen,
      dr_aliases = {},
      dr_spaces = {},
      dr_capability_descriptors = descriptors snapshot\<rparr>"

definition DeviceRecord_replace_snapshot :: "DeviceRecord \<Rightarrow> DeviceSnapshot \<Rightarrow> DeviceRecord" where
  "DeviceRecord_replace_snapshot r snapshot =
     (let snapshot' = snapshot\<lparr>ds_id := ds_id (dr_snapshot r)\<rparr>
      in r\<lparr>dr_capability_descriptors := descriptors snapshot', dr_snapshot := snapshot'\<rparr>)"

definition DeviceRecord_transition ::
  "DeviceRecord \<Rightarrow> LifecycleTrigger \<Rightarrow> LifecycleTransitionError + DeviceRecord" where
  "DeviceRecord_transition r trigger =
     and_then (DeviceLifecycle_transition (dr_lifecycle r) trigger)
       (\<lambda>s. Inr (r\<lparr>dr_lifecycle := s\<rparr>))"

definition DeviceRecord_freshness_at :: "DeviceRecord \<Rightarrow> FreshnessPolicy \<Rightarrow> datetime \<Rightarrow> FreshnessState" where
  "DeviceRecord_freshness_at r policy now =
     FreshnessPolicy_evaluate policy (ts_last_success (dr_timestamps r))
       (av_state (dr_availability r)) now"

text \<open>The derived equality of device records: floats compare as floats.\<close>

fun CapabilitySnapshot_eq :: "CapabilitySnapshot \<Rightarrow> CapabilitySnapshot \<Rightarrow> bool" where
  "CapabilitySnapshot_eq (Level_snapshot p r) (Level_snapshot q s) = (f64_eq p q \<and> r = s)"
| "CapabilitySnapshot_eq (Position_snapshot p m r) (Position_snapshot q n s) =
     (f64_opt_eq p q \<and> m = n \<and> r = s)"
| "CapabilitySnapshot_eq (Power_snapshot a b c) (Power_snapshot d e f) =
     (f64_opt_eq a d \<and> f64_opt_eq b e \<and> f64_opt_eq c f)"
| "CapabilitySnapshot_eq (Energy_snapshot a) (Energy_snapshot b) = f64_eq a b"
| "CapabilitySnapshot_eq a b = (a = b)"

definition EndpointSnapshot_eq :: "EndpointSnapshot \<Rightarrow> EndpointSnapshot \<Rightarrow> bool" where
  "EndpointSnapshot_eq a b \<longleftrightarrow> es_id a = es_id b \<and> es_name a = es_name b \<and>
     list_all2 CapabilitySnapshot_eq (es_capabilities a) (es_capabilities b)"

definition DeviceSnapshot_eq :: "DeviceSnapshot \<Rightarrow> DeviceSnapshot \<Rightarrow> bool" where
  "DeviceSnapshot_eq a b \<longleftrightarrow>
     a\<lparr>ds_endpoints := [], ds_vendor_data := []\<rparr> = b\<lparr>ds_endpoints := [], ds_vendor_data := []\<rparr> \<and>
     list_all2 EndpointSnapshot_eq (ds_endpoints a) (ds_endpoints b) \<and>
     json_fields_eq (ds_vendor_data a) (ds_vendor_data b)"

definition DeviceRecord_eq :: "DeviceRecord \<Rightarrow> DeviceRecord \<Rightarrow> bool" where
  "DeviceRecord_eq a b \<longleftrightarrow> DeviceSnapshot_eq (dr_snapshot a) (dr_snapshot b) \<and>
     a\<lparr>dr_snapshot := dr_snapshot b\<rparr> = b"

lemma replace_snapshot_identity [simp]:
  "ds_id (dr_snapshot (DeviceRecord_replace_snapshot r s)) = ds_id (dr_snapshot r)"
  by (simp add: DeviceRecord_replace_snapshot_def Let_def)

end
