(* ===== verification/Command_Domain.thy ===== *)
theory Command_Domain
  imports Capability
begin

text \<open>
  Governed commands (\<open>homemagic-domain/src/command.rs\<close>): actors, grants and policy records,
  typed payloads and their validation, the command lifecycle and the versioned command
  aggregate. The provenance of automation-originated commands
  (\<open>homemagic-domain/src/event.rs\<close>) is here too because the envelope carries it.
\<close>

section \<open>Actors, keys and payloads\<close>

datatype ActorKind = Legacy | User | Agent | Automation_actor | Service

record Actor =
  actor_id :: uuid
  actor_installation_id :: uuid
  actor_kind :: ActorKind
  actor_name :: string
  actor_enabled :: bool
  actor_created_at :: datetime

datatype IdempotencyKeyError = Empty | TooLong | ControlCharacter

definition IdempotencyKey_new :: "string \<Rightarrow> IdempotencyKeyError + string" where
  "IdempotencyKey_new key =
     (if trim_is_empty key then Inl Empty
      else if 128 < length (rust_chars key) then Inl TooLong
      else if list_ex is_control (rust_chars key) then Inl ControlCharacter
      else Inr key)"

datatype CommandErrorCode =
    CapabilityMismatch | ValueOutOfRange | TransitionTooLong | DeadlineExceeded | StaleObservation
  | UnsupportedConstraint | IdempotencyConflict | PolicyDenied | SupersededBeforeDispatch
  | RateLimited | DeviceBusy | AdapterRejected | TransportFailure | ProtectionActive
  | ObstructionDetected | Overtemperature | ConfirmationMismatch | IndeterminateAfterRestart

datatype AccessControlCommand = Lock | Unlock

datatype OnOffCommand = OnOff_Set bool | Toggle

record LevelCommand =
  lc_percent :: nat
  lc_transition_ms :: "nat option"

datatype PositionCommand = Position_Open | Position_Close | Position_Stop | GoTo nat

datatype CommandPayload =
    OnOff OnOffCommand
  | Level LevelCommand
  | Position PositionCommand
  | AccessControl AccessControlCommand

fun CommandPayload_schema :: "CommandPayload \<Rightarrow> string" where
  "CommandPayload_schema (OnOff _) = ''on_off.v1''"
| "CommandPayload_schema (Level _) = ''level.v1''"
| "CommandPayload_schema (Position _) = ''position.v1''"
| "CommandPayload_schema (AccessControl _) = ''access_control.v1''"

fun CommandPayload_validate :: "CommandPayload \<Rightarrow> CommandErrorCode + unit" where
  "CommandPayload_validate (OnOff _) = Inr ()"
| "CommandPayload_validate (AccessControl _) = Inr ()"
| "CommandPayload_validate (Level l) =
     (if 100 < lc_percent l then Inl ValueOutOfRange
      else case lc_transition_ms l of
          Some v \<Rightarrow> (if 3600000 < v then Inl TransitionTooLong else Inr ())
        | None \<Rightarrow> Inr ())"
| "CommandPayload_validate (Position (GoTo p)) =
     (if 100 < p then Inl ValueOutOfRange else Inr ())"
| "CommandPayload_validate (Position _) = Inr ()"

section \<open>Envelopes\<close>

record AutomationCausation =
  ac_automation_id :: uuid
  ac_version :: nat
  ac_run_id :: uuid

record ExpectedObservation =
  eo_observed_at :: datetime

record CommandEnvelope =
  ce_id :: uuid
  ce_actor_id :: uuid
  ce_device_id :: uuid
  ce_endpoint_id :: endpoint_id
  ce_capability :: CapabilityDescriptor
  ce_payload :: CommandPayload
  ce_idempotency_key :: string
  ce_deadline :: datetime
  ce_expected :: "ExpectedObservation option"
  ce_dry_run :: bool
  ce_correlation_id :: uuid
  ce_causation_event_id :: "uuid option"
  ce_automation_causation :: "AutomationCausation option"
  ce_received_at :: datetime

definition CommandEnvelope_validate :: "CommandEnvelope \<Rightarrow> datetime \<Rightarrow> CommandErrorCode + unit" where
  "CommandEnvelope_validate e now =
     (if ce_deadline e \<le> now then Inl DeadlineExceeded
      else if CapabilityDescriptor_schema (ce_capability e) \<noteq> CommandPayload_schema (ce_payload e)
      then Inl CapabilityMismatch
      else CommandPayload_validate (ce_payload e))"

section \<open>Lifecycle\<close>

datatype CommandState =
    Received | Validated | Rejected | Dispatched | Acknowledged | Confirmed | Failed | TimedOut
  | Cancelled

fun CommandState_is_terminal :: "CommandState \<Rightarrow> bool" where
  "CommandState_is_terminal Rejected = True"
| "CommandState_is_terminal Confirmed = True"
| "CommandState_is_terminal Failed = True"
| "CommandState_is_terminal TimedOut = True"
| "CommandState_is_terminal Cancelled = True"
| "CommandState_is_terminal _ = False"

fun CommandState_allows_transition_to :: "CommandState \<Rightarrow> CommandState \<Rightarrow> bool" where
  "CommandState_allows_transition_to Received next =
     (next \<in> {Validated, Rejected, TimedOut, Cancelled})"
| "CommandState_allows_transition_to Validated next =
     (next \<in> {Dispatched, Rejected, TimedOut, Cancelled})"
| "CommandState_allows_transition_to Dispatched next =
     (next \<in> {Acknowledged, Confirmed, Failed, TimedOut})"
| "CommandState_allows_transition_to Acknowledged next =
     (next \<in> {Confirmed, Failed, TimedOut})"
| "CommandState_allows_transition_to _ _ = False"

text \<open>Distance from receipt; every edge increases it.\<close>

fun command_rank :: "CommandState \<Rightarrow> nat" where
  "command_rank Received = 0"
| "command_rank Validated = 1"
| "command_rank Dispatched = 2"
| "command_rank Acknowledged = 3"
| "command_rank _ = 4"

lemma allows_transition_cases:
  "CommandState_allows_transition_to s t \<longleftrightarrow>
     (s = Received \<and> t \<in> {Validated, Rejected, TimedOut, Cancelled}) \<or>
     (s = Validated \<and> t \<in> {Dispatched, Rejected, TimedOut, Cancelled}) \<or>
     (s = Dispatched \<and> t \<in> {Acknowledged, Confirmed, Failed, TimedOut}) \<or>
     (s = Acknowledged \<and> t \<in> {Confirmed, Failed, TimedOut})"
  by (cases s) auto

interpretation cmd: ranked_machine CommandState_is_terminal CommandState_allows_transition_to command_rank
proof unfold_locales
  show "CommandState_is_terminal s \<Longrightarrow> \<not> CommandState_allows_transition_to s t" for s t
    by (cases s) simp_all
  show "CommandState_allows_transition_to s t \<Longrightarrow> command_rank s < command_rank t" for s t
    by (cases s; cases t) simp_all
qed

lemma command_rank_le: "command_rank s \<le> 4"
  by (cases s) simp_all

lemma dispatched_only_from_validated:
  "CommandState_allows_transition_to s Dispatched \<longleftrightarrow> s = Validated"
  by (cases s) simp_all

section \<open>Policy records\<close>

datatype CommandAction =
    Validate | Execute | Cancel | ReadAudit | ApproveUnlock | MatterRead | MatterCreateFabric
  | MatterCommissionNode | MatterCancelOperation | MatterRemoveNode | MatterExportFabric
  | MatterRestoreFabric | MatterRepairSubscription

datatype GrantScope =
    Installation_scope uuid
  | Space_scope uuid
  | Device_scope uuid
  | Capability_scope uuid endpoint_id string

record ActorGrant =
  ag_id :: uuid
  ag_actor_id :: uuid
  ag_actions :: "CommandAction set"
  ag_scope :: GrantScope
  ag_maximum_risk :: RiskClass
  ag_enabled :: bool

datatype ConstraintState = Constraint_Available | Constraint_Unavailable

datatype CapacityState = Capacity_Available | Capacity_Exhausted

record PolicyInput =
  pi_actor :: Actor
  pi_action :: CommandAction
  pi_device_id :: uuid
  pi_endpoint_id :: endpoint_id
  pi_schema :: string
  pi_risk :: RiskClass
  pi_spaces :: "uuid set"
  pi_freshness :: FreshnessState
  pi_constraint :: ConstraintState
  pi_rate_capacity :: CapacityState
  pi_device_capacity :: CapacityState
  pi_dry_run :: bool
  pi_evaluated_at :: datetime

datatype PolicyReason =
    ActorDisabled | NoMatchingGrant | RiskExceedsGrant | MechanicalGrantRequired
  | SecurityExactGrantRequired | InteractiveUserRequired | StateNotFresh | ConstraintUnavailable
  | RateLimitExceeded | DeviceConcurrencyExceeded | AllowedByGrant

record PolicyDecision =
  pd_policy_version :: nat
  pd_allowed :: bool
  pd_reasons :: "PolicyReason set"
  pd_evaluated_at :: datetime

section \<open>Command aggregate\<close>

record AdapterAcknowledgement =
  aa_acknowledged_at :: datetime
  aa_code :: string

record ObservedConfirmation =
  oc_confirmed_at :: datetime
  oc_observation_at :: datetime

record CommandFailure =
  cf_code :: CommandErrorCode
  cf_detail :: "string option"

record CommandAggregate =
  ca_envelope :: CommandEnvelope
  ca_state :: CommandState
  ca_version :: nat
  ca_policy :: "PolicyDecision option"
  ca_acknowledgement :: "AdapterAcknowledgement option"
  ca_confirmation :: "ObservedConfirmation option"
  ca_failure :: "CommandFailure option"
  ca_updated_at :: datetime

record CommandAuditRecord =
  au_id :: uuid
  au_command_id :: uuid
  au_sequence :: nat
  au_from :: "CommandState option"
  au_to :: CommandState
  au_actor_id :: uuid
  au_policy :: "PolicyDecision option"
  au_failure :: "CommandFailure option"
  au_acknowledgement :: "AdapterAcknowledgement option"
  au_confirmation :: "ObservedConfirmation option"
  au_correlation_id :: uuid
  au_causation_event_id :: "uuid option"
  au_occurred_at :: datetime

datatype CommandTransitionError = CommandTransitionError CommandState CommandState

definition CommandAggregate_received :: "CommandEnvelope \<Rightarrow> CommandAggregate" where
  "CommandAggregate_received e =
     \<lparr>ca_envelope = e, ca_state = Received, ca_version = 0, ca_policy = None,
      ca_acknowledgement = None, ca_confirmation = None, ca_failure = None,
      ca_updated_at = ce_received_at e\<rparr>"

definition CommandAggregate_transition ::
  "CommandAggregate \<Rightarrow> CommandState \<Rightarrow> datetime \<Rightarrow> CommandTransitionError + CommandAggregate" where
  "CommandAggregate_transition c next at =
     (if \<not> CommandState_allows_transition_to (ca_state c) next
      then Inl (CommandTransitionError (ca_state c) next)
      else Inr (c\<lparr>ca_state := next, ca_version := saturating_add u64_max (ca_version c) 1,
                  ca_updated_at := at\<rparr>))"

definition CommandAggregate_is_terminal :: "CommandAggregate \<Rightarrow> bool" where
  "CommandAggregate_is_terminal c \<longleftrightarrow>
     CommandState_is_terminal (ca_state c) \<or>
     (ce_dry_run (ca_envelope c) \<and> ca_state c = Validated)"

text \<open>A run of transitions, each applied to the aggregate the previous one returned.\<close>

fun command_run ::
  "CommandAggregate \<Rightarrow> (CommandState \<times> datetime) list \<Rightarrow> CommandTransitionError + CommandAggregate" where
  "command_run c [] = Inr c"
| "command_run c ((next, at) # rest) =
     and_then (CommandAggregate_transition c next at) (\<lambda>c'. command_run c' rest)"

lemma transition_Inr_iff:
  "CommandAggregate_transition c next at = Inr c' \<longleftrightarrow>
     CommandState_allows_transition_to (ca_state c) next \<and>
     c' = c\<lparr>ca_state := next, ca_version := saturating_add u64_max (ca_version c) 1,
            ca_updated_at := at\<rparr>"
  by (auto simp: CommandAggregate_transition_def)

lemma transition_envelope:
  "CommandAggregate_transition c next at = Inr c' \<Longrightarrow> ca_envelope c' = ca_envelope c"
  by (simp add: transition_Inr_iff)

text \<open>The version counts the transitions and never saturates: a lifecycle is too short.\<close>

lemma command_run_rank:
  "command_run c path = Inr c' \<Longrightarrow>
     length path + command_rank (ca_state c) \<le> command_rank (ca_state c') \<and>
     (CommandState_allows_transition_to ^^ length path) (ca_state c) (ca_state c')"
proof (induction path arbitrary: c)
  case (Cons p path)
  obtain st at where p: "p = (st, at)" by (cases p)
  from Cons.prems obtain d where d: "CommandAggregate_transition c st at = Inr d"
      and run: "command_run d path = Inr c'"
    by (auto simp: p and_then_Inr_iff)
  from d have edge: "CommandState_allows_transition_to (ca_state c) (ca_state d)"
    by (auto simp: transition_Inr_iff)
  with Cons.IH [OF run] have "(CommandState_allows_transition_to ^^ length (p # path)) (ca_state c) (ca_state c')"
    by (metis relpowp_Suc_I2 length_Cons)
  with cmd.history_bound [OF this] show ?case by simp
qed simp

lemma command_run_version:
  "command_run c path = Inr c' \<Longrightarrow> ca_version c + length path \<le> u64_max \<Longrightarrow>
     ca_version c' = ca_version c + length path \<and> ca_envelope c' = ca_envelope c"
proof (induction path arbitrary: c)
  case (Cons p path)
  obtain st at where p: "p = (st, at)" by (cases p)
  from Cons.prems(1) obtain d where d: "CommandAggregate_transition c st at = Inr d"
      and run: "command_run d path = Inr c'"
    by (auto simp: p and_then_Inr_iff)
  from d Cons.prems(2) have "ca_version d = ca_version c + 1" "ca_envelope d = ca_envelope c"
    by (auto simp: transition_Inr_iff saturating_add_exact)
  with Cons.IH [OF run] Cons.prems(2) show ?case by simp
qed simp

section \<open>Properties\<close>

text \<open>C26: A command takes at most four transitions in its life. Its version counts them exactly (the
  saturating counter never saturates), its envelope never changes, and a terminal state has no
  successor.\<close>

theorem command_lifecycle_bounded:
  assumes "command_run (CommandAggregate_received e) path = Inr c"
  shows "length path \<le> 4 \<and> ca_version c = length path \<and> ca_envelope c = e \<and>
    (CommandState_is_terminal (ca_state c) \<longrightarrow>
       (\<forall>next at. CommandAggregate_transition c next at = Inl (CommandTransitionError (ca_state c) next)))"
proof -
  note rank = command_run_rank [OF assms]
  have len: "length path \<le> 4"
    using rank command_rank_le [of "ca_state c"] by (simp add: CommandAggregate_received_def)
  then have "ca_version c = length path \<and> ca_envelope c = e"
    using command_run_version [OF assms] by (simp add: CommandAggregate_received_def)
  with len cmd.terminal_stuck show ?thesis by (simp add: CommandAggregate_transition_def)
qed

definition sample_envelope :: "bool \<Rightarrow> CommandEnvelope" where
  "sample_envelope dry =
     \<lparr>ce_id = 100, ce_actor_id = 1, ce_device_id = 10, ce_endpoint_id = ''relay:0'',
      ce_capability = \<lparr>cd_name = ''on_off'', cd_version = 1, cd_risk = Comfort\<rparr>,
      ce_payload = OnOff (OnOff_Set True), ce_idempotency_key = ''key-1'', ce_deadline = 1000,
      ce_expected = None, ce_dry_run = dry, ce_correlation_id = 7, ce_causation_event_id = None,
      ce_automation_causation = None, ce_received_at = 5\<rparr>"

theorem command_lifecycle_bounded_witness:
  "\<exists>c. command_run (CommandAggregate_received (sample_envelope False))
       [(Validated, 6), (Dispatched, 7), (Acknowledged, 8), (Confirmed, 9)] = Inr c \<and>
     ca_version c = 4 \<and> CommandAggregate_transition c Failed 10 = Inl (CommandTransitionError Confirmed Failed)"
proof -
  let ?path = "[(Validated, 6), (Dispatched, 7), (Acknowledged, 8), (Confirmed, 9)]"
  obtain c where c: "command_run (CommandAggregate_received (sample_envelope False)) ?path = Inr c"
      "ca_state c = Confirmed"
    by (simp add: CommandAggregate_received_def CommandAggregate_transition_def)
  with command_lifecycle_bounded [OF c(1)] show ?thesis by auto
qed

end
