(* ===== verification/Policy.thy ===== *)
theory Policy
  imports Command_Domain
begin

text \<open>
  The default-deny policy evaluator and the bounded admission limits
  (\<open>homemagic-application/src/policy.rs\<close>). The evaluator is a total function of its input and
  the grants. The limits keep a sliding window of request instants per actor and a semaphore
  per device; the admission of one request is split where the code releases the lock, so that
  concurrent requests interleave between the parts.
\<close>

section \<open>Policy evaluation\<close>

definition POLICY_VERSION :: nat where
  "POLICY_VERSION = 1"

fun scope_matches :: "GrantScope \<Rightarrow> PolicyInput \<Rightarrow> bool" where
  "scope_matches (Installation_scope i) input = (i = actor_installation_id (pi_actor input))"
| "scope_matches (Space_scope s) input = (s \<in> pi_spaces input)"
| "scope_matches (Device_scope d) input = (d = pi_device_id input)"
| "scope_matches (Capability_scope d e s) input =
     (d = pi_device_id input \<and> e = pi_endpoint_id input \<and> s = pi_schema input)"

fun exact_scope :: "GrantScope \<Rightarrow> PolicyInput \<Rightarrow> bool" where
  "exact_scope (Capability_scope d e s) input =
     (d = pi_device_id input \<and> e = pi_endpoint_id input \<and> s = pi_schema input)"
| "exact_scope _ input = False"

definition scoped_grants :: "PolicyInput \<Rightarrow> ActorGrant list \<Rightarrow> ActorGrant list" where
  "scoped_grants input grants =
     filter (\<lambda>g. scope_matches (ag_scope g) input)
       (filter (\<lambda>g. pi_action input \<in> ag_actions g)
         (filter (\<lambda>g. ag_actor_id g = actor_id (pi_actor input) \<and> ag_enabled g) grants))"

definition risk_matched_grants :: "PolicyInput \<Rightarrow> ActorGrant list \<Rightarrow> ActorGrant list" where
  "risk_matched_grants input grants =
     filter (\<lambda>g. RiskClass_permits (ag_maximum_risk g) (pi_risk input)) (scoped_grants input grants)"

definition risk_reasons :: "PolicyInput \<Rightarrow> ActorGrant list \<Rightarrow> PolicyReason set" where
  "risk_reasons input risk_matched =
     (case pi_risk input of
        Observe \<Rightarrow> {}
      | Comfort \<Rightarrow> {}
      | Mechanical \<Rightarrow>
          (if risk_matched = [] then {MechanicalGrantRequired} else {}) \<union>
          (if pi_freshness input \<noteq> FreshnessState.Fresh then {StateNotFresh} else {}) \<union>
          (if pi_constraint input \<noteq> Constraint_Available then {ConstraintUnavailable} else {})
      | Security \<Rightarrow>
          (if \<not> list_ex (\<lambda>g. exact_scope (ag_scope g) input) risk_matched
           then {SecurityExactGrantRequired} else {}))"

text \<open>The reasons collected before the verdict.\<close>

definition denial_reasons :: "PolicyInput \<Rightarrow> ActorGrant list \<Rightarrow> PolicyReason set" where
  "denial_reasons input grants =
     (if \<not> actor_enabled (pi_actor input) then {ActorDisabled} else {}) \<union>
     (if pi_action input = ApproveUnlock \<and> actor_kind (pi_actor input) \<noteq> User
      then {InteractiveUserRequired} else {}) \<union>
     (if scoped_grants input grants = [] then {NoMatchingGrant}
      else if risk_matched_grants input grants = [] then {RiskExceedsGrant} else {}) \<union>
     risk_reasons input (risk_matched_grants input grants) \<union>
     (if pi_rate_capacity input = Capacity_Exhausted then {RateLimitExceeded} else {}) \<union>
     (if pi_device_capacity input = Capacity_Exhausted then {DeviceConcurrencyExceeded} else {})"

definition PolicyEvaluator_evaluate :: "PolicyInput \<Rightarrow> ActorGrant list \<Rightarrow> PolicyDecision" where
  "PolicyEvaluator_evaluate input grants =
     (let reasons = denial_reasons input grants;
          allowed = (reasons = {} \<and> risk_matched_grants input grants \<noteq> [])
      in \<lparr>pd_policy_version = POLICY_VERSION,
          pd_allowed = allowed,
          pd_reasons = (if allowed then insert AllowedByGrant reasons else reasons),
          pd_evaluated_at = pi_evaluated_at input\<rparr>)"

text \<open>The specification: one enabled grant of the actor covers the request.\<close>

definition grant_covers :: "PolicyInput \<Rightarrow> ActorGrant \<Rightarrow> bool" where
  "grant_covers input g \<longleftrightarrow>
     ag_actor_id g = actor_id (pi_actor input) \<and> ag_enabled g \<and> pi_action input \<in> ag_actions g \<and>
     scope_matches (ag_scope g) input \<and> pi_risk input \<le> ag_maximum_risk g \<and>
     (pi_risk input = Security \<longrightarrow> exact_scope (ag_scope g) input)"

definition policy_permits :: "PolicyInput \<Rightarrow> ActorGrant list \<Rightarrow> bool" where
  "policy_permits input grants \<longleftrightarrow>
     actor_enabled (pi_actor input) \<and>
     (pi_action input = ApproveUnlock \<longrightarrow> actor_kind (pi_actor input) = User) \<and>
     (\<exists>g \<in> set grants. grant_covers input g) \<and>
     (pi_risk input = Mechanical \<longrightarrow>
        pi_freshness input = FreshnessState.Fresh \<and> pi_constraint input = Constraint_Available) \<and>
     pi_rate_capacity input = Capacity_Available \<and>
     pi_device_capacity input = Capacity_Available"

lemma set_risk_matched:
  "g \<in> set (risk_matched_grants input grants) \<longleftrightarrow>
     g \<in> set grants \<and> ag_actor_id g = actor_id (pi_actor input) \<and> ag_enabled g \<and>
     pi_action input \<in> ag_actions g \<and> scope_matches (ag_scope g) input \<and>
     pi_risk input \<le> ag_maximum_risk g"
  by (auto simp: risk_matched_grants_def scoped_grants_def permits_order)

lemma risk_matched_scoped: "risk_matched_grants input grants \<noteq> [] \<Longrightarrow> scoped_grants input grants \<noteq> []"
  by (auto simp: risk_matched_grants_def)

lemma risk_reasons_empty:
  assumes "rm \<noteq> []"
  shows "risk_reasons input rm = {} \<longleftrightarrow>
    (pi_risk input = Mechanical \<longrightarrow>
       pi_freshness input = FreshnessState.Fresh \<and> pi_constraint input = Constraint_Available) \<and>
    (pi_risk input = Security \<longrightarrow> (\<exists>g \<in> set rm. exact_scope (ag_scope g) input))"
  using assms by (cases "pi_risk input") (auto simp: risk_reasons_def list_ex_iff)

lemma evaluate_allowed_iff:
  "pd_allowed (PolicyEvaluator_evaluate input grants) \<longleftrightarrow>
     actor_enabled (pi_actor input) \<and>
     (pi_action input = ApproveUnlock \<longrightarrow> actor_kind (pi_actor input) = User) \<and>
     risk_matched_grants input grants \<noteq> [] \<and>
     risk_reasons input (risk_matched_grants input grants) = {} \<and>
     pi_rate_capacity input = Capacity_Available \<and> pi_device_capacity input = Capacity_Available"
  using risk_matched_scoped [of input grants]
  by (cases "pi_rate_capacity input"; cases "pi_device_capacity input")
    (auto simp: PolicyEvaluator_evaluate_def denial_reasons_def Let_def)

lemma covering_grant:
  "risk_matched_grants input grants \<noteq> [] \<and>
   (pi_risk input = Security \<longrightarrow>
      (\<exists>g \<in> set (risk_matched_grants input grants). exact_scope (ag_scope g) input)) \<longleftrightarrow>
   (\<exists>g \<in> set grants. grant_covers input g)"
proof -
  have "risk_matched_grants input grants \<noteq> [] \<longleftrightarrow> (\<exists>g. g \<in> set (risk_matched_grants input grants))"
    by (cases "risk_matched_grants input grants") auto
  then show ?thesis
    unfolding grant_covers_def Bex_def set_risk_matched by blast
qed

lemma evaluate_allowed_spec:
  "pd_allowed (PolicyEvaluator_evaluate input grants) \<longleftrightarrow> policy_permits input grants"
  unfolding evaluate_allowed_iff policy_permits_def covering_grant [symmetric]
  using risk_reasons_empty [of "risk_matched_grants input grants" input] by blast

lemma risk_reasons_no_allowed: "AllowedByGrant \<notin> risk_reasons input rm"
  by (simp add: risk_reasons_def split: RiskClass.split)

lemma evaluate_reasons_allowed:
  "pd_allowed (PolicyEvaluator_evaluate input grants) \<Longrightarrow>
     pd_reasons (PolicyEvaluator_evaluate input grants) = {AllowedByGrant}"
  by (simp add: PolicyEvaluator_evaluate_def Let_def)

lemma if_singleton_mem: "x \<in> (if b then {y} else S) \<longleftrightarrow> (if b then x = y else x \<in> S)"
  by simp

lemma denial_reasons_no_allowed: "AllowedByGrant \<notin> denial_reasons input grants"
  unfolding denial_reasons_def Un_iff if_singleton_mem
  using risk_reasons_no_allowed by simp

lemma denial_reasons_no_grant:
  "risk_matched_grants input grants = [] \<Longrightarrow> denial_reasons input grants \<noteq> {}"
  by (cases "scoped_grants input grants") (simp_all only: denial_reasons_def Un_empty, simp_all)

lemma evaluate_reasons_denied:
  "\<not> pd_allowed (PolicyEvaluator_evaluate input grants) \<Longrightarrow>
     pd_reasons (PolicyEvaluator_evaluate input grants) \<noteq> {} \<and>
     AllowedByGrant \<notin> pd_reasons (PolicyEvaluator_evaluate input grants)"
  using denial_reasons_no_allowed [of input grants] denial_reasons_no_grant [of input grants]
  by (cases "denial_reasons input grants = {}"; cases "risk_matched_grants input grants = []")
    (simp_all add: PolicyEvaluator_evaluate_def Let_def)

lemma policy_permits_mono:
  "set grants \<subseteq> set grants' \<Longrightarrow> policy_permits input grants \<Longrightarrow> policy_permits input grants'"
  by (auto simp: policy_permits_def)

section \<open>Admission limits\<close>

record CommandLimitConfig =
  lim_actor_requests :: nat
  lim_actor_window :: int
  lim_device_concurrency :: nat

definition CommandLimitConfig_new :: "nat \<Rightarrow> int \<Rightarrow> nat \<Rightarrow> unit + CommandLimitConfig" where
  "CommandLimitConfig_new requests window concurrency =
     (if requests = 0 \<or> window \<le> 0 \<or> concurrency = 0 then Inl ()
      else Inr \<lparr>lim_actor_requests = requests, lim_actor_window = window,
                lim_device_concurrency = concurrency\<rparr>)"

definition CommandLimitConfig_default :: CommandLimitConfig where
  "CommandLimitConfig_default =
     \<lparr>lim_actor_requests = 60, lim_actor_window = seconds_ns 60, lim_device_concurrency = 1\<rparr>"

text \<open>The deque of each actor and the permits left in the semaphore of each device.\<close>

record LimitState =
  ls_actor_requests :: "uuid \<rightharpoonup> datetime list"
  ls_devices :: "uuid \<rightharpoonup> nat"

definition LimitState_default :: LimitState where
  "LimitState_default = \<lparr>ls_actor_requests = Map.empty, ls_devices = Map.empty\<rparr>"

record CommandLimitCapacities =
  lim_rate :: CapacityState
  lim_device :: CapacityState
  lim_permit :: bool

text \<open>The part of \<open>try_acquire\<close> under the lock.\<close>

definition limit_admit ::
  "CommandLimitConfig \<Rightarrow> LimitState \<Rightarrow> uuid \<Rightarrow> uuid \<Rightarrow> datetime \<Rightarrow> CapacityState \<times> LimitState" where
  "limit_admit cfg st actor device now =
     (let requests = (case ls_actor_requests st actor of None \<Rightarrow> [] | Some q \<Rightarrow> q);
          kept = dropWhile (\<lambda>at. at \<le> now - lim_actor_window cfg) requests;
          admitted = length kept < lim_actor_requests cfg;
          devices = (case ls_devices st device of
              None \<Rightarrow> (ls_devices st)(device \<mapsto> lim_device_concurrency cfg)
            | Some _ \<Rightarrow> ls_devices st)
      in (if admitted then Capacity_Available else Capacity_Exhausted,
          st\<lparr>ls_actor_requests := (ls_actor_requests st)(actor \<mapsto> (if admitted then kept @ [now] else kept)),
             ls_devices := devices\<rparr>))"

text \<open>The semaphore of the device, after the lock is released.\<close>

definition available_permits :: "LimitState \<Rightarrow> uuid \<Rightarrow> nat" where
  "available_permits st device = (case ls_devices st device of None \<Rightarrow> 0 | Some n \<Rightarrow> n)"

definition limit_take ::
  "LimitState \<Rightarrow> uuid \<Rightarrow> CapacityState \<Rightarrow> bool \<Rightarrow> CommandLimitCapacities \<times> LimitState" where
  "limit_take st device rate device_was_available =
     (let permit = (rate = Capacity_Available \<and> 0 < available_permits st device)
      in (\<lparr>lim_rate = rate,
           lim_device = (if permit \<or> device_was_available then Capacity_Available
                         else Capacity_Exhausted),
           lim_permit = permit\<rparr>,
          if permit then st\<lparr>ls_devices := (ls_devices st)(device \<mapsto> available_permits st device - 1)\<rparr>
          else st))"

definition CommandLimits_try_acquire ::
  "CommandLimitConfig \<Rightarrow> LimitState \<Rightarrow> uuid \<Rightarrow> uuid \<Rightarrow> datetime
     \<Rightarrow> CommandLimitCapacities \<times> LimitState" where
  "CommandLimits_try_acquire cfg st actor device now =
     (let (rate, st') = limit_admit cfg st actor device now
      in limit_take st' device rate (0 < available_permits st' device))"

text \<open>Dropping a held permit returns it to the semaphore.\<close>

definition limit_release :: "LimitState \<Rightarrow> uuid \<Rightarrow> LimitState" where
  "limit_release st device =
     st\<lparr>ls_devices := (ls_devices st)(device \<mapsto> available_permits st device + 1)\<rparr>"

subsection \<open>Sliding window\<close>

text \<open>A sequence of admissions and the instants admitted for one actor, oldest first.\<close>

fun admit_run ::
  "CommandLimitConfig \<Rightarrow> LimitState \<Rightarrow> (uuid \<times> uuid \<times> datetime) list \<Rightarrow> (uuid \<times> datetime) list \<times> LimitState" where
  "admit_run cfg st [] = ([], st)"
| "admit_run cfg st ((actor, device, now) # calls) =
     (let (caps, st') = CommandLimits_try_acquire cfg st actor device now;
          (log, st'') = admit_run cfg st' calls
      in ((if lim_rate caps = Capacity_Available then [(actor, now)] else []) @ log, st''))"

definition admitted_at :: "uuid \<Rightarrow> (uuid \<times> datetime) list \<Rightarrow> datetime list" where
  "admitted_at a log = map snd (filter (\<lambda>(b, _). b = a) log)"

definition in_window :: "int \<Rightarrow> datetime \<Rightarrow> datetime list \<Rightarrow> nat" where
  "in_window w t ats = length (filter (\<lambda>at. t - w < at \<and> at \<le> t) ats)"

text \<open>What the state knows about the instants admitted so far, up to the instant \<open>latest\<close>.\<close>

definition window_inv :: "CommandLimitConfig \<Rightarrow> LimitState \<Rightarrow> datetime \<Rightarrow> (uuid \<Rightarrow> datetime list) \<Rightarrow> bool" where
  "window_inv cfg st latest seen \<longleftrightarrow>
     (\<forall>a. sorted (seen a) \<and> (\<forall>x \<in> set (seen a). x \<le> latest) \<and>
        (\<exists>cut \<le> latest - lim_actor_window cfg.
           (case ls_actor_requests st a of None \<Rightarrow> [] | Some q \<Rightarrow> q) = filter (\<lambda>x. cut < x) (seen a)) \<and>
        (\<forall>t. in_window (lim_actor_window cfg) t (seen a) \<le> lim_actor_requests cfg))"

lemma dropWhile_sorted: "sorted xs \<Longrightarrow> dropWhile (\<lambda>x. x \<le> (c::int)) xs = filter (\<lambda>x. c < x) xs"
proof (induction xs)
  case (Cons x xs)
  then have "\<not> x \<le> c \<Longrightarrow> filter (\<lambda>x. c < x) xs = xs" by (auto simp: filter_id_conv)
  with Cons show ?case by auto
qed simp

lemma kept_requests:
  assumes "window_inv cfg st latest seen" and "latest \<le> now" and "0 < lim_actor_window cfg"
  shows "dropWhile (\<lambda>at. at \<le> now - lim_actor_window cfg)
      (case ls_actor_requests st a of None \<Rightarrow> [] | Some q \<Rightarrow> q)
    = filter (\<lambda>x. now - lim_actor_window cfg < x) (seen a)"
proof -
  from assms(1) obtain cut where cut: "cut \<le> latest - lim_actor_window cfg"
      "(case ls_actor_requests st a of None \<Rightarrow> [] | Some q \<Rightarrow> q) = filter (\<lambda>x. cut < x) (seen a)"
      and srt: "sorted (seen a)"
    unfolding window_inv_def by blast
  have "sorted (filter (\<lambda>x. cut < x) (seen a))" using srt by (simp add: sorted_wrt_filter)
  then have "dropWhile (\<lambda>at. at \<le> now - lim_actor_window cfg) (filter (\<lambda>x. cut < x) (seen a))
      = filter (\<lambda>x. now - lim_actor_window cfg < x) (filter (\<lambda>x. cut < x) (seen a))"
    by (rule dropWhile_sorted)
  also have "\<dots> = filter (\<lambda>x. now - lim_actor_window cfg < x) (seen a)"
    using cut(1) assms(2) by (auto intro!: filter_cong)
  finally show ?thesis by (simp add: cut(2))
qed

lemma in_window_append:
  assumes "length (filter (\<lambda>x. now - w < x) ats) < n"
    and "in_window w t ats \<le> n"
  shows "in_window w t (ats @ [now]) \<le> n"
proof (cases "t - w < now \<and> now \<le> t")
  case True
  then have "in_window w t ats \<le> length (filter (\<lambda>x. now - w < x) ats)"
    unfolding in_window_def length_filter_conv_card
    by (intro card_mono) (auto simp: in_set_conv_nth)
  with assms(1) True show ?thesis by (simp add: in_window_def)
next
  case False
  with assms(2) show ?thesis by (auto simp: in_window_def)
qed

lemma try_acquire_requests:
  "ls_actor_requests (snd (CommandLimits_try_acquire cfg st actor device now))
     = ls_actor_requests (snd (limit_admit cfg st actor device now))"
  "lim_rate (fst (CommandLimits_try_acquire cfg st actor device now))
     = fst (limit_admit cfg st actor device now)"
  by (simp_all add: CommandLimits_try_acquire_def limit_take_def Let_def split: prod.splits)

lemma try_acquire_window:
  assumes inv: "window_inv cfg st latest seen" and le: "latest \<le> now"
    and pos: "0 < lim_actor_window cfg"
    and acq: "CommandLimits_try_acquire cfg st actor device now = (caps, st')"
  shows "window_inv cfg st' now
    (if lim_rate caps = Capacity_Available then seen(actor := seen actor @ [now]) else seen)"
proof -
  let ?w = "lim_actor_window cfg" and ?q = "\<lambda>s a. case ls_actor_requests s a of None \<Rightarrow> [] | Some q \<Rightarrow> q"
  let ?kept = "filter (\<lambda>x. now - ?w < x) (seen actor)"
  let ?seen = "if lim_rate caps = Capacity_Available then seen(actor := seen actor @ [now]) else seen"
  have rate: "lim_rate caps = Capacity_Available \<longleftrightarrow> length ?kept < lim_actor_requests cfg"
    using try_acquire_requests(2) [of cfg st actor device now] kept_requests [OF inv le pos, of actor]
    by (simp add: acq limit_admit_def Let_def split: if_splits)
  have reqs: "ls_actor_requests st' = (ls_actor_requests st)(actor \<mapsto>
      (if lim_rate caps = Capacity_Available then ?kept @ [now] else ?kept))"
    using try_acquire_requests(1) [of cfg st actor device now] kept_requests [OF inv le pos, of actor]
    by (simp add: acq limit_admit_def Let_def rate)
  show ?thesis
    unfolding window_inv_def
  proof (intro allI conjI)
    fix a
    from inv have a: "sorted (seen a)" "\<forall>x \<in> set (seen a). x \<le> latest"
        "\<forall>t. in_window ?w t (seen a) \<le> lim_actor_requests cfg"
      and "\<exists>cut \<le> latest - ?w. ?q st a = filter (\<lambda>x. cut < x) (seen a)"
      unfolding window_inv_def by blast+
    then obtain cut where cut: "cut \<le> latest - ?w" "?q st a = filter (\<lambda>x. cut < x) (seen a)" by blast
    show "sorted (?seen a)" using a le by (auto simp: sorted_append)
    show "\<forall>x \<in> set (?seen a). x \<le> now" using a(2) le by auto
    show "\<exists>cut \<le> now - ?w. ?q st' a = filter (\<lambda>x. cut < x) (?seen a)"
    proof (cases "a = actor")
      case True
      then show ?thesis using pos by (intro exI [of _ "now - ?w"]) (simp add: reqs)
    next
      case False
      then show ?thesis using cut le by (intro exI [of _ cut]) (simp add: reqs)
    qed
    show "in_window ?w t (?seen a) \<le> lim_actor_requests cfg" for t
      using a(3) rate in_window_append [of now ?w "seen a" "lim_actor_requests cfg" t] by auto
  qed
qed

lemma admit_run_window:
  assumes "window_inv cfg st latest seen" and "0 < lim_actor_window cfg"
    and "sorted (latest # map (\<lambda>(_, _, now). now) calls)"
  shows "in_window (lim_actor_window cfg) t (seen a @ admitted_at a (fst (admit_run cfg st calls)))
    \<le> lim_actor_requests cfg"
  using assms
proof (induction calls arbitrary: st latest seen)
  case Nil
  then show ?case by (simp add: admitted_at_def window_inv_def)
next
  case (Cons c calls)
  obtain actor device now where c: "c = (actor, device, now)" by (cases c)
  obtain caps st' where acq: "CommandLimits_try_acquire cfg st actor device now = (caps, st')"
    by (cases "CommandLimits_try_acquire cfg st actor device now")
  let ?seen = "if lim_rate caps = Capacity_Available then seen(actor := seen actor @ [now]) else seen"
  have "window_inv cfg st' now ?seen"
    using try_acquire_window [OF Cons.prems(1) _ Cons.prems(2) acq] Cons.prems(3) by (simp add: c)
  then have "in_window (lim_actor_window cfg) t
      (?seen a @ admitted_at a (fst (admit_run cfg st' calls))) \<le> lim_actor_requests cfg"
    using Cons.IH [of st' now ?seen] Cons.prems by (simp add: c)
  then show ?case
    by (cases "a = actor") (auto simp: c acq admitted_at_def split: prod.splits if_splits)
qed

lemma window_inv_default: "0 < lim_actor_window cfg \<Longrightarrow> window_inv cfg LimitState_default t (\<lambda>_. [])"
  by (auto simp: window_inv_def LimitState_default_def in_window_def intro: exI [of _ "t - lim_actor_window cfg"])

subsection \<open>Device permits\<close>

text \<open>
  The permits of the semaphores as a step relation over the limit state and the number of
  permits held per device, at the granularity at which tasks interleave.
\<close>

inductive permit_step ::
  "CommandLimitConfig \<Rightarrow> LimitState \<times> (uuid \<Rightarrow> nat) \<Rightarrow> LimitState \<times> (uuid \<Rightarrow> nat) \<Rightarrow> bool"
  for cfg where
  admit: "limit_admit cfg st actor device now = (rate, st') \<Longrightarrow> permit_step cfg (st, held) (st', held)"
| take: "ls_devices st device \<noteq> None \<Longrightarrow> limit_take st device rate avail = (caps, st') \<Longrightarrow>
     permit_step cfg (st, held) (st', held(device := held device + (if lim_permit caps then 1 else 0)))"
| release: "0 < held device \<Longrightarrow>
     permit_step cfg (st, held) (limit_release st device, held(device := held device - 1))"

definition permits_inv :: "CommandLimitConfig \<Rightarrow> LimitState \<times> (uuid \<Rightarrow> nat) \<Rightarrow> bool" where
  "permits_inv cfg w \<longleftrightarrow> (\<forall>d. case ls_devices (fst w) d of
       None \<Rightarrow> snd w d = 0
     | Some n \<Rightarrow> n + snd w d = lim_device_concurrency cfg)"

lemma permits_invD:
  assumes "permits_inv cfg (st, held)"
  shows "ls_devices st d = None \<Longrightarrow> held d = 0"
    and "ls_devices st d = Some n \<Longrightarrow> n + held d = lim_device_concurrency cfg"
  using assms by (auto simp: permits_inv_def dest: spec [of _ d])

lemma permits_invI:
  assumes "\<And>d. ls_devices st d = None \<Longrightarrow> held d = 0"
    and "\<And>d n. ls_devices st d = Some n \<Longrightarrow> n + held d = lim_device_concurrency cfg"
  shows "permits_inv cfg (st, held)"
  using assms by (simp add: permits_inv_def split: option.split)

lemma limit_admit_devices:
  "limit_admit cfg st actor device now = (rate, st') \<Longrightarrow>
     ls_devices st' = (if ls_devices st device = None
       then (ls_devices st)(device \<mapsto> lim_device_concurrency cfg) else ls_devices st)"
  by (auto simp: limit_admit_def Let_def split: option.splits)

lemma permit_step_inv: "permit_step cfg w w' \<Longrightarrow> permits_inv cfg w \<Longrightarrow> permits_inv cfg w'"
proof (induction rule: permit_step.induct)
  case (admit st actor device now rate st' held)
  note D = permits_invD [OF admit.prems]
  show ?case
    using D limit_admit_devices [OF admit.hyps] by (intro permits_invI) (auto split: if_splits)
next
  case (take st device rate avail caps st' held)
  then obtain n where n: "ls_devices st device = Some n" by auto
  note D = permits_invD [OF take.prems]
  from take.hyps(2) n have devs: "ls_devices st' =
      (if lim_permit caps then (ls_devices st)(device \<mapsto> n - 1) else ls_devices st)"
    and pos: "lim_permit caps \<Longrightarrow> 0 < n"
    by (auto simp: limit_take_def available_permits_def Let_def split: if_splits)
  show ?case
  proof (rule permits_invI)
    fix d m
    assume "ls_devices st' d = Some m"
    then show "m + (held(device := held device + (if lim_permit caps then 1 else 0))) d
        = lim_device_concurrency cfg"
      using D(2) [of d m] D(2) [OF n] pos by (cases "d = device"; cases "lim_permit caps") (auto simp: devs n)
  qed (use D(1) devs n in \<open>auto split: if_splits\<close>)
next
  case (release held device st)
  note D = permits_invD [OF release.prems]
  from release.hyps D(1) [of device] obtain n where "ls_devices st device = Some n" by fastforce
  with D release.hyps show ?case
    by (intro permits_invI) (auto simp: limit_release_def available_permits_def split: if_splits)
qed

lemma permits_bounded:
  assumes "(permit_step cfg)\<^sup>*\<^sup>* (LimitState_default, \<lambda>_. 0) w"
  shows "snd w d \<le> lim_device_concurrency cfg"
proof -
  obtain st held where w: "w = (st, held)" by (cases w)
  have "permits_inv cfg w"
    using assms
  proof (induction rule: rtranclp_induct)
    case base
    then show ?case by (simp add: permits_inv_def LimitState_default_def)
  next
    case (step y z)
    with permit_step_inv show ?case by blast
  qed
  note D = permits_invD [OF this [unfolded w]]
  show ?thesis using D(1) [of d] D(2) [of d] by (cases "ls_devices st d") (auto simp: w)
qed

text \<open>One request that is not interleaved with another.\<close>

lemma try_acquire_available_has_permit:
  "CommandLimits_try_acquire cfg st actor device now = (caps, st') \<Longrightarrow>
     lim_rate caps = Capacity_Available \<Longrightarrow>
     lim_device caps = Capacity_Available \<longleftrightarrow> lim_permit caps"
  by (auto simp: CommandLimits_try_acquire_def limit_take_def Let_def split: prod.splits if_splits)

section \<open>Properties\<close>

text \<open>C2: The evaluator allows a request exactly when the policy permits it: the actor is enabled, an
  unlock approval comes from an interactive user, one enabled grant of that actor covers action,
  scope and risk (for security risk with the exact device, endpoint and schema), a mechanical
  request finds fresh state and a satisfied constraint, and both capacities are available.
  Everything else is denied.\<close>

theorem policy_allows_exactly_when_permitted:
  "pd_allowed (PolicyEvaluator_evaluate input grants) \<longleftrightarrow> policy_permits input grants"
  by (rule evaluate_allowed_spec)

text \<open>C27: Every decision explains itself: an allowed one carries the single reason that a grant
  allowed it, a denied one carries at least one reason and never that one; and the decision
  does not depend on whether the request is a dry run.\<close>

theorem policy_decision_explained:
  "(let d = PolicyEvaluator_evaluate input grants in
      if pd_allowed d then pd_reasons d = {AllowedByGrant}
      else pd_reasons d \<noteq> {} \<and> AllowedByGrant \<notin> pd_reasons d) \<and>
   PolicyEvaluator_evaluate (input\<lparr>pi_dry_run := b\<rparr>) grants = PolicyEvaluator_evaluate input grants"
proof -
  have scope: "scope_matches sc (input\<lparr>pi_dry_run := b\<rparr>) = scope_matches sc input" for sc
    by (cases sc) simp_all
  have exact: "exact_scope sc (input\<lparr>pi_dry_run := b\<rparr>) = exact_scope sc input" for sc
    by (cases sc) simp_all
  have scoped: "scoped_grants (input\<lparr>pi_dry_run := b\<rparr>) grants = scoped_grants input grants"
    by (simp add: scoped_grants_def scope)
  then have matched: "risk_matched_grants (input\<lparr>pi_dry_run := b\<rparr>) grants = risk_matched_grants input grants"
    by (simp add: risk_matched_grants_def)
  have "risk_reasons (input\<lparr>pi_dry_run := b\<rparr>) rm = risk_reasons input rm" for rm
    by (cases "pi_risk input") (simp_all add: risk_reasons_def exact)
  then have "denial_reasons (input\<lparr>pi_dry_run := b\<rparr>) grants = denial_reasons input grants"
    unfolding denial_reasons_def scoped matched by simp
  then have "PolicyEvaluator_evaluate (input\<lparr>pi_dry_run := b\<rparr>) grants = PolicyEvaluator_evaluate input grants"
    by (simp add: PolicyEvaluator_evaluate_def matched)
  then show ?thesis
    using evaluate_reasons_allowed [of input grants] evaluate_reasons_denied [of input grants]
    by (simp add: Let_def)
qed



text \<open>C23: At every moment of every interleaving of admissions, acquisitions and releases, the permits
  held for a device never exceed its configured concurrency.\<close>

theorem device_permits_bounded:
  assumes "(permit_step cfg)\<^sup>*\<^sup>* (LimitState_default, \<lambda>_. 0) (st, held)"
  shows "held d \<le> lim_device_concurrency cfg"
  using permits_bounded [OF assms, of d] by simp

theorem device_permits_bounded_witness:
  "\<exists>st. (permit_step CommandLimitConfig_default)\<^sup>*\<^sup>* (LimitState_default, \<lambda>_. 0) (st, (\<lambda>_. 0)(9 := 1)) \<and>
     ((\<lambda>_. 0)(9 := 1)) (9::uuid) \<le> lim_device_concurrency CommandLimitConfig_default"
proof -
  let ?cfg = CommandLimitConfig_default
  obtain rate st1 where a: "limit_admit ?cfg LimitState_default 1 9 0 = (rate, st1)" by fastforce
  then have s1: "ls_devices st1 9 = Some 1"
    by (auto simp: limit_admit_def LimitState_default_def CommandLimitConfig_default_def Let_def)
  obtain caps st2 where t: "limit_take st1 9 Capacity_Available True = (caps, st2)" by fastforce
  then have "lim_permit caps" using s1 by (auto simp: limit_take_def available_permits_def Let_def)
  with permit_step.take [OF _ t, of ?cfg "\<lambda>_. 0"] s1
  have "permit_step ?cfg (st1, \<lambda>_. 0) (st2, (\<lambda>_. 0)(9 := 1))" by simp
  with permit_step.admit [OF a] have reach:
      "(permit_step ?cfg)\<^sup>*\<^sup>* (LimitState_default, \<lambda>_. 0) (st2, (\<lambda>_. 0)(9 := 1))"
    by (meson converse_rtranclp_into_rtranclp rtranclp.rtrancl_refl)
  with device_permits_bounded [OF reach, of 9] show ?thesis by blast
qed


end
