(* ===== verification/Command_Store.thy ===== *)
theory Command_Store
  imports Policy "HOL-Library.Product_Lexorder"
begin

text \<open>
  The durable command repository (\<open>homemagic-storage/src/command_repository.rs\<close>) over the
  relational tables of \<open>migrations/0002_command_control_plane.sql\<close>. A table is a list of rows in
  insertion order; a statement that violates a constraint is an error, and an error leaves the
  database as it was, because every write runs in one transaction. Payload columns hold the
  value whose JSON encoding the code stores.

  The lemmas show what the store keeps for every command: unique identities and idempotency
  keys, columns that agree with the payload, an allowed policy decision behind every dispatched
  command, and a contiguous audit chain from receipt to the current state.
\<close>

section \<open>Tables\<close>

record ActorCredential =
  cred_actor_id :: uuid
  cred_token_hash :: string
  cred_rotated_at :: datetime

record ActorSecurity =
  as_actor :: Actor
  as_credential :: "ActorCredential option"
  as_grants :: "ActorGrant list"

text \<open>A canonical request hash: 64 lower-case hexadecimal digits.\<close>

definition is_ascii_hexdigit :: "char \<Rightarrow> bool" where
  "is_ascii_hexdigit c \<longleftrightarrow> is_ascii_digit c \<or>
     (65 \<le> (of_char c :: nat) \<and> (of_char c :: nat) \<le> 70) \<or>
     (97 \<le> (of_char c :: nat) \<and> (of_char c :: nat) \<le> 102)"

definition is_ascii_uppercase :: "char \<Rightarrow> bool" where
  "is_ascii_uppercase c \<longleftrightarrow> 65 \<le> (of_char c :: nat) \<and> (of_char c :: nat) \<le> 90"

definition CanonicalRequestHash_new :: "string \<Rightarrow> unit + string" where
  "CanonicalRequestHash_new v =
     (if length v \<noteq> 64 \<or> \<not> list_all is_ascii_hexdigit v \<or> list_ex is_ascii_uppercase v
      then Inl () else Inr v)"

datatype SqliteError = QueryReturnedNoRows | ConstraintViolation

datatype StorageError =
    Sqlite SqliteError
  | Json string
  | Io string
  | ConnectionPoisoned
  | Worker string
  | UnsupportedSchema nat nat
  | MigrationChecksum nat
  | InvalidEventCursor int
  | InvalidDestination
  | InvalidIntegrity
  | BackupSchemaMismatch nat nat
  | InvalidEnumEncoding
  | InvalidCommand string
  | CommandVersionConflict nat nat
  | MatterRevisionConflict string "nat option" "nat option"
  | InvalidMatter string
  | InvalidAutomation string
  | AutomationDraftConflict "nat option" "nat option"
  | AutomationIdentityConflict nat nat
  | AutomationRunConflict nat nat
  | AutomationEventCursorConflict nat nat
  | NumericOverflow

datatype CommandCreateOutcome =
    Created CommandAggregate
  | ExistingEquivalent CommandAggregate
  | Conflict uuid

record CommandRetention =
  ret_installation_id :: uuid
  ret_terminal_before :: datetime
  ret_maximum_terminal_commands :: nat
  ret_audit_before :: datetime
  ret_maximum_audit_records :: nat

record CommandRetentionResult =
  ret_commands_removed :: nat
  ret_audit_records_removed :: nat

record CommandRow =
  crow_id :: uuid
  crow_installation_id :: uuid
  crow_actor_id :: uuid
  crow_device_id :: uuid
  crow_idempotency_key :: string
  crow_request_hash :: string
  crow_state :: CommandState
  crow_version :: int
  crow_terminal :: bool
  crow_received_at :: datetime
  crow_updated_at :: datetime
  crow_payload :: CommandAggregate

record AuditRow =
  arow_cursor :: nat
  arow_id :: uuid
  arow_installation_id :: uuid
  arow_command_id :: uuid
  arow_sequence :: int
  arow_from_state :: "CommandState option"
  arow_to_state :: CommandState
  arow_occurred_at :: datetime
  arow_payload :: CommandAuditRecord

text \<open>
  The tables a command operation reads or writes. Of the device table the repository reads the
  installation column; of the Matter desired-state table it is the commands it references,
  whose rows the foreign key protects from deletion.
\<close>

record Database =
  db_actors :: "uuid \<rightharpoonup> uuid \<times> Actor"
  db_credentials :: "uuid \<rightharpoonup> ActorCredential"
  db_grants :: "ActorGrant list"
  db_devices :: "uuid \<rightharpoonup> uuid"
  db_commands :: "CommandRow list"
  db_audit :: "AuditRow list"
  db_audit_cursor :: nat
  db_desired_slots :: "uuid set"

definition Database_empty :: Database where
  "Database_empty = \<lparr>db_actors = Map.empty, db_credentials = Map.empty, db_grants = [],
     db_devices = Map.empty, db_commands = [], db_audit = [], db_audit_cursor = 0,
     db_desired_slots = {}\<rparr>"

definition storage_to_i64 :: "nat \<Rightarrow> StorageError + int" where
  "storage_to_i64 v = ok_or (try_i64 v) NumericOverflow"

definition MAX_QUERY_PAGE :: nat where
  "MAX_QUERY_PAGE = 1000"

definition bounded_limit :: "nat \<Rightarrow> StorageError + int" where
  "bounded_limit limit = storage_to_i64 (min limit MAX_QUERY_PAGE)"

section \<open>Actors and grants\<close>

definition store_actor ::
  "Database \<Rightarrow> Actor \<Rightarrow> ActorCredential option \<Rightarrow> StorageError + Database" where
  "store_actor db actor credential =
     (if (case credential of None \<Rightarrow> False | Some c \<Rightarrow> cred_actor_id c \<noteq> actor_id actor)
      then Inl (InvalidCommand ''credential actor mismatch'')
      else case db_actors db (actor_id actor) of
          Some (installation, _) \<Rightarrow>
            (if installation \<noteq> actor_installation_id actor
             then Inl (InvalidCommand ''actor installation is immutable'')
             else Inr (db\<lparr>db_actors := (db_actors db)(actor_id actor \<mapsto> (installation, actor)),
                          db_credentials := (case credential of None \<Rightarrow> db_credentials db
                            | Some c \<Rightarrow> (db_credentials db)(actor_id actor \<mapsto> c))\<rparr>))
        | None \<Rightarrow>
            Inr (db\<lparr>db_actors := (db_actors db)(actor_id actor \<mapsto> (actor_installation_id actor, actor)),
                    db_credentials := (case credential of None \<Rightarrow> db_credentials db
                      | Some c \<Rightarrow> (db_credentials db)(actor_id actor \<mapsto> c))\<rparr>))"

fun insert_grants :: "ActorGrant list \<Rightarrow> ActorGrant list \<Rightarrow> StorageError + ActorGrant list" where
  "insert_grants rows [] = Inr rows"
| "insert_grants rows (g # gs) =
     (if ag_id g \<in> ag_id ` set rows then Inl (Sqlite ConstraintViolation)
      else insert_grants (rows @ [g]) gs)"

definition replace_actor_grants ::
  "Database \<Rightarrow> uuid \<Rightarrow> ActorGrant list \<Rightarrow> StorageError + Database" where
  "replace_actor_grants db actor grants =
     (if list_ex (\<lambda>g. ag_actor_id g \<noteq> actor) grants
      then Inl (InvalidCommand ''grant actor mismatch'')
      else if grants \<noteq> [] \<and> db_actors db actor = None then Inl (Sqlite ConstraintViolation)
      else and_then (insert_grants (filter (\<lambda>g. ag_actor_id g \<noteq> actor) (db_grants db)) grants)
             (\<lambda>rows. Inr (db\<lparr>db_grants := rows\<rparr>)))"

definition load_actor_security :: "Database \<Rightarrow> uuid \<Rightarrow> ActorSecurity option" where
  "load_actor_security db actor =
     (case db_actors db actor of
        None \<Rightarrow> None
      | Some (_, payload) \<Rightarrow> Some
          \<lparr>as_actor = payload, as_credential = db_credentials db actor,
           as_grants = sort_key ag_id (filter (\<lambda>g. ag_actor_id g = actor) (db_grants db))\<rparr>)"

section \<open>Audit rows\<close>

definition insert_audit :: "Database \<Rightarrow> uuid \<Rightarrow> CommandAuditRecord \<Rightarrow> StorageError + Database" where
  "insert_audit db installation a =
     and_then (storage_to_i64 (au_sequence a)) (\<lambda>seq.
       if list_ex (\<lambda>r. arow_id r = au_id a \<or>
                       (arow_command_id r = au_command_id a \<and> arow_sequence r = seq)) (db_audit db)
       then Inl (Sqlite ConstraintViolation)
       else Inr (db\<lparr>db_audit := db_audit db @
              [\<lparr>arow_cursor = db_audit_cursor db + 1, arow_id = au_id a,
                arow_installation_id = installation, arow_command_id = au_command_id a,
                arow_sequence = seq, arow_from_state = au_from a, arow_to_state = au_to a,
                arow_occurred_at = au_occurred_at a, arow_payload = a\<rparr>],
            db_audit_cursor := db_audit_cursor db + 1\<rparr>))"

section \<open>Creation\<close>

definition validate_receipt :: "CommandAggregate \<Rightarrow> CommandAuditRecord \<Rightarrow> StorageError + unit" where
  "validate_receipt c a =
     (if ca_state c \<noteq> Received \<or> ca_version c \<noteq> 0 \<or> CommandAggregate_is_terminal c
      then Inl (InvalidCommand ''command is not an initial receipt'')
      else if au_command_id a \<noteq> ce_id (ca_envelope c) \<or>
              au_actor_id a \<noteq> ce_actor_id (ca_envelope c) \<or>
              au_sequence a \<noteq> 0 \<or> au_from a \<noteq> None \<or> au_to a \<noteq> Received \<or>
              au_correlation_id a \<noteq> ce_correlation_id (ca_envelope c)
      then Inl (InvalidCommand ''receipt audit mismatch'')
      else Inr ())"

definition find_idempotent :: "Database \<Rightarrow> uuid \<Rightarrow> string \<Rightarrow> CommandRow option" where
  "find_idempotent db actor key =
     find (\<lambda>r. crow_actor_id r = actor \<and> crow_idempotency_key r = key) (db_commands db)"

definition insert_command_row :: "Database \<Rightarrow> CommandRow \<Rightarrow> StorageError + Database" where
  "insert_command_row db row =
     (if list_ex (\<lambda>r. crow_id r = crow_id row \<or>
           (crow_actor_id r = crow_actor_id row \<and> crow_idempotency_key r = crow_idempotency_key row))
           (db_commands db) \<or>
         length (crow_request_hash row) \<noteq> 64 \<or>
         crow_request_hash row \<noteq> to_ascii_lowercase (crow_request_hash row)
      then Inl (Sqlite ConstraintViolation)
      else Inr (db\<lparr>db_commands := db_commands db @ [row]\<rparr>))"

definition new_command_row :: "CommandAggregate \<Rightarrow> uuid \<Rightarrow> string \<Rightarrow> int \<Rightarrow> CommandRow" where
  "new_command_row c installation request_hash version =
     \<lparr>crow_id = ce_id (ca_envelope c), crow_installation_id = installation,
      crow_actor_id = ce_actor_id (ca_envelope c), crow_device_id = ce_device_id (ca_envelope c),
      crow_idempotency_key = ce_idempotency_key (ca_envelope c),
      crow_request_hash = request_hash, crow_state = ca_state c,
      crow_version = version, crow_terminal = CommandAggregate_is_terminal c,
      crow_received_at = ce_received_at (ca_envelope c),
      crow_updated_at = ca_updated_at c, crow_payload = c\<rparr>"

definition create_command ::
  "Database \<Rightarrow> CommandAggregate \<Rightarrow> string \<Rightarrow> CommandAuditRecord
     \<Rightarrow> StorageError + (CommandCreateOutcome \<times> Database)" where
  "create_command db c request_hash a =
     (case find_idempotent db (ce_actor_id (ca_envelope c)) (ce_idempotency_key (ca_envelope c)) of
        Some r \<Rightarrow>
          Inr (if crow_request_hash r = request_hash then ExistingEquivalent (crow_payload r)
               else Conflict (ce_id (ca_envelope (crow_payload r))), db)
      | None \<Rightarrow>
          and_then (validate_receipt c a) (\<lambda>_.
          and_then (ok_or (map_option fst (db_actors db (ce_actor_id (ca_envelope c))))
             (Sqlite QueryReturnedNoRows)) (\<lambda>installation.
          and_then (ok_or (db_devices db (ce_device_id (ca_envelope c)))
             (Sqlite QueryReturnedNoRows)) (\<lambda>device_installation.
          if installation \<noteq> device_installation
          then Inl (InvalidCommand ''actor and device installations differ'')
          else and_then (storage_to_i64 (ca_version c)) (\<lambda>version.
            and_then (insert_command_row db (new_command_row c installation request_hash version)) (\<lambda>db'.
            and_then (insert_audit db' installation a) (\<lambda>db''.
            Inr (Created c, db''))))))))"

section \<open>Reads\<close>

definition find_command :: "Database \<Rightarrow> uuid \<Rightarrow> CommandRow option" where
  "find_command db cid = find (\<lambda>r. crow_id r = cid) (db_commands db)"

definition load_command :: "Database \<Rightarrow> uuid \<Rightarrow> CommandAggregate option" where
  "load_command db cid = map_option crow_payload (find_command db cid)"

definition load_request_hash :: "Database \<Rightarrow> uuid \<Rightarrow> StorageError + string option" where
  "load_request_hash db cid =
     (case find_command db cid of
        None \<Rightarrow> Inr None
      | Some r \<Rightarrow> (case CanonicalRequestHash_new (crow_request_hash r) of
            Inl _ \<Rightarrow> Inl (InvalidCommand ''invalid canonical request hash'')
          | Inr h \<Rightarrow> Inr (Some h)))"

definition load_actor_commands :: "Database \<Rightarrow> uuid \<Rightarrow> nat \<Rightarrow> CommandAggregate list" where
  "load_actor_commands db actor limit =
     map crow_payload (take (max 1 (min limit MAX_QUERY_PAGE))
       (rev (sort_key (\<lambda>r. (crow_received_at r, crow_id r))
         (filter (\<lambda>r. crow_actor_id r = actor) (db_commands db)))))"

definition load_recoverable_commands :: "Database \<Rightarrow> nat \<Rightarrow> StorageError + CommandAggregate list" where
  "load_recoverable_commands db limit =
     and_then (bounded_limit limit) (\<lambda>n.
       Inr (map crow_payload (take (nat n)
         (sort_key (\<lambda>r. (crow_updated_at r, crow_id r))
           (filter (\<lambda>r. \<not> crow_terminal r) (db_commands db))))))"

definition load_command_audit ::
  "Database \<Rightarrow> uuid \<Rightarrow> nat option \<Rightarrow> nat \<Rightarrow> StorageError + CommandAuditRecord list" where
  "load_command_audit db cid after_sequence limit =
     and_then (case after_sequence of None \<Rightarrow> Inr (- 1) | Some s \<Rightarrow> storage_to_i64 s) (\<lambda>after.
     and_then (bounded_limit limit) (\<lambda>n.
       Inr (map arow_payload (take (nat n)
         (sort_key arow_sequence
           (filter (\<lambda>r. arow_command_id r = cid \<and> after < arow_sequence r) (db_audit db)))))))"

section \<open>Transition\<close>

definition validate_transition ::
  "CommandAggregate \<Rightarrow> CommandAggregate \<Rightarrow> CommandAuditRecord \<Rightarrow> StorageError + unit" where
  "validate_transition current next a =
     (if ca_envelope next \<noteq> ca_envelope current \<or>
         ca_version next \<noteq> saturating_add u64_max (ca_version current) 1
      then Inl (InvalidCommand ''immutable envelope or version changed'')
      else if \<not> CommandState_allows_transition_to (ca_state current) (ca_state next)
      then Inl (InvalidCommand ''invalid command state transition'')
      else if au_command_id a \<noteq> ce_id (ca_envelope next) \<or>
              au_actor_id a \<noteq> ce_actor_id (ca_envelope next) \<or>
              au_sequence a \<noteq> ca_version next \<or> au_from a \<noteq> Some (ca_state current) \<or>
              au_to a \<noteq> ca_state next \<or>
              au_correlation_id a \<noteq> ce_correlation_id (ca_envelope next)
      then Inl (InvalidCommand ''transition audit mismatch'')
      else if ca_state next \<in> {Dispatched, Acknowledged, Confirmed} \<and>
              \<not> (case ca_policy next of None \<Rightarrow> False | Some d \<Rightarrow> pd_allowed d)
      then Inl (InvalidCommand ''dispatchable command lacks an allowed policy decision'')
      else Inr ())"

definition update_command_row :: "CommandAggregate \<Rightarrow> int \<Rightarrow> CommandRow \<Rightarrow> CommandRow" where
  "update_command_row c version r =
     r\<lparr>crow_state := ca_state c, crow_version := version,
       crow_terminal := CommandAggregate_is_terminal c,
       crow_updated_at := ca_updated_at c, crow_payload := c\<rparr>"

definition transition_command ::
  "Database \<Rightarrow> CommandAggregate \<Rightarrow> nat \<Rightarrow> CommandAuditRecord \<Rightarrow> StorageError + Database" where
  "transition_command db c expected_version a =
     and_then (ok_or (find_command db (ce_id (ca_envelope c))) (Sqlite QueryReturnedNoRows)) (\<lambda>row.
     let current = crow_payload row in
     if ca_version current \<noteq> expected_version
     then Inl (CommandVersionConflict expected_version (ca_version current))
     else and_then (validate_transition current c a) (\<lambda>_.
       and_then (storage_to_i64 (ca_version c)) (\<lambda>version.
       and_then (storage_to_i64 expected_version) (\<lambda>expected.
         let hit = (\<lambda>r. crow_id r = ce_id (ca_envelope c) \<and> crow_version r = expected) in
         if length (filter hit (db_commands db)) \<noteq> 1
         then Inl (CommandVersionConflict expected_version (ca_version current))
         else insert_audit
           (db\<lparr>db_commands := map (\<lambda>r. if hit r then update_command_row c version r else r) (db_commands db)\<rparr>)
           (crow_installation_id row) a))))"

section \<open>Retention\<close>

definition expired_commands :: "CommandRetention \<Rightarrow> CommandRow list \<Rightarrow> CommandRow list" where
  "expired_commands p rows =
     filter (\<lambda>r. crow_installation_id r = ret_installation_id p \<and> crow_terminal r \<and>
                 crow_updated_at r < ret_terminal_before p) rows"

definition surplus_commands :: "CommandRetention \<Rightarrow> nat \<Rightarrow> CommandRow list \<Rightarrow> CommandRow list" where
  "surplus_commands p keep rows =
     drop keep (rev (sort_key (\<lambda>r. (crow_updated_at r, crow_id r))
       (filter (\<lambda>r. crow_installation_id r = ret_installation_id p \<and> crow_terminal r) rows)))"

text \<open>A deletion is refused when a Matter desired slot references one of the rows.\<close>

definition delete_commands :: "Database \<Rightarrow> CommandRow list \<Rightarrow> StorageError + Database" where
  "delete_commands db gone =
     (if list_ex (\<lambda>r. crow_id r \<in> db_desired_slots db) gone then Inl (Sqlite ConstraintViolation)
      else Inr (db\<lparr>db_commands :=
        filter (\<lambda>r. crow_id r \<notin> crow_id ` set gone) (db_commands db)\<rparr>))"

definition retain_commands ::
  "Database \<Rightarrow> CommandRetention \<Rightarrow> StorageError + (CommandRetentionResult \<times> Database)" where
  "retain_commands db p =
     (let expired = expired_commands p (db_commands db) in
      and_then (delete_commands db expired) (\<lambda>db1.
      and_then (storage_to_i64 (ret_maximum_terminal_commands p)) (\<lambda>keep.
      let surplus = surplus_commands p (nat keep) (db_commands db1) in
      and_then (delete_commands db1 surplus) (\<lambda>db2.
      let old = filter (\<lambda>r. arow_installation_id r = ret_installation_id p \<and>
                            arow_occurred_at r < ret_audit_before p) (db_audit db2);
          young = filter (\<lambda>r. \<not> (arow_installation_id r = ret_installation_id p \<and>
                                  arow_occurred_at r < ret_audit_before p)) (db_audit db2) in
      and_then (storage_to_i64 (ret_maximum_audit_records p)) (\<lambda>keep_audit.
      let surplus_audit = drop (nat keep_audit)
            (rev (sort_key (\<lambda>r. (arow_occurred_at r, arow_cursor r))
              (filter (\<lambda>r. arow_installation_id r = ret_installation_id p) young))) in
      Inr (\<lparr>ret_commands_removed = length expired + length surplus,
            ret_audit_records_removed = length old + length surplus_audit\<rparr>,
           db2\<lparr>db_audit :=
             filter (\<lambda>r. arow_cursor r \<notin> arow_cursor ` set surplus_audit) young\<rparr>))))))"

section \<open>Invariants\<close>

definition policy_allowed :: "CommandAggregate \<Rightarrow> bool" where
  "policy_allowed c \<longleftrightarrow> (case ca_policy c of None \<Rightarrow> False | Some d \<Rightarrow> pd_allowed d)"

text \<open>The columns of a row are those of its payload; the payload is a reachable aggregate.\<close>

definition row_ok :: "CommandRow \<Rightarrow> bool" where
  "row_ok r \<longleftrightarrow> (let c = crow_payload r; e = ca_envelope c in
     crow_id r = ce_id e \<and> crow_actor_id r = ce_actor_id e \<and> crow_device_id r = ce_device_id e \<and>
     crow_idempotency_key r = ce_idempotency_key e \<and> crow_received_at r = ce_received_at e \<and>
     crow_state r = ca_state c \<and> crow_version r = int (ca_version c) \<and>
     crow_terminal r = CommandAggregate_is_terminal c \<and> crow_updated_at r = ca_updated_at c \<and>
     ca_version c \<le> command_rank (ca_state c) \<and>
     (ca_state c \<in> {Dispatched, Acknowledged, Confirmed} \<longrightarrow> policy_allowed c))"

definition rows_inv :: "Database \<Rightarrow> bool" where
  "rows_inv db \<longleftrightarrow> (\<forall>r \<in> set (db_commands db). row_ok r) \<and>
     distinct (map crow_id (db_commands db)) \<and>
     distinct (map (\<lambda>r. (crow_actor_id r, crow_idempotency_key r)) (db_commands db))"

definition audit_trail :: "Database \<Rightarrow> uuid \<Rightarrow> CommandAuditRecord list" where
  "audit_trail db cid = map arow_payload (filter (\<lambda>r. arow_command_id r = cid) (db_audit db))"

text \<open>A complete trail: one record per version, linked state to state, ending where the
  command is.\<close>

definition trail_ok :: "CommandAuditRecord list \<Rightarrow> CommandAggregate \<Rightarrow> bool" where
  "trail_ok trail c \<longleftrightarrow>
     map au_sequence trail = [0..<Suc (ca_version c)] \<and>
     map au_from trail = None # map (Some \<circ> au_to) (butlast trail) \<and>
     successively CommandState_allows_transition_to (map au_to trail) \<and>
     au_to (hd trail) = Received \<and> au_to (last trail) = ca_state c"

definition chain_inv :: "Database \<Rightarrow> bool" where
  "chain_inv db \<longleftrightarrow>
     (\<forall>r \<in> set (db_commands db). trail_ok (audit_trail db (crow_id r)) (crow_payload r)) \<and>
     arow_command_id ` set (db_audit db) \<subseteq> crow_id ` set (db_commands db)"

lemma find_Some_mem: "find P xs = Some x \<Longrightarrow> x \<in> set xs \<and> P x"
  by (auto simp: find_Some_iff)

lemma find_distinct:
  assumes "distinct (map f xs)" and "x \<in> set xs"
  shows "find (\<lambda>y. f y = f x) xs = Some x"
  using assms by (induction xs) force+

lemma find_command_Some:
  assumes "distinct (map crow_id (db_commands db))"
  shows "find_command db cid = Some r \<longleftrightarrow> r \<in> set (db_commands db) \<and> crow_id r = cid"
  using find_distinct [OF assms, of r] by (auto simp: find_command_def dest: find_Some_mem)

lemma find_command_None: "find_command db cid = None \<longleftrightarrow> cid \<notin> crow_id ` set (db_commands db)"
  by (auto simp: find_command_def find_None_iff)

lemma storage_to_i64_Inr: "storage_to_i64 n = Inr i \<longleftrightarrow> i = int n \<and> n \<le> i64_max"
  by (auto simp: storage_to_i64_def try_i64_def)

lemma insert_audit_Inr:
  assumes "insert_audit db inst a = Inr db'"
  obtains row where "db' = db\<lparr>db_audit := db_audit db @ [row], db_audit_cursor := db_audit_cursor db + 1\<rparr>"
    "arow_payload row = a" "arow_command_id row = au_command_id a" "arow_cursor row = db_audit_cursor db + 1"
    "arow_installation_id row = inst" "arow_id row = au_id a" "arow_sequence row = int (au_sequence a)"
  using assms by (auto simp: insert_audit_def and_then_Inr_iff storage_to_i64_Inr split: if_splits)

lemma insert_audit_commands:
  "insert_audit db inst a = Inr db' \<Longrightarrow> db_commands db' = db_commands db \<and>
     audit_trail db' cid = audit_trail db cid @ (if au_command_id a = cid then [a] else []) \<and>
     arow_command_id ` set (db_audit db') = insert (au_command_id a) (arow_command_id ` set (db_audit db))"
  by (elim insert_audit_Inr) (auto simp: audit_trail_def)

lemma validate_receipt_Inr:
  "validate_receipt c a = Inr u \<longleftrightarrow>
     ca_state c = Received \<and> ca_version c = 0 \<and> \<not> CommandAggregate_is_terminal c \<and>
     au_command_id a = ce_id (ca_envelope c) \<and> au_actor_id a = ce_actor_id (ca_envelope c) \<and>
     au_sequence a = 0 \<and> au_from a = None \<and> au_to a = Received \<and>
     au_correlation_id a = ce_correlation_id (ca_envelope c)"
  by (simp add: validate_receipt_def)

lemma validate_transition_Inr:
  "validate_transition cur c a = Inr u \<longleftrightarrow>
     ca_envelope c = ca_envelope cur \<and> ca_version c = saturating_add u64_max (ca_version cur) 1 \<and>
     CommandState_allows_transition_to (ca_state cur) (ca_state c) \<and>
     au_command_id a = ce_id (ca_envelope c) \<and> au_actor_id a = ce_actor_id (ca_envelope c) \<and>
     au_sequence a = ca_version c \<and> au_from a = Some (ca_state cur) \<and> au_to a = ca_state c \<and>
     au_correlation_id a = ce_correlation_id (ca_envelope c) \<and>
     (ca_state c \<in> {Dispatched, Acknowledged, Confirmed} \<longrightarrow> policy_allowed c)"
  unfolding validate_transition_def guard_Inr_iff policy_allowed_def [symmetric] de_Morgan_disj
    de_Morgan_conj not_not unit_eq [of u] by (simp add: imp_conv_disj)

text \<open>The effect of a successful creation.\<close>

lemma create_command_existing:
  "find_idempotent db (ce_actor_id (ca_envelope c)) (ce_idempotency_key (ca_envelope c)) = Some r \<Longrightarrow>
     create_command db c h a = Inr (if crow_request_hash r = h then ExistingEquivalent (crow_payload r)
       else Conflict (ce_id (ca_envelope (crow_payload r))), db)"
  by (simp add: create_command_def)

lemma create_command_fresh:
  assumes "create_command db c h a = Inr (out, db')"
    and "find_idempotent db (ce_actor_id (ca_envelope c)) (ce_idempotency_key (ca_envelope c)) = None"
  obtains inst db1 where "out = Created c" "validate_receipt c a = Inr ()"
    "map_option fst (db_actors db (ce_actor_id (ca_envelope c))) = Some inst"
    "db_devices db (ce_device_id (ca_envelope c)) = Some inst"
    "insert_command_row db (new_command_row c inst h (int (ca_version c))) = Inr db1"
    "insert_audit db1 inst a = Inr db'"
proof -
  from assms obtain u inst dinst version db1 where steps:
      "validate_receipt c a = Inr u"
      "map_option fst (db_actors db (ce_actor_id (ca_envelope c))) = Some inst"
      "db_devices db (ce_device_id (ca_envelope c)) = Some dinst" "\<not> inst \<noteq> dinst"
      "storage_to_i64 (ca_version c) = Inr version"
      "insert_command_row db (new_command_row c inst h version) = Inr db1"
      "insert_audit db1 inst a = Inr db'" "out = Created c"
    unfolding create_command_def
    by (simp only: option.case result_simps sum.inject prod.inject) blast
  from steps(5) have "version = int (ca_version c)" by (simp add: storage_to_i64_Inr)
  with steps that show ?thesis by simp
qed

lemma insert_command_row_Inr:
  "insert_command_row db row = Inr db' \<longleftrightarrow>
     (\<forall>r \<in> set (db_commands db). crow_id r \<noteq> crow_id row \<and>
        (crow_actor_id r, crow_idempotency_key r) \<noteq> (crow_actor_id row, crow_idempotency_key row)) \<and>
     length (crow_request_hash row) = 64 \<and>
     crow_request_hash row = to_ascii_lowercase (crow_request_hash row) \<and>
     db' = db\<lparr>db_commands := db_commands db @ [row]\<rparr>"
  by (auto simp: insert_command_row_def list_ex_iff)

lemma create_rows_inv:
  assumes inv: "rows_inv db" and ok: "create_command db c h a = Inr (out, db')"
  shows "rows_inv db'"
proof (cases "find_idempotent db (ce_actor_id (ca_envelope c)) (ce_idempotency_key (ca_envelope c))")
  case (Some r)
  with ok inv show ?thesis by (simp add: create_command_existing)
next
  case None
  with ok obtain inst db1 where receipt: "validate_receipt c a = Inr ()"
      and row: "insert_command_row db (new_command_row c inst h (int (ca_version c))) = Inr db1"
      and audit: "insert_audit db1 inst a = Inr db'"
    by (rule create_command_fresh)
  let ?row = "new_command_row c inst h (int (ca_version c))"
  from row audit have db': "db_commands db' = db_commands db @ [?row]"
    using insert_audit_commands [of db1 inst a db'] by (simp add: insert_command_row_Inr)
  have "row_ok ?row"
    using receipt by (simp add: row_ok_def new_command_row_def Let_def validate_receipt_Inr)
  then show ?thesis
    using inv row db' unfolding rows_inv_def insert_command_row_Inr by auto
qed

lemma trail_single: "au_sequence a = 0 \<Longrightarrow> au_from a = None \<Longrightarrow> au_to a = Received \<Longrightarrow>
    ca_version c = 0 \<Longrightarrow> ca_state c = Received \<Longrightarrow> trail_ok [a] c"
  by (simp add: trail_ok_def)

lemma audit_trail_absent:
  "cid \<notin> arow_command_id ` set (db_audit db) \<Longrightarrow> audit_trail db cid = []"
  by (auto simp: audit_trail_def filter_empty_conv)

lemma create_chain_inv:
  assumes inv: "chain_inv db" and ok: "create_command db c h a = Inr (out, db')"
  shows "chain_inv db'"
proof (cases "find_idempotent db (ce_actor_id (ca_envelope c)) (ce_idempotency_key (ca_envelope c))")
  case (Some r)
  with ok inv show ?thesis by (simp add: create_command_existing)
next
  case None
  with ok obtain inst db1 where receipt: "validate_receipt c a = Inr ()"
      and ins: "insert_command_row db (new_command_row c inst h (int (ca_version c))) = Inr db1"
      and audit: "insert_audit db1 inst a = Inr db'"
    by (rule create_command_fresh)
  let ?row = "new_command_row c inst h (int (ca_version c))"
  from ins have db1: "db1 = db\<lparr>db_commands := db_commands db @ [?row]\<rparr>"
    and fresh: "\<And>r. r \<in> set (db_commands db) \<Longrightarrow> crow_id r \<noteq> crow_id ?row"
    by (auto simp: insert_command_row_Inr)
  note eff = insert_audit_commands [OF audit]
  have absent: "crow_id ?row \<notin> arow_command_id ` set (db_audit db)"
    using inv fresh unfolding chain_inv_def by force
  have a: "au_command_id a = crow_id ?row" using receipt by (simp add: validate_receipt_Inr new_command_row_def)
  have trails: "audit_trail db' cid = audit_trail db cid @ (if crow_id ?row = cid then [a] else [])" for cid
    using eff [of cid] a by (simp add: db1 audit_trail_def)
  have rows: "db_commands db' = db_commands db @ [?row]" using eff by (simp add: db1)
  have "trail_ok (audit_trail db' (crow_id r)) (crow_payload r)" if "r \<in> set (db_commands db')" for r
  proof (cases "r = ?row")
    case True
    have "trail_ok [a] c" using receipt by (simp add: validate_receipt_Inr trail_single)
    with True show ?thesis
      by (simp add: trails audit_trail_absent [OF absent]) (simp add: new_command_row_def)
  next
    case False
    with that rows have "r \<in> set (db_commands db)" by simp
    with inv fresh show ?thesis by (force simp: trails chain_inv_def)
  qed
  moreover have "arow_command_id ` set (db_audit db') \<subseteq> crow_id ` set (db_commands db')"
    using inv eff a rows unfolding chain_inv_def by (auto simp: db1)
  ultimately show ?thesis by (simp add: chain_inv_def)
qed

text \<open>The effect of a successful transition.\<close>

lemma transition_command_Inr:
  assumes "transition_command db c v a = Inr db'"
  obtains row where "find_command db (ce_id (ca_envelope c)) = Some row"
    "ca_version (crow_payload row) = v" "validate_transition (crow_payload row) c a = Inr ()"
    "ca_version c \<le> i64_max"
    "insert_audit (db\<lparr>db_commands := map (\<lambda>r. if crow_id r = ce_id (ca_envelope c) \<and> crow_version r = int v
        then update_command_row c (int (ca_version c)) r else r) (db_commands db)\<rparr>)
      (crow_installation_id row) a = Inr db'"
proof -
  from assms obtain row u i j where steps:
      "find_command db (ce_id (ca_envelope c)) = Some row"
      "\<not> ca_version (crow_payload row) \<noteq> v" "validate_transition (crow_payload row) c a = Inr u"
      "storage_to_i64 (ca_version c) = Inr i" "storage_to_i64 v = Inr j"
      "insert_audit (db\<lparr>db_commands := map (\<lambda>r. if crow_id r = ce_id (ca_envelope c) \<and> crow_version r = j
        then update_command_row c i r else r) (db_commands db)\<rparr>) (crow_installation_id row) a = Inr db'"
    unfolding transition_command_def Let_def by (simp only: result_simps) blast
  from steps(4,5) have i: "i = int (ca_version c)" and j: "j = int v" and "ca_version c \<le> i64_max"
    by (simp_all add: storage_to_i64_Inr)
  with steps(1-3) that [OF _ _ _ _ steps(6) [unfolded i j]] show ?thesis by simp
qed

lemma transition_effect:
  assumes inv: "rows_inv db" and ok: "transition_command db c v a = Inr db'"
  obtains row where "row \<in> set (db_commands db)" "crow_id row = ce_id (ca_envelope c)" "row_ok row"
    "ca_version (crow_payload row) = v" "validate_transition (crow_payload row) c a = Inr ()"
    "ca_version c = v + 1"
    "db_commands db' = map (\<lambda>r. if crow_id r = ce_id (ca_envelope c)
        then update_command_row c (int (ca_version c)) r else r) (db_commands db)"
    "\<And>cid. audit_trail db' cid = audit_trail db cid @ (if ce_id (ca_envelope c) = cid then [a] else [])"
    "arow_command_id ` set (db_audit db') = insert (ce_id (ca_envelope c)) (arow_command_id ` set (db_audit db))"
  using ok
proof (rule transition_command_Inr)
  fix row
  assume row: "find_command db (ce_id (ca_envelope c)) = Some row"
    "ca_version (crow_payload row) = v" "validate_transition (crow_payload row) c a = Inr ()"
    "ca_version c \<le> i64_max"
    and ins: "insert_audit (db\<lparr>db_commands := map (\<lambda>r. if crow_id r = ce_id (ca_envelope c) \<and>
        crow_version r = int v then update_command_row c (int (ca_version c)) r else r) (db_commands db)\<rparr>)
      (crow_installation_id row) a = Inr db'"
  from inv have dist: "distinct (map crow_id (db_commands db))" by (simp add: rows_inv_def)
  with row(1) have mem: "row \<in> set (db_commands db)" "crow_id row = ce_id (ca_envelope c)"
    by (simp_all add: find_command_Some)
  with inv have rok: "row_ok row" by (simp add: rows_inv_def)
  then have "v \<le> 4" using row(2) command_rank_le [of "ca_state (crow_payload row)"]
    by (simp add: row_ok_def Let_def)
  then have ver: "ca_version c = v + 1"
    using row(2,3) by (simp add: validate_transition_Inr saturating_add_exact)
  have same: "crow_id r = ce_id (ca_envelope c) \<and> crow_version r = int v \<longleftrightarrow> crow_id r = ce_id (ca_envelope c)"
    if "r \<in> set (db_commands db)" for r
  proof -
    have "r = row" if "crow_id r = crow_id row"
      using dist mem(1) \<open>r \<in> _\<close> that by (auto simp: distinct_map inj_on_def)
    then show ?thesis using rok row(2) mem(2) by (auto simp: row_ok_def Let_def)
  qed
  have upd: "map (\<lambda>r. if crow_id r = ce_id (ca_envelope c) \<and> crow_version r = int v
        then update_command_row c (int (ca_version c)) r else r) (db_commands db)
      = map (\<lambda>r. if crow_id r = ce_id (ca_envelope c)
        then update_command_row c (int (ca_version c)) r else r) (db_commands db)"
    using same by (auto intro!: map_cong)
  have a: "au_command_id a = ce_id (ca_envelope c)" using row(3) by (simp add: validate_transition_Inr)
  note eff = insert_audit_commands [OF ins]
  show thesis
    by (rule that [OF mem rok row(2,3) ver])
      (use eff a in \<open>simp_all add: upd audit_trail_def\<close>)
qed

lemma update_command_row_ids [simp]:
  "crow_id (update_command_row c v r) = crow_id r"
  "crow_actor_id (update_command_row c v r) = crow_actor_id r"
  "crow_idempotency_key (update_command_row c v r) = crow_idempotency_key r"
  "crow_request_hash (update_command_row c v r) = crow_request_hash r"
  "crow_installation_id (update_command_row c v r) = crow_installation_id r"
  "crow_payload (update_command_row c v r) = c"
  by (simp_all add: update_command_row_def)

lemma updated_row_ok:
  assumes "row_ok r" and "validate_transition (crow_payload r) c a = Inr ()"
    and "ca_version c = ca_version (crow_payload r) + 1"
  shows "row_ok (update_command_row c (int (ca_version c)) r)"
proof -
  have "command_rank (ca_state (crow_payload r)) < command_rank (ca_state c)"
    using assms(2) cmd.rank_increases by (simp add: validate_transition_Inr)
  with assms show ?thesis
    unfolding row_ok_def Let_def validate_transition_Inr update_command_row_def by simp
qed

lemma transition_rows_inv:
  assumes inv: "rows_inv db" and ok: "transition_command db c v a = Inr db'"
  shows "rows_inv db'"
  using assms
proof (rule transition_effect)
  fix row
  assume row: "row \<in> set (db_commands db)" "crow_id row = ce_id (ca_envelope c)" "row_ok row"
    "ca_version (crow_payload row) = v" "validate_transition (crow_payload row) c a = Inr ()"
    "ca_version c = v + 1"
    and db': "db_commands db' = map (\<lambda>r. if crow_id r = ce_id (ca_envelope c)
        then update_command_row c (int (ca_version c)) r else r) (db_commands db)"
  have unique: "r = row" if "r \<in> set (db_commands db)" "crow_id r = ce_id (ca_envelope c)" for r
    using inv that row(1,2) by (auto simp: rows_inv_def distinct_map inj_on_def)
  have ids: "map crow_id (db_commands db') = map crow_id (db_commands db)"
    "map (\<lambda>r. (crow_actor_id r, crow_idempotency_key r)) (db_commands db')
      = map (\<lambda>r. (crow_actor_id r, crow_idempotency_key r)) (db_commands db)"
    by (simp_all add: db')
  have "row_ok r'" if "r' \<in> set (db_commands db')" for r'
  proof -
    from that db' obtain r where r: "r \<in> set (db_commands db)"
        "r' = (if crow_id r = ce_id (ca_envelope c) then update_command_row c (int (ca_version c)) r else r)"
      by auto
    then show ?thesis
      using unique [of r] updated_row_ok [OF row(3,5)] row(4,6) inv by (auto simp: rows_inv_def)
  qed
  then show ?thesis using inv ids unfolding rows_inv_def by simp
qed

lemma trail_extend:
  assumes ok: "trail_ok trail cur" and tr: "validate_transition cur c a = Inr ()"
    and ver: "ca_version c = ca_version cur + 1"
  shows "trail_ok (trail @ [a]) c"
proof -
  from ok have ne: "trail \<noteq> []" by (auto simp: trail_ok_def)
  from tr have a: "au_sequence a = ca_version c" "au_from a = Some (ca_state cur)" "au_to a = ca_state c"
    and edge: "CommandState_allows_transition_to (ca_state cur) (ca_state c)"
    by (simp_all add: validate_transition_Inr)
  have froms: "map au_from (trail @ [a]) = None # map (Some \<circ> au_to) (butlast (trail @ [a]))"
  proof -
    obtain xs x where trail: "trail = xs @ [x]" using ne rev_exhaust by blast
    with ok have h: "map au_from trail = None # map (Some \<circ> au_to) xs" and "au_to x = ca_state cur"
      by (simp_all add: trail_ok_def)
    with a show ?thesis unfolding butlast_snoc map_append h by (simp add: trail)
  qed
  have "successively CommandState_allows_transition_to (map au_to (trail @ [a]))"
    using ok ne a edge by (simp add: trail_ok_def successively_append_iff last_map)
  with ok ne a ver froms show ?thesis by (simp add: trail_ok_def)
qed

lemma transition_chain_inv:
  assumes rows: "rows_inv db" and inv: "chain_inv db" and ok: "transition_command db c v a = Inr db'"
  shows "chain_inv db'"
  using rows ok
proof (rule transition_effect)
  fix row
  assume row: "row \<in> set (db_commands db)" "crow_id row = ce_id (ca_envelope c)"
    "ca_version (crow_payload row) = v" "validate_transition (crow_payload row) c a = Inr ()"
    "ca_version c = v + 1"
    and db': "db_commands db' = map (\<lambda>r. if crow_id r = ce_id (ca_envelope c)
        then update_command_row c (int (ca_version c)) r else r) (db_commands db)"
    and trails: "\<And>cid. audit_trail db' cid = audit_trail db cid @ (if ce_id (ca_envelope c) = cid then [a] else [])"
    and cids: "arow_command_id ` set (db_audit db') =
      insert (ce_id (ca_envelope c)) (arow_command_id ` set (db_audit db))"
  have "trail_ok (audit_trail db' (crow_id r')) (crow_payload r')" if "r' \<in> set (db_commands db')" for r'
  proof -
    from that db' obtain r where r: "r \<in> set (db_commands db)"
        "r' = (if crow_id r = ce_id (ca_envelope c) then update_command_row c (int (ca_version c)) r else r)"
      by auto
    have "trail_ok (audit_trail db (crow_id row)) (crow_payload row)"
      using inv row(1) by (simp add: chain_inv_def)
    then have "trail_ok (audit_trail db (crow_id row) @ [a]) c"
      using trail_extend row(3-5) by blast
    with r inv row(2) show ?thesis by (auto simp: trails chain_inv_def)
  qed
  moreover have "crow_id ` set (db_commands db') = crow_id ` set (db_commands db)"
    unfolding db' set_map image_image by (rule image_cong) simp_all
  moreover have "ce_id (ca_envelope c) \<in> crow_id ` set (db_commands db)"
    using row(1,2) by (metis imageI)
  ultimately show ?thesis
    using inv cids unfolding chain_inv_def by auto
qed

section \<open>Retention keeps active commands\<close>

lemma delete_commands_Inr:
  "delete_commands db gone = Inr db' \<longleftrightarrow>
     (\<forall>r \<in> set gone. crow_id r \<notin> db_desired_slots db) \<and>
     db' = db\<lparr>db_commands := filter (\<lambda>r. crow_id r \<notin> crow_id ` set gone) (db_commands db)\<rparr>"
  by (auto simp: delete_commands_def list_ex_iff)

lemma set_expired: "r \<in> set (expired_commands p rows) \<Longrightarrow> r \<in> set rows \<and> crow_terminal r"
  by (simp add: expired_commands_def)

lemma set_surplus: "r \<in> set (surplus_commands p k rows) \<Longrightarrow> r \<in> set rows \<and> crow_terminal r"
  using in_set_dropD [of r k] by (fastforce simp: surplus_commands_def)

lemma retain_commands_Inr:
  assumes "retain_commands db p = Inr (res, db')"
  obtains db1 db2 where
    "delete_commands db (expired_commands p (db_commands db)) = Inr db1"
    "delete_commands db1 (surplus_commands p (ret_maximum_terminal_commands p) (db_commands db1)) = Inr db2"
    "db_commands db' = db_commands db2" "db_desired_slots db' = db_desired_slots db"
proof -
  from assms obtain db1 k db2 k2 where steps:
    "delete_commands db (expired_commands p (db_commands db)) = Inr db1"
    "storage_to_i64 (ret_maximum_terminal_commands p) = Inr k"
    "delete_commands db1 (surplus_commands p (nat k) (db_commands db1)) = Inr db2"
    "db_commands db' = db_commands db2" "db_desired_slots db' = db_desired_slots db2"
    unfolding retain_commands_def Let_def by (auto simp: and_then_Inr_iff)
  moreover have "nat k = ret_maximum_terminal_commands p"
    using steps(2) by (simp add: storage_to_i64_Inr)
  ultimately show ?thesis
    using that by (auto simp: delete_commands_Inr)
qed

lemma filter_rows_inv:
  "rows_inv db \<Longrightarrow> db_commands db' = filter P (db_commands db) \<Longrightarrow> rows_inv db'"
  by (auto simp: rows_inv_def distinct_map_filter)

lemma retain_rows_inv:
  assumes inv: "rows_inv db" and ok: "retain_commands db p = Inr (res, db')"
  shows "rows_inv db'"
  using ok
proof (rule retain_commands_Inr)
  fix db1 db2
  assume 1: "delete_commands db (expired_commands p (db_commands db)) = Inr db1"
    "delete_commands db1 (surplus_commands p (ret_maximum_terminal_commands p) (db_commands db1)) = Inr db2"
    "db_commands db' = db_commands db2"
  have "rows_inv db1" using filter_rows_inv [OF inv] 1(1) by (auto simp: delete_commands_Inr)
  then show ?thesis using filter_rows_inv 1(2,3) by (fastforce simp: delete_commands_Inr)
qed

lemma retain_keeps_active:
  assumes inv: "rows_inv db" and ok: "retain_commands db p = Inr (res, db')"
    and mem: "r \<in> set (db_commands db)" and active: "\<not> crow_terminal r"
  shows "r \<in> set (db_commands db')"
  using ok
proof (rule retain_commands_Inr)
  fix db1 db2
  assume 1: "delete_commands db (expired_commands p (db_commands db)) = Inr db1"
    "delete_commands db1 (surplus_commands p (ret_maximum_terminal_commands p) (db_commands db1)) = Inr db2"
    "db_commands db' = db_commands db2"
  have uniq: "s = r" if "s \<in> set (db_commands db)" "crow_id s = crow_id r" for s
    using inv mem that by (auto simp: rows_inv_def distinct_map inj_on_def)
  have sub: "set (db_commands db1) \<subseteq> set (db_commands db)" using 1(1) by (auto simp: delete_commands_Inr)
  have keep1: "r \<in> set (db_commands db1)"
  proof -
    have "crow_id r \<notin> crow_id ` set (expired_commands p (db_commands db))"
    proof
      assume "crow_id r \<in> crow_id ` set (expired_commands p (db_commands db))"
      then obtain s where "s \<in> set (expired_commands p (db_commands db))" "crow_id s = crow_id r" by auto
      with set_expired [of s] uniq active show False by blast
    qed
    with 1(1) mem show ?thesis by (simp add: delete_commands_Inr)
  qed
  have "crow_id r \<notin> crow_id ` set (surplus_commands p (ret_maximum_terminal_commands p) (db_commands db1))"
  proof
    assume "crow_id r \<in> crow_id ` set (surplus_commands p (ret_maximum_terminal_commands p) (db_commands db1))"
    then obtain s where "s \<in> set (surplus_commands p (ret_maximum_terminal_commands p) (db_commands db1))"
      "crow_id s = crow_id r" by auto
    with set_surplus [of s] sub uniq active show False by blast
  qed
  with keep1 1(2,3) show ?thesis by (simp add: delete_commands_Inr)
qed

section \<open>Reachable databases\<close>

text \<open>Every committed write of the repository. A device row is registered by the device
  repository and its installation never changes; a desired slot is written by the Matter
  repository.\<close>

inductive db_step :: "Database \<Rightarrow> Database \<Rightarrow> bool" where
  actor: "store_actor db actor cred = Inr db' \<Longrightarrow> db_step db db'"
| grants: "replace_actor_grants db aid gs = Inr db' \<Longrightarrow> db_step db db'"
| device: "db_devices db d = None \<Longrightarrow> db_step db (db\<lparr>db_devices := (db_devices db)(d \<mapsto> inst)\<rparr>)"
| slots: "db_step db (db\<lparr>db_desired_slots := slots\<rparr>)"
| create: "create_command db c h a = Inr (out, db') \<Longrightarrow> db_step db db'"
| transition: "transition_command db c v a = Inr db' \<Longrightarrow> db_step db db'"

inductive db_step_retaining :: "Database \<Rightarrow> Database \<Rightarrow> bool" where
  durable_write: "db_step db db' \<Longrightarrow> db_step_retaining db db'"
| retain: "retain_commands db p = Inr (res, db') \<Longrightarrow> db_step_retaining db db'"

lemma store_actor_commands:
  "store_actor db actor cred = Inr db' \<Longrightarrow> db_commands db' = db_commands db \<and> db_audit db' = db_audit db"
  by (auto simp: store_actor_def split: if_splits option.splits)

lemma replace_actor_grants_commands:
  "replace_actor_grants db aid gs = Inr db' \<Longrightarrow> db_commands db' = db_commands db \<and> db_audit db' = db_audit db"
  by (auto simp: replace_actor_grants_def and_then_Inr_iff split: if_splits)

lemma inv_unchanged:
  assumes "db_commands db' = db_commands db" and "db_audit db' = db_audit db"
  shows "rows_inv db' = rows_inv db" and "chain_inv db' = chain_inv db"
  using assms by (simp_all add: rows_inv_def chain_inv_def audit_trail_def)

lemma db_step_inv: "db_step db db' \<Longrightarrow> rows_inv db \<Longrightarrow> rows_inv db' \<and> (chain_inv db \<longrightarrow> chain_inv db')"
proof (induction rule: db_step.induct)
  case (actor db actor cred db')
  then show ?case using inv_unchanged store_actor_commands by metis
next
  case (grants db aid gs db')
  then show ?case using inv_unchanged replace_actor_grants_commands by metis
next
  case (device db d inst)
  then show ?case by (simp add: rows_inv_def chain_inv_def audit_trail_def)
next
  case (slots db slots)
  then show ?case by (simp add: rows_inv_def chain_inv_def audit_trail_def)
next
  case (create db c h a out db')
  then show ?case using create_rows_inv create_chain_inv by blast
next
  case (transition db c v a db')
  then show ?case using transition_rows_inv transition_chain_inv by blast
qed

lemma invs_empty: "rows_inv Database_empty" "chain_inv Database_empty"
  by (simp_all add: rows_inv_def chain_inv_def Database_empty_def)

lemma reachable_inv:
  "db_step\<^sup>*\<^sup>* Database_empty db \<Longrightarrow> rows_inv db \<and> chain_inv db"
  by (induction rule: rtranclp_induct) (use invs_empty db_step_inv in blast)+

lemma reachable_retaining_rows_inv:
  "db_step_retaining\<^sup>*\<^sup>* Database_empty db \<Longrightarrow> rows_inv db"
proof (induction rule: rtranclp_induct)
  case (step y z)
  from step(2) show ?case
    by cases (use step.IH db_step_inv retain_rows_inv in blast)+
qed (rule invs_empty)

section \<open>The contract of a command store\<close>

text \<open>
  What a client of the store relies on: reads see the last committed write, a write touches one
  command, a transition succeeds only against the version it names and appends its audit record
  to the trail of its command.
\<close>

locale command_store =
  fixes inv :: "'db \<Rightarrow> bool"
    and load :: "'db \<Rightarrow> uuid \<Rightarrow> CommandAggregate option"
    and trail :: "'db \<Rightarrow> uuid \<Rightarrow> CommandAuditRecord list"
    and create :: "'db \<Rightarrow> CommandAggregate \<Rightarrow> string \<Rightarrow> CommandAuditRecord \<Rightarrow> 'e + (CommandCreateOutcome \<times> 'db)"
    and transition :: "'db \<Rightarrow> CommandAggregate \<Rightarrow> nat \<Rightarrow> CommandAuditRecord \<Rightarrow> 'e + 'db"
  assumes create_inv: "inv db \<Longrightarrow> create db c h a = Inr (out, db') \<Longrightarrow> inv db'"
    and transition_inv: "inv db \<Longrightarrow> transition db c v a = Inr db' \<Longrightarrow> inv db'"
    and create_created: "inv db \<Longrightarrow> create db c h a = Inr (Created c', db') \<Longrightarrow>
      c' = c \<and> load db (ce_id (ca_envelope c)) = None \<and>
      load db' = (load db)(ce_id (ca_envelope c) \<mapsto> c)"
    and create_existing: "create db c h a = Inr (out, db') \<Longrightarrow> out \<noteq> Created c \<Longrightarrow> db' = db"
    and create_trail: "create db c h a = Inr (Created c', db') \<Longrightarrow>
      trail db' = (trail db)(ce_id (ca_envelope c) := trail db (ce_id (ca_envelope c)) @ [a]) \<and>
      au_to a = Received"
    and transition_load: "inv db \<Longrightarrow> transition db c v a = Inr db' \<Longrightarrow>
      (\<exists>cur. load db (ce_id (ca_envelope c)) = Some cur \<and> ca_version cur = v \<and>
         ca_envelope c = ca_envelope cur \<and> ca_version c = v + 1 \<and>
         CommandState_allows_transition_to (ca_state cur) (ca_state c)) \<and>
      load db' = (load db)(ce_id (ca_envelope c) \<mapsto> c)"
    and transition_trail: "inv db \<Longrightarrow> transition db c v a = Inr db' \<Longrightarrow>
      trail db' = (trail db)(ce_id (ca_envelope c) := trail db (ce_id (ca_envelope c)) @ [a]) \<and>
      au_to a = ca_state c"
    and dispatched_policy: "inv db \<Longrightarrow> load db cid = Some c \<Longrightarrow>
      ca_state c \<in> {Dispatched, Acknowledged, Confirmed} \<Longrightarrow> policy_allowed c"
begin

lemma stale_writer_loses:
  assumes "inv db" and "transition db c v a = Inr db'"
    and "ce_id (ca_envelope c2) = ce_id (ca_envelope c)"
  shows "transition db' c2 v a2 \<noteq> Inr db''"
proof
  assume second: "transition db' c2 v a2 = Inr db''"
  have "load db' (ce_id (ca_envelope c)) = Some c" "ca_version c = v + 1"
    using transition_load [OF assms(1,2)] by auto
  moreover obtain cur where "load db' (ce_id (ca_envelope c2)) = Some cur" "ca_version cur = v"
    using transition_load [OF transition_inv [OF assms(1,2)] second] by blast
  ultimately show False using assms(3) by simp
qed

lemma terminal_is_final:
  assumes "inv db" and "load db cid = Some c" and "CommandState_is_terminal (ca_state c)"
    and "ce_id (ca_envelope c2) = cid"
  shows "transition db c2 v a \<noteq> Inr db'"
proof
  assume "transition db c2 v a = Inr db'"
  with transition_load [OF assms(1)] assms(2,4) have
    "CommandState_allows_transition_to (ca_state c) (ca_state c2)" by fastforce
  with cmd.terminal_stuck assms(3) show False by blast
qed

lemma transition_other: "inv db \<Longrightarrow> transition db c v a = Inr db' \<Longrightarrow>
    cid \<noteq> ce_id (ca_envelope c) \<Longrightarrow> load db' cid = load db cid \<and> trail db' cid = trail db cid"
  using transition_load transition_trail by fastforce

lemma transition_same: "inv db \<Longrightarrow> transition db c v a = Inr db' \<Longrightarrow>
    load db' (ce_id (ca_envelope c)) = Some c"
  using transition_load by fastforce

lemma create_same: "inv db \<Longrightarrow> create db c h a = Inr (Created c', db') \<Longrightarrow>
    load db' (ce_id (ca_envelope c)) = Some c"
  using create_created by fastforce

end

definition store_inv :: "Database \<Rightarrow> bool" where
  "store_inv db \<longleftrightarrow> rows_inv db \<and> chain_inv db"

lemma load_command_Some:
  "rows_inv db \<Longrightarrow> load_command db cid = Some c \<longleftrightarrow>
     (\<exists>r \<in> set (db_commands db). crow_id r = cid \<and> crow_payload r = c)"
  by (auto simp: load_command_def find_command_Some rows_inv_def)

lemma load_append:
  assumes "\<And>r. r \<in> set (db_commands db) \<Longrightarrow> crow_id r \<noteq> crow_id row"
    and "db_commands db' = db_commands db @ [row]"
  shows "load_command db' = (load_command db)(crow_id row \<mapsto> crow_payload row)"
proof -
  have "find P (xs @ [row]) = (case find P xs of None \<Rightarrow> if P row then Some row else None | Some x \<Rightarrow> Some x)"
    for P and xs :: "CommandRow list" by (induction xs) auto
  moreover have "find (\<lambda>r. crow_id r = crow_id row) (db_commands db) = None"
    using assms(1) by (auto simp: find_None_iff)
  ultimately show ?thesis
    using assms(2) by (auto simp: load_command_def find_command_def fun_eq_iff split: option.splits)
qed

lemma find_map_update:
  assumes "\<And>r. crow_id (f r) = crow_id r"
  shows "find (\<lambda>r. crow_id r = cid) (map f rows) = map_option f (find (\<lambda>r. crow_id r = cid) rows)"
  using assms by (induction rows) auto

lemma load_update:
  assumes "row \<in> set (db_commands db)" and "crow_id row = ce_id (ca_envelope c)"
    and "db_commands db' = map (\<lambda>r. if crow_id r = ce_id (ca_envelope c)
        then update_command_row c v r else r) (db_commands db)"
  shows "load_command db' = (load_command db)(ce_id (ca_envelope c) \<mapsto> c)"
proof
  fix cid
  let ?f = "\<lambda>r. if crow_id r = ce_id (ca_envelope c) then update_command_row c v r else r"
  have "find_command db' cid = map_option ?f (find_command db cid)"
    unfolding find_command_def assms(3) by (rule find_map_update) simp
  moreover have "find_command db (ce_id (ca_envelope c)) \<noteq> None"
    using assms(1,2) by (metis find_command_None imageI)
  moreover have "crow_id r = cid" if "find_command db cid = Some r" for r
    using that by (auto simp: find_command_def dest: find_Some_mem)
  ultimately show "load_command db' cid = ((load_command db)(ce_id (ca_envelope c) \<mapsto> c)) cid"
    by (cases "find_command db cid") (auto simp: load_command_def)
qed

lemma create_command_Created_find:
  "create_command db c h a = Inr (Created c', db') \<Longrightarrow>
     find_idempotent db (ce_actor_id (ca_envelope c)) (ce_idempotency_key (ca_envelope c)) = None"
  by (cases "find_idempotent db (ce_actor_id (ca_envelope c)) (ce_idempotency_key (ca_envelope c))")
    (auto simp: create_command_existing split: if_splits)

lemma create_command_load:
  assumes ok: "create_command db c h a = Inr (Created c', db')"
  shows "c' = c \<and> load_command db (ce_id (ca_envelope c)) = None \<and>
    load_command db' = (load_command db)(ce_id (ca_envelope c) \<mapsto> c) \<and>
    audit_trail db' = (audit_trail db)(ce_id (ca_envelope c) := audit_trail db (ce_id (ca_envelope c)) @ [a]) \<and>
    au_to a = Received"
proof -
  obtain inst db1 where out: "Created c' = Created c" and receipt: "validate_receipt c a = Inr ()"
      and ins: "insert_command_row db (new_command_row c inst h (int (ca_version c))) = Inr db1"
      and audit: "insert_audit db1 inst a = Inr db'"
    by (rule create_command_fresh [OF ok create_command_Created_find [OF ok]])
  let ?row = "new_command_row c inst h (int (ca_version c))"
  have row: "crow_id ?row = ce_id (ca_envelope c)" "crow_payload ?row = c"
    by (simp_all add: new_command_row_def)
  from ins have fresh: "\<And>r. r \<in> set (db_commands db) \<Longrightarrow> crow_id r \<noteq> crow_id ?row"
    and db1: "db1 = db\<lparr>db_commands := db_commands db @ [?row]\<rparr>"
    by (auto simp: insert_command_row_Inr)
  note eff = insert_audit_commands [OF audit]
  have a: "au_command_id a = ce_id (ca_envelope c)" "au_to a = Received"
    using receipt by (simp_all add: validate_receipt_Inr)
  have "load_command db' = (load_command db)(crow_id ?row \<mapsto> crow_payload ?row)"
    using eff by (intro load_append fresh) (simp_all add: db1)
  moreover have "find_command db (ce_id (ca_envelope c)) = None"
    unfolding find_command_None using fresh row(1) by force
  moreover have "audit_trail db' = (audit_trail db)(ce_id (ca_envelope c) :=
      audit_trail db (ce_id (ca_envelope c)) @ [a])"
    using eff a by (auto simp: fun_eq_iff db1 audit_trail_def)
  ultimately show ?thesis using row out a(2) by (simp add: load_command_def)
qed

lemma transition_command_load:
  assumes inv: "rows_inv db" and ok: "transition_command db c v a = Inr db'"
  shows "(\<exists>cur. load_command db (ce_id (ca_envelope c)) = Some cur \<and> ca_version cur = v \<and>
       ca_envelope c = ca_envelope cur \<and> ca_version c = v + 1 \<and>
       CommandState_allows_transition_to (ca_state cur) (ca_state c)) \<and>
    load_command db' = (load_command db)(ce_id (ca_envelope c) \<mapsto> c) \<and>
    audit_trail db' = (audit_trail db)(ce_id (ca_envelope c) := audit_trail db (ce_id (ca_envelope c)) @ [a]) \<and>
    au_to a = ca_state c"
  using assms
proof (rule transition_effect)
  fix row
  assume row: "row \<in> set (db_commands db)" "crow_id row = ce_id (ca_envelope c)"
    "ca_version (crow_payload row) = v" "validate_transition (crow_payload row) c a = Inr ()"
    "ca_version c = v + 1"
    and upd: "db_commands db' = map (\<lambda>r. if crow_id r = ce_id (ca_envelope c)
        then update_command_row c (int (ca_version c)) r else r) (db_commands db)"
    and trails: "\<And>cid. audit_trail db' cid = audit_trail db cid @ (if ce_id (ca_envelope c) = cid then [a] else [])"
  have "load_command db (ce_id (ca_envelope c)) = Some (crow_payload row)"
    using row(1,2) inv by (auto simp: load_command_Some)
  then have "\<exists>cur. load_command db (ce_id (ca_envelope c)) = Some cur \<and> ca_version cur = v \<and>
       ca_envelope c = ca_envelope cur \<and> ca_version c = v + 1 \<and>
       CommandState_allows_transition_to (ca_state cur) (ca_state c)"
    using row(3-5) by (simp add: validate_transition_Inr)
  moreover have "au_to a = ca_state c" using row(4) by (simp add: validate_transition_Inr)
  ultimately show ?thesis
    using load_update [OF row(1,2) upd] trails by (auto simp: fun_eq_iff)
qed

lemma create_command_outcome:
  "create_command db c h a = Inr (out, db') \<Longrightarrow> out \<noteq> Created c \<Longrightarrow> db' = db"
  by (cases "find_idempotent db (ce_actor_id (ca_envelope c)) (ce_idempotency_key (ca_envelope c))")
    (auto simp: create_command_existing elim: create_command_fresh)

interpretation sql: command_store store_inv load_command audit_trail create_command transition_command
proof unfold_locales
  fix db db' c h a out
  assume "store_inv db" "create_command db c h a = Inr (out, db')"
  then show "store_inv db'" using create_rows_inv create_chain_inv by (auto simp: store_inv_def)
next
  fix db db' c v a
  assume "store_inv db" "transition_command db c v a = Inr db'"
  then show "store_inv db'" using transition_rows_inv transition_chain_inv by (auto simp: store_inv_def)
next
  fix db cid c
  assume "store_inv db" "load_command db cid = Some c" "ca_state c \<in> {Dispatched, Acknowledged, Confirmed}"
  moreover from this obtain r where "r \<in> set (db_commands db)" "crow_payload r = c" "row_ok r"
    by (auto simp: store_inv_def load_command_Some rows_inv_def)
  ultimately show "policy_allowed c" unfolding row_ok_def Let_def by blast
qed (use create_command_load transition_command_load create_command_outcome in
    \<open>auto simp: store_inv_def\<close>)

section \<open>A small database\<close>

definition sample_actor :: Actor where
  "sample_actor = \<lparr>actor_id = 1, actor_installation_id = 50, actor_kind = User, actor_name = ''ada'',
     actor_enabled = True, actor_created_at = 0\<rparr>"

definition sample_grant :: ActorGrant where
  "sample_grant = \<lparr>ag_id = 70, ag_actor_id = 1, ag_actions = {Execute}, ag_scope = Device_scope 10,
     ag_maximum_risk = Comfort, ag_enabled = True\<rparr>"

text \<open>One actor with one grant and one device, and no command yet.\<close>

definition sample_db :: Database where
  "sample_db = Database_empty\<lparr>db_actors := [1 \<mapsto> (50, sample_actor)], db_grants := [sample_grant],
     db_devices := [10 \<mapsto> 50]\<rparr>"

definition sample_hash :: string where
  "sample_hash = replicate 64 (CHR ''a'')"

definition sample_audit :: "uuid \<Rightarrow> CommandAggregate \<Rightarrow> CommandState option \<Rightarrow> CommandAuditRecord" where
  "sample_audit aid c from_state =
     \<lparr>au_id = aid, au_command_id = ce_id (ca_envelope c), au_sequence = ca_version c,
      au_from = from_state, au_to = ca_state c, au_actor_id = ce_actor_id (ca_envelope c),
      au_policy = ca_policy c, au_failure = None, au_acknowledgement = None, au_confirmation = None,
      au_correlation_id = ce_correlation_id (ca_envelope c), au_causation_event_id = None,
      au_occurred_at = ca_updated_at c\<rparr>"

definition sample_received :: CommandAggregate where
  "sample_received = CommandAggregate_received (sample_envelope False)"

definition sample_cancelled :: CommandAggregate where
  "sample_cancelled = sample_received\<lparr>ca_state := Cancelled, ca_version := 1, ca_updated_at := 6\<rparr>"

definition sample_created_db :: Database where
  "sample_created_db = (case create_command sample_db sample_received sample_hash
      (sample_audit 200 sample_received None) of Inr (_, db) \<Rightarrow> db | Inl _ \<Rightarrow> sample_db)"

definition sample_cancelled_db :: Database where
  "sample_cancelled_db = (case transition_command sample_created_db sample_cancelled 0
      (sample_audit 201 sample_cancelled (Some Received)) of Inr db \<Rightarrow> db | Inl _ \<Rightarrow> sample_db)"

lemma sample_lower: "to_ascii_lowercase sample_hash = sample_hash" "length sample_hash = 64"
  by (simp_all add: sample_hash_def to_ascii_lowercase_def)

lemma sample_created:
  "create_command sample_db sample_received sample_hash (sample_audit 200 sample_received None)
     = Inr (Created sample_received, sample_created_db)"
proof -
  have "\<exists>db. create_command sample_db sample_received sample_hash (sample_audit 200 sample_received None)
     = Inr (Created sample_received, db)"
    by (simp add: create_command_def find_idempotent_def sample_db_def Database_empty_def validate_receipt_def
        sample_received_def CommandAggregate_received_def CommandAggregate_is_terminal_def sample_envelope_def
        sample_audit_def storage_to_i64_def try_i64_def insert_command_row_def insert_audit_def
        new_command_row_def sample_lower)
  then show ?thesis by (auto simp: sample_created_db_def)
qed

lemma sample_reachable: "db_step\<^sup>*\<^sup>* Database_empty sample_created_db"
proof -
  have a: "db_step Database_empty (Database_empty\<lparr>db_actors := [1 \<mapsto> (50, sample_actor)]\<rparr>)"
    by (rule db_step.actor [of _ sample_actor None])
      (simp add: store_actor_def sample_actor_def Database_empty_def)
  have g: "db_step (Database_empty\<lparr>db_actors := [1 \<mapsto> (50, sample_actor)]\<rparr>)
      (Database_empty\<lparr>db_actors := [1 \<mapsto> (50, sample_actor)], db_grants := [sample_grant]\<rparr>)"
    by (rule db_step.grants [of _ 1 "[sample_grant]"])
      (simp add: replace_actor_grants_def sample_grant_def Database_empty_def)
  have d: "db_step (Database_empty\<lparr>db_actors := [1 \<mapsto> (50, sample_actor)], db_grants := [sample_grant]\<rparr>) sample_db"
    using db_step.device [of "Database_empty\<lparr>db_actors := [1 \<mapsto> (50, sample_actor)], db_grants := [sample_grant]\<rparr>"
        10 50]
    by (simp add: sample_db_def Database_empty_def)
  have c: "db_step sample_db sample_created_db" by (rule db_step.create [OF sample_created])
  from a g d c show ?thesis
    by (meson converse_rtranclp_into_rtranclp rtranclp.rtrancl_refl)
qed

lemma sample_inv: "store_inv sample_created_db"
  using reachable_inv [OF sample_reachable] by (simp add: store_inv_def)

lemma sample_load: "load_command sample_created_db 100 = Some sample_received"
  using create_command_load [OF sample_created]
  by (simp add: sample_received_def CommandAggregate_received_def sample_envelope_def)

lemma sample_cancel:
  "transition_command sample_created_db sample_cancelled 0 (sample_audit 201 sample_cancelled (Some Received))
     = Inr sample_cancelled_db"
proof -
  have "\<exists>db. transition_command sample_created_db sample_cancelled 0
      (sample_audit 201 sample_cancelled (Some Received)) = Inr db"
    by (simp add: sample_created_db_def create_command_def find_idempotent_def sample_db_def Database_empty_def
        validate_receipt_def sample_received_def CommandAggregate_received_def CommandAggregate_is_terminal_def
        sample_envelope_def sample_audit_def storage_to_i64_def try_i64_def insert_command_row_def
        insert_audit_def new_command_row_def sample_lower sample_cancelled_def transition_command_def
        find_command_def validate_transition_def saturating_add_def Let_def)
  then show ?thesis by (auto simp: sample_cancelled_db_def)
qed

section \<open>Properties\<close>



text \<open>C21: Writers are serialised by version: when two writers read the same version of a command,
  at most one of their transitions commits; the other is refused whatever it wanted to write.\<close>

theorem concurrent_writer_refused:
  assumes "store_inv db" and "transition_command db c v a = Inr db'"
    and "ce_id (ca_envelope c2) = ce_id (ca_envelope c)"
  shows "\<exists>e. transition_command db' c2 v a2 = Inl e"
  using sql.stale_writer_loses [OF assms] by (cases "transition_command db' c2 v a2") auto

theorem concurrent_writer_refused_witness:
  "\<exists>e. transition_command sample_cancelled_db
       (sample_received\<lparr>ca_state := Rejected, ca_version := 1\<rparr>) 0
       (sample_audit 202 (sample_received\<lparr>ca_state := Rejected, ca_version := 1\<rparr>) (Some Received)) = Inl e"
  using concurrent_writer_refused [OF sample_inv sample_cancel] by (simp add: sample_cancelled_def)

text \<open>C28: Retention never removes a command that is still active: in every reachable database, a
  command whose aggregate is not terminal survives every retention policy unchanged.\<close>

theorem retention_keeps_active_commands:
  assumes "db_step_retaining\<^sup>*\<^sup>* Database_empty db" and "load_command db cid = Some c"
    and "\<not> CommandAggregate_is_terminal c" and "retain_commands db p = Inr (res, db')"
  shows "load_command db' cid = Some c"
proof -
  have rows: "rows_inv db" by (rule reachable_retaining_rows_inv [OF assms(1)])
  from rows assms(2) obtain r where r: "r \<in> set (db_commands db)" "crow_id r = cid" "crow_payload r = c"
    by (auto simp: load_command_Some)
  with rows have "row_ok r" by (simp add: rows_inv_def)
  then have "\<not> crow_terminal r" using r(3) assms(3) by (simp add: row_ok_def Let_def)
  from retain_keeps_active [OF rows assms(4) r(1) this] r show ?thesis
    using load_command_Some [OF retain_rows_inv [OF rows assms(4)]] by blast
qed

definition sample_retention :: CommandRetention where
  "sample_retention = \<lparr>ret_installation_id = 50, ret_terminal_before = 1000, ret_maximum_terminal_commands = 0,
     ret_audit_before = 0, ret_maximum_audit_records = 10\<rparr>"

lemma reachable_any: "db_step\<^sup>*\<^sup>* a b \<Longrightarrow> db_step_retaining\<^sup>*\<^sup>* a b"
  by (induction rule: rtranclp_induct) (auto intro: rtranclp.rtrancl_into_rtrancl durable_write)

theorem retention_keeps_active_commands_witness:
  "\<exists>res db'. retain_commands sample_created_db sample_retention = Inr (res, db') \<and>
     load_command db' 100 = Some sample_received"
proof -
  have cmds: "expired_commands sample_retention (db_commands sample_created_db) = []"
      "\<And>k. surplus_commands sample_retention k (db_commands sample_created_db) = []"
    by (simp_all add: sample_created_db_def create_command_def find_idempotent_def sample_db_def Database_empty_def
        validate_receipt_def sample_received_def CommandAggregate_received_def CommandAggregate_is_terminal_def
        sample_envelope_def sample_audit_def storage_to_i64_def try_i64_def insert_command_row_def
        insert_audit_def new_command_row_def sample_lower expired_commands_def surplus_commands_def)
  then obtain res db' where r: "retain_commands sample_created_db sample_retention = Inr (res, db')"
    by (simp add: retain_commands_def delete_commands_def Let_def storage_to_i64_def try_i64_def
        sample_retention_def)
  moreover have "\<not> CommandAggregate_is_terminal sample_received"
    by (simp add: sample_received_def CommandAggregate_received_def CommandAggregate_is_terminal_def
        sample_envelope_def)
  ultimately show ?thesis
    using retention_keeps_active_commands [OF reachable_any [OF sample_reachable] sample_load] by blast
qed

text \<open>C40: Retention is all or nothing against Matter desired state: as soon as one expired terminal
  command is still the current desired command of a projection, the foreign key refuses the
  deletion and the whole retention run fails with a constraint error, so nothing is retained
  away however many other commands are expired.\<close>

theorem retention_blocked_by_desired_slot:
  assumes "r \<in> set (db_commands db)" and "crow_installation_id r = ret_installation_id p"
    and "crow_terminal r" and "crow_updated_at r < ret_terminal_before p"
    and "crow_id r \<in> db_desired_slots db"
  shows "retain_commands db p = Inl (Sqlite ConstraintViolation)"
proof -
  have "r \<in> set (expired_commands p (db_commands db))"
    using assms(1-4) by (simp add: expired_commands_def)
  with assms(5) have "delete_commands db (expired_commands p (db_commands db)) = Inl (Sqlite ConstraintViolation)"
    by (auto simp: delete_commands_def list_ex_iff)
  then show ?thesis by (simp add: retain_commands_def)
qed

theorem retention_blocked_by_desired_slot_witness:
  "retain_commands (sample_cancelled_db\<lparr>db_desired_slots := {100}\<rparr>) sample_retention
     = Inl (Sqlite ConstraintViolation)"
proof -
  have "\<exists>r \<in> set (db_commands sample_cancelled_db). crow_installation_id r = 50 \<and> crow_terminal r \<and>
      crow_updated_at r < 1000 \<and> crow_id r = 100"
    by (simp add: sample_cancelled_db_def sample_created_db_def create_command_def find_idempotent_def
        sample_db_def Database_empty_def validate_receipt_def sample_received_def CommandAggregate_received_def
        CommandAggregate_is_terminal_def sample_envelope_def sample_audit_def storage_to_i64_def try_i64_def
        insert_command_row_def insert_audit_def new_command_row_def sample_lower sample_cancelled_def
        transition_command_def find_command_def validate_transition_def saturating_add_def Let_def
        update_command_row_def)
  then obtain r where "r \<in> set (db_commands sample_cancelled_db)" "crow_installation_id r = 50"
      "crow_terminal r" "crow_updated_at r < 1000" "crow_id r = 100"
    by blast
  then show ?thesis
    by (intro retention_blocked_by_desired_slot [of r]) (simp_all add: sample_retention_def)
qed

end
