(* ===== verification/Observation.thy ===== *)
theory Observation
  imports Capability
begin

text \<open>
  Capability observations with independently timestamped fields
  (\<open>homemagic-domain/src/observation.rs\<close>). The lemmas describe a merge field by field: which
  value each field holds afterwards, which names the merge reports and that a merge repeated
  is a merge done once.
\<close>

record ObservedValue =
  ov_value :: json
  ov_observed_at :: datetime

datatype ObservationSourceKind = FullStatus | Notification | Event | RefreshFallback

record ObservationSource =
  os_integration_id :: uuid
  os_kind :: ObservationSourceKind
  os_sequence :: "nat option"

record CapabilityObservation =
  co_device_id :: uuid
  co_endpoint_id :: endpoint_id
  co_capability :: CapabilityDescriptor
  co_values :: "(string, ObservedValue) btree"
  co_received_at :: datetime
  co_source :: ObservationSource

datatype ObservationMergeError = TargetMismatch

definition ObservedValue_eq :: "ObservedValue \<Rightarrow> ObservedValue \<Rightarrow> bool" where
  "ObservedValue_eq a b \<longleftrightarrow> json_eq (ov_value a) (ov_value b) \<and> ov_observed_at a = ov_observed_at b"

definition should_replace :: "ObservedValue option \<Rightarrow> ObservedValue \<Rightarrow> bool" where
  "should_replace current incoming \<longleftrightarrow>
     (case current of None \<Rightarrow> True | Some existing \<Rightarrow> ov_observed_at existing \<le> ov_observed_at incoming)"

definition value_changed :: "ObservedValue option \<Rightarrow> ObservedValue \<Rightarrow> bool" where
  "value_changed current incoming \<longleftrightarrow>
     (case current of None \<Rightarrow> True | Some existing \<Rightarrow> \<not> ObservedValue_eq existing incoming)"

text \<open>The loop over the fields of the patch: the values so far and the names pushed so far.\<close>

fun merge_fields ::
  "(string, ObservedValue) btree \<Rightarrow> string list \<Rightarrow> (string \<times> ObservedValue) list
     \<Rightarrow> (string, ObservedValue) btree \<times> string list" where
  "merge_fields vals changed [] = (vals, changed)"
| "merge_fields vals changed ((field, incoming) # rest) =
     (if should_replace (map_of vals field) incoming
      then merge_fields (btree_insert field incoming vals)
             (if value_changed (map_of vals field) incoming then changed @ [field] else changed) rest
      else merge_fields vals changed rest)"

definition CapabilityObservation_merge_partial ::
  "CapabilityObservation \<Rightarrow> CapabilityObservation
     \<Rightarrow> ObservationMergeError + (CapabilityObservation \<times> string list)" where
  "CapabilityObservation_merge_partial self patch =
     (if co_device_id self \<noteq> co_device_id patch \<or> co_endpoint_id self \<noteq> co_endpoint_id patch \<or>
         co_capability self \<noteq> co_capability patch \<or>
         os_integration_id (co_source self) \<noteq> os_integration_id (co_source patch)
      then Inl TargetMismatch
      else let (vals, changed) = merge_fields (co_values self) [] (co_values patch);
               merged = self\<lparr>co_values := vals\<rparr>
           in Inr (if changed \<noteq> []
                   then merged\<lparr>co_received_at := max (co_received_at self) (co_received_at patch),
                               co_source := co_source patch\<rparr>
                   else merged, changed))"

text \<open>The value a field holds after a merge.\<close>

definition merged_field ::
  "ObservedValue option \<Rightarrow> ObservedValue option \<Rightarrow> ObservedValue option" where
  "merged_field current incoming =
     (case incoming of None \<Rightarrow> current
      | Some v \<Rightarrow> if should_replace current v then Some v else current)"

definition observation_proper :: "(string, ObservedValue) btree \<Rightarrow> bool" where
  "observation_proper vs \<longleftrightarrow> (\<forall>(k, v) \<in> set vs. json_proper (ov_value v))"

lemma merge_fields_lookup:
  assumes "distinct (map fst patch)"
  shows "map_of (fst (merge_fields vals changed patch)) k =
    merged_field (map_of vals k) (map_of patch k)"
  using assms
proof (induction vals changed patch rule: merge_fields.induct)
  case (1 vals changed)
  then show ?case by (simp add: merged_field_def)
next
  case (2 vals changed field incoming rest)
  show ?case
  proof (cases "k = field")
    case True
    with "2.prems" have none: "map_of rest k = None" by (auto simp: map_of_eq_None_iff image_iff)
    show ?thesis
      using 2 True none by (simp add: merged_field_def)
  next
    case False
    with 2 show ?thesis by simp
  qed
qed

lemma merge_fields_changed:
  assumes "distinct (map fst patch)"
  shows "snd (merge_fields vals changed patch) = changed @
    map fst (filter (\<lambda>(k, v). should_replace (map_of vals k) v \<and> value_changed (map_of vals k) v) patch)"
  using assms
proof (induction vals changed patch rule: merge_fields.induct)
  case (2 vals changed field incoming rest)
  from "2.prems" have fresh: "\<And>k v. (k, v) \<in> set rest \<Longrightarrow> k \<noteq> field" by force
  have same: "filter (\<lambda>(k, v). should_replace (map_of (btree_insert field incoming vals) k) v
        \<and> value_changed (map_of (btree_insert field incoming vals) k) v) rest
      = filter (\<lambda>(k, v). should_replace (map_of vals k) v \<and> value_changed (map_of vals k) v) rest"
    by (rule filter_cong) (auto dest: fresh)
  show ?case using 2 same by (simp split: if_splits)
qed simp

lemma merge_fields_wf: "btree_wf vals \<Longrightarrow> btree_wf (fst (merge_fields vals changed patch))"
  by (induction vals changed patch rule: merge_fields.induct) simp_all

lemma merge_partial_Inr:
  "CapabilityObservation_merge_partial self patch = Inr (merged, changed) \<longleftrightarrow>
     co_device_id self = co_device_id patch \<and> co_endpoint_id self = co_endpoint_id patch \<and>
     co_capability self = co_capability patch \<and>
     os_integration_id (co_source self) = os_integration_id (co_source patch) \<and>
     changed = snd (merge_fields (co_values self) [] (co_values patch)) \<and>
     merged = (let m = self\<lparr>co_values := fst (merge_fields (co_values self) [] (co_values patch))\<rparr>
               in if changed \<noteq> []
                  then m\<lparr>co_received_at := max (co_received_at self) (co_received_at patch),
                         co_source := co_source patch\<rparr>
                  else m)"
  by (auto simp: CapabilityObservation_merge_partial_def Let_def split: prod.splits)

lemma ObservedValue_eq_refl: "json_proper (ov_value v) \<Longrightarrow> ObservedValue_eq v v"
  by (simp add: ObservedValue_eq_def json_eq_refl)

lemma merged_field_idem: "merged_field (merged_field c i) i = merged_field c i"
  by (auto simp: merged_field_def should_replace_def split: option.splits)

text \<open>Merging a patch twice.\<close>

lemma merge_fields_again:
  assumes "btree_wf vals" and "btree_wf patch" and "observation_proper patch"
  shows "merge_fields (fst (merge_fields vals [] patch)) [] patch
       = (fst (merge_fields vals [] patch), [])"
proof -
  let ?v = "fst (merge_fields vals [] patch)"
  have d: "distinct (map fst patch)" using assms(2) by (rule bt.distinct_keys)
  have look: "map_of ?v k = merged_field (map_of vals k) (map_of patch k)" for k
    using merge_fields_lookup [OF d] by simp
  have vs_same: "fst (merge_fields ?v [] patch) = ?v"
  proof (rule btree_ext)
    show "map_of (fst (merge_fields ?v [] patch)) = map_of ?v"
      by (rule ext) (simp add: merge_fields_lookup [OF d] merged_field_idem)
  qed (simp_all add: merge_fields_wf assms(1))
  have unchanged: "\<not> (should_replace (map_of ?v k) v \<and> value_changed (map_of ?v k) v)"
    if kv: "(k, v) \<in> set patch" for k v
  proof -
    have p: "map_of patch k = Some v" using bt.entry_lookup [OF assms(2)] kv by simp
    have "ObservedValue_eq v v"
      using kv assms(3) by (intro ObservedValue_eq_refl) (auto simp: observation_proper_def)
    then show ?thesis
      by (auto simp: look p merged_field_def should_replace_def value_changed_def split: option.splits)
  qed
  have "snd (merge_fields ?v [] patch) = []"
    using unchanged by (auto simp: merge_fields_changed [OF d] filter_empty_conv)
  with vs_same show ?thesis by (metis prod.collapse)
qed

section \<open>Properties\<close>


definition sample_observation :: "(string, ObservedValue) btree \<Rightarrow> datetime \<Rightarrow> CapabilityObservation" where
  "sample_observation vals at =
     \<lparr>co_device_id = 1, co_endpoint_id = ''relay:0'',
      co_capability = \<lparr>cd_name = ''power'', cd_version = 1, cd_risk = Observe\<rparr>,
      co_values = vals, co_received_at = at,
      co_source = \<lparr>os_integration_id = 3, os_kind = Notification, os_sequence = Some (nat at)\<rparr>\<rparr>"


text \<open>C25: Merging the same partial observation again changes nothing and reports no field, so a
  redelivered notification is harmless.\<close>

theorem merge_partial_idempotent:
  assumes "btree_wf (co_values self)" and "btree_wf (co_values patch)"
    and "observation_proper (co_values patch)"
    and "CapabilityObservation_merge_partial self patch = Inr (merged, changed)"
  shows "CapabilityObservation_merge_partial merged patch = Inr (merged, [])"
proof -
  note m = assms(4) [unfolded merge_partial_Inr Let_def]
  note again = merge_fields_again [OF assms(1-3)]
  from m have vals: "co_values merged = fst (merge_fields (co_values self) [] (co_values patch))"
    and same: "co_device_id merged = co_device_id patch" "co_endpoint_id merged = co_endpoint_id patch"
      "co_capability merged = co_capability patch"
      "os_integration_id (co_source merged) = os_integration_id (co_source patch)"
    by (auto split: if_splits)
  then show ?thesis
    by (simp add: CapabilityObservation_merge_partial_def again Let_def)
qed

theorem merge_partial_idempotent_witness:
  "\<exists>merged changed.
     CapabilityObservation_merge_partial (sample_observation [] 10)
       (sample_observation [(''a'', \<lparr>ov_value = JBool False, ov_observed_at = 6\<rparr>)] 12) = Inr (merged, changed) \<and>
     changed = [''a''] \<and>
     CapabilityObservation_merge_partial merged
       (sample_observation [(''a'', \<lparr>ov_value = JBool False, ov_observed_at = 6\<rparr>)] 12) = Inr (merged, [])"
proof -
  let ?patch = "sample_observation [(''a'', \<lparr>ov_value = JBool False, ov_observed_at = 6\<rparr>)] 12"
  obtain merged where m: "CapabilityObservation_merge_partial (sample_observation [] 10) ?patch
      = Inr (merged, [''a''])"
    by (simp add: CapabilityObservation_merge_partial_def sample_observation_def should_replace_def
        value_changed_def)
  then show ?thesis
    using merge_partial_idempotent [OF _ _ _ m]
    by (simp add: sample_observation_def btree_wf_def observation_proper_def)
qed

end
