(* ===== verification/Automation_Domain.thy ===== *)
theory Automation_Domain
  imports Command_Domain
begin

text \<open>
  The versioned automation contract (\<open>homemagic-domain/src/automation.rs\<close>): authored documents,
  resolved plans, resource budgets, the persisted lifecycles of versions, identities, runs,
  occurrences, timers and approvals, and the records a durable run keeps.
\<close>

section \<open>Limits, versions and hashes\<close>

definition MAX_AUTOMATION_DOCUMENT_BYTES :: nat where "MAX_AUTOMATION_DOCUMENT_BYTES = 256 * 1024"
definition MAX_AUTOMATION_PLAN_NODES :: nat where "MAX_AUTOMATION_PLAN_NODES = 2048"
definition MAX_AUTOMATION_NESTING_DEPTH :: nat where "MAX_AUTOMATION_NESTING_DEPTH = 32"
definition MAX_AUTOMATION_PARALLEL_WIDTH :: nat where "MAX_AUTOMATION_PARALLEL_WIDTH = 32"
definition MAX_AUTOMATION_QUEUE_LENGTH :: nat where "MAX_AUTOMATION_QUEUE_LENGTH = 1024"
definition MAX_AUTOMATION_RETRIES :: nat where "MAX_AUTOMATION_RETRIES = 16"
definition MAX_AUTOMATION_TIMER_MILLIS :: nat where
  "MAX_AUTOMATION_TIMER_MILLIS = 365 * 24 * 60 * 60 * 1000"
definition MAX_AUTOMATION_RUN_MILLIS :: nat where
  "MAX_AUTOMATION_RUN_MILLIS = 365 * 24 * 60 * 60 * 1000"
definition MAX_AUTOMATION_TRACE_STEPS :: nat where "MAX_AUTOMATION_TRACE_STEPS = 100000"

datatype AutomationDocumentSchema = Document_V1
datatype AutomationPlanSchema = Plan_V1

definition AutomationVersion_new :: "nat \<Rightarrow> unit + nat" where
  "AutomationVersion_new v = (if v = 0 then Inl () else Inr v)"

definition AutomationVersion_next :: "nat \<Rightarrow> unit + nat" where
  "AutomationVersion_next v = ok_or (checked_add u64_max v 1) ()"

definition AutomationContentHash_new :: "string \<Rightarrow> unit + string" where
  "AutomationContentHash_new v =
     (if length v = 64 \<and>
         list_all (\<lambda>c. is_ascii_digit c \<or> (97 \<le> (of_char c :: nat) \<and> (of_char c :: nat) \<le> 102)) v
      then Inr v else Inl ())"

section \<open>Authored documents\<close>

record AutomationProvenance =
  prov_author_id :: uuid
  prov_agent_id :: "string option"
  prov_source_request :: string
  prov_rationale :: string

datatype AutomationDeviceReference =
    Device_ref uuid
  | Alias_ref string
  | Space_ref uuid

record AutomationTargetReference =
  tr_device :: AutomationDeviceReference
  tr_endpoint_id :: "endpoint_id option"
  tr_capability :: string

datatype AutomationValueType =
    T_Null | T_Boolean | T_Integer | T_Decimal | T_String | T_Timestamp | T_DurationMillis

datatype AutomationValue =
    V_Null
  | V_Boolean bool
  | V_Integer int
  | V_Decimal string
  | V_String string
  | V_Timestamp datetime
  | V_DurationMillis nat

fun AutomationValue_value_type :: "AutomationValue \<Rightarrow> AutomationValueType" where
  "AutomationValue_value_type V_Null = T_Null"
| "AutomationValue_value_type (V_Boolean _) = T_Boolean"
| "AutomationValue_value_type (V_Integer _) = T_Integer"
| "AutomationValue_value_type (V_Decimal _) = T_Decimal"
| "AutomationValue_value_type (V_String _) = T_String"
| "AutomationValue_value_type (V_Timestamp _) = T_Timestamp"
| "AutomationValue_value_type (V_DurationMillis _) = T_DurationMillis"

record AutomationVariableDefinition =
  vd_value_type :: AutomationValueType
  vd_initial :: "AutomationValue option"

datatype AutomationExpression =
    E_Literal AutomationValue
  | E_Variable string
  | E_Observation AutomationTargetReference string

datatype AutomationComparison =
    Equal | NotEqual | LessThan | LessThanOrEqual | GreaterThan | GreaterThanOrEqual

datatype AutomationCondition =
    C_Literal bool
  | C_Compare AutomationExpression AutomationComparison AutomationExpression
  | C_All "AutomationCondition list"
  | C_Any "AutomationCondition list"
  | C_Not AutomationCondition
  | C_TimeWindow string string string
  | C_StateDuration AutomationCondition nat

record AutomationSchedule =
  sc_cron :: string
  sc_timezone :: string
  sc_occurrence_window_ms :: nat

datatype AutomationTrigger =
    Trigger_ObservationChanged AutomationTargetReference "string option"
  | Trigger_DeviceEvent AutomationTargetReference string
  | Trigger_Schedule AutomationSchedule
  | Trigger_CommandOutcome "AutomationTargetReference option" "CommandState set"

record AutomationRetryPolicy =
  rp_maximum_retries :: nat
  rp_backoff_ms :: nat
  rp_retryable_command_errors :: "CommandErrorCode list"

datatype AutomationAction =
    A_Command AutomationTargetReference CommandPayload AutomationRetryPolicy AutomationFailurePolicy
  | A_Delay nat
  | A_Wait AutomationCondition nat AutomationFailurePolicy
  | A_SetVariable string AutomationExpression
  | A_Sequence "AutomationAction list"
  | A_If AutomationCondition "AutomationAction list" "AutomationAction list"
  | A_Parallel "AutomationAction list list" nat
  | A_Race "AutomationAction list list" nat
and AutomationFailurePolicy =
    F_StopRun
  | F_StopBranch
  | F_Continue
  | F_Fallback "AutomationAction list"

datatype AutomationRunMode = Single | Restart | Queued nat | Parallel_mode nat

datatype AutomationSelfTriggerPolicy = SuppressSameVersion | SuppressSameCorrelation | Allow

record AutomationResourceBudget =
  rb_maximum_nodes :: nat
  rb_maximum_nesting_depth :: nat
  rb_maximum_parallel_width :: nat
  rb_maximum_queue_length :: nat
  rb_maximum_trace_steps :: nat
  rb_maximum_run_duration_ms :: nat

definition AutomationResourceBudget_default :: AutomationResourceBudget where
  "AutomationResourceBudget_default =
     \<lparr>rb_maximum_nodes = 512, rb_maximum_nesting_depth = 16, rb_maximum_parallel_width = 8,
      rb_maximum_queue_length = 128, rb_maximum_trace_steps = 10000,
      rb_maximum_run_duration_ms = 7 * 24 * 60 * 60 * 1000\<rparr>"

datatype AutomationResourceBudgetError =
    MaximumNodes | MaximumNestingDepth | MaximumParallelWidth | MaximumQueueLength
  | MaximumTraceSteps | MaximumRunDuration

definition AutomationResourceBudget_validate ::
  "AutomationResourceBudget \<Rightarrow> AutomationResourceBudgetError + unit" where
  "AutomationResourceBudget_validate b =
     (if rb_maximum_nodes b = 0 \<or> MAX_AUTOMATION_PLAN_NODES < rb_maximum_nodes b
      then Inl MaximumNodes
      else if rb_maximum_nesting_depth b = 0 \<or>
              MAX_AUTOMATION_NESTING_DEPTH < rb_maximum_nesting_depth b
      then Inl MaximumNestingDepth
      else if rb_maximum_parallel_width b = 0 \<or>
              MAX_AUTOMATION_PARALLEL_WIDTH < rb_maximum_parallel_width b
      then Inl MaximumParallelWidth
      else if rb_maximum_queue_length b = 0 \<or>
              MAX_AUTOMATION_QUEUE_LENGTH < rb_maximum_queue_length b
      then Inl MaximumQueueLength
      else if rb_maximum_trace_steps b = 0 \<or>
              MAX_AUTOMATION_TRACE_STEPS < rb_maximum_trace_steps b
      then Inl MaximumTraceSteps
      else if rb_maximum_run_duration_ms b = 0 \<or>
              MAX_AUTOMATION_RUN_MILLIS < rb_maximum_run_duration_ms b
      then Inl MaximumRunDuration
      else Inr ())"

record AutomationDocument =
  doc_schema :: AutomationDocumentSchema
  doc_id :: uuid
  doc_version :: nat
  doc_name :: string
  doc_provenance :: AutomationProvenance
  doc_variables :: "(string, AutomationVariableDefinition) btree"
  doc_triggers :: "AutomationTrigger list"
  doc_condition :: "AutomationCondition option"
  doc_actions :: "AutomationAction list"
  doc_run_mode :: AutomationRunMode
  doc_self_trigger :: AutomationSelfTriggerPolicy
  doc_budget :: AutomationResourceBudget
  doc_created_at :: datetime

section \<open>Resolved plans\<close>

datatype AutomationSafetyProfile =
    Profile_Comfort | ComfortMotion | Profile_AccessControl | FlowControl | Profile_Security

datatype AutomationSafetyRequirement =
    FreshState | Calibration | StopSupport | Position_requirement | Presence | ExplicitApproval

datatype AutomationApprovalRequirement = ActivationGrant | ExplicitUserApproval

type_synonym node_id = nat

record ResolvedAutomationTarget =
  rt_device_id :: uuid
  rt_endpoint_id :: endpoint_id
  rt_capability :: string

datatype ResolvedAutomationExpression =
    R_Literal AutomationValue
  | R_Variable string
  | R_Observation "ResolvedAutomationTarget list" string

datatype ResolvedAutomationCondition =
    RC_Literal bool
  | RC_Compare ResolvedAutomationExpression AutomationComparison ResolvedAutomationExpression
  | RC_All "ResolvedAutomationCondition list"
  | RC_Any "ResolvedAutomationCondition list"
  | RC_Not ResolvedAutomationCondition
  | RC_TimeWindow string string string
  | RC_StateDuration ResolvedAutomationCondition nat

datatype ResolvedAutomationTrigger =
    RT_ObservationChanged "ResolvedAutomationTarget list" "string option"
  | RT_DeviceEvent "ResolvedAutomationTarget list" string
  | RT_Schedule AutomationSchedule
  | RT_CommandOutcome "ResolvedAutomationTarget list option" "CommandState set"

datatype AutomationPlanFailurePolicy =
    PF_StopRun
  | PF_StopBranch
  | PF_Continue
  | PF_Fallback "node_id option"

datatype AutomationPlanNodeKind =
    N_Command (n_targets: "ResolvedAutomationTarget list") CommandPayload nat AutomationRetryPolicy
      AutomationPlanFailurePolicy "node_id option"
  | N_Delay nat "node_id option"
  | N_Wait ResolvedAutomationCondition nat AutomationPlanFailurePolicy "node_id option"
  | N_SetVariable string ResolvedAutomationExpression "node_id option"
  | N_Branch ResolvedAutomationCondition "node_id option" "node_id option" "node_id option"
  | N_Parallel "node_id list" nat "node_id option"
  | N_Race "node_id list" nat "node_id option"
  | N_Join "node_id option"
  | N_Complete

record AutomationPlanNode =
  pn_id :: node_id
  pn_order :: nat
  pn_kind :: AutomationPlanNodeKind

record AutomationExecutionPlan =
  pl_schema :: AutomationPlanSchema
  pl_automation_id :: uuid
  pl_automation_version :: nat
  pl_document_hash :: string
  pl_plan_hash :: string
  pl_registry_revision :: nat
  pl_variables :: "(string, AutomationVariableDefinition) btree"
  pl_triggers :: "ResolvedAutomationTrigger list"
  pl_condition :: "ResolvedAutomationCondition option"
  pl_run_mode :: AutomationRunMode
  pl_self_trigger :: AutomationSelfTriggerPolicy
  pl_entry :: node_id
  pl_nodes :: "AutomationPlanNode list"
  pl_safety_profiles :: "AutomationSafetyProfile set"
  pl_safety_requirements :: "AutomationSafetyRequirement set"
  pl_approval :: AutomationApprovalRequirement
  pl_budget :: AutomationResourceBudget

datatype AutomationValidationCode =
    UnsupportedSchema_code | DocumentTooLarge | RequiredValueMissing | ReferenceMissing
  | ReferenceAmbiguous | ReferenceStale | CapabilityIncompatible | TypeMismatch_code
  | CycleDetected | ImpossibleBranch | ResourceBoundExceeded | InvalidSchedule | InvalidDecimal
  | SafetyConstraintUnavailable

record AutomationValidationError =
  ve_code :: AutomationValidationCode
  ve_path :: string
  ve_reason :: string
  ve_remediation :: "string option"
  ve_reference :: "string option"

section \<open>Persisted lifecycles\<close>

datatype AutomationVersionState =
    Version_Draft | Version_Validated | Version_Simulated | Version_AwaitingApproval
  | Version_Ready | Version_Rejected | Version_Retired

fun AutomationVersionState_allows :: "AutomationVersionState \<Rightarrow> AutomationVersionState \<Rightarrow> bool" where
  "AutomationVersionState_allows Version_Draft next = (next \<in> {Version_Validated, Version_Retired})"
| "AutomationVersionState_allows Version_Validated next = (next \<in> {Version_Simulated, Version_Retired})"
| "AutomationVersionState_allows Version_Simulated next =
     (next \<in> {Version_AwaitingApproval, Version_Ready, Version_Retired})"
| "AutomationVersionState_allows Version_AwaitingApproval next =
     (next \<in> {Version_Ready, Version_Rejected, Version_Retired})"
| "AutomationVersionState_allows Version_Ready next = (next = Version_Retired)"
| "AutomationVersionState_allows Version_Rejected next = (next = Version_Retired)"
| "AutomationVersionState_allows Version_Retired next = False"

datatype AutomationOperationalState =
    Operational_Inactive | Operational_Active | Operational_Disabled | Operational_Retired

fun AutomationOperationalState_allows ::
  "AutomationOperationalState \<Rightarrow> AutomationOperationalState \<Rightarrow> bool" where
  "AutomationOperationalState_allows Operational_Inactive next =
     (next \<in> {Operational_Active, Operational_Retired})"
| "AutomationOperationalState_allows Operational_Disabled next =
     (next \<in> {Operational_Active, Operational_Retired})"
| "AutomationOperationalState_allows Operational_Active next =
     (next \<in> {Operational_Disabled, Operational_Retired})"
| "AutomationOperationalState_allows Operational_Retired next = False"

datatype AutomationRunState =
    Run_Pending | Run_Running | Run_Waiting | Run_Completed | Run_Failed | Run_Cancelled
  | Run_Suppressed

definition AutomationRunState_is_terminal :: "AutomationRunState \<Rightarrow> bool" where
  "AutomationRunState_is_terminal s \<longleftrightarrow>
     s \<in> {Run_Completed, Run_Failed, Run_Cancelled, Run_Suppressed}"

fun AutomationRunState_allows :: "AutomationRunState \<Rightarrow> AutomationRunState \<Rightarrow> bool" where
  "AutomationRunState_allows Run_Pending next = (next \<in> {Run_Running, Run_Cancelled, Run_Suppressed})"
| "AutomationRunState_allows Run_Running next =
     (next \<in> {Run_Waiting, Run_Completed, Run_Failed, Run_Cancelled})"
| "AutomationRunState_allows Run_Waiting next = (next \<in> {Run_Running, Run_Failed, Run_Cancelled})"
| "AutomationRunState_allows _ next = False"

definition AutomationRunState_allows_revision_to :: "AutomationRunState \<Rightarrow> AutomationRunState \<Rightarrow> bool" where
  "AutomationRunState_allows_revision_to s next \<longleftrightarrow>
     (s = next \<and> \<not> AutomationRunState_is_terminal s) \<or> AutomationRunState_allows s next"

datatype AutomationOccurrenceState =
    Occurrence_Scheduled | Occurrence_Accepted | Occurrence_MissedSkipped | Occurrence_Suppressed

definition AutomationOccurrenceState_allows ::
  "AutomationOccurrenceState \<Rightarrow> AutomationOccurrenceState \<Rightarrow> bool" where
  "AutomationOccurrenceState_allows s next \<longleftrightarrow> s = Occurrence_Scheduled \<and>
     next \<in> {Occurrence_Accepted, Occurrence_MissedSkipped, Occurrence_Suppressed}"

datatype AutomationTimerState = Timer_Pending | Timer_Ready | Timer_Consumed | Timer_Cancelled

fun AutomationTimerState_allows :: "AutomationTimerState \<Rightarrow> AutomationTimerState \<Rightarrow> bool" where
  "AutomationTimerState_allows Timer_Pending next = (next \<in> {Timer_Ready, Timer_Cancelled})"
| "AutomationTimerState_allows Timer_Ready next = (next \<in> {Timer_Consumed, Timer_Cancelled})"
| "AutomationTimerState_allows _ next = False"

datatype AutomationTimerKind =
    Timer_Delay | Timer_WaitTimeout | Timer_CommandRetry | Timer_StateDuration

fun AutomationTimerKind_scope_key :: "AutomationTimerKind \<Rightarrow> string" where
  "AutomationTimerKind_scope_key Timer_Delay = ''delay''"
| "AutomationTimerKind_scope_key Timer_WaitTimeout = ''wait_timeout''"
| "AutomationTimerKind_scope_key Timer_CommandRetry = ''command_retry''"
| "AutomationTimerKind_scope_key Timer_StateDuration = ''state_duration''"

datatype AutomationApprovalState =
    Approval_NotRequired | Approval_Pending | Approval_Approved | Approval_Rejected

definition AutomationApprovalState_allows ::
  "AutomationApprovalState \<Rightarrow> AutomationApprovalState \<Rightarrow> bool" where
  "AutomationApprovalState_allows s next \<longleftrightarrow>
     s = Approval_Pending \<and> next \<in> {Approval_Approved, Approval_Rejected}"

datatype AutomationStateMachine =
    Machine_Version | Machine_Operational | Machine_Run | Machine_Occurrence | Machine_Timer
  | Machine_Approval

section \<open>Durable execution records\<close>

record AutomationApprovalRecord =
  apr_id :: uuid
  apr_automation_id :: uuid
  apr_version :: nat
  apr_document_hash :: string
  apr_plan_hash :: string
  apr_actor_id :: uuid
  apr_state :: AutomationApprovalState
  apr_rationale :: "string option"
  apr_decided_at :: datetime

record AutomationCatchUp =
  cu_missed_occurrence_id :: uuid
  cu_requested_by :: uuid
  cu_idempotency_key :: string
  cu_requested_at :: datetime

record AutomationOccurrence =
  occ_id :: uuid
  occ_automation_id :: uuid
  occ_version :: nat
  occ_occurred_at :: datetime
  occ_window_ends_at :: datetime
  occ_state :: AutomationOccurrenceState
  occ_event_cursor :: "nat option"
  occ_correlation_id :: uuid
  occ_causation_event_id :: "uuid option"
  occ_catch_up :: "AutomationCatchUp option"

datatype AutomationConditionDurationPhase = Duration_Pending | Duration_Mature

record AutomationConditionDuration =
  cdu_node_id :: node_id
  cdu_condition_hash :: string
  cdu_duration_ms :: nat
  cdu_ready_at :: datetime
  cdu_timer_id :: uuid
  cdu_phase :: AutomationConditionDurationPhase

datatype AutomationCommandAttemptPhase = AwaitingOutcome | Backoff | Attempt_Dispatch

record AutomationCommandAttempt =
  cat_node_id :: node_id
  cat_attempt :: nat
  cat_target_indices :: "nat list"
  cat_command_ids :: "uuid list"
  cat_phase :: AutomationCommandAttemptPhase
  cat_retry_ready_at :: "datetime option"

datatype AutomationRunContinuationKind = Continuation_Parallel | Continuation_Race

record AutomationRunContinuation =
  ct_group_node_id :: node_id
  ct_kind :: AutomationRunContinuationKind
  ct_join_node_id :: node_id
  ct_remaining_branches :: "node_id list"
  ct_current_branch_failed :: bool
  ct_maximum_parallel :: nat

record AutomationRun =
  run_id :: uuid
  run_automation_id :: uuid
  run_version :: nat
  run_occurrence_id :: uuid
  run_actor_id :: uuid
  run_state :: AutomationRunState
  run_revision :: nat
  run_node_id :: "node_id option"
  run_variables :: "(string, AutomationValue) btree"
  run_command_ids :: "uuid list"
  run_command_attempt :: "AutomationCommandAttempt option"
  run_condition_durations :: "AutomationConditionDuration list"
  run_continuations :: "AutomationRunContinuation list"
  run_correlation_id :: uuid
  run_causation_event_id :: "uuid option"
  run_created_at :: datetime
  run_updated_at :: datetime

record AutomationTimer =
  tm_id :: uuid
  tm_run_id :: uuid
  tm_node_id :: node_id
  tm_kind :: AutomationTimerKind
  tm_ready_at :: datetime
  tm_state :: AutomationTimerState

datatype AutomationTraceKind =
    Trace_Trigger | Trace_Condition | Trace_Branch | Trace_Reduction | Trace_Command
  | Trace_Timer | Trace_Variable | Trace_Suppression | Trace_Outcome

record AutomationTraceStep =
  ts_id :: uuid
  ts_run_id :: uuid
  ts_sequence :: nat
  ts_node_id :: "node_id option"
  ts_kind :: AutomationTraceKind
  ts_details :: "(string, AutomationValue) btree"
  ts_occurred_at :: datetime
  ts_correlation_id :: uuid
  ts_causation_event_id :: "uuid option"

section \<open>Lifecycle lemmas\<close>

fun version_rank :: "AutomationVersionState \<Rightarrow> nat" where
  "version_rank Version_Draft = 0"
| "version_rank Version_Validated = 1"
| "version_rank Version_Simulated = 2"
| "version_rank Version_AwaitingApproval = 3"
| "version_rank Version_Ready = 4"
| "version_rank Version_Rejected = 4"
| "version_rank Version_Retired = 5"

interpretation version: ranked_machine "\<lambda>s. s = Version_Retired" AutomationVersionState_allows version_rank
proof unfold_locales
  show "AutomationVersionState_allows s t \<Longrightarrow> version_rank s < version_rank t" for s t
    by (cases s) auto
qed auto

interpretation operational: lifecycle_machine "\<lambda>s. s = Operational_Retired" AutomationOperationalState_allows
  by unfold_locales auto

interpretation run: lifecycle_machine AutomationRunState_is_terminal AutomationRunState_allows
  by unfold_locales (auto simp: AutomationRunState_is_terminal_def)

interpretation revision: lifecycle_machine AutomationRunState_is_terminal AutomationRunState_allows_revision_to
  by unfold_locales (auto simp: AutomationRunState_is_terminal_def AutomationRunState_allows_revision_to_def)

fun timer_rank :: "AutomationTimerState \<Rightarrow> nat" where
  "timer_rank Timer_Pending = 0"
| "timer_rank Timer_Ready = 1"
| "timer_rank _ = 2"

interpretation timer: ranked_machine "\<lambda>s. s \<in> {Timer_Consumed, Timer_Cancelled}"
  AutomationTimerState_allows timer_rank
proof unfold_locales
  show "AutomationTimerState_allows s t \<Longrightarrow> timer_rank s < timer_rank t" for s t
    by (cases s) auto
qed auto

interpretation occurrence: ranked_machine "\<lambda>s. s \<noteq> Occurrence_Scheduled" AutomationOccurrenceState_allows
  "\<lambda>s. if s = Occurrence_Scheduled then 0 else 1"
  by unfold_locales (auto simp: AutomationOccurrenceState_allows_def)

interpretation approval: ranked_machine "\<lambda>s. s \<noteq> Approval_Pending" AutomationApprovalState_allows
  "\<lambda>s. if s = Approval_Pending then 0 else 1"
  by unfold_locales (auto simp: AutomationApprovalState_allows_def)

text \<open>No run is stuck: a run that is not terminal can always be cancelled.\<close>

lemma run_cancellable: "\<not> AutomationRunState_is_terminal s \<Longrightarrow> AutomationRunState_allows s Run_Cancelled"
  by (cases s) (auto simp: AutomationRunState_is_terminal_def)

lemma version_ready_path:
  "AutomationVersionState_allows\<^sup>*\<^sup>* Version_Draft Version_Ready"
proof -
  have "AutomationVersionState_allows Version_Draft Version_Validated"
    "AutomationVersionState_allows Version_Validated Version_Simulated"
    "AutomationVersionState_allows Version_Simulated Version_Ready" by simp_all
  then show ?thesis by (meson converse_rtranclp_into_rtranclp rtranclp.rtrancl_refl)
qed

text \<open>What a version passed through before it became ready.\<close>

lemma ready_was_simulated:
  assumes "AutomationVersionState_allows\<^sup>*\<^sup>* s Version_Ready" and "version_rank s \<le> 2"
  shows "AutomationVersionState_allows\<^sup>*\<^sup>* s Version_Simulated"
  using assms
proof (induction rule: converse_rtranclp_induct)
  case (step s u)
  show ?case
  proof (cases "s = Version_Simulated")
    case False
    with step.hyps(1) step.prems have "version_rank u \<le> 2 \<or> u = Version_Retired"
      by (cases s) auto
    moreover have "u \<noteq> Version_Retired"
      using step.hyps(2) version.terminal_absorbing [of u Version_Ready] by auto
    ultimately show ?thesis using step.IH step.hyps(1) by (meson converse_rtranclp_into_rtranclp)
  qed simp
qed simp

section \<open>Properties\<close>



end
