(* ===== verification/Foundation.thy ===== *)
theory Foundation
  imports Observation Automation_Domain
begin

text \<open>
  The durable device foundation: installation configuration
  (\<open>homemagic-domain/src/configuration.rs\<close>), domain events (\<open>homemagic-domain/src/event.rs\<close>, with
  the operation enumerations of \<open>matter/operation.rs\<close> they mention) and the projection and write
  set the application exchanges with its repository (\<open>homemagic-application/src/ports.rs\<close>).
\<close>

section \<open>Configuration\<close>

record Installation =
  inst_id :: uuid
  inst_name :: string
  inst_created_at :: datetime

record IntegrationInstance =
  ii_id :: uuid
  ii_installation_id :: uuid
  ii_adapter :: string
  ii_instance_key :: string
  ii_name :: string
  ii_credential_ref :: "string option"

record Space =
  sp_id :: uuid
  sp_installation_id :: uuid
  sp_parent_id :: "uuid option"
  sp_name :: string
  sp_aliases :: "string set"

section \<open>Events\<close>

datatype MatterOperationKind =
    CreateFabric | CommissionNode | CancelCommissioning | RemoveNode | ExportFabric | RestoreFabric
  | RepairSubscription

datatype MatterOperationPhase =
    Phase_Requested | CreatingFabric | ValidatingSetup | Discovering | EstablishingSession
  | Commissioning | Projecting | Subscribing | Cancelling | RemovingNode | CleaningSecrets
  | Exporting | Restoring | LoadingFabric | ReadingGap | Phase_Completed | Phase_Cancelled
  | Phase_Failed | Phase_RepairRequired

definition MatterOperationPhase_is_terminal :: "MatterOperationPhase \<Rightarrow> bool" where
  "MatterOperationPhase_is_terminal p \<longleftrightarrow>
     p \<in> {Phase_Completed, Phase_Cancelled, Phase_Failed, Phase_RepairRequired}"

datatype MatterOperationTransitionEventSchema = Operation_event_V1

record CausationMetadata =
  cm_correlation_id :: uuid
  cm_causation_event_id :: "uuid option"
  cm_actor :: "string option"
  cm_automation :: "AutomationCausation option"

datatype DomainEventKind =
    LifecycleChanged DeviceLifecycle DeviceLifecycle LifecycleTrigger
  | AvailabilityChanged AvailabilityState AvailabilityState "string option"
  | ObservationChanged endpoint_id CapabilityDescriptor "string list"
  | DeviceEvent endpoint_id string
  | RepairChanged uuid
  | MetadataChanged "string list"
  | CommandTransitioned uuid "CommandState option" CommandState nat "endpoint_id option" "string option"
  | MatterOperationTransitioned MatterOperationTransitionEventSchema uuid MatterOperationKind
      "MatterOperationPhase option" MatterOperationPhase nat
  | AutomationVersionTransitioned uuid nat "AutomationVersionState option" AutomationVersionState
  | AutomationOperationalTransitioned uuid "nat option" AutomationOperationalState
      AutomationOperationalState nat
  | AutomationRunTransitioned uuid nat uuid "AutomationRunState option" AutomationRunState nat

record DomainEvent =
  de_id :: uuid
  de_device_id :: "uuid option"
  de_occurred_at :: datetime
  de_causation :: CausationMetadata
  de_kind :: DomainEventKind

section \<open>Projection and writes\<close>

record FoundationSnapshot =
  fs_installations :: "Installation list"
  fs_integrations :: "IntegrationInstance list"
  fs_spaces :: "Space list"
  fs_devices :: "DeviceRecord list"
  fs_observations :: "CapabilityObservation list"
  fs_repairs :: "RepairRecord list"
  fs_event_cursor :: "nat option"

record FoundationWrite =
  fw_installations :: "Installation list"
  fw_integrations :: "IntegrationInstance list"
  fw_spaces :: "Space list"
  fw_devices :: "DeviceRecord list"
  fw_observations :: "CapabilityObservation list"
  fw_events :: "DomainEvent list"
  fw_repairs :: "RepairRecord list"

record CursorEvent =
  cev_cursor :: nat
  cev_event :: DomainEvent

record EventPage =
  ep_earliest_cursor :: "nat option"
  ep_latest_cursor :: "nat option"
  ep_events :: "CursorEvent list"

end
