(* ===== verification/Identity.thy ===== *)
theory Identity
  imports HM_Prelude
begin

text \<open>
  Derived identities (\<open>homemagic-domain/src/identity.rs\<close>): every identity that must survive a
  restart is a version 5 UUID of a textual key in a namespace of its own. The hash
  (\<open>Uuid::new_v5\<close>) and the text of a UUID are parameters; what the program owns is the key.
\<close>

type_synonym uuid_v5 = "uuid \<Rightarrow> string \<Rightarrow> uuid"
type_synonym uuid_text = "uuid \<Rightarrow> string"

section \<open>Namespaces\<close>

definition DEVICE_NAMESPACE :: uuid where "DEVICE_NAMESPACE = 0x91d041aa328c5ba1aaf6e11681a10cc9"
definition INTEGRATION_NAMESPACE :: uuid where "INTEGRATION_NAMESPACE = 0xa75ddbe00bd85ed49ff23af9a4d6eb65"
definition REPAIR_NAMESPACE :: uuid where "REPAIR_NAMESPACE = 0x36bf970260d45a68aaf78a85276b693b"
definition AUTOMATION_TRACE_NAMESPACE :: uuid where "AUTOMATION_TRACE_NAMESPACE = 0x6af5981c13175fb7aa737a667c987fc1"
definition AUTOMATION_OCCURRENCE_NAMESPACE :: uuid where
  "AUTOMATION_OCCURRENCE_NAMESPACE = 0x0797c1342a9558729f84ef690fb6b8aa"
definition AUTOMATION_RUN_NAMESPACE :: uuid where "AUTOMATION_RUN_NAMESPACE = 0x4956eaca1fa9597d921977cbd73eeaf5"
definition AUTOMATION_TIMER_NAMESPACE :: uuid where "AUTOMATION_TIMER_NAMESPACE = 0x6a52b56801745c089f45b9c0ee6d8bc5"
definition CORRELATION_NAMESPACE :: uuid where "CORRELATION_NAMESPACE = 0xb5b55d91a4a05411afb29ec2d2546032"
definition MATTER_PROJECTION_NAMESPACE :: uuid where
  "MATTER_PROJECTION_NAMESPACE = 0x889a276a0df85d0a9daf3399d2246948"
definition MATTER_SUBSCRIPTION_NAMESPACE :: uuid where
  "MATTER_SUBSCRIPTION_NAMESPACE = 0xa3dc597014c95c2e9d682bd55080aa50"
definition MATTER_CONTROLLER_EVENT_NAMESPACE :: uuid where
  "MATTER_CONTROLLER_EVENT_NAMESPACE = 0x01dd63a7126955ee8b87f84dfda84477"
definition MATTER_FABRIC_NAMESPACE :: uuid where "MATTER_FABRIC_NAMESPACE = 0xc5fac01d30255b0eb2b18f689b937fb4"
definition LEGACY_INSTALLATION :: uuid where "LEGACY_INSTALLATION = 0xc776218dd3775a5eb6a79384dc1cda37"

section \<open>Keys and derivations\<close>

text \<open>A key is its parts joined by colons.\<close>

fun colon_key :: "string list \<Rightarrow> string" where
  "colon_key [] = []"
| "colon_key [p] = p"
| "colon_key (p # q # ps) = p @ '':'' @ colon_key (q # ps)"

definition show_int :: "int \<Rightarrow> string" where
  "show_int i = (if i < 0 then ''-'' @ show_nat (nat (- i)) else show_nat (nat i))"

definition IntegrationId_from_native :: "uuid_v5 \<Rightarrow> uuid_text \<Rightarrow> uuid \<Rightarrow> string \<Rightarrow> string \<Rightarrow> uuid" where
  "IntegrationId_from_native v5 uuid_str installation adapter instance_key =
     v5 INTEGRATION_NAMESPACE (colon_key [uuid_str installation, adapter, instance_key])"

definition IntegrationId_legacy :: "uuid_v5 \<Rightarrow> uuid_text \<Rightarrow> string \<Rightarrow> uuid" where
  "IntegrationId_legacy v5 uuid_str adapter = IntegrationId_from_native v5 uuid_str LEGACY_INSTALLATION adapter ''default''"

definition AutomationOccurrenceId_from_key :: "uuid_v5 \<Rightarrow> uuid_text \<Rightarrow> uuid \<Rightarrow> nat \<Rightarrow> string \<Rightarrow> uuid" where
  "AutomationOccurrenceId_from_key v5 uuid_str automation version source_key =
     v5 AUTOMATION_OCCURRENCE_NAMESPACE (colon_key [uuid_str automation, show_nat version, source_key])"

definition AutomationRunId_from_occurrence :: "uuid_v5 \<Rightarrow> uuid_text \<Rightarrow> uuid \<Rightarrow> uuid" where
  "AutomationRunId_from_occurrence v5 uuid_str occurrence = v5 AUTOMATION_RUN_NAMESPACE (uuid_str occurrence)"

definition AutomationTimerId_from_scoped_key :: "uuid_v5 \<Rightarrow> uuid_text \<Rightarrow> uuid \<Rightarrow> nat \<Rightarrow> string \<Rightarrow> int \<Rightarrow> uuid" where
  "AutomationTimerId_from_scoped_key v5 uuid_str run node scope ready_at_millis =
     v5 AUTOMATION_TIMER_NAMESPACE (colon_key [uuid_str run, show_nat node, scope, show_int ready_at_millis])"

definition AutomationTimerId_from_key :: "uuid_v5 \<Rightarrow> uuid_text \<Rightarrow> uuid \<Rightarrow> nat \<Rightarrow> int \<Rightarrow> uuid" where
  "AutomationTimerId_from_key v5 uuid_str run node ready_at_millis =
     AutomationTimerId_from_scoped_key v5 uuid_str run node ''generic'' ready_at_millis"

definition AutomationTraceId_from_run_sequence :: "uuid_v5 \<Rightarrow> uuid_text \<Rightarrow> uuid \<Rightarrow> nat \<Rightarrow> uuid" where
  "AutomationTraceId_from_run_sequence v5 uuid_str run seq =
     v5 AUTOMATION_TRACE_NAMESPACE (colon_key [uuid_str run, show_nat seq])"

definition MatterFabricId_from_installation :: "uuid_v5 \<Rightarrow> uuid_text \<Rightarrow> uuid \<Rightarrow> uuid" where
  "MatterFabricId_from_installation v5 uuid_str installation = v5 MATTER_FABRIC_NAMESPACE (uuid_str installation)"

definition MatterControllerEventId_from_sequence :: "uuid_v5 \<Rightarrow> uuid_text \<Rightarrow> uuid \<Rightarrow> nat \<Rightarrow> uuid" where
  "MatterControllerEventId_from_sequence v5 uuid_str fabric seq =
     v5 MATTER_CONTROLLER_EVENT_NAMESPACE (colon_key [uuid_str fabric, show_nat seq])"

definition MatterProjectionId_from_key ::
  "uuid_v5 \<Rightarrow> uuid_text \<Rightarrow> uuid \<Rightarrow> nat \<Rightarrow> nat \<Rightarrow> string \<Rightarrow> nat \<Rightarrow> uuid" where
  "MatterProjectionId_from_key v5 uuid_str fabric node endpoint rule version =
     v5 MATTER_PROJECTION_NAMESPACE
       (colon_key [uuid_str fabric, show_nat node, show_nat endpoint, rule, show_nat version])"

definition MatterSubscriptionId_from_node :: "uuid_v5 \<Rightarrow> uuid_text \<Rightarrow> uuid \<Rightarrow> nat \<Rightarrow> uuid" where
  "MatterSubscriptionId_from_node v5 uuid_str fabric node =
     v5 MATTER_SUBSCRIPTION_NAMESPACE (colon_key [uuid_str fabric, show_nat node])"

definition DeviceId_from_integration :: "uuid_v5 \<Rightarrow> uuid_text \<Rightarrow> uuid \<Rightarrow> string \<Rightarrow> uuid" where
  "DeviceId_from_integration v5 uuid_str integration native_id =
     v5 DEVICE_NAMESPACE (colon_key [uuid_str integration, native_id])"

definition DeviceId_from_native :: "uuid_v5 \<Rightarrow> uuid_text \<Rightarrow> string \<Rightarrow> string \<Rightarrow> uuid" where
  "DeviceId_from_native v5 uuid_str integration native_id =
     DeviceId_from_integration v5 uuid_str (IntegrationId_legacy v5 uuid_str integration) native_id"

definition RepairId_from_condition :: "uuid_v5 \<Rightarrow> uuid_text \<Rightarrow> uuid \<Rightarrow> string \<Rightarrow> uuid" where
  "RepairId_from_condition v5 uuid_str device condition = v5 REPAIR_NAMESPACE (colon_key [uuid_str device, condition])"

definition CorrelationId_from_key :: "uuid_v5 \<Rightarrow> string \<Rightarrow> uuid" where
  "CorrelationId_from_key v5 key = v5 CORRELATION_NAMESPACE key"

section \<open>Printed numbers\<close>

fun digits_value :: "nat \<Rightarrow> string \<Rightarrow> nat" where
  "digits_value acc [] = acc"
| "digits_value acc (c # cs) = digits_value (10 * acc + (of_char c - 48)) cs"

lemma digits_value_append: "digits_value acc (s @ t) = digits_value (digits_value acc s) t"
  by (induction s arbitrary: acc) simp_all

lemma of_char_digit: "n < 10 \<Longrightarrow> of_char (char_of (48 + n) :: char) = (48 + n :: nat)"
  by (simp add: take_bit_eq_mod)

text \<open>Reading back a printed number returns it.\<close>

lemma digits_of_show_nat: "digits_value 0 (show_nat n) = n"
proof (induction n rule: show_nat.induct)
  case (1 n)
  show ?case
  proof (cases "n < 10")
    case True
    then show ?thesis by (simp add: of_char_digit)
  next
    case False
    have "n mod 10 < 10" by simp
    with 1 [OF False] False show ?thesis
      by (subst show_nat.simps) (simp add: digits_value_append of_char_digit)
  qed
qed

lemma show_nat_inject [simp]: "show_nat m = show_nat n \<longleftrightarrow> m = n"
  using digits_of_show_nat by metis

lemma show_nat_digits: "list_all is_ascii_digit (show_nat n)"
proof (induction n rule: show_nat.induct)
  case (1 n)
  have digit: "is_ascii_digit (char_of (48 + d))" if "d < 10" for d :: nat
    using that by (simp add: is_ascii_digit_def of_char_digit)
  show ?case using 1 digit [of "n mod 10"] digit [of n] by (subst show_nat.simps) simp
qed

lemma digits_no_char: "list_all is_ascii_digit s \<Longrightarrow> \<not> is_ascii_digit c \<Longrightarrow> c \<notin> set s"
  by (auto simp: list_all_iff)

lemma not_digits [simp]: "\<not> is_ascii_digit (CHR '':'')" "\<not> is_ascii_digit (CHR ''-'')"
  by (simp_all add: is_ascii_digit_def)

lemma show_nat_plain [simp]: "CHR '':'' \<notin> set (show_nat n)" "CHR ''-'' \<notin> set (show_nat n)"
  using digits_no_char [OF show_nat_digits] by simp_all

lemma show_int_plain [simp]: "CHR '':'' \<notin> set (show_int i)"
  by (simp add: show_int_def)

lemma show_int_inject [simp]: "show_int i = show_int j \<longleftrightarrow> i = j"
proof -
  have "show_nat n \<noteq> CHR ''-'' # s" "CHR ''-'' # s \<noteq> show_nat n" for n s
    using show_nat_plain(2) [of n] by (metis list.set_intros(1))+
  then show ?thesis by (auto simp: show_int_def)
qed

section \<open>Keys are unambiguous\<close>

lemma split_first:
  "d \<notin> set a \<Longrightarrow> d \<notin> set b \<Longrightarrow> a @ d # s = b @ d # t \<longleftrightarrow> a = b \<and> s = t"
  by (induction a arbitrary: b) (case_tac b; auto)+

lemma split_last:
  "d \<notin> set s \<Longrightarrow> d \<notin> set t \<Longrightarrow> a @ d # s = b @ d # t \<longleftrightarrow> a = b \<and> s = t"
  using split_first [of d "rev s" "rev t" "rev a" "rev b"]
  by (metis append.assoc append_Cons append_Nil rev.simps(2) rev_append rev_rev_ident set_rev)

locale uuid_printing =
  fixes uuid_str :: uuid_text
  assumes show_inject: "uuid_str u = uuid_str v \<longleftrightarrow> u = v"
    and show_plain: "CHR '':'' \<notin> set (uuid_str u)"
begin

lemma key2: "colon_key [uuid_str u, s] = colon_key [uuid_str v, t] \<longleftrightarrow> u = v \<and> s = t"
  by (simp add: split_first show_plain show_inject)

lemma key3: "CHR '':'' \<notin> set a \<Longrightarrow> CHR '':'' \<notin> set b \<Longrightarrow>
    colon_key [uuid_str u, a, s] = colon_key [uuid_str v, b, t] \<longleftrightarrow> u = v \<and> a = b \<and> s = t"
  by (simp add: split_first show_plain show_inject)

lemma timer_key: "colon_key [uuid_str u, show_nat m, s, show_int i] = colon_key [uuid_str v, show_nat n, t, show_int j] \<longleftrightarrow>
    u = v \<and> m = n \<and> s = t \<and> i = j"
  by (simp add: split_first split_last show_plain show_inject)

lemma projection_key:
  "colon_key [uuid_str u, show_nat m, show_nat e, s, show_nat i] = colon_key [uuid_str v, show_nat n, show_nat f, t, show_nat j] \<longleftrightarrow>
    u = v \<and> m = n \<and> e = f \<and> s = t \<and> i = j"
  by (simp add: split_first split_last show_plain show_inject)

end

section \<open>Properties\<close>

text \<open>The printed form of the sample library of the development.\<close>

interpretation plain: uuid_printing show_nat
  by unfold_locales simp_all


text \<open>A collision-free stand-in for the name hash: the key read as a number in base 257.\<close>

fun number_of_text :: "string \<Rightarrow> nat" where
  "number_of_text [] = 0"
| "number_of_text (c # cs) = Suc (of_char c) + 257 * number_of_text cs"

lemma base_digits: "a < 256 \<Longrightarrow> b < 256 \<Longrightarrow> Suc a + 257 * m = Suc b + 257 * n \<longleftrightarrow> a = b \<and> m = (n::nat)"
proof
  assume less: "a < 256" "b < 256" and eq: "Suc a + 257 * m = Suc b + 257 * n"
  have "(Suc a + 257 * m) mod 257 = Suc a" "(Suc b + 257 * n) mod 257 = Suc b"
    using less by (simp_all only: mod_mult_self2) simp_all
  with eq have "Suc a = Suc b" by metis
  with eq show "a = b \<and> m = n" by simp
qed simp

lemma number_of_text_inject [simp]: "number_of_text s = number_of_text t \<longleftrightarrow> s = t"
proof (induction s arbitrary: t)
  case Nil
  then show ?case by (cases t) auto
next
  case (Cons c cs)
  show ?case
  proof (cases t)
    case (Cons d ds)
    show ?thesis using base_digits [of "of_char c" "of_char d"] Cons Cons.IH by (simp del: add_Suc)
  qed auto
qed


end
