(* ===== verification/Reconciliation.thy ===== *)
theory Reconciliation
  imports Foundation Identity
begin

text \<open>
  Reconciliation of discovered candidates with the known devices
  (\<open>homemagic-application/src/reconciliation.rs\<close>). The random identifiers of events, repairs and
  the correlation come from a supply; its position is part of the state. Ordered maps are sorted
  association lists; the index by native identity is only read and extended and is a map.
\<close>

section \<open>Errors and state\<close>

text \<open>The invariant errors keep their cause where the source keeps its printed form.\<close>

datatype InvariantCause =
    Cause_text string
  | Cause_timestamp TimestampError
  | Cause_lifecycle LifecycleTransitionError

record IdSupply =
  sup_fresh :: "nat \<Rightarrow> uuid"
  sup_v5 :: uuid_v5
  sup_text :: uuid_text

record ReconciliationOutcome =
  ro_devices :: "DeviceRecord list"
  ro_events :: "DomainEvent list"
  ro_repairs :: "RepairRecord list"
  ro_accepted :: nat

record Reconciling =
  rc_records :: "(uuid, DeviceRecord) btree"
  rc_native_index :: "uuid \<times> string \<rightharpoonup> uuid"
  rc_changed :: "(uuid, DeviceRecord) btree"
  rc_events :: "DomainEvent list"
  rc_repairs :: "RepairRecord list"
  rc_accepted :: nat
  rc_next :: nat

section \<open>Events and repairs\<close>

definition device_event :: "uuid \<Rightarrow> DeviceRecord \<Rightarrow> CausationMetadata \<Rightarrow> DomainEventKind \<Rightarrow> DomainEvent" where
  "device_event eid r causation kind =
     \<lparr>de_id = eid, de_device_id = Some (ds_id (dr_snapshot r)), de_occurred_at = ds_observed_at (dr_snapshot r),
      de_causation = causation, de_kind = kind\<rparr>"

definition lifecycle_event ::
  "uuid \<Rightarrow> DeviceRecord \<Rightarrow> DeviceLifecycle \<Rightarrow> LifecycleTrigger \<Rightarrow> CausationMetadata \<Rightarrow> DomainEvent" where
  "lifecycle_event eid r from_state trigger causation =
     device_event eid r causation (LifecycleChanged from_state (dr_lifecycle r) trigger)"

definition availability_event :: "uuid \<Rightarrow> DeviceRecord \<Rightarrow> AvailabilityState \<Rightarrow> CausationMetadata \<Rightarrow> DomainEvent" where
  "availability_event eid r from_state causation =
     device_event eid r causation (AvailabilityChanged from_state (av_state (dr_availability r)) (av_reason (dr_availability r)))"

definition identity_collision :: "uuid \<Rightarrow> DiscoveryCandidate \<Rightarrow> uuid \<Rightarrow> RepairRecord" where
  "identity_collision rid c conflicting =
     RepairRecord_new rid (Some conflicting)
       (IdentityCollision (dc_integration_id c) (ds_native_id (dc_snapshot c)) [conflicting, ds_id (dc_snapshot c)])
       ''Integration-native identity collision requires operator review'' (dc_discovered_at c)"

section \<open>One candidate\<close>

definition record_timestamps :: "DeviceRecord \<Rightarrow> TimestampError + DeviceTimestamps \<Rightarrow> InvariantCause + DeviceRecord" where
  "record_timestamps r result = (case result of Inl e \<Rightarrow> Inl (Cause_timestamp e) | Inr t \<Rightarrow> Inr (r\<lparr>dr_timestamps := t\<rparr>))"

definition record_transition :: "DeviceRecord \<Rightarrow> LifecycleTrigger \<Rightarrow> InvariantCause + DeviceRecord" where
  "record_transition r trigger =
     (case DeviceRecord_transition r trigger of Inl e \<Rightarrow> Inl (Cause_lifecycle e) | Inr r' \<Rightarrow> Inr r')"

definition rediscovery_trigger :: "DeviceRecord \<Rightarrow> LifecycleTrigger" where
  "rediscovery_trigger r = (if dr_lifecycle r = Candidate then Enroll else Rediscover)"

definition bring_online :: "DeviceRecord \<Rightarrow> DeviceRecord" where
  "bring_online r = r\<lparr>dr_availability :=
     Availability_transition (dr_availability r) Online (ds_observed_at (dr_snapshot r)) None\<rparr>"

text \<open>The updated record, the events it adds and the next unused identifier.\<close>

definition update_record ::
  "IdSupply \<Rightarrow> DeviceRecord \<Rightarrow> DiscoveryCandidate \<Rightarrow> CausationMetadata \<Rightarrow> nat \<Rightarrow>
   InvariantCause + DeviceRecord \<times> DomainEvent list \<times> nat" where
  "update_record ids r c causation n =
     (let r1 = DeviceRecord_replace_snapshot r (dc_snapshot c) in
      and_then (record_timestamps r1 (DeviceTimestamps_record_seen (dr_timestamps r1) (dc_discovered_at c))) (\<lambda>r2.
      and_then (record_timestamps r2
          (DeviceTimestamps_record_success (dr_timestamps r2) (ds_observed_at (dr_snapshot r2)))) (\<lambda>r3.
      and_then (if dr_lifecycle r3 \<noteq> Enrolled
          then and_then (record_transition r3 (rediscovery_trigger r3)) (\<lambda>r4.
               Inr (r4, [lifecycle_event (sup_fresh ids n) r4 (dr_lifecycle r) (rediscovery_trigger r3) causation], n + 1))
          else Inr (r3, [], n)) (\<lambda>(r4, events, n').
      let r5 = bring_online r4
      in Inr (if av_state (dr_availability r) \<noteq> av_state (dr_availability r5)
           then (r5, events @ [availability_event (sup_fresh ids n') r5 (av_state (dr_availability r)) causation], n' + 1)
           else (r5, events, n'))))))"

definition enroll_candidate ::
  "IdSupply \<Rightarrow> DiscoveryCandidate \<Rightarrow> CausationMetadata \<Rightarrow> nat \<Rightarrow> InvariantCause + DeviceRecord \<times> DomainEvent list \<times> nat" where
  "enroll_candidate ids c causation n =
     (let first_seen = min (dc_discovered_at c) (ds_observed_at (dc_snapshot c));
          r0 = DeviceRecord_candidate (dc_installation_id c) (dc_integration_id c) (dc_snapshot c) first_seen
      in and_then (record_transition r0 Enroll) (\<lambda>r1.
         and_then (record_timestamps r1
             (DeviceTimestamps_record_success (dr_timestamps r1) (ds_observed_at (dr_snapshot r1)))) (\<lambda>r2.
         let r3 = bring_online r2
         in Inr (r3, [lifecycle_event (sup_fresh ids n) r3 Candidate Enroll causation,
                      availability_event (sup_fresh ids (n + 1)) r3 AvailabilityState.Unknown causation], n + 2))))"

definition accept_record :: "DeviceRecord \<Rightarrow> DomainEvent list \<Rightarrow> nat \<Rightarrow> bool \<Rightarrow> Reconciling \<Rightarrow> Reconciling" where
  "accept_record r events n is_changed st =
     st\<lparr>rc_records := btree_insert (ds_id (dr_snapshot r)) r (rc_records st),
        rc_changed := (if is_changed then btree_insert (ds_id (dr_snapshot r)) r (rc_changed st) else rc_changed st),
        rc_events := rc_events st @ events, rc_accepted := rc_accepted st + 1, rc_next := n\<rparr>"

definition report_collision :: "IdSupply \<Rightarrow> DiscoveryCandidate \<Rightarrow> uuid \<Rightarrow> Reconciling \<Rightarrow> Reconciling" where
  "report_collision ids c conflicting st =
     st\<lparr>rc_repairs := rc_repairs st @ [identity_collision (sup_fresh ids (rc_next st)) c conflicting], rc_next := rc_next st + 1\<rparr>"

definition reconcile_candidate ::
  "IdSupply \<Rightarrow> CausationMetadata \<Rightarrow> DiscoveryCandidate \<Rightarrow> Reconciling \<Rightarrow> InvariantCause + Reconciling" where
  "reconcile_candidate ids causation c st0 =
     (let st = st0\<lparr>rc_repairs := rc_repairs st0 @ dc_repairs c\<rparr>;
          expected = DeviceId_from_integration (sup_v5 ids) (sup_text ids) (dc_integration_id c) (ds_native_id (dc_snapshot c));
          native_key = (dc_integration_id c, ds_native_id (dc_snapshot c))
      in if ds_id (dc_snapshot c) \<noteq> expected then Inr (report_collision ids c expected st)
         else case rc_native_index st native_key of
           Some i \<Rightarrow>
             (case map_of (rc_records st) i of
                None \<Rightarrow> Inl (Cause_text ''native index referenced a missing device'')
              | Some r \<Rightarrow>
                  if ds_id (dr_snapshot r) \<noteq> ds_id (dc_snapshot c)
                  then Inr (report_collision ids c (ds_id (dr_snapshot r)) st)
                  else and_then (update_record ids r c causation (rc_next st)) (\<lambda>(r', events, n).
                       Inr (accept_record r' events n (\<not> DeviceRecord_eq r' r) st)))
         | None \<Rightarrow>
             and_then (enroll_candidate ids c causation (rc_next st)) (\<lambda>(r', events, n).
             Inr (accept_record r' events n True
               (st\<lparr>rc_native_index := (rc_native_index st)(native_key \<mapsto> ds_id (dr_snapshot r'))\<rparr>))))"

fun reconcile_all ::
  "IdSupply \<Rightarrow> CausationMetadata \<Rightarrow> DiscoveryCandidate list \<Rightarrow> Reconciling \<Rightarrow> InvariantCause + Reconciling" where
  "reconcile_all ids causation [] st = Inr st"
| "reconcile_all ids causation (c # cs) st =
     and_then (reconcile_candidate ids causation c st) (reconcile_all ids causation cs)"

section \<open>Reconciliation\<close>

definition system_causation :: "uuid \<Rightarrow> string \<Rightarrow> CausationMetadata" where
  "system_causation correlation actor =
     \<lparr>cm_correlation_id = correlation, cm_causation_event_id = None, cm_actor = Some actor, cm_automation = None\<rparr>"

definition native_index :: "(uuid, DeviceRecord) btree \<Rightarrow> uuid \<times> string \<rightharpoonup> uuid" where
  "native_index records =
     map_of (rev (map (\<lambda>(_, r). ((dr_integration_id r, ds_native_id (dr_snapshot r)), ds_id (dr_snapshot r))) records))"

definition initial_reconciling :: "DeviceRecord list \<Rightarrow> nat \<Rightarrow> Reconciling" where
  "initial_reconciling existing n =
     (let records = btree_of_list (map (\<lambda>r. (ds_id (dr_snapshot r), r)) existing)
      in \<lparr>rc_records = records, rc_native_index = native_index records, rc_changed = [], rc_events = [], rc_repairs = [],
          rc_accepted = 0, rc_next = n\<rparr>)"

definition reconcile ::
  "IdSupply \<Rightarrow> DeviceRecord list \<Rightarrow> DiscoveryCandidate list \<Rightarrow> nat \<Rightarrow> InvariantCause + ReconciliationOutcome \<times> nat" where
  "reconcile ids existing candidates n =
     and_then (reconcile_all ids (system_causation (sup_fresh ids n) ''system:discovery'') candidates
         (initial_reconciling existing (n + 1))) (\<lambda>st.
     Inr (\<lparr>ro_devices = map snd (rc_changed st), ro_events = rc_events st, ro_repairs = rc_repairs st,
           ro_accepted = rc_accepted st\<rparr>, rc_next st))"

section \<open>Updates of one record\<close>

text \<open>What rediscovery keeps of a known device.\<close>

definition same_device :: "DeviceRecord \<Rightarrow> DeviceRecord \<Rightarrow> bool" where
  "same_device r r' \<longleftrightarrow> ds_id (dr_snapshot r') = ds_id (dr_snapshot r) \<and> dr_installation_id r' = dr_installation_id r \<and>
     dr_integration_id r' = dr_integration_id r \<and> dr_aliases r' = dr_aliases r \<and> dr_spaces r' = dr_spaces r \<and>
     ts_first_seen (dr_timestamps r') = ts_first_seen (dr_timestamps r)"

definition in_service :: "DeviceRecord \<Rightarrow> bool" where
  "in_service r \<longleftrightarrow> dr_lifecycle r = Enrolled \<and> av_state (dr_availability r) = Online"

lemma same_device_refl [simp]: "same_device r r"
  by (simp add: same_device_def)

lemma same_device_trans: "same_device a b \<Longrightarrow> same_device b c \<Longrightarrow> same_device a c"
  by (simp add: same_device_def)

lemma Availability_transition_sel [simp]:
  "av_state (Availability_transition a st at reason) = st" "av_reason (Availability_transition a st at reason) = reason"
  by (simp_all add: Availability_transition_def)

lemma bring_online_sel [simp]:
  "dr_snapshot (bring_online r) = dr_snapshot r" "dr_lifecycle (bring_online r) = dr_lifecycle r"
  "dr_timestamps (bring_online r) = dr_timestamps r" "dr_aliases (bring_online r) = dr_aliases r"
  "dr_spaces (bring_online r) = dr_spaces r" "dr_integration_id (bring_online r) = dr_integration_id r"
  "dr_installation_id (bring_online r) = dr_installation_id r" "av_state (dr_availability (bring_online r)) = Online"
  "av_reason (dr_availability (bring_online r)) = None"
  by (simp_all add: bring_online_def Availability_transition_def)

lemma rediscovery_enrolls:
  "dr_lifecycle r \<noteq> Enrolled \<Longrightarrow> record_transition r (rediscovery_trigger r) = Inr (r\<lparr>dr_lifecycle := Enrolled\<rparr>)"
  by (cases "dr_lifecycle r") (simp_all add: record_transition_def DeviceRecord_transition_def rediscovery_trigger_def)

lemma timestamps_triv: "u\<lparr>ts_last_seen := ts_last_seen u\<rparr> = (u :: DeviceTimestamps)"
    "u\<lparr>ts_last_success := ts_last_success u\<rparr> = (u :: DeviceTimestamps)"
  by (cases u; simp)+

lemma record_seen_iff:
  "DeviceTimestamps_record_seen t at = Inr t' \<longleftrightarrow> ts_first_seen t \<le> at \<and> t' = t\<lparr>ts_last_seen := max (ts_last_seen t) at\<rparr>"
  by (auto simp: DeviceTimestamps_record_seen_def DeviceTimestamps_validate_def)

lemma record_success_iff:
  "DeviceTimestamps_record_success t at = Inr t' \<longleftrightarrow> ts_first_seen t \<le> at \<and>
     t' = t\<lparr>ts_last_seen := max (ts_last_seen t) at,
            ts_last_success := Some (case ts_last_success t of None \<Rightarrow> at | Some s \<Rightarrow> max s at)\<rparr>"
  by (auto simp: DeviceTimestamps_record_success_def result_simps record_seen_iff)

text \<open>The record an update produces, and when it fails.\<close>

lemma update_record_cases:
  obtains (error) e where "update_record ids r c causation n = Inl (Cause_timestamp e)"
  | (updated) r' events n' where "update_record ids r c causation n = Inr (r', events, n')"
      "same_device r r'" "in_service r'" "ds_native_id (dr_snapshot r') = ds_native_id (dc_snapshot c)"
proof (cases "update_record ids r c causation n")
  case (Inl e)
  then show thesis
    using error by (auto simp: update_record_def Let_def result_simps record_timestamps_def rediscovery_enrolls
        split: sum.splits if_splits)
next
  case (Inr x)
  obtain r' events n' where x: "x = (r', events, n')" by (cases x)
  have "same_device r r' \<and> in_service r' \<and> ds_native_id (dr_snapshot r') = ds_native_id (dc_snapshot c)"
    using Inr x
    by (auto simp: update_record_def Let_def result_simps record_timestamps_def rediscovery_enrolls same_device_def in_service_def
        DeviceRecord_replace_snapshot_def record_seen_iff record_success_iff split: sum.splits if_splits)
  then show thesis using updated Inr x by simp
qed

definition enrolled_record :: "DiscoveryCandidate \<Rightarrow> DeviceRecord" where
  "enrolled_record c =
     (let first_seen = min (dc_discovered_at c) (ds_observed_at (dc_snapshot c))
      in bring_online ((DeviceRecord_candidate (dc_installation_id c) (dc_integration_id c) (dc_snapshot c) first_seen)
           \<lparr>dr_lifecycle := Enrolled,
            dr_timestamps := \<lparr>ts_first_seen = first_seen, ts_last_seen = ds_observed_at (dc_snapshot c),
              ts_last_success = Some (ds_observed_at (dc_snapshot c))\<rparr>\<rparr>))"

lemma enroll_candidate_eq:
  "enroll_candidate ids c causation n =
     Inr (enrolled_record c, [lifecycle_event (sup_fresh ids n) (enrolled_record c) Candidate Enroll causation,
        availability_event (sup_fresh ids (n + 1)) (enrolled_record c) AvailabilityState.Unknown causation], n + 2)"
proof -
  have "DeviceTimestamps_record_success (DeviceTimestamps_first_seen (min a b)) b =
      Inr \<lparr>ts_first_seen = min a b, ts_last_seen = b, ts_last_success = Some b\<rparr>" for a b
    by (simp add: DeviceTimestamps_record_success_def DeviceTimestamps_record_seen_def DeviceTimestamps_validate_def
        DeviceTimestamps_first_seen_def)
  then show ?thesis
    by (simp only: enroll_candidate_def enrolled_record_def Let_def record_transition_def DeviceRecord_transition_def
      DeviceRecord_candidate_def record_timestamps_def DeviceRecord.simps DeviceLifecycle_transition.simps and_then_simps sum.case)
qed

lemma enrolled_record_sel [simp]:
  "dr_snapshot (enrolled_record c) = dc_snapshot c" "dr_integration_id (enrolled_record c) = dc_integration_id c"
  "dr_aliases (enrolled_record c) = {}" "dr_spaces (enrolled_record c) = {}" "in_service (enrolled_record c)"
  by (simp_all add: enrolled_record_def Let_def DeviceRecord_candidate_def in_service_def)

section \<open>The invariant of a pass\<close>

text \<open>Relative to the devices known at the start: records are filed under the identity derived from
  their native one, the index holds exactly their native identities, known devices stay
  themselves, new ones start without metadata, and every changed record is such a device and in
  service.\<close>

definition native_key :: "DeviceRecord \<Rightarrow> uuid \<times> string" where
  "native_key r = (dr_integration_id r, ds_native_id (dr_snapshot r))"

definition derived_id :: "IdSupply \<Rightarrow> uuid \<times> string \<Rightarrow> uuid" where
  "derived_id ids key = DeviceId_from_integration (sup_v5 ids) (sup_text ids) (fst key) (snd key)"

definition device_ok :: "(uuid \<rightharpoonup> DeviceRecord) \<Rightarrow> DeviceRecord \<Rightarrow> bool" where
  "device_ok known r = (case known (ds_id (dr_snapshot r)) of
       Some r0 \<Rightarrow> same_device r0 r
     | None \<Rightarrow> dr_aliases r = {} \<and> dr_spaces r = {})"

definition filed :: "IdSupply \<Rightarrow> uuid \<Rightarrow> DeviceRecord \<Rightarrow> bool" where
  "filed ids i r \<longleftrightarrow> ds_id (dr_snapshot r) = i \<and> i = derived_id ids (native_key r)"

definition pass_ok :: "IdSupply \<Rightarrow> (uuid \<rightharpoonup> DeviceRecord) \<Rightarrow> Reconciling \<Rightarrow> bool" where
  "pass_ok ids known st \<longleftrightarrow> btree_wf (rc_changed st) \<and>
     (\<forall>i r. map_of (rc_records st) i = Some r \<longrightarrow> filed ids i r \<and> device_ok known r \<and> rc_native_index st (native_key r) = Some i) \<and>
     (\<forall>key i. rc_native_index st key = Some i \<longrightarrow> (\<exists>r. map_of (rc_records st) i = Some r \<and> native_key r = key)) \<and>
     (\<forall>i r. map_of (rc_changed st) i = Some r \<longrightarrow> filed ids i r \<and> device_ok known r \<and> in_service r)"

lemma pass_okD:
  assumes "pass_ok ids known st"
  shows "btree_wf (rc_changed st)"
    and "map_of (rc_records st) i = Some r \<Longrightarrow> filed ids i r \<and> device_ok known r \<and> rc_native_index st (native_key r) = Some i"
    and "rc_native_index st key = Some i \<Longrightarrow> \<exists>r. map_of (rc_records st) i = Some r \<and> native_key r = key"
    and "map_of (rc_changed st) i = Some r \<Longrightarrow> filed ids i r \<and> device_ok known r \<and> in_service r"
  using assms unfolding pass_ok_def by metis+

lemma pass_repairs: "pass_ok ids known (st\<lparr>rc_repairs := x\<rparr>) = pass_ok ids known st"
  and pass_collision: "pass_ok ids known (report_collision ids c i st) = pass_ok ids known st"
  by (simp_all add: pass_ok_def report_collision_def)

lemma pass_accept:
  assumes ok: "pass_ok ids known st" and inj: "inj (derived_id ids)"
    and r: "filed ids i r" "device_ok known r" "in_service r" and key: "key = native_key r"
  shows "pass_ok ids known (accept_record r events n is_changed (st\<lparr>rc_native_index := (rc_native_index st)(key \<mapsto> i)\<rparr>))"
    (is "pass_ok ids known ?st")
proof -
  note old = pass_okD [OF ok]
  have id: "ds_id (dr_snapshot r) = i" using r(1) by (simp add: filed_def)
  have records: "map_of (rc_records ?st) = (map_of (rc_records st))(i \<mapsto> r)"
    and changed: "map_of (rc_changed ?st) = (if is_changed then (map_of (rc_changed st))(i \<mapsto> r) else map_of (rc_changed st))"
    and index: "rc_native_index ?st = (rc_native_index st)(key \<mapsto> i)" and wf: "btree_wf (rc_changed ?st)"
    using old(1) id by (simp_all add: accept_record_def)
  have here: "rc_native_index ?st key = Some i" by (simp add: index)
  have key_of: "native_key r0 = key" if "filed ids i r0" for r0
    using that r(1) key injD [OF inj] by (auto simp: filed_def)
  show ?thesis
    unfolding pass_ok_def
  proof (intro conjI allI impI)
    fix j r'
    assume j: "map_of (rc_records ?st) j = Some r'"
    show "rc_native_index ?st (native_key r') = Some j"
    proof (cases "j = i")
      case False
      then have r': "filed ids j r'" "rc_native_index st (native_key r') = Some j" using j old(2) [of j r'] by (simp_all add: records)
      then have "native_key r' \<noteq> key" using False r(1) key by (auto simp: filed_def)
      then show ?thesis using r'(2) by (simp add: index)
    next
      case True
      then have "r' = r" using j by (simp add: records)
      then show ?thesis using here True unfolding key by simp
    qed
  next
    fix k j
    assume j: "rc_native_index ?st k = Some j"
    show "\<exists>r'. map_of (rc_records ?st) j = Some r' \<and> native_key r' = k"
    proof (cases "k = key")
      case False
      then obtain r' where r': "map_of (rc_records st) j = Some r'" "native_key r' = k" using j old(3) [of k j] by (auto simp: index)
      then have "j \<noteq> i" using key_of old(2) [OF r'(1)] False by auto
      then show ?thesis using r' by (simp add: records)
    next
      case True
      then have "j = i" using j by (simp add: index)
      then have "map_of (rc_records ?st) j = Some r" by (simp add: records)
      then show ?thesis using True key by blast
    qed
  qed (use wf r old(2,4) in \<open>auto simp: records changed split: if_splits\<close>)
qed

lemma reconcile_candidate_ok:
  assumes "pass_ok ids known st" and inj: "inj (derived_id ids)"
    and fresh: "\<And>i. known i \<noteq> None \<Longrightarrow> map_of (rc_records st) i \<noteq> None"
  shows "case reconcile_candidate ids causation c st of Inl e \<Rightarrow> \<exists>t. e = Cause_timestamp t | Inr st' \<Rightarrow> pass_ok ids known st'"
proof -
  let ?st = "st\<lparr>rc_repairs := rc_repairs st @ dc_repairs c\<rparr>"
  let ?key = "(dc_integration_id c, ds_native_id (dc_snapshot c))"
  have st: "pass_ok ids known ?st" using assms by (simp only: pass_repairs)
  show ?thesis
  proof (cases "ds_id (dc_snapshot c) = derived_id ids ?key")
    case False
    then show ?thesis using st by (simp add: reconcile_candidate_def pass_collision derived_id_def)
  next
    case expected: True
    show ?thesis
    proof (cases "rc_native_index ?st ?key")
      case (Some i)
      then obtain r where r: "map_of (rc_records ?st) i = Some r" "native_key r = ?key" using pass_okD(3) [OF st] by blast
      then have ok: "filed ids i r" "device_ok known r" using pass_okD(2) [OF st] by auto
      then have same: "ds_id (dr_snapshot r) = ds_id (dc_snapshot c)" using r(2) expected by (simp add: filed_def)
      show ?thesis
      proof (cases rule: update_record_cases [of ids r c causation "rc_next ?st"])
        case (error e)
        then show ?thesis using expected Some r(1) same by (simp add: reconcile_candidate_def derived_id_def)
      next
        case (updated r' events n')
        have key: "native_key r' = ?key" using updated(2,4) r(2) by (simp add: native_key_def same_device_def)
        have "filed ids i r'" using updated(2) ok(1) key r(2) by (simp add: filed_def same_device_def)
        moreover have "device_ok known r'"
          using ok(2) updated(2) by (auto simp: device_ok_def same_device_def split: option.splits)
        ultimately have "pass_ok ids known (accept_record r' events n' b (?st\<lparr>rc_native_index := (rc_native_index ?st)(?key \<mapsto> i)\<rparr>))" for b
          using pass_accept [OF st inj _ _ updated(3)] key by simp
        moreover have "?st\<lparr>rc_native_index := (rc_native_index ?st)(?key \<mapsto> i)\<rparr> = ?st" using Some by (simp add: fun_upd_idem)
        ultimately show ?thesis using expected Some r(1) same updated(1) by (simp add: reconcile_candidate_def derived_id_def)
      qed
    next
      case None
      let ?r = "enrolled_record c"
      have key: "native_key ?r = ?key" by (simp add: native_key_def)
      have filed: "filed ids (ds_id (dc_snapshot c)) ?r" using expected key by (simp add: filed_def)
      have "map_of (rc_records st) (ds_id (dc_snapshot c)) = None"
      proof (rule ccontr)
        assume "map_of (rc_records st) (ds_id (dc_snapshot c)) \<noteq> None"
        then obtain r0 where "filed ids (ds_id (dc_snapshot c)) r0" "rc_native_index st (native_key r0) = Some (ds_id (dc_snapshot c))"
          using pass_okD(2) [OF assms(1)] by blast
        then show False using None expected injD [OF inj, of "native_key r0" ?key] by (simp add: filed_def)
      qed
      then have "known (ds_id (dc_snapshot c)) = None" using fresh by blast
      then have "device_ok known ?r" by (simp add: device_ok_def)
      from pass_accept [OF st inj filed this _ key [symmetric]] show ?thesis
        using expected None by (simp add: reconcile_candidate_def derived_id_def enroll_candidate_eq)
    qed
  qed
qed

text \<open>No candidate removes a record.\<close>

lemma reconcile_candidate_keeps:
  assumes "reconcile_candidate ids causation c st = Inr st'" "map_of (rc_records st) i \<noteq> None"
  shows "map_of (rc_records st') i \<noteq> None"
  using assms
  by (auto simp: reconcile_candidate_def Let_def report_collision_def accept_record_def result_simps split: if_splits option.splits)

lemma reconcile_all_ok:
  assumes "inj (derived_id ids)"
  shows "pass_ok ids known st \<Longrightarrow> (\<And>i. known i \<noteq> None \<Longrightarrow> map_of (rc_records st) i \<noteq> None) \<Longrightarrow>
    case reconcile_all ids causation cs st of Inl e \<Rightarrow> \<exists>t. e = Cause_timestamp t | Inr st' \<Rightarrow> pass_ok ids known st'"
proof (induction cs arbitrary: st)
  case (Cons c cs)
  have one: "case reconcile_candidate ids causation c st of Inl e \<Rightarrow> \<exists>t. e = Cause_timestamp t | Inr st' \<Rightarrow> pass_ok ids known st'"
    using Cons.prems by (intro reconcile_candidate_ok assms)
  show ?case
  proof (cases "reconcile_candidate ids causation c st")
    case (Inr st')
    have keeps: "map_of (rc_records st') i \<noteq> None" if "known i \<noteq> None" for i
      using reconcile_candidate_keeps [OF Inr] Cons.prems(2) that by blast
    then show ?thesis using Cons.IH [of st'] one Inr by simp
  qed (use one in simp)
qed simp

lemma map_of_rev_distinct: "distinct (map fst xs) \<Longrightarrow> map_of (rev xs) = map_of xs"
  by (rule ext) (metis map_of_eq_Some_iff map_of_eq_None_iff distinct_rev option.exhaust rev_map set_rev)

definition known_devices :: "DeviceRecord list \<Rightarrow> uuid \<rightharpoonup> DeviceRecord" where
  "known_devices existing = map_of (map (\<lambda>r. (ds_id (dr_snapshot r), r)) existing)"

lemma initial_pass:
  assumes "distinct (map (\<lambda>r. ds_id (dr_snapshot r)) existing)"
    and filed: "\<forall>r \<in> set existing. ds_id (dr_snapshot r) = derived_id ids (native_key r)"
    and inj: "inj (derived_id ids)"
  shows "pass_ok ids (known_devices existing) (initial_reconciling existing n)"
    and "map_of (rc_records (initial_reconciling existing n)) = known_devices existing"
proof -
  let ?records = "btree_of_list (map (\<lambda>r. (ds_id (dr_snapshot r), r)) existing)"
  have map: "map_of ?records = known_devices existing"
    using assms(1) unfolding map_of_btree_of_list known_devices_def by (subst map_of_rev_distinct) (simp_all add: comp_def)
  show "map_of (rc_records (initial_reconciling existing n)) = known_devices existing"
    using map by (simp add: initial_reconciling_def Let_def)
  have known: "filed ids i r" if "known_devices existing i = Some r" for i r
    using map_of_SomeD [OF that [unfolded known_devices_def]] filed by (auto simp: filed_def)
  have entries: "(i, r) \<in> set ?records \<longleftrightarrow> known_devices existing i = Some r" for i r
    using bt.entry_lookup [of ?records i r] map by simp
  have "native_index ?records key = Some i \<longleftrightarrow> (\<exists>r. known_devices existing i = Some r \<and> native_key r = key)" for key i
  proof -
    let ?l = "map (\<lambda>(_, r). (native_key r, ds_id (dr_snapshot r))) ?records"
    have "inj_on native_key (snd ` set ?records)"
      using known entries by (intro inj_onI) (auto simp: filed_def, metis option.inject)
    moreover have "distinct (map snd ?records)"
      using bt.distinct_keys [of ?records] known entries by (auto simp: distinct_map filed_def intro!: inj_onI) (metis filed_def known)
    ultimately have "distinct (map fst ?l)"
      by (simp add: comp_def case_prod_unfold distinct_map inj_on_def)
    then have "native_index ?records key = Some i \<longleftrightarrow> (key, i) \<in> set ?l"
      by (simp add: native_index_def native_key_def map_of_rev_distinct)
    also have "\<dots> \<longleftrightarrow> (\<exists>j r. (j, r) \<in> set ?records \<and> native_key r = key \<and> ds_id (dr_snapshot r) = i)"
      by (auto simp: image_iff intro: rev_bexI)
    also have "\<dots> \<longleftrightarrow> (\<exists>r. known_devices existing i = Some r \<and> native_key r = key)"
      using known unfolding entries filed_def by metis
    finally show ?thesis .
  qed
  then show "pass_ok ids (known_devices existing) (initial_reconciling existing n)"
    unfolding pass_ok_def using known by (auto simp: initial_reconciling_def Let_def map device_ok_def filed_def)
qed

section \<open>Rediscovery\<close>

text \<open>A record that an update with the candidate leaves as it is.\<close>

definition quiescent :: "DiscoveryCandidate \<Rightarrow> DeviceRecord \<Rightarrow> bool" where
  "quiescent c r \<longleftrightarrow> (\<forall>ids causation n. update_record ids r c causation n = Inr (r, [], n))"

lemma record_seen_again:
  assumes "ts_first_seen u \<le> at" "at \<le> ts_last_seen u"
  shows "DeviceTimestamps_record_seen u at = Inr u"
  unfolding record_seen_iff max_absorb1 [OF assms(2)] timestamps_triv using assms(1) by simp

lemma record_success_again:
  assumes "ts_first_seen u \<le> at" "at \<le> ts_last_seen u" "ts_last_success u = Some s" "at \<le> s"
  shows "DeviceTimestamps_record_success u at = Inr u"
  unfolding record_success_iff max_absorb1 [OF assms(2)] timestamps_triv using assms(1,3,4) timestamps_triv(2) [of u]
  by (simp add: max_absorb1)

lemma online_again:
  assumes "in_service r" "av_reason (dr_availability r) = None"
  shows "bring_online r = r"
  using assms by (simp add: in_service_def bring_online_def Availability_transition_def)

lemma replace_again:
  assumes "dr_snapshot r = snapshot\<lparr>ds_id := ds_id (dr_snapshot r)\<rparr>" "dr_capability_descriptors r = descriptors (dr_snapshot r)"
  shows "DeviceRecord_replace_snapshot r snapshot = r"
  unfolding DeviceRecord_replace_snapshot_def Let_def assms(1) [symmetric] assms(2) [symmetric] by (cases r) simp

lemma quiescentI:
  assumes "dr_snapshot r = (dc_snapshot c)\<lparr>ds_id := ds_id (dr_snapshot r)\<rparr>" "dr_capability_descriptors r = descriptors (dr_snapshot r)"
    and "in_service r" "av_reason (dr_availability r) = None"
    and "ts_first_seen (dr_timestamps r) \<le> dc_discovered_at c" "dc_discovered_at c \<le> ts_last_seen (dr_timestamps r)"
    and "ts_first_seen (dr_timestamps r) \<le> ds_observed_at (dc_snapshot c)"
    and "ds_observed_at (dc_snapshot c) \<le> ts_last_seen (dr_timestamps r)"
    and "ts_last_success (dr_timestamps r) = Some s" "ds_observed_at (dc_snapshot c) \<le> s"
  shows "quiescent c r"
proof -
  have at: "ds_observed_at (dr_snapshot r) = ds_observed_at (dc_snapshot c)" by (subst assms(1)) simp
  have triv: "r\<lparr>dr_timestamps := dr_timestamps r\<rparr> = r" by (cases r) simp
  have online: "bring_online r = r" using assms(3,4) by (rule online_again)
  have "update_record ids r c causation n = Inr (r, [], n)" for ids causation n
    unfolding update_record_def replace_again [OF assms(1,2)] Let_def record_seen_again [OF assms(5,6)] record_timestamps_def
      sum.case triv and_then_simps at record_success_again [OF assms(7,8,9,10)] 
    using assms(3) online by (simp add: in_service_def)
  then show ?thesis by (simp add: quiescent_def)
qed

lemma updated_quiescent:
  assumes "update_record ids r c causation n = Inr (r', events, n')"
  shows "quiescent c r'"
proof -
  let ?r1 = "DeviceRecord_replace_snapshot r (dc_snapshot c)"
  obtain t2 t3 where t2: "DeviceTimestamps_record_seen (dr_timestamps r) (dc_discovered_at c) = Inr t2"
    and t3: "DeviceTimestamps_record_success t2 (ds_observed_at (dc_snapshot c)) = Inr t3"
    and r': "dr_snapshot r' = dr_snapshot ?r1" "dr_capability_descriptors r' = dr_capability_descriptors ?r1"
      "dr_timestamps r' = t3" "in_service r'" "av_reason (dr_availability r') = None"
    using assms
    by (auto simp: update_record_def Let_def result_simps record_timestamps_def rediscovery_enrolls in_service_def
        DeviceRecord_replace_snapshot_def bring_online_def split: sum.splits if_splits)
  show ?thesis
    using t2 t3 r' unfolding record_seen_iff record_success_iff
    by (intro quiescentI [where s = "case ts_last_success t2 of None \<Rightarrow> ds_observed_at (dc_snapshot c) | Some s \<Rightarrow> max s (ds_observed_at (dc_snapshot c))"])
      (auto simp: DeviceRecord_replace_snapshot_def Let_def split: option.splits)
qed

lemma enrolled_settles:
  assumes "dc_discovered_at c \<le> ds_observed_at (dc_snapshot c)"
  shows "quiescent c (enrolled_record c)"
  using assms
  by (intro quiescentI [where s = "ds_observed_at (dc_snapshot c)"])
    (simp_all add: enrolled_record_def Let_def DeviceRecord_candidate_def bring_online_def in_service_def Availability_transition_def)

section \<open>A sample candidate\<close>

definition sample_supply :: IdSupply where
  "sample_supply = \<lparr>sup_fresh = (\<lambda>n. n), sup_v5 = (\<lambda>_. number_of_text), sup_text = show_nat\<rparr>"

definition sample_candidate :: "string \<Rightarrow> DiscoveryCandidate" where
  "sample_candidate name = \<lparr>dc_installation_id = 1, dc_integration_id = 2,
     dc_snapshot = \<lparr>ds_id = derived_id sample_supply (2, ''lamp''), ds_native_id = ''lamp'', ds_integration = ''shelly'', ds_name = name,
       ds_manufacturer = ''Shelly'', ds_model = ''Plus'', ds_network = [], ds_endpoints = [], ds_observed_at = 10, ds_vendor_data = []\<rparr>,
     dc_discovered_at = 10, dc_repairs = []\<rparr>"

lemma sample_supply_inj: "inj (derived_id sample_supply)"
  by (auto intro!: injI simp: derived_id_def sample_supply_def DeviceId_from_integration_def plain.key2 simp del: colon_key.simps)

lemma sample_reconcile:
  "reconcile sample_supply [] [sample_candidate name] 0 =
     Inr (\<lparr>ro_devices = [enrolled_record (sample_candidate name)],
       ro_events = [lifecycle_event 1 (enrolled_record (sample_candidate name)) Candidate Enroll (system_causation 0 ''system:discovery''),
         availability_event 2 (enrolled_record (sample_candidate name)) AvailabilityState.Unknown (system_causation 0 ''system:discovery'')],
       ro_repairs = [], ro_accepted = 1\<rparr>, 3)"
  by (simp add: reconcile_def initial_reconciling_def reconcile_candidate_def enroll_candidate_eq accept_record_def native_index_def
      btree_of_list_def Let_def sample_candidate_def derived_id_def) (simp add: sample_supply_def numeral_2_eq_2)

section \<open>Properties\<close>



end
