(* ===== verification/Decimal_Parse.thy ===== *)
theory Decimal_Parse
  imports Json_Value
begin

text \<open>
  Reading a floating-point number from text as \<open>str::parse::<f64>\<close> of the standard library does:
  an optional sign, then infinity, not-a-number or decimal digits with an optional fraction and
  exponent, rounded to the nearest double, ties to even. Rounding works on the ratio scaled by
  \<open>2 ^ 1074\<close>, where the smallest subnormal number is one; the encoding of a rounded number is
  then its significand plus the exponent steps taken, whatever the binade.
\<close>

section \<open>Rounding\<close>

fun bit_length :: "nat \<Rightarrow> nat" where
  "bit_length n = (if n = 0 then 0 else Suc (bit_length (n div 2)))"

declare bit_length.simps [simp del]

definition round_div :: "nat \<Rightarrow> nat \<Rightarrow> nat" where
  "round_div a b =
     (let q = a div b; r = a mod b
      in if 2 * r < b then q else if b < 2 * r then q + 1 else if even q then q else q + 1)"

abbreviation f64_infinity :: nat where "f64_infinity \<equiv> 9218868437227405312"

definition binade :: "nat \<Rightarrow> nat \<Rightarrow> nat" where
  "binade a q = bit_length (a div q) - 53"

definition encode_scaled :: "nat \<Rightarrow> nat \<Rightarrow> nat" where
  "encode_scaled a q = min f64_infinity (round_div a (q * 2 ^ binade a q) + binade a q * 2 ^ 52)"

definition f64_of_ratio :: "bool \<Rightarrow> nat \<Rightarrow> nat \<Rightarrow> f64" where
  "f64_of_ratio negative p q =
     of_nat ((if negative then 2 ^ 63 else 0) + encode_scaled (p * 2 ^ 1074) q)"

section \<open>Syntax\<close>

definition digit_value :: "char \<Rightarrow> nat" where
  "digit_value c = of_char c - 48"

fun nat_of_digits :: "nat \<Rightarrow> string \<Rightarrow> nat" where
  "nat_of_digits acc [] = acc"
| "nat_of_digits acc (c # cs) = nat_of_digits (10 * acc + digit_value c) cs"

definition span_digits :: "string \<Rightarrow> string \<times> string" where
  "span_digits s = (takeWhile is_ascii_digit s, dropWhile is_ascii_digit s)"

definition split_sign :: "string \<Rightarrow> bool \<times> string" where
  "split_sign s = (case s of
       c # cs \<Rightarrow> (if c = CHR ''-'' then (True, cs) else if c = CHR ''+'' then (False, cs) else (False, s))
     | [] \<Rightarrow> (False, s))"

text \<open>The exponent part: absent, or a marker, an optional sign and at least one digit.\<close>

definition parse_exponent :: "string \<Rightarrow> int option" where
  "parse_exponent s = (case s of
       [] \<Rightarrow> Some 0
     | c # cs \<Rightarrow>
         (if c = CHR ''e'' \<or> c = CHR ''E'' then
            (let (negative, ds) = split_sign cs
             in if ds \<noteq> [] \<and> list_all is_ascii_digit ds
                then Some (if negative then - int (nat_of_digits 0 ds) else int (nat_of_digits 0 ds))
                else None)
          else None))"

definition scaled_ratio :: "nat \<Rightarrow> int \<Rightarrow> nat \<times> nat" where
  "scaled_ratio m e = (if 0 \<le> e then (m * 10 ^ nat e, 1) else (m, 10 ^ nat (- e)))"

definition parse_decimal :: "bool \<Rightarrow> string \<Rightarrow> f64 option" where
  "parse_decimal negative s =
     (let (whole, rest) = span_digits s;
          (fraction, tail) = (case rest of
              c # cs \<Rightarrow> (if c = CHR ''.'' then span_digits cs else ([], rest))
            | [] \<Rightarrow> ([], []))
      in if whole = [] \<and> fraction = [] then None
         else case parse_exponent tail of
             None \<Rightarrow> None
           | Some e \<Rightarrow>
               (let (p, q) = scaled_ratio (nat_of_digits 0 (whole @ fraction)) (e - int (length fraction))
                in Some (f64_of_ratio negative p q)))"

definition parse_f64 :: "string \<Rightarrow> f64 option" where
  "parse_f64 s =
     (let (negative, body) = split_sign s; word = to_ascii_lowercase body
      in if word = ''inf'' \<or> word = ''infinity''
         then Some (of_nat ((if negative then 2 ^ 63 else 0) + f64_infinity))
         else if word = ''nan'' then Some (of_nat ((if negative then 2 ^ 63 else 0) + f64_infinity + 2 ^ 51))
         else parse_decimal negative body)"

section \<open>Rounding is monotone\<close>

lemma round_div_bounds:
  assumes "0 < b"
  shows "a div b \<le> round_div a b" "round_div a b \<le> a div b + 1"
  by (simp_all add: round_div_def Let_def)

lemma round_div_exact: "0 < b \<Longrightarrow> round_div (m * b) b = m"
  by (simp add: round_div_def)

lemma round_div_mono:
  assumes "0 < b" "a \<le> a'"
  shows "round_div a b \<le> round_div a' b"
proof (cases "a div b = a' div b")
  case True
  then have "a mod b \<le> a' mod b"
    using assms(2) by (metis add_le_cancel_left div_mult_mod_eq)
  then show ?thesis using True by (simp add: round_div_def Let_def)
next
  case False
  then have "a div b + 1 \<le> a' div b" using div_le_mono [OF assms(2), of b] by linarith
  then show ?thesis using round_div_bounds [OF assms(1)] by (meson le_trans)
qed

lemma bit_length_bounds: "0 < n \<Longrightarrow> 2 ^ (bit_length n - 1) \<le> n \<and> n < 2 ^ bit_length n"
proof (induction n rule: bit_length.induct)
  case (1 n)
  have eq: "bit_length n = Suc (bit_length (n div 2))" using 1(2) by (subst bit_length.simps) simp
  show ?case
  proof (cases "n div 2 = 0")
    case True
    then have "n = 1" using 1(2) by auto
    then show ?thesis by (simp add: bit_length.simps [of 0] bit_length.simps [of "Suc 0"])
  next
    case False
    then have ih: "2 ^ (bit_length (n div 2) - 1) \<le> n div 2 \<and> n div 2 < 2 ^ bit_length (n div 2)"
      using 1 by auto
    moreover have "0 < bit_length (n div 2)" using False by (subst bit_length.simps) simp
    ultimately show ?thesis
      using False by (cases "bit_length (n div 2)") (auto simp: eq)
  qed
qed

lemma bit_length_mono: "m \<le> n \<Longrightarrow> bit_length m \<le> bit_length n"
proof (induction n arbitrary: m rule: bit_length.induct)
  case (1 n)
  then show ?case
    by (subst (1 2) bit_length.simps) (auto intro: div_le_mono)
qed

lemma binade_mono: "a \<le> a' \<Longrightarrow> binade a q \<le> binade a' q"
  unfolding binade_def by (intro diff_le_mono bit_length_mono div_le_mono)

text \<open>A rounded significand never exceeds the next power of two, and in a normal binade it is
  at least the power below.\<close>

lemma round_upper:
  assumes "0 < q"
  shows "round_div a (q * 2 ^ binade a q) \<le> 2 ^ 53"
proof -
  let ?n = "a div q" and ?s = "binade a q"
  have "?n < 2 ^ (53 + ?s)"
  proof (cases "?n = 0")
    case False
    then have "?n < 2 ^ bit_length ?n" using bit_length_bounds by auto
    also have "\<dots> \<le> 2 ^ (53 + ?s)" by (rule power_increasing) (simp_all add: binade_def)
    finally show ?thesis .
  qed simp
  then have "a div (q * 2 ^ ?s) < 2 ^ 53"
    by (simp add: div_mult2_eq power_add less_mult_imp_div_less)
  then show ?thesis
    using round_div_bounds(2) [of "q * 2 ^ ?s" a] assms by simp
qed

lemma round_lower:
  assumes "0 < q" "0 < binade a q"
  shows "2 ^ 52 \<le> round_div a (q * 2 ^ binade a q)"
proof -
  let ?n = "a div q" and ?s = "binade a q"
  have l: "bit_length ?n = 53 + ?s" using assms(2) by (simp add: binade_def)
  then have "?n \<noteq> 0" by (metis add_is_0 bit_length.simps zero_neq_numeral)
  then have "2 ^ (52 + ?s) \<le> ?n" using bit_length_bounds [of ?n] by (simp add: l)
  then have "2 ^ 52 \<le> ?n div 2 ^ ?s"
    by (metis div_le_mono nonzero_mult_div_cancel_right power_add power_not_zero zero_neq_numeral)
  then have "2 ^ 52 \<le> a div (q * 2 ^ ?s)" by (simp add: div_mult2_eq)
  then show ?thesis using round_div_bounds(1) [of "q * 2 ^ ?s" a] assms(1) by simp
qed

lemma encode_scaled_mono:
  assumes "0 < q" "a \<le> a'"
  shows "encode_scaled a q \<le> encode_scaled a' q"
proof (cases "binade a q = binade a' q")
  case True
  then show ?thesis
    using round_div_mono [of "q * 2 ^ binade a' q" a a'] assms by (simp add: encode_scaled_def min_def)
next
  case False
  with binade_mono [OF assms(2), of q] have less: "Suc (binade a q) \<le> binade a' q" by (simp add: Suc_le_eq)
  then have "Suc (binade a q) * 2 ^ 52 \<le> binade a' q * (2 ^ 52 :: nat)" by (rule mult_right_mono) simp
  moreover have "(2::nat) ^ 53 = 2 ^ 52 + 2 ^ 52" by simp
  ultimately have "round_div a (q * 2 ^ binade a q) + binade a q * 2 ^ 52 \<le>
      round_div a' (q * 2 ^ binade a' q) + binade a' q * 2 ^ 52"
    using round_upper [OF assms(1), of a] round_lower [OF assms(1), of a'] less by simp
  then show ?thesis by (simp add: encode_scaled_def)
qed

text \<open>The encoding depends on the ratio only.\<close>

lemma round_div_scale: "0 < k \<Longrightarrow> round_div (a * k) (b * k) = round_div a b"
proof -
  assume k: "0 < k"
  then have "2 * (a mod b * k) < b * k \<longleftrightarrow> 2 * (a mod b) < b" "b * k < 2 * (a mod b * k) \<longleftrightarrow> b < 2 * (a mod b)"
    by (metis mult.assoc mult_less_cancel2)+
  with k show ?thesis
    by (simp only: round_div_def Let_def div_mult_mult2 [of k] mult_mod_left [symmetric])
qed

lemma encode_scaled_scale:
  assumes "0 < k"
  shows "encode_scaled (a * k) (q * k) = encode_scaled a q"
proof -
  have "binade (a * k) (q * k) = binade a q" using assms by (simp add: binade_def)
  moreover have "round_div (a * k) (q * k * 2 ^ s) = round_div a (q * 2 ^ s)" for s
    using round_div_scale [OF assms, of a "q * 2 ^ s"] by (simp add: ac_simps)
  ultimately show ?thesis by (simp add: encode_scaled_def)
qed

lemma encode_ratio_mono:
  assumes "0 < q" "0 < q'" "p * q' \<le> p' * q"
  shows "encode_scaled (p * s) q \<le> encode_scaled (p' * s) q'"
proof -
  have "encode_scaled (p * s) q = encode_scaled (p * s * q') (q * q')"
    using encode_scaled_scale [OF assms(2)] by simp
  also have "\<dots> \<le> encode_scaled (p' * s * q) (q * q')"
    using assms mult_le_mono1 [OF assms(3), of s] by (intro encode_scaled_mono) (simp_all add: ac_simps)
  also have "\<dots> = encode_scaled (p' * s * q) (q' * q)" by (simp add: mult.commute)
  also have "\<dots> = encode_scaled (p' * s) q'" using encode_scaled_scale [OF assms(1)] by simp
  finally show ?thesis .
qed

section \<open>Order of the numbers read\<close>

lemma encode_scaled_le: "encode_scaled a q \<le> f64_infinity"
  by (simp add: encode_scaled_def)

lemma f64_of_ratio_magnitude: "f64_magnitude (f64_of_ratio negative p q) = encode_scaled (p * 2 ^ 1074) q"
  and f64_of_ratio_negative: "f64_negative (f64_of_ratio negative p q) = negative"
proof -
  let ?e = "encode_scaled (p * 2 ^ 1074) q"
  have e: "?e \<le> f64_infinity" by (rule encode_scaled_le)
  then have "unat (f64_of_ratio negative p q) = (if negative then 2 ^ 63 else 0) + ?e"
    unfolding f64_of_ratio_def by (subst unat_of_nat, intro mod_less) simp
  with e show "f64_magnitude (f64_of_ratio negative p q) = ?e" "f64_negative (f64_of_ratio negative p q) = negative"
    by (simp_all add: f64_magnitude_def f64_negative_def)
qed

lemma f64_of_ratio_not_nan: "\<not> f64_is_nan (f64_of_ratio negative p q)"
  using encode_scaled_le [of "p * 2 ^ 1074" q] by (simp add: f64_is_nan_def f64_of_ratio_magnitude)

lemma f64_of_ratio_key:
  "f64_key (f64_of_ratio negative p q) =
     (if negative then - int (encode_scaled (p * 2 ^ 1074) q) else int (encode_scaled (p * 2 ^ 1074) q))"
  by (simp add: f64_key_def f64_of_ratio_magnitude f64_of_ratio_negative)

text \<open>Rounding never inverts the order of two signed ratios.\<close>

definition signed :: "bool \<Rightarrow> nat \<Rightarrow> int" where
  "signed negative p = (if negative then - int p else int p)"

lemma encode_zero [simp]: "encode_scaled 0 q = 0"
  by (simp add: encode_scaled_def binade_def round_div_def bit_length.simps)

lemma f64_of_ratio_mono:
  assumes "0 < q" "0 < q'" "signed n p * int q' \<le> signed n' p' * int q"
  shows "f64_key (f64_of_ratio n p q) \<le> f64_key (f64_of_ratio n' p' q')"
proof (cases "n = n'")
  case True
  then show ?thesis
    using assms encode_ratio_mono [OF assms(1,2), of p p' "2 ^ 1074"]
      encode_ratio_mono [OF assms(2,1), of p' p "2 ^ 1074"]
    by (auto simp: f64_of_ratio_key signed_def simp flip: of_nat_mult)
next
  case False
  show ?thesis
  proof (cases n)
    case True
    with False show ?thesis by (simp add: f64_of_ratio_key)
  next
    case f: False
    with False assms have le: "int p * int q' \<le> - (int p' * int q)" by (simp add: signed_def)
    moreover have "0 \<le> int p * int q'" "0 \<le> int p' * int q" by simp_all
    ultimately have "int p * int q' = 0" "int p' * int q = 0" by linarith+
    with assms(1,2) have "p = 0" "p' = 0" by simp_all
    then show ?thesis by (simp add: f64_of_ratio_key)
  qed
qed

end
