(* ===== verification/Automation_Evaluator.thy ===== *)
theory Automation_Evaluator
  imports Automation_Domain Decimal_Parse
begin

text \<open>
  Evaluation of compiled expressions and conditions
  (\<open>homemagic-application/src/automation_evaluator.rs\<close>), shared by the simulator and the
  runtime. The host supplies the current instant, the observations and the meaning of a
  continuously true condition; it is a record of functions over the host's own state, and the
  evaluation of the timed condition is handed to it as a function. Time zones and the parser of
  local times are those of the chrono crates and are a parameter.
\<close>

section \<open>Contexts, errors and libraries\<close>

datatype AutomationEvaluationError =
    MissingValue string
  | Eval_TypeMismatch
  | InvalidTimeWindow
  | DurableDurationRequired
  | ConditionHash
  | DurationOverflow
  | DurationTimerMissing

text \<open>
  The calendar library: \<open>Tz::from_str\<close> yields the conversion of an instant to the local time of
  day, \<open>NaiveTime::parse_from_str\<close> with the format the sources use yields a time of day, and
  \<open>Schedule::from_str\<close> a calendar schedule.
\<close>

record Calendar =
  cal_timezone :: "string \<Rightarrow> (datetime \<Rightarrow> nat) option"
  cal_naive_time :: "string \<Rightarrow> nat option"
  cal_schedule_valid :: "string \<Rightarrow> bool"

type_synonym variables = "(string, AutomationValue) btree"
type_synonym 's evaluation = "'s \<Rightarrow> (AutomationEvaluationError + bool) \<times> 's"

record 's AutomationEvaluationContext =
  cx_now :: "'s \<Rightarrow> datetime"
  cx_observation :: "'s \<Rightarrow> ResolvedAutomationTarget \<Rightarrow> string \<Rightarrow> AutomationValue option"
  cx_state_duration :: "ResolvedAutomationCondition \<Rightarrow> nat \<Rightarrow> 's evaluation \<Rightarrow> 's evaluation"

section \<open>Comparison and windows\<close>

datatype Ordering = Less | Ordering_Equal | Greater

definition cmp :: "'a::linorder \<Rightarrow> 'a \<Rightarrow> Ordering" where
  "cmp a b = (if a < b then Less else if a = b then Ordering_Equal else Greater)"

definition f64_partial_cmp :: "f64 \<Rightarrow> f64 \<Rightarrow> Ordering option" where
  "f64_partial_cmp a b =
     (if f64_lt a b then Some Less else if f64_eq a b then Some Ordering_Equal
      else if f64_lt b a then Some Greater else None)"

fun value_ordering :: "AutomationValue \<Rightarrow> AutomationValue \<Rightarrow> Ordering option" where
  "value_ordering V_Null V_Null = Some Ordering_Equal"
| "value_ordering (V_Boolean a) (V_Boolean b) = Some (cmp a b)"
| "value_ordering (V_Integer a) (V_Integer b) = Some (cmp a b)"
| "value_ordering (V_Decimal a) (V_Decimal b) =
     (case parse_f64 a of
        None \<Rightarrow> None
      | Some x \<Rightarrow> (case parse_f64 b of None \<Rightarrow> None | Some y \<Rightarrow> f64_partial_cmp x y))"
| "value_ordering (V_String a) (V_String b) = Some (cmp a b)"
| "value_ordering (V_Timestamp a) (V_Timestamp b) = Some (cmp a b)"
| "value_ordering (V_DurationMillis a) (V_DurationMillis b) = Some (cmp a b)"
| "value_ordering _ _ = None"

fun comparison_holds :: "AutomationComparison \<Rightarrow> Ordering \<Rightarrow> bool" where
  "comparison_holds Equal r = (r = Ordering_Equal)"
| "comparison_holds NotEqual r = (r \<noteq> Ordering_Equal)"
| "comparison_holds LessThan r = (r = Less)"
| "comparison_holds LessThanOrEqual r = (r \<noteq> Greater)"
| "comparison_holds GreaterThan r = (r = Greater)"
| "comparison_holds GreaterThanOrEqual r = (r \<noteq> Less)"

definition compare_values ::
  "AutomationValue \<Rightarrow> AutomationComparison \<Rightarrow> AutomationValue \<Rightarrow> AutomationEvaluationError + bool" where
  "compare_values l op r =
     and_then (ok_or (value_ordering l r) Eval_TypeMismatch) (\<lambda>ordering. Inr (comparison_holds op ordering))"

definition evaluate_time_window ::
  "Calendar \<Rightarrow> datetime \<Rightarrow> string \<Rightarrow> string \<Rightarrow> string \<Rightarrow> AutomationEvaluationError + bool" where
  "evaluate_time_window cal now timezone start end_time =
     and_then (ok_or (cal_timezone cal timezone) InvalidTimeWindow) (\<lambda>local_time.
     and_then (ok_or (cal_naive_time cal start) InvalidTimeWindow) (\<lambda>s.
     and_then (ok_or (cal_naive_time cal end_time) InvalidTimeWindow) (\<lambda>e.
     let t = local_time now in
     Inr (if s \<le> e then s \<le> t \<and> t < e else s \<le> t \<or> t < e))))"

section \<open>Evaluation\<close>

fun evaluate_automation_expression ::
  "('s, 'm) AutomationEvaluationContext_scheme \<Rightarrow> variables \<Rightarrow> ResolvedAutomationExpression \<Rightarrow> 's \<Rightarrow>
   AutomationEvaluationError + AutomationValue" where
  "evaluate_automation_expression cx vars (R_Literal v) s = Inr v"
| "evaluate_automation_expression cx vars (R_Variable name) s =
     ok_or (map_of vars name) (MissingValue ''variable'')"
| "evaluate_automation_expression cx vars (R_Observation targets field) s =
     (case targets of
        [] \<Rightarrow> Inl (MissingValue ''observation target'')
      | t # _ \<Rightarrow> ok_or (cx_observation cx s t field) (MissingValue ''observation''))"

fun evaluate_automation_condition ::
  "Calendar \<Rightarrow> 's AutomationEvaluationContext \<Rightarrow> variables \<Rightarrow> ResolvedAutomationCondition \<Rightarrow> 's evaluation"
  and evaluate_all :: "Calendar \<Rightarrow> 's AutomationEvaluationContext \<Rightarrow> variables \<Rightarrow>
        ResolvedAutomationCondition list \<Rightarrow> 's evaluation"
  and evaluate_any :: "Calendar \<Rightarrow> 's AutomationEvaluationContext \<Rightarrow> variables \<Rightarrow>
        ResolvedAutomationCondition list \<Rightarrow> 's evaluation" where
  "evaluate_automation_condition cal cx vars (RC_Literal b) s = (Inr b, s)"
| "evaluate_automation_condition cal cx vars (RC_Compare l op r) s =
     (and_then (evaluate_automation_expression cx vars l s) (\<lambda>a.
      and_then (evaluate_automation_expression cx vars r s) (\<lambda>b. compare_values a op b)), s)"
| "evaluate_automation_condition cal cx vars (RC_All cs) s = evaluate_all cal cx vars cs s"
| "evaluate_automation_condition cal cx vars (RC_Any cs) s = evaluate_any cal cx vars cs s"
| "evaluate_automation_condition cal cx vars (RC_Not c) s =
     (case evaluate_automation_condition cal cx vars c s of
        (Inl e, s') \<Rightarrow> (Inl e, s')
      | (Inr b, s') \<Rightarrow> (Inr (\<not> b), s'))"
| "evaluate_automation_condition cal cx vars (RC_TimeWindow tz start end_time) s =
     (evaluate_time_window cal (cx_now cx s) tz start end_time, s)"
| "evaluate_automation_condition cal cx vars (RC_StateDuration c d) s =
     cx_state_duration cx c d (\<lambda>t. evaluate_automation_condition cal cx vars c t) s"
| "evaluate_all cal cx vars [] s = (Inr True, s)"
| "evaluate_all cal cx vars (c # cs) s =
     (case evaluate_automation_condition cal cx vars c s of
        (Inl e, s') \<Rightarrow> (Inl e, s')
      | (Inr b, s') \<Rightarrow> (if b then evaluate_all cal cx vars cs s' else (Inr False, s')))"
| "evaluate_any cal cx vars [] s = (Inr False, s)"
| "evaluate_any cal cx vars (c # cs) s =
     (case evaluate_automation_condition cal cx vars c s of
        (Inl e, s') \<Rightarrow> (Inl e, s')
      | (Inr b, s') \<Rightarrow> (if b then (Inr True, s') else evaluate_any cal cx vars cs s'))"

end
