(* ===== verification/Automation_Compiler.thy ===== *)
theory Automation_Compiler
  imports Automation_Evaluator Foundation
begin

text \<open>
  Validation and compilation of authored automations
  (\<open>homemagic-application/src/automation_compiler.rs\<close>): findings, target resolution, typing of
  expressions and conditions, reduction of adjacent commands, lowering of the action tree to
  numbered plan nodes and the safety classification of commands.

  The borrowed document and registry snapshot of the compiler are an environment argument, its
  mutable fields are the state that every operation returns updated. Serialisation, the digest,
  the calendar parsers and the printing of identifiers belong to third-party crates and are
  fields of the library record.
\<close>

section \<open>Libraries, environment and state\<close>

record AutomationLibrary =
  lib_calendar :: Calendar
  lib_document_json :: "AutomationDocument \<Rightarrow> string + string"
  lib_plan_json :: "AutomationExecutionPlan \<Rightarrow> string + string"
  lib_trace_json :: "AutomationTraceStep list \<Rightarrow> string + string"
  lib_sha256 :: "string \<Rightarrow> nat list"
  lib_show_uuid :: "uuid \<Rightarrow> string"

text \<open>The digest of an encoded value; an error carries its printed form.\<close>

definition digest_hash :: "AutomationLibrary \<Rightarrow> string + string \<Rightarrow> string + string" where
  "digest_hash lib encoded =
     (case encoded of
        Inl _ \<Rightarrow> Inl ''automation contract serialization failed''
      | Inr bytes \<Rightarrow>
          (case AutomationContentHash_new (hex (lib_sha256 lib bytes)) of
             Inl _ \<Rightarrow> Inl ''automation digest construction failed''
           | Inr h \<Rightarrow> Inr h))"

definition canonical_automation_hash :: "AutomationLibrary \<Rightarrow> AutomationDocument \<Rightarrow> string + string" where
  "canonical_automation_hash lib doc = digest_hash lib (lib_document_json lib doc)"

definition canonical_automation_plan_hash :: "AutomationLibrary \<Rightarrow> AutomationExecutionPlan \<Rightarrow> string + string" where
  "canonical_automation_plan_hash lib plan = digest_hash lib (lib_plan_json lib (plan\<lparr>pl_plan_hash := []\<rparr>))"

record CompilerEnv =
  env_library :: AutomationLibrary
  env_document :: AutomationDocument
  env_snapshot :: FoundationSnapshot

record Compiler =
  cp_findings :: "AutomationValidationError list"
  cp_nodes :: "AutomationPlanNode list"
  cp_profiles :: "AutomationSafetyProfile set"
  cp_requirements :: "AutomationSafetyRequirement set"
  cp_next_segment :: nat

definition Compiler_new :: Compiler where
  "Compiler_new = \<lparr>cp_findings = [], cp_nodes = [], cp_profiles = {}, cp_requirements = {}, cp_next_segment = 0\<rparr>"

section \<open>Findings\<close>

definition finding ::
  "AutomationValidationCode \<Rightarrow> string \<Rightarrow> string \<Rightarrow> string option \<Rightarrow> string option \<Rightarrow> Compiler \<Rightarrow> Compiler" where
  "finding code path reason remediation reference st =
     st\<lparr>cp_findings := cp_findings st @
        [\<lparr>ve_code = code, ve_path = path, ve_reason = reason, ve_remediation = remediation,
          ve_reference = reference\<rparr>]\<rparr>"

definition required :: "string \<Rightarrow> string \<Rightarrow> Compiler \<Rightarrow> Compiler" where
  "required path reason = finding RequiredValueMissing path reason None None"

definition bound :: "string \<Rightarrow> string \<Rightarrow> Compiler \<Rightarrow> Compiler" where
  "bound path reason = finding ResourceBoundExceeded path reason None None"

definition incompatible :: "string \<Rightarrow> string \<Rightarrow> Compiler \<Rightarrow> Compiler" where
  "incompatible path reason = finding CapabilityIncompatible path reason
     (Some ''Choose a compatible capability, endpoint, field, or payload'') None"

definition type_mismatch :: "string \<Rightarrow> string \<Rightarrow> Compiler \<Rightarrow> Compiler" where
  "type_mismatch path reason = finding TypeMismatch_code path reason
     (Some ''Use matching declared scalar types'') None"

definition invalid_schedule :: "string \<Rightarrow> string \<Rightarrow> Compiler \<Rightarrow> Compiler" where
  "invalid_schedule path reason = finding InvalidSchedule path reason
     (Some ''Use five-field cron syntax and an IANA timezone name'') None"

text \<open>A finding recorded under a condition.\<close>

definition check :: "bool \<Rightarrow> (Compiler \<Rightarrow> Compiler) \<Rightarrow> Compiler \<Rightarrow> Compiler" where
  "check b f st = (if b then f st else st)"

definition push_node :: "AutomationPlanNodeKind \<Rightarrow> Compiler \<Rightarrow> node_id \<times> Compiler" where
  "push_node kind st =
     (let i = min u32_max (length (cp_nodes st))
      in (i, st\<lparr>cp_nodes := cp_nodes st @ [\<lparr>pn_id = i, pn_order = i, pn_kind = kind\<rparr>]\<rparr>))"

section \<open>Scalar validation\<close>

fun budget_field :: "AutomationResourceBudgetError \<Rightarrow> string" where
  "budget_field MaximumNodes = ''maximum_nodes''"
| "budget_field MaximumNestingDepth = ''maximum_nesting_depth''"
| "budget_field MaximumParallelWidth = ''maximum_parallel_width''"
| "budget_field MaximumQueueLength = ''maximum_queue_length''"
| "budget_field MaximumTraceSteps = ''maximum_trace_steps''"
| "budget_field MaximumRunDuration = ''maximum_run_duration_ms''"

definition pointer_segment :: "string \<Rightarrow> string" where
  "pointer_segment v =
     concat (map (\<lambda>c. if c = CHR ''/'' then ''~1'' else [c])
       (concat (map (\<lambda>c. if c = CHR ''~'' then ''~0'' else [c]) v)))"

text \<open>\<open>str::split\<close> at a single character.\<close>

fun split_at_char :: "char \<Rightarrow> string \<Rightarrow> string list" where
  "split_at_char d [] = [[]]"
| "split_at_char d (c # cs) =
     (if c = d then [] # split_at_char d cs
      else case split_at_char d cs of [] \<Rightarrow> [[c]] | p # ps \<Rightarrow> (c # p) # ps)"

definition canonical_decimal :: "string \<Rightarrow> bool" where
  "canonical_decimal value =
     (let unsigned = (case value of c # cs \<Rightarrow> if c = CHR ''-'' then cs else value | [] \<Rightarrow> value)
      in if unsigned = [] \<or> hd unsigned = CHR ''+'' then False
         else
           (let parts = split_at_char (CHR ''.'') unsigned;
                integer = hd parts;
                fraction = (case tl parts of [] \<Rightarrow> None | f # _ \<Rightarrow> Some f)
            in if 2 < length parts \<or> integer = [] \<or> \<not> list_all is_ascii_digit integer \<or>
                  (1 < length integer \<and> hd integer = CHR ''0'')
               then False
               else (case fraction of
                   Some f \<Rightarrow> f \<noteq> [] \<and> list_all is_ascii_digit f \<and> last f \<noteq> CHR ''0''
                 | None \<Rightarrow> value \<noteq> ''-0'')))"

definition timer_out_of_range :: "nat \<Rightarrow> bool" where
  "timer_out_of_range d \<longleftrightarrow> d = 0 \<or> MAX_AUTOMATION_TIMER_MILLIS < d"

definition validate_timer :: "nat \<Rightarrow> string \<Rightarrow> Compiler \<Rightarrow> Compiler" where
  "validate_timer d path =
     check (timer_out_of_range d) (bound path ''duration is outside the supported timer range'')"

definition validate_value :: "AutomationValue \<Rightarrow> string \<Rightarrow> Compiler \<Rightarrow> Compiler" where
  "validate_value v path st = (case v of
       V_Decimal d \<Rightarrow>
         check (\<not> canonical_decimal d)
           (finding InvalidDecimal path ''decimal is not canonical plain base-10 text''
             (Some ''Use forms such as 0, -2, or 12.5 without exponent or trailing zeros'') None) st
     | V_DurationMillis d \<Rightarrow> validate_timer d path st
     | _ \<Rightarrow> st)"

definition observation_field_type :: "string \<Rightarrow> string \<Rightarrow> AutomationValueType option" where
  "observation_field_type capability field =
     (if (capability = ''on_off.v1'' \<and> field = ''on'') \<or>
         (capability = ''availability.v1'' \<and> field = ''online'') then Some T_Boolean
      else if (capability \<in> {''level.v1'', ''position.v1''} \<and> field = ''percent'') \<or>
         (capability = ''power.v1'' \<and> field \<in> {''watts'', ''volts'', ''amperes''}) \<or>
         (capability = ''energy.v1'' \<and> field = ''watt_hours'') then Some T_Decimal
      else if (capability = ''position.v1'' \<and> field = ''motion'') \<or>
         (capability = ''diagnostics.v1'' \<and> field = ''firmware_version'') then Some T_String
      else None)"

definition validate_observation_field ::
  "string \<Rightarrow> string \<Rightarrow> string \<Rightarrow> Compiler \<Rightarrow> AutomationValueType option \<times> Compiler" where
  "validate_observation_field capability field path st =
     (case observation_field_type capability field of
        Some t \<Rightarrow> (Some t, st)
      | None \<Rightarrow> (None, incompatible path ''field is not defined by the capability schema'' st))"

definition validate_schedule ::
  "CompilerEnv \<Rightarrow> AutomationSchedule \<Rightarrow> string \<Rightarrow> Compiler \<Rightarrow> Compiler" where
  "validate_schedule env schedule path st =
     (let cal = lib_calendar (env_library env);
          st1 = check (split_whitespace_count (sc_cron schedule) \<noteq> 5 \<or>
                       \<not> cal_schedule_valid cal (''0 '' @ sc_cron schedule) \<or>
                       cal_timezone cal (sc_timezone schedule) = None)
                  (invalid_schedule path ''five-field cron expression or IANA timezone is invalid'') st
      in check (timer_out_of_range (sc_occurrence_window_ms schedule))
           (bound (path @ ''/occurrence_window_ms'')
              ''occurrence window is outside the supported timer range'') st1)"

section \<open>Target resolution\<close>

definition device_selected :: "AutomationDeviceReference \<Rightarrow> DeviceRecord \<Rightarrow> bool" where
  "device_selected ref device = (case ref of
       Device_ref i \<Rightarrow> ds_id (dr_snapshot device) = i
     | Alias_ref a \<Rightarrow> ds_name (dr_snapshot device) = a \<or> a \<in> dr_aliases device
     | Space_ref s \<Rightarrow> s \<in> dr_spaces device)"

definition is_alias :: "AutomationDeviceReference \<Rightarrow> bool" where
  "is_alias ref = (case ref of Alias_ref _ \<Rightarrow> True | _ \<Rightarrow> False)"

definition matching_endpoints :: "AutomationTargetReference \<Rightarrow> DeviceRecord \<Rightarrow> endpoint_id list" where
  "matching_endpoints target device =
     map fst (filter (\<lambda>(endpoint, ds).
         (case tr_endpoint_id target of None \<Rightarrow> True | Some selected \<Rightarrow> selected = endpoint) \<and>
         list_ex (\<lambda>d. CapabilityDescriptor_schema d = tr_capability target) ds)
       (dr_capability_descriptors device))"

text \<open>The loop over the selected devices; it returns at the first device without a unique
  matching endpoint.\<close>

fun resolve_devices ::
  "CompilerEnv \<Rightarrow> AutomationTargetReference \<Rightarrow> string \<Rightarrow> DeviceRecord list \<Rightarrow> ResolvedAutomationTarget list \<Rightarrow>
   Compiler \<Rightarrow> ResolvedAutomationTarget list option \<times> Compiler" where
  "resolve_devices env target path [] acc st = (Some acc, st)"
| "resolve_devices env target path (device # devices) acc st =
     (let endpoints = matching_endpoints target device in
      if endpoints = [] then
        (None, incompatible path ''target endpoint does not expose the requested capability schema'' st)
      else if tr_endpoint_id target = None \<and> 1 < length endpoints then
        (None, finding ReferenceAmbiguous (path @ ''/endpoint_id'')
           ''capability exists on multiple endpoints'' (Some ''Specify an exact endpoint_id'')
           (Some (lib_show_uuid (env_library env) (ds_id (dr_snapshot device)))) st)
      else resolve_devices env target path devices
        (acc @ map (\<lambda>e. \<lparr>rt_device_id = ds_id (dr_snapshot device), rt_endpoint_id = e,
                         rt_capability = tr_capability target\<rparr>) endpoints) st)"

definition target_key :: "ResolvedAutomationTarget \<Rightarrow> uuid \<times> endpoint_id" where
  "target_key t = (rt_device_id t, rt_endpoint_id t)"

text \<open>A stable insertion sort, as \<open>sort_by\<close> is stable.\<close>

fun insert_target :: "ResolvedAutomationTarget \<Rightarrow> ResolvedAutomationTarget list \<Rightarrow> ResolvedAutomationTarget list" where
  "insert_target t [] = [t]"
| "insert_target t (u # us) =
     (if fst (target_key t) < fst (target_key u) \<or>
         (fst (target_key t) = fst (target_key u) \<and> snd (target_key t) \<le> snd (target_key u))
      then t # u # us else u # insert_target t us)"

definition sort_targets :: "ResolvedAutomationTarget list \<Rightarrow> ResolvedAutomationTarget list" where
  "sort_targets ts = foldr insert_target ts []"

definition resolve_target ::
  "CompilerEnv \<Rightarrow> AutomationTargetReference \<Rightarrow> string \<Rightarrow> Compiler \<Rightarrow>
   ResolvedAutomationTarget list option \<times> Compiler" where
  "resolve_target env target path st =
     (let devices = filter (device_selected (tr_device target)) (fs_devices (env_snapshot env)) in
      if devices = [] then
        (None, finding ReferenceMissing (path @ ''/device'') ''device selector did not resolve''
           (Some ''Use an enrolled device ID, unique alias, or populated space'') None st)
      else if is_alias (tr_device target) \<and> 1 < length devices then
        (None, finding ReferenceAmbiguous (path @ ''/device'') ''device alias resolves to more than one device''
           (Some ''Use a unique alias or exact device ID'') None st)
      else if list_ex (\<lambda>d. dr_lifecycle d \<noteq> Enrolled) devices then
        (None, finding ReferenceStale (path @ ''/device'') ''device selector includes a stale or removed device''
           (Some ''Restore device health or select an enrolled device'') None st)
      else
        (case resolve_devices env target path devices [] st of
           (None, st1) \<Rightarrow> (None, st1)
         | (Some ts, st1) \<Rightarrow> (Some (sort_targets ts), st1)))"

section \<open>Structure\<close>

definition validate_variable :: "string \<times> AutomationVariableDefinition \<Rightarrow> Compiler \<Rightarrow> Compiler" where
  "validate_variable entry st =
     (let (name, def) = entry;
          path = ''/variables/'' @ pointer_segment name;
          st1 = check (trim_is_empty name) (required path ''variable name must not be empty'') st
      in case vd_initial def of
           None \<Rightarrow> st1
         | Some initial \<Rightarrow>
             check (AutomationValue_value_type initial \<noteq> vd_value_type def)
               (type_mismatch (path @ ''/initial'') ''initial value does not match the declared variable type'')
               (validate_value initial (path @ ''/initial'') st1))"

definition validate_run_mode :: "AutomationDocument \<Rightarrow> Compiler \<Rightarrow> Compiler" where
  "validate_run_mode doc st = (case doc_run_mode doc of
       Queued capacity \<Rightarrow>
         check (capacity = 0 \<or> rb_maximum_queue_length (doc_budget doc) < capacity)
           (bound ''/run_mode/capacity'' ''queue capacity exceeds its declared budget'') st
     | Parallel_mode width \<Rightarrow>
         check (width = 0 \<or> rb_maximum_parallel_width (doc_budget doc) < width)
           (bound ''/run_mode/maximum_parallel'' ''parallel run capacity exceeds its declared budget'') st
     | _ \<Rightarrow> st)"

definition validate_serialized :: "CompilerEnv \<Rightarrow> Compiler \<Rightarrow> Compiler" where
  "validate_serialized env st = (case lib_document_json (env_library env) (env_document env) of
       Inr bytes \<Rightarrow>
         check (MAX_AUTOMATION_DOCUMENT_BYTES < length bytes)
           (finding DocumentTooLarge [] ''serialized automation document exceeds the hard byte limit''
              (Some ''Reduce document size'') None) st
     | Inl e \<Rightarrow> finding RequiredValueMissing [] ''automation document cannot be serialized'' None (Some e) st)"

definition validate_structure :: "CompilerEnv \<Rightarrow> Compiler \<Rightarrow> Compiler" where
  "validate_structure env st =
     (let doc = env_document env;
          st1 = validate_serialized env st;
          st2 = check (trim_is_empty (doc_name doc)) (required ''/name'' ''automation name must not be empty'') st1;
          st3 = check (trim_is_empty (prov_source_request (doc_provenance doc)))
                  (required ''/provenance/source_request'' ''source request must not be empty'') st2;
          st4 = check (trim_is_empty (prov_rationale (doc_provenance doc)))
                  (required ''/provenance/rationale'' ''rationale must not be empty'') st3;
          st5 = check (doc_triggers doc = []) (required ''/triggers'' ''at least one trigger is required'') st4;
          st6 = check (doc_actions doc = []) (required ''/actions'' ''at least one action is required'') st5;
          st7 = (case AutomationResourceBudget_validate (doc_budget doc) of
              Inl e \<Rightarrow> finding ResourceBoundExceeded (''/budget/'' @ budget_field e)
                 ''declared budget is zero or exceeds the engine limit''
                 (Some ''Choose a positive value within the documented engine bound'') None st6
            | Inr _ \<Rightarrow> st6);
          st8 = validate_run_mode doc st7
      in fold validate_variable (doc_variables doc) st8)"

section \<open>Expressions and conditions\<close>

definition compile_expression ::
  "CompilerEnv \<Rightarrow> AutomationExpression \<Rightarrow> string \<Rightarrow> Compiler \<Rightarrow>
   (ResolvedAutomationExpression \<times> AutomationValueType) option \<times> Compiler" where
  "compile_expression env e path st = (case e of
       E_Literal v \<Rightarrow>
         (Some (R_Literal v, AutomationValue_value_type v), validate_value v (path @ ''/value'') st)
     | E_Variable name \<Rightarrow>
         (case map_of (doc_variables (env_document env)) name of
            None \<Rightarrow> (None, type_mismatch path ''referenced variable is not declared'' st)
          | Some def \<Rightarrow> (Some (R_Variable name, vd_value_type def), st))
     | E_Observation target field \<Rightarrow>
         (let (value_type, st1) = validate_observation_field (tr_capability target) field (path @ ''/field'') st;
              (targets, st2) = resolve_target env target (path @ ''/target'') st1
          in case (targets, value_type) of
               (Some ts, Some t) \<Rightarrow>
                 (if length ts = 1 then (Some (R_Observation ts field, t), st2)
                  else (None, type_mismatch (path @ ''/target'')
                    ''scalar observation expression must resolve to exactly one target'' st2))
             | _ \<Rightarrow> (None, st2)))"

definition ordered_operator :: "AutomationComparison \<Rightarrow> bool" where
  "ordered_operator op \<longleftrightarrow> op \<notin> {Equal, NotEqual}"

definition compile_comparison ::
  "CompilerEnv \<Rightarrow> AutomationExpression \<Rightarrow> AutomationComparison \<Rightarrow> AutomationExpression \<Rightarrow> string \<Rightarrow>
   Compiler \<Rightarrow> ResolvedAutomationCondition option \<times> Compiler" where
  "compile_comparison env l op r path st =
     (let (left, st1) = compile_expression env l (path @ ''/left'') st;
          (right, st2) = compile_expression env r (path @ ''/right'') st1
      in case (left, right) of
           (Some (a, ta), Some (b, tb)) \<Rightarrow>
             (Some (RC_Compare a op b),
              check (ordered_operator op \<and> ta \<in> {T_Null, T_Boolean})
                (type_mismatch path ''selected operator is not defined for this value type'')
                (check (ta \<noteq> tb) (type_mismatch path ''comparison operand types do not match'') st2))
         | _ \<Rightarrow> (None, st2))"

definition window_invalid :: "Calendar \<Rightarrow> string \<Rightarrow> string \<Rightarrow> string \<Rightarrow> bool" where
  "window_invalid cal timezone start end_time \<longleftrightarrow>
     cal_timezone cal timezone = None \<or> cal_naive_time cal start = None \<or> cal_naive_time cal end_time = None"

function compile_condition ::
  "CompilerEnv \<Rightarrow> AutomationCondition \<Rightarrow> string \<Rightarrow> nat \<Rightarrow> Compiler \<Rightarrow> ResolvedAutomationCondition option \<times> Compiler"
  and compile_conditions ::
  "CompilerEnv \<Rightarrow> AutomationCondition list \<Rightarrow> nat \<Rightarrow> string \<Rightarrow> nat \<Rightarrow> Compiler \<Rightarrow>
   ResolvedAutomationCondition list \<times> Compiler"
  and compile_condition_list ::
  "CompilerEnv \<Rightarrow> AutomationCondition list \<Rightarrow> string \<Rightarrow> nat \<Rightarrow> Compiler \<Rightarrow>
   ResolvedAutomationCondition list option \<times> Compiler" where
  "compile_condition env c path depth st =
     (if rb_maximum_nesting_depth (doc_budget (env_document env)) < depth
      then (None, bound path ''condition nesting exceeds the declared depth budget'' st)
      else case c of
        C_Literal b \<Rightarrow> (Some (RC_Literal b), st)
      | C_Compare l op r \<Rightarrow> compile_comparison env l op r path st
      | C_All cs \<Rightarrow>
          (let (rs, st1) = compile_condition_list env cs path depth st in (map_option RC_All rs, st1))
      | C_Any cs \<Rightarrow>
          (let (rs, st1) = compile_condition_list env cs path depth st in (map_option RC_Any rs, st1))
      | C_Not d \<Rightarrow>
          (let (r, st1) = compile_condition env d (path @ ''/condition'') (depth + 1) st
           in (map_option RC_Not r, st1))
      | C_TimeWindow timezone start end_time \<Rightarrow>
          (Some (RC_TimeWindow timezone start end_time),
           check (window_invalid (lib_calendar (env_library env)) timezone start end_time)
             (invalid_schedule path ''time window or timezone is invalid'') st)
      | C_StateDuration d ms \<Rightarrow>
          (let (r, st1) = compile_condition env d (path @ ''/condition'') (depth + 1)
                 (validate_timer ms (path @ ''/duration_ms'') st)
           in (map_option (\<lambda>x. RC_StateDuration x ms) r, st1)))"
| "compile_conditions env [] i path depth st = ([], st)"
| "compile_conditions env (c # cs) i path depth st =
     (let (r, st1) = compile_condition env c (path @ ''/conditions/'' @ show_nat i) (depth + 1) st;
          (rs, st2) = compile_conditions env cs (Suc i) path depth st1
      in (case r of None \<Rightarrow> rs | Some x \<Rightarrow> x # rs, st2))"
| "compile_condition_list env cs path depth st =
     (let st1 = check (cs = []) (required (path @ ''/conditions'') ''condition list must not be empty'') st;
          (rs, st2) = compile_conditions env cs 0 path depth st1
      in (if length rs = length cs then Some rs else None, st2))"
  by pat_completeness auto
termination
  by (relation "measure (\<lambda>x. case x of
       Inl (env, c, _) \<Rightarrow> 2 * size c
     | Inr (Inl (env, cs, _)) \<Rightarrow> 2 * size_list size cs
     | Inr (Inr (env, cs, _)) \<Rightarrow> 2 * size_list size cs + 1)") simp_all

declare compile_condition.simps [simp del]

section \<open>Triggers\<close>

definition compile_trigger ::
  "CompilerEnv \<Rightarrow> string \<Rightarrow> AutomationTrigger \<Rightarrow> Compiler \<Rightarrow> ResolvedAutomationTrigger option \<times> Compiler" where
  "compile_trigger env path trigger st = (case trigger of
       Trigger_ObservationChanged target field \<Rightarrow>
         (let (targets, st1) = resolve_target env target (path @ ''/target'') st;
              st2 = (case field of
                  Some f \<Rightarrow> snd (validate_observation_field (tr_capability target) f (path @ ''/field'') st1)
                | None \<Rightarrow> st1)
          in (map_option (\<lambda>ts. RT_ObservationChanged ts field) targets, st2))
     | Trigger_DeviceEvent target event \<Rightarrow>
         (let st1 = check (trim_is_empty event) (required (path @ ''/event'') ''event name must not be empty'') st;
              (targets, st2) = resolve_target env target (path @ ''/target'') st1
          in (map_option (\<lambda>ts. RT_DeviceEvent ts event) targets, st2))
     | Trigger_Schedule schedule \<Rightarrow>
         (Some (RT_Schedule schedule), validate_schedule env schedule (path @ ''/schedule'') st)
     | Trigger_CommandOutcome target states \<Rightarrow>
         (let st1 = check (states = {}) (required (path @ ''/states'') ''at least one state is required'') st;
              (targets, st2) = (case target of
                  None \<Rightarrow> (None, st1)
                | Some t \<Rightarrow> resolve_target env t (path @ ''/target'') st1)
          in (if target \<noteq> None \<and> targets = None then None else Some (RT_CommandOutcome targets states), st2)))"

fun compile_triggers_from ::
  "CompilerEnv \<Rightarrow> nat \<Rightarrow> AutomationTrigger list \<Rightarrow> Compiler \<Rightarrow> ResolvedAutomationTrigger list \<times> Compiler" where
  "compile_triggers_from env i [] st = ([], st)"
| "compile_triggers_from env i (t # ts) st =
     (let (r, st1) = compile_trigger env (''/triggers/'' @ show_nat i) t st;
          (rs, st2) = compile_triggers_from env (Suc i) ts st1
      in (case r of None \<Rightarrow> rs | Some x \<Rightarrow> x # rs, st2))"

definition compile_triggers :: "CompilerEnv \<Rightarrow> Compiler \<Rightarrow> ResolvedAutomationTrigger list \<times> Compiler" where
  "compile_triggers env = compile_triggers_from env 0 (doc_triggers (env_document env))"

section \<open>Safety classification\<close>

definition target_risk :: "FoundationSnapshot \<Rightarrow> ResolvedAutomationTarget \<Rightarrow> RiskClass option" where
  "target_risk snapshot t =
     Option.bind (find (\<lambda>d. ds_id (dr_snapshot d) = rt_device_id t) (fs_devices snapshot)) (\<lambda>device.
     Option.bind (find (\<lambda>e. es_id e = rt_endpoint_id t) (ds_endpoints (dr_snapshot device))) (\<lambda>endpoint.
     map_option cd_risk
       (find (\<lambda>d. CapabilityDescriptor_schema d = rt_capability t)
          (map CapabilitySnapshot_descriptor (es_capabilities endpoint)))))"

text \<open>\<open>find_map\<close>: the risk of the first target that has one.\<close>

fun resolved_risk :: "FoundationSnapshot \<Rightarrow> ResolvedAutomationTarget list \<Rightarrow> RiskClass option" where
  "resolved_risk snapshot [] = None"
| "resolved_risk snapshot (t # ts) =
     (case target_risk snapshot t of Some r \<Rightarrow> Some r | None \<Rightarrow> resolved_risk snapshot ts)"

definition position_is_calibrated :: "FoundationSnapshot \<Rightarrow> AutomationTargetReference \<Rightarrow> bool" where
  "position_is_calibrated snapshot target = (case tr_endpoint_id target of
       None \<Rightarrow> False
     | Some endpoint \<Rightarrow>
         list_ex (\<lambda>device. device_selected (tr_device target) device \<and>
           list_ex (\<lambda>e. es_id e = endpoint \<and>
             list_ex (\<lambda>c. case c of Position_snapshot (Some _) _ _ \<Rightarrow> True | _ \<Rightarrow> False) (es_capabilities e))
             (ds_endpoints (dr_snapshot device)))
           (fs_devices snapshot))"

definition require :: "AutomationSafetyRequirement set \<Rightarrow> Compiler \<Rightarrow> Compiler" where
  "require rs st = st\<lparr>cp_requirements := cp_requirements st \<union> rs\<rparr>"

definition is_go_to :: "CommandPayload \<Rightarrow> bool" where
  "is_go_to p = (case p of Position (GoTo _) \<Rightarrow> True | _ \<Rightarrow> False)"

definition is_position :: "CommandPayload \<Rightarrow> bool" where
  "is_position p = (case p of Position _ \<Rightarrow> True | _ \<Rightarrow> False)"

definition command_profile ::
  "CompilerEnv \<Rightarrow> AutomationTargetReference \<Rightarrow> ResolvedAutomationTarget list \<Rightarrow> CommandPayload \<Rightarrow> AutomationSafetyProfile" where
  "command_profile env target resolved payload =
     (let name = to_ascii_lowercase (tr_capability target) in
      if str_contains name ''lock'' \<or> str_contains name ''door'' then Profile_AccessControl
      else if str_contains name ''valve'' \<or> str_contains name ''flow'' then FlowControl
      else if str_contains name ''camera'' \<or> str_contains name ''security'' \<or>
              resolved_risk (env_snapshot env) resolved = Some Security then Profile_Security
      else if is_position payload then ComfortMotion
      else Profile_Comfort)"

definition classify_command ::
  "CompilerEnv \<Rightarrow> AutomationTargetReference \<Rightarrow> ResolvedAutomationTarget list \<Rightarrow> CommandPayload \<Rightarrow> string \<Rightarrow>
   Compiler \<Rightarrow> Compiler" where
  "classify_command env target resolved payload path st =
     (let profile = command_profile env target resolved payload;
          st1 = (if profile = ComfortMotion then
              (let st2 = require {FreshState, StopSupport} st in
               if is_go_to payload then
                 check (\<not> position_is_calibrated (env_snapshot env) target)
                   (finding SafetyConstraintUnavailable (path @ ''/payload'')
                      ''absolute position command requires a calibrated current position''
                      (Some ''Calibrate the cover and refresh its position before validation'') None)
                   (require {Calibration, Position_requirement} st2)
               else st2)
            else st)
      in st1\<lparr>cp_profiles := insert profile (cp_profiles st1)\<rparr>)"

section \<open>Reduction of adjacent commands\<close>

definition action_target :: "AutomationAction \<Rightarrow> AutomationTargetReference option" where
  "action_target a = (case a of A_Command t _ _ _ \<Rightarrow> Some t | _ \<Rightarrow> None)"

definition is_command :: "AutomationAction \<Rightarrow> bool" where
  "is_command a \<longleftrightarrow> action_target a \<noteq> None"

text \<open>A segment of adjacent commands keeps the last command for each authored target.\<close>

fun flush :: "AutomationAction list \<Rightarrow> AutomationAction list" where
  "flush [] = []"
| "flush (a # as) =
     (if list_ex (\<lambda>b. action_target b = action_target a) as then flush as else a # flush as)"

fun reduce_from :: "AutomationAction list \<Rightarrow> AutomationAction list \<Rightarrow> AutomationAction list"
  and reduce_nested :: "AutomationAction \<Rightarrow> AutomationAction"
  and reduce_branches :: "AutomationAction list list \<Rightarrow> AutomationAction list list"
  and reduce_failure :: "AutomationFailurePolicy \<Rightarrow> AutomationFailurePolicy" where
  "reduce_from segment [] = flush segment"
| "reduce_from segment (a # as) =
     (if is_command a then reduce_from (segment @ [a]) as
      else flush segment @ reduce_nested a # reduce_from [] as)"
| "reduce_nested (A_Sequence as) = A_Sequence (reduce_from [] as)"
| "reduce_nested (A_If c as bs) = A_If c (reduce_from [] as) (reduce_from [] bs)"
| "reduce_nested (A_Parallel branches n) = A_Parallel (reduce_branches branches) n"
| "reduce_nested (A_Race branches n) = A_Race (reduce_branches branches) n"
| "reduce_nested (A_Wait c ms on_timeout) = A_Wait c ms (reduce_failure on_timeout)"
| "reduce_nested a = a"
| "reduce_branches [] = []"
| "reduce_branches (b # bs) = reduce_from [] b # reduce_branches bs"
| "reduce_failure (F_Fallback as) = F_Fallback (reduce_from [] as)"
| "reduce_failure f = f"

definition reduce_actions :: "AutomationAction list \<Rightarrow> AutomationAction list" where
  "reduce_actions as = reduce_from [] as"

lemma flush_size: "size_list size (flush as) \<le> size_list size as"
  by (induction as) auto

lemma reduce_size:
  shows "size_list size (reduce_from segment as) \<le> size_list size segment + size_list size as"
    and "size (reduce_nested a) \<le> size a"
    and "size_list (size_list size) (reduce_branches bs) \<le> size_list (size_list size) bs"
    and "size (reduce_failure f) \<le> size f"
  by (induction segment as and a and bs and f rule: reduce_from_reduce_nested_reduce_branches_reduce_failure.induct)
    (use flush_size in \<open>auto simp: size_list_append intro: order_trans le_trans add_mono\<close>)

lemma reduce_actions_size: "size_list size (reduce_actions as) \<le> size_list size as"
  using reduce_size(1) [of "[]" as] by (simp add: reduce_actions_def)


section \<open>Lowering of actions\<close>

fun CommandErrorCode_debug :: "CommandErrorCode \<Rightarrow> string" where
  "CommandErrorCode_debug CapabilityMismatch = ''CapabilityMismatch''"
| "CommandErrorCode_debug ValueOutOfRange = ''ValueOutOfRange''"
| "CommandErrorCode_debug TransitionTooLong = ''TransitionTooLong''"
| "CommandErrorCode_debug DeadlineExceeded = ''DeadlineExceeded''"
| "CommandErrorCode_debug StaleObservation = ''StaleObservation''"
| "CommandErrorCode_debug UnsupportedConstraint = ''UnsupportedConstraint''"
| "CommandErrorCode_debug IdempotencyConflict = ''IdempotencyConflict''"
| "CommandErrorCode_debug PolicyDenied = ''PolicyDenied''"
| "CommandErrorCode_debug SupersededBeforeDispatch = ''SupersededBeforeDispatch''"
| "CommandErrorCode_debug RateLimited = ''RateLimited''"
| "CommandErrorCode_debug DeviceBusy = ''DeviceBusy''"
| "CommandErrorCode_debug AdapterRejected = ''AdapterRejected''"
| "CommandErrorCode_debug TransportFailure = ''TransportFailure''"
| "CommandErrorCode_debug ProtectionActive = ''ProtectionActive''"
| "CommandErrorCode_debug ObstructionDetected = ''ObstructionDetected''"
| "CommandErrorCode_debug Overtemperature = ''Overtemperature''"
| "CommandErrorCode_debug ConfirmationMismatch = ''ConfirmationMismatch''"
| "CommandErrorCode_debug IndeterminateAfterRestart = ''IndeterminateAfterRestart''"

text \<open>Adjacent commands of a list share one reduction segment; any other action ends it.\<close>

fun assign_segments :: "nat option \<Rightarrow> nat \<Rightarrow> AutomationAction list \<Rightarrow> nat option list \<times> nat" where
  "assign_segments active fresh [] = ([], fresh)"
| "assign_segments active fresh (a # as) =
     (if is_command a then
        (let (segment, fresh') =
             (case active of Some s \<Rightarrow> (s, fresh) | None \<Rightarrow> (fresh, saturating_add u32_max fresh 1));
             (rest, last_fresh) = assign_segments (Some segment) fresh' as
         in (Some segment # rest, last_fresh))
      else
        (let (rest, last_fresh) = assign_segments None fresh as in (None # rest, last_fresh)))"

definition validate_command ::
  "AutomationTargetReference \<Rightarrow> CommandPayload \<Rightarrow> AutomationRetryPolicy \<Rightarrow> string \<Rightarrow> Compiler \<Rightarrow> Compiler" where
  "validate_command target payload retry path st =
     (let st1 = check (CommandPayload_schema payload \<noteq> tr_capability target)
            (incompatible (path @ ''/payload'') ''command payload schema does not match the target capability'') st;
          st2 = (case CommandPayload_validate payload of
              Inl e \<Rightarrow> incompatible (path @ ''/payload'')
                 (''command payload is invalid: '' @ CommandErrorCode_debug e) st1
            | Inr _ \<Rightarrow> st1);
          st3 = check (MAX_AUTOMATION_RETRIES < rp_maximum_retries retry)
            (bound (path @ ''/retry/maximum_retries'') ''retry count exceeds the engine limit'') st2
      in check (MAX_AUTOMATION_TIMER_MILLIS < rp_backoff_ms retry)
            (bound (path @ ''/retry/backoff_ms'') ''retry delay exceeds the engine timer limit'') st3)"

definition compile_assignment ::
  "CompilerEnv \<Rightarrow> string \<Rightarrow> AutomationExpression \<Rightarrow> node_id option \<Rightarrow> string \<Rightarrow> Compiler \<Rightarrow> node_id option \<times> Compiler" where
  "compile_assignment env name value following path st =
     (let (expression, st1) = compile_expression env value (path @ ''/value'') st
      in case (map_of (doc_variables (env_document env)) name, expression) of
           (None, _) \<Rightarrow> (None, type_mismatch (path @ ''/name'') ''assigned variable is not declared'' st1)
         | (Some def, Some (e, t)) \<Rightarrow>
             (let st2 = check (vd_value_type def \<noteq> t)
                    (type_mismatch (path @ ''/value'') ''assigned expression does not match the variable type'') st1;
                  (i, st3) = push_node (N_SetVariable name e following) st2
              in (Some i, st3))
         | (Some _, None) \<Rightarrow> (None, st1))"

definition is_literal :: "AutomationCondition \<Rightarrow> bool" where
  "is_literal c = (case c of C_Literal _ \<Rightarrow> True | _ \<Rightarrow> False)"

definition validate_group :: "CompilerEnv \<Rightarrow> AutomationAction list list \<Rightarrow> nat \<Rightarrow> string \<Rightarrow> Compiler \<Rightarrow> Compiler" where
  "validate_group env branches width path st =
     (let maximum = rb_maximum_parallel_width (doc_budget (env_document env));
          st1 = check (branches = []) (required (path @ ''/branches'') ''at least one branch is required'') st
      in check (maximum < length branches \<or> width = 0 \<or> length branches < width \<or> maximum < width)
           (bound (path @ ''/maximum_parallel'') ''parallel width exceeds the branch count or declared budget'') st1)"

text \<open>Reduction never enlarges an action list, so every call is on smaller syntax.\<close>

definition compile_measure where
  "compile_measure x = (case x of
       Inl (Inl (env, actions, _)) \<Rightarrow> 2 * size_list size actions + 1
     | Inl (Inr (env, actions, _)) \<Rightarrow> 2 * size_list size actions
     | Inr (Inl (env, a, _)) \<Rightarrow> 2 * size a + 1
     | Inr (Inr (Inl (env, branches, _))) \<Rightarrow> 2 * size_list (size_list size) branches
     | Inr (Inr (Inr (env, f, _))) \<Rightarrow> 2 * size (f :: AutomationFailurePolicy) + 1)"

function (sequential) compile_actions ::
  "CompilerEnv \<Rightarrow> AutomationAction list \<Rightarrow> node_id option \<Rightarrow> string \<Rightarrow> nat \<Rightarrow> Compiler \<Rightarrow> node_id option \<times> Compiler"
  and compile_sequence ::
  "CompilerEnv \<Rightarrow> AutomationAction list \<Rightarrow> nat option list \<Rightarrow> nat \<Rightarrow> node_id option \<Rightarrow> string \<Rightarrow> nat \<Rightarrow>
   Compiler \<Rightarrow> node_id option \<times> Compiler"
  and compile_action ::
  "CompilerEnv \<Rightarrow> AutomationAction \<Rightarrow> node_id option \<Rightarrow> string \<Rightarrow> nat \<Rightarrow> nat option \<Rightarrow> Compiler \<Rightarrow>
   node_id option \<times> Compiler"
  and compile_branches ::
  "CompilerEnv \<Rightarrow> AutomationAction list list \<Rightarrow> nat \<Rightarrow> node_id \<Rightarrow> string \<Rightarrow> nat \<Rightarrow> Compiler \<Rightarrow> node_id list \<times> Compiler"
  and compile_failure ::
  "CompilerEnv \<Rightarrow> AutomationFailurePolicy \<Rightarrow> node_id option \<Rightarrow> string \<Rightarrow> nat \<Rightarrow> Compiler \<Rightarrow>
   AutomationPlanFailurePolicy \<times> Compiler" where
  "compile_actions env actions following path depth st =
     (if rb_maximum_nesting_depth (doc_budget (env_document env)) < depth
      then (following, bound path ''action nesting exceeds the declared depth budget'' st)
      else
        (let (segments, fresh) = assign_segments None (cp_next_segment st) actions
         in compile_sequence env actions segments 0 following path depth (st\<lparr>cp_next_segment := fresh\<rparr>)))"
| "compile_sequence env [] segments i following path depth st = (following, st)"
| "compile_sequence env (a # as) segments i following path depth st =
     (let (rest, st1) = compile_sequence env as segments (Suc i) following path depth st
      in compile_action env a rest (path @ ''/'' @ show_nat i) depth (segments ! i) st1)"
| "compile_action env (A_Command target payload retry on_failure) following path depth segment st =
     (let st1 = validate_command target payload retry path st;
          (targets, st2) = resolve_target env target (path @ ''/target'') st1;
          (failure, st3) = compile_failure env on_failure following (path @ ''/on_failure'') (depth + 1) st2
      in case targets of
           None \<Rightarrow> (None, st3)
         | Some ts \<Rightarrow>
             (let (i, st4) = push_node
                    (N_Command ts payload (case segment of None \<Rightarrow> 0 | Some s \<Rightarrow> s) retry failure following)
                    (classify_command env target ts payload path st3)
              in (Some i, st4)))"
| "compile_action env (A_Delay ms) following path depth segment st =
     (let (i, st1) = push_node (N_Delay ms following) (validate_timer ms (path @ ''/duration_ms'') st)
      in (Some i, st1))"
| "compile_action env (A_Wait c ms on_timeout) following path depth segment st =
     (let (condition, st1) = compile_condition env c (path @ ''/condition'') (depth + 1)
            (validate_timer ms (path @ ''/timeout_ms'') st);
          (timeout_policy, st2) = compile_failure env on_timeout following (path @ ''/on_timeout'') (depth + 1) st1
      in case condition of
           None \<Rightarrow> (None, st2)
         | Some r \<Rightarrow> (let (i, st3) = push_node (N_Wait r ms timeout_policy following) st2 in (Some i, st3)))"
| "compile_action env (A_SetVariable name value) following path depth segment st =
     compile_assignment env name value following path st"
| "compile_action env (A_Sequence actions) following path depth segment st =
     compile_actions env (reduce_actions actions) following (path @ ''/actions'') (depth + 1) st"
| "compile_action env (A_If c then_actions else_actions) following path depth segment st =
     (let st1 = check (is_literal c)
            (finding ImpossibleBranch (path @ ''/condition'') ''literal condition makes one branch unreachable''
               (Some ''Remove the unreachable branch or use a dynamic condition'') None) st;
          (join, st2) = push_node (N_Join following) st1;
          (then_node, st3) =
            compile_actions env (reduce_actions then_actions) (Some join) (path @ ''/then_actions'') (depth + 1) st2;
          (else_node, st4) =
            compile_actions env (reduce_actions else_actions) (Some join) (path @ ''/else_actions'') (depth + 1) st3;
          (condition, st5) = compile_condition env c (path @ ''/condition'') (depth + 1) st4
      in case condition of
           None \<Rightarrow> (None, st5)
         | Some r \<Rightarrow>
             (let (i, st6) = push_node (N_Branch r then_node else_node (Some join)) st5 in (Some i, st6)))"
| "compile_action env (A_Parallel branches width) following path depth segment st =
     (let (join, st1) = push_node (N_Join following) (validate_group env branches width path st);
          (entries, st2) = compile_branches env branches 0 join path depth st1;
          (i, st3) = push_node (N_Parallel entries width (Some join)) st2
      in (Some i, st3))"
| "compile_action env (A_Race branches width) following path depth segment st =
     (let (join, st1) = push_node (N_Join following) (validate_group env branches width path st);
          (entries, st2) = compile_branches env branches 0 join path depth st1;
          (i, st3) = push_node (N_Race entries width (Some join)) st2
      in (Some i, st3))"
| "compile_branches env [] i join path depth st = ([], st)"
| "compile_branches env (b # bs) i join path depth st =
     (let st1 = check (b = [])
            (required (path @ ''/branches/'' @ show_nat i) ''parallel branch must not be empty'') st;
          (entry, st2) = compile_actions env (reduce_actions b) (Some join)
            (path @ ''/branches/'' @ show_nat i) (depth + 1) st1;
          (entries, st3) = compile_branches env bs (Suc i) join path depth st2
      in (case entry of None \<Rightarrow> entries | Some e \<Rightarrow> e # entries, st3))"
| "compile_failure env F_StopRun following path depth st = (PF_StopRun, st)"
| "compile_failure env F_StopBranch following path depth st = (PF_StopBranch, st)"
| "compile_failure env F_Continue following path depth st = (PF_Continue, st)"
| "compile_failure env (F_Fallback actions) following path depth st =
     (let st1 = check (actions = []) (required (path @ ''/actions'') ''fallback actions must not be empty'') st;
          (entry, st2) = compile_actions env (reduce_actions actions) following (path @ ''/actions'') depth st1
      in (PF_Fallback entry, st2))"
  by pat_completeness auto

termination
  by (relation "measure compile_measure")
    (auto simp: compile_measure_def less_Suc_eq_le intro!: order_trans [OF mult_le_mono2 [OF reduce_actions_size]])

section \<open>Compilation\<close>

definition explicit_profiles :: "AutomationSafetyProfile set" where
  "explicit_profiles = {Profile_AccessControl, FlowControl, Profile_Security}"

definition single_finding :: "string \<Rightarrow> string \<Rightarrow> string option \<Rightarrow> string option \<Rightarrow> AutomationValidationError list" where
  "single_finding path reason remediation reference =
     [\<lparr>ve_code = RequiredValueMissing, ve_path = path, ve_reason = reason, ve_remediation = remediation,
       ve_reference = reference\<rparr>]"

definition assemble_plan ::
  "CompilerEnv \<Rightarrow> ResolvedAutomationTrigger list \<Rightarrow> ResolvedAutomationCondition option \<Rightarrow> node_id \<Rightarrow> string \<Rightarrow>
   Compiler \<Rightarrow> AutomationExecutionPlan" where
  "assemble_plan env triggers condition entry hash st =
     (let doc = env_document env;
          explicit = (cp_profiles st \<inter> explicit_profiles \<noteq> {})
      in \<lparr>pl_schema = Plan_V1,
          pl_automation_id = doc_id doc,
          pl_automation_version = doc_version doc,
          pl_document_hash = hash,
          pl_plan_hash = hash,
          pl_registry_revision = (case fs_event_cursor (env_snapshot env) of None \<Rightarrow> 0 | Some n \<Rightarrow> n),
          pl_variables = doc_variables doc,
          pl_triggers = triggers,
          pl_condition = condition,
          pl_run_mode = doc_run_mode doc,
          pl_self_trigger = doc_self_trigger doc,
          pl_entry = entry,
          pl_nodes = sort_key pn_id (cp_nodes st),
          pl_safety_profiles = cp_profiles st,
          pl_safety_requirements =
            (if explicit then insert ExplicitApproval (cp_requirements st) else cp_requirements st),
          pl_approval = (if explicit then ExplicitUserApproval else ActivationGrant),
          pl_budget = doc_budget doc\<rparr>)"

text \<open>The passes over the document, before the outcome is decided.\<close>

definition compile_passes ::
  "CompilerEnv \<Rightarrow> ResolvedAutomationTrigger list \<times> ResolvedAutomationCondition option \<times> node_id option \<times> Compiler" where
  "compile_passes env =
     (let doc = env_document env;
          (triggers, st1) = compile_triggers env (validate_structure env Compiler_new);
          (condition, st2) = (case doc_condition doc of
              None \<Rightarrow> (None, st1)
            | Some c \<Rightarrow> compile_condition env c ''/condition'' 1 st1);
          (complete, st3) = push_node N_Complete st2;
          (entry, st4) = compile_actions env (reduce_actions (doc_actions doc)) (Some complete) ''/actions'' 1 st3;
          st5 = check (rb_maximum_nodes (doc_budget doc) < length (cp_nodes st4))
            (finding ResourceBoundExceeded ''/budget/maximum_nodes'' ''compiled plan exceeds the declared node budget''
               (Some ''Increase maximum_nodes or simplify the automation'') None) st4
      in (triggers, condition, entry, st5))"

definition AutomationCompiler_compile ::
  "AutomationLibrary \<Rightarrow> AutomationDocument \<Rightarrow> FoundationSnapshot \<Rightarrow>
   AutomationValidationError list + AutomationExecutionPlan" where
  "AutomationCompiler_compile lib doc snapshot =
     (let env = \<lparr>env_library = lib, env_document = doc, env_snapshot = snapshot\<rparr>;
          (triggers, condition, entry, st) = compile_passes env
      in if cp_findings st \<noteq> [] then Inl (cp_findings st)
         else case entry of
           None \<Rightarrow> Inl (single_finding ''/actions'' ''automation has no compilable entry action''
                     (Some ''Provide at least one valid action'') None)
         | Some e \<Rightarrow>
             (case canonical_automation_hash lib doc of
                Inl err \<Rightarrow> Inl (single_finding [] ''automation document cannot be canonicalized'' None (Some err))
              | Inr hash \<Rightarrow>
                  (let plan = assemble_plan env triggers condition e hash st
                   in case canonical_automation_plan_hash lib plan of
                        Inl err \<Rightarrow> Inl (single_finding [] ''normalized plan cannot be canonicalized'' None (Some err))
                      | Inr plan_hash \<Rightarrow> Inr (plan\<lparr>pl_plan_hash := plan_hash\<rparr>))))"

end
