(* ===== verification/Automation_Store.thy ===== *)
theory Automation_Store
  imports Command_Store Reconciliation Automation_Compiler
begin

text \<open>
  The durable automation repository (\<open>homemagic-storage/src/automation_repository.rs\<close>, with the
  types of \<open>homemagic-application/src/automation_repository.rs\<close>) over the tables of
  \<open>migrations/0003_automation_engine.sql\<close> and \<open>0004\<close>. A table is a map sorted by its primary key,
  the trace and the events are lists in insertion order; a row is the value whose JSON its payload column holds, and the
  other columns repeat fields of that value. A violated constraint is an error, and an error
  leaves the database as it was, because every write runs in one transaction. Event identifiers
  are drawn from a supply.
\<close>

section \<open>Rows\<close>

record AutomationDraft =
  dra_automation_id :: uuid
  dra_revision :: nat
  dra_document :: AutomationDocument
  dra_actor_id :: uuid
  dra_updated_at :: datetime

record AutomationValidationEvidence =
  vev_document_hash :: string
  vev_plan_hash :: string
  vev_registry_revision :: nat
  vev_validated_at :: datetime

record AutomationSimulationEvidence =
  sev_document_hash :: string
  sev_plan_hash :: string
  sev_registry_revision :: nat
  sev_trace_hash :: string
  sev_succeeded :: bool
  sev_simulated_at :: datetime

record StoredAutomationVersion =
  sv_document :: AutomationDocument
  sv_plan :: AutomationExecutionPlan
  sv_state :: AutomationVersionState
  sv_validation :: AutomationValidationEvidence
  sv_simulation :: "AutomationSimulationEvidence option"

record AutomationIdentityState =
  ids_id :: uuid
  ids_state :: AutomationOperationalState
  ids_active_version :: "nat option"
  ids_revision :: nat
  ids_created_at :: datetime
  ids_updated_at :: datetime

record ActiveAutomationVersion =
  aav_identity :: AutomationIdentityState
  aav_version :: StoredAutomationVersion

record AutomationActivation =
  act_automation_id :: uuid
  act_version :: nat
  act_expected_revision :: nat
  act_document_hash :: string
  act_plan_hash :: string
  act_registry_revision :: nat
  act_activated_at :: datetime

record AutomationRecovery =
  rec_occurrences :: "AutomationOccurrence list"
  rec_runs :: "AutomationRun list"
  rec_timers :: "AutomationTimer list"

record AutomationEventCursor =
  aec_cursor :: nat
  aec_revision :: nat

record AutomationStepWrite =
  sw_run :: AutomationRun
  sw_expected_run_revision :: nat
  sw_trace :: "AutomationTraceStep list"
  sw_create_timers :: "AutomationTimer list"
  sw_transition_timers :: "AutomationTimer list"

record AutomationRetention =
  art_drafts_before :: datetime
  art_runtime_before :: datetime
  art_versions_before :: datetime
  art_limit_per_category :: nat

record AutomationRetentionResult =
  arr_drafts :: nat
  arr_trace_steps :: nat
  arr_timers :: nat
  arr_runs :: nat
  arr_occurrences :: nat
  arr_approvals :: nat
  arr_versions :: nat

record AutomationDatabase =
  ad_identities :: "(uuid, AutomationIdentityState) btree"
  ad_drafts :: "(uuid, AutomationDraft) btree"
  ad_versions :: "(uuid \<times> nat, StoredAutomationVersion) btree"
  ad_approvals :: "(uuid, AutomationApprovalRecord) btree"
  ad_occurrences :: "(uuid, AutomationOccurrence) btree"
  ad_runs :: "(uuid, AutomationRun) btree"
  ad_timers :: "(uuid, AutomationTimer) btree"
  ad_trace :: "AutomationTraceStep list"
  ad_event_cursor :: "AutomationEventCursor option"
  ad_events :: "DomainEvent list"
  ad_next_event :: nat

definition AutomationDatabase_empty :: AutomationDatabase where
  "AutomationDatabase_empty = \<lparr>ad_identities = [], ad_drafts = [], ad_versions = [], ad_approvals = [], ad_occurrences = [],
     ad_runs = [], ad_timers = [], ad_trace = [], ad_event_cursor = None, ad_events = [], ad_next_event = 0\<rparr>"

type_synonym 'a store_result = "StorageError + 'a"

section \<open>Shared statements\<close>

definition run_write :: "(AutomationDatabase \<Rightarrow> StorageError + 'a \<times> AutomationDatabase) \<Rightarrow> AutomationDatabase \<Rightarrow>
   (StorageError + 'a) \<times> AutomationDatabase" where
  "run_write operation db = (case operation db of Inl e \<Rightarrow> (Inl e, db) | Inr (x, db') \<Rightarrow> (Inr x, db'))"

text \<open>An insert keyed by a stable identity: an equal row is accepted, a different one is a conflict.\<close>

definition insert_idempotent :: "(uuid, 'a) btree \<Rightarrow> uuid \<Rightarrow> 'a \<Rightarrow> AutomationDatabase \<Rightarrow> StorageError + AutomationDatabase \<Rightarrow>
   StorageError + AutomationDatabase" where
  "insert_idempotent table i payload db added = (case map_of table i of
       Some existing \<Rightarrow> if existing = payload then Inr db else Inl (InvalidAutomation ''stable automation identity payload conflict'')
     | None \<Rightarrow> added)"

definition append_event :: "IdSupply \<Rightarrow> datetime \<Rightarrow> CausationMetadata \<Rightarrow> DomainEventKind \<Rightarrow> AutomationDatabase \<Rightarrow> AutomationDatabase" where
  "append_event ids at causation kind db =
     db\<lparr>ad_events := ad_events db @ [\<lparr>de_id = sup_fresh ids (ad_next_event db), de_device_id = None, de_occurred_at = at,
          de_causation = causation, de_kind = kind\<rparr>], ad_next_event := ad_next_event db + 1\<rparr>"

definition keyed_causation :: "IdSupply \<Rightarrow> string \<Rightarrow> string option \<Rightarrow> CausationMetadata" where
  "keyed_causation ids key actor = \<lparr>cm_correlation_id = CorrelationId_from_key (sup_v5 ids) key, cm_causation_event_id = None,
     cm_actor = actor, cm_automation = None\<rparr>"

definition version_event :: "IdSupply \<Rightarrow> StoredAutomationVersion \<Rightarrow> AutomationVersionState option \<Rightarrow> datetime \<Rightarrow>
   AutomationDatabase \<Rightarrow> AutomationDatabase" where
  "version_event ids v from_state at =
     append_event ids at
       (keyed_causation ids (''automation-version:'' @ sup_text ids (doc_id (sv_document v)) @ '':'' @ show_nat (doc_version (sv_document v)))
          (Some (sup_text ids (prov_author_id (doc_provenance (sv_document v))))))
       (AutomationVersionTransitioned (doc_id (sv_document v)) (doc_version (sv_document v)) from_state (sv_state v))"

definition operational_event :: "IdSupply \<Rightarrow> AutomationIdentityState \<Rightarrow> AutomationOperationalState \<Rightarrow> string option \<Rightarrow>
   AutomationDatabase \<Rightarrow> AutomationDatabase" where
  "operational_event ids identity from_state actor =
     append_event ids (ids_updated_at identity)
       (keyed_causation ids (''automation-operation:'' @ sup_text ids (ids_id identity) @ '':'' @ show_nat (ids_revision identity)) actor)
       (AutomationOperationalTransitioned (ids_id identity) (ids_active_version identity) from_state (ids_state identity) (ids_revision identity))"

definition run_event :: "IdSupply \<Rightarrow> AutomationRun \<Rightarrow> AutomationRunState option \<Rightarrow> AutomationDatabase \<Rightarrow> AutomationDatabase" where
  "run_event ids run from_state =
     append_event ids (run_updated_at run)
       \<lparr>cm_correlation_id = run_correlation_id run, cm_causation_event_id = run_causation_event_id run,
        cm_actor = Some (sup_text ids (run_actor_id run)), cm_automation = None\<rparr>
       (AutomationRunTransitioned (run_automation_id run) (run_version run) (run_id run) from_state (run_state run) (run_revision run))"

definition ensure_identity :: "uuid \<Rightarrow> datetime \<Rightarrow> AutomationDatabase \<Rightarrow> AutomationDatabase" where
  "ensure_identity i created_at db =
     (case map_of (ad_identities db) i of
        Some _ \<Rightarrow> db
      | None \<Rightarrow> db\<lparr>ad_identities := btree_insert i \<lparr>ids_id = i, ids_state = Operational_Inactive, ids_active_version = None,
          ids_revision = 0, ids_created_at = created_at, ids_updated_at = created_at\<rparr> (ad_identities db)\<rparr>)"

section \<open>Event cursor\<close>

definition load_event_cursor :: "AutomationDatabase \<Rightarrow> AutomationEventCursor" where
  "load_event_cursor db = (case ad_event_cursor db of None \<Rightarrow> \<lparr>aec_cursor = 0, aec_revision = 0\<rparr> | Some c \<Rightarrow> c)"

definition advance_event_cursor :: "nat \<Rightarrow> nat \<Rightarrow> AutomationDatabase \<Rightarrow> StorageError + AutomationEventCursor \<times> AutomationDatabase" where
  "advance_event_cursor expected_revision cursor db =
     (let current = load_event_cursor db in
      if aec_revision current \<noteq> expected_revision then Inl (AutomationEventCursorConflict expected_revision (aec_revision current))
      else if cursor \<le> aec_cursor current then Inl (InvalidAutomation ''automation event cursor must advance'')
      else and_then (ok_or (checked_add u64_max (aec_revision current) 1) NumericOverflow) (\<lambda>revision.
           and_then (storage_to_i64 cursor) (\<lambda>_. and_then (storage_to_i64 revision) (\<lambda>_.
           Inr (\<lparr>aec_cursor = cursor, aec_revision = revision\<rparr>,
                db\<lparr>ad_event_cursor := Some \<lparr>aec_cursor = cursor, aec_revision = revision\<rparr>\<rparr>)))))"

section \<open>Drafts and versions\<close>

definition store_draft :: "AutomationDraft \<Rightarrow> nat option \<Rightarrow> AutomationDatabase \<Rightarrow> StorageError + unit \<times> AutomationDatabase" where
  "store_draft draft expected_revision db =
     (if dra_automation_id draft \<noteq> doc_id (dra_document draft) then Inl (InvalidAutomation ''draft identity mismatch'')
      else let db1 = ensure_identity (dra_automation_id draft) (doc_created_at (dra_document draft)) db;
               found = map_option dra_revision (map_of (ad_drafts db1) (dra_automation_id draft))
           in if found \<noteq> expected_revision \<or>
                 dra_revision draft \<noteq> (case expected_revision of None \<Rightarrow> 0 | Some r \<Rightarrow> saturating_add u64_max r 1)
              then Inl (AutomationDraftConflict expected_revision found)
              else and_then (storage_to_i64 (dra_revision draft)) (\<lambda>_.
                   Inr ((), db1\<lparr>ad_drafts := btree_insert (dra_automation_id draft) draft (ad_drafts db1)\<rparr>)))"

definition validate_version :: "AutomationLibrary \<Rightarrow> StoredAutomationVersion \<Rightarrow> StorageError + unit" where
  "validate_version lib v =
     (let plan = sv_plan v; evidence = sv_validation v in
      case canonical_automation_hash lib (sv_document v) of
        Inl _ \<Rightarrow> Inl (InvalidAutomation ''document hashing failed'')
      | Inr document_hash \<Rightarrow>
          (case canonical_automation_plan_hash lib plan of
             Inl _ \<Rightarrow> Inl (InvalidAutomation ''plan hashing failed'')
           | Inr plan_hash \<Rightarrow>
               if doc_id (sv_document v) \<noteq> pl_automation_id plan \<or> doc_version (sv_document v) \<noteq> pl_automation_version plan \<or>
                  document_hash \<noteq> pl_document_hash plan \<or> plan_hash \<noteq> pl_plan_hash plan \<or>
                  vev_document_hash evidence \<noteq> pl_document_hash plan \<or> vev_plan_hash evidence \<noteq> pl_plan_hash plan \<or>
                  vev_registry_revision evidence \<noteq> pl_registry_revision plan
               then Inl (InvalidAutomation ''version validation evidence mismatch'')
               else case sv_simulation v of
                 None \<Rightarrow> Inr ()
               | Some simulation \<Rightarrow>
                   if sev_document_hash simulation \<noteq> pl_document_hash plan \<or> sev_plan_hash simulation \<noteq> pl_plan_hash plan \<or>
                      sev_registry_revision simulation \<noteq> pl_registry_revision plan
                   then Inl (InvalidAutomation ''version simulation evidence mismatch'') else Inr ()))"

definition version_key :: "StoredAutomationVersion \<Rightarrow> uuid \<times> nat" where
  "version_key v = (doc_id (sv_document v), doc_version (sv_document v))"

text \<open>\<open>INSERT OR IGNORE\<close> skips a row that breaks a key, a uniqueness or a check constraint.\<close>

definition version_row_ignored :: "StoredAutomationVersion \<Rightarrow> AutomationDatabase \<Rightarrow> bool" where
  "version_row_ignored v db \<longleftrightarrow> map_of (ad_versions db) (version_key v) \<noteq> None \<or> doc_version (sv_document v) = 0 \<or>
     length (pl_document_hash (sv_plan v)) \<noteq> 64 \<or> length (pl_plan_hash (sv_plan v)) \<noteq> 64 \<or>
     list_ex (\<lambda>((i, _), w). i = doc_id (sv_document v) \<and>
       (pl_document_hash (sv_plan w) = pl_document_hash (sv_plan v) \<or> pl_plan_hash (sv_plan w) = pl_plan_hash (sv_plan v))) (ad_versions db)"

definition store_version :: "AutomationLibrary \<Rightarrow> IdSupply \<Rightarrow> StoredAutomationVersion \<Rightarrow> AutomationDatabase \<Rightarrow>
   StorageError + unit \<times> AutomationDatabase" where
  "store_version lib ids v db =
     and_then (validate_version lib v) (\<lambda>_.
     let db1 = ensure_identity (doc_id (sv_document v)) (doc_created_at (sv_document v)) db in
     and_then (storage_to_i64 (doc_version (sv_document v))) (\<lambda>_.
     and_then (storage_to_i64 (pl_registry_revision (sv_plan v))) (\<lambda>_.
     if version_row_ignored v db1
     then (if map_of (ad_versions db1) (version_key v) \<noteq> Some v
           then Inl (InvalidAutomation ''immutable automation version conflict'') else Inr ((), db1))
     else Inr ((), version_event ids v None (vev_validated_at (sv_validation v))
       (db1\<lparr>ad_versions := btree_insert (version_key v) v (ad_versions db1)\<rparr>)))))"

definition load_version :: "AutomationDatabase \<Rightarrow> uuid \<Rightarrow> nat \<Rightarrow> StorageError + StoredAutomationVersion option" where
  "load_version db i version = and_then (storage_to_i64 version) (\<lambda>_. Inr (map_of (ad_versions db) (i, version)))"

definition require_version :: "AutomationDatabase \<Rightarrow> uuid \<Rightarrow> nat \<Rightarrow> string \<Rightarrow> StorageError + StoredAutomationVersion" where
  "require_version db i version missing = and_then (load_version db i version) (\<lambda>v. ok_or v (InvalidAutomation missing))"

definition transition_version :: "AutomationLibrary \<Rightarrow> IdSupply \<Rightarrow> StoredAutomationVersion \<Rightarrow> AutomationVersionState \<Rightarrow> AutomationDatabase \<Rightarrow>
   StorageError + unit \<times> AutomationDatabase" where
  "transition_version lib ids v expected_state db =
     and_then (validate_version lib v) (\<lambda>_.
     and_then (require_version db (doc_id (sv_document v)) (doc_version (sv_document v)) ''automation version missing'') (\<lambda>current.
     if sv_state current \<noteq> expected_state \<or> \<not> AutomationVersionState_allows (sv_state current) (sv_state v) \<or>
        sv_document current \<noteq> sv_document v \<or> sv_plan current \<noteq> sv_plan v \<or> sv_validation current \<noteq> sv_validation v \<or>
        (sv_simulation current \<noteq> None \<and> sv_simulation current \<noteq> sv_simulation v)
     then Inl (InvalidAutomation ''invalid automation version transition'')
     else Inr ((), version_event ids v (Some (sv_state current))
       (case sv_simulation v of None \<Rightarrow> vev_validated_at (sv_validation v) | Some evidence \<Rightarrow> sev_simulated_at evidence)
       (db\<lparr>ad_versions := btree_insert (version_key v) v (ad_versions db)\<rparr>))))"

section \<open>Approval and activation\<close>

definition append_approval :: "AutomationApprovalRecord \<Rightarrow> AutomationDatabase \<Rightarrow> StorageError + unit \<times> AutomationDatabase" where
  "append_approval approval db =
     and_then (require_version db (apr_automation_id approval) (apr_version approval) ''approval version missing'') (\<lambda>version.
     if apr_document_hash approval \<noteq> pl_document_hash (sv_plan version) \<or> apr_plan_hash approval \<noteq> pl_plan_hash (sv_plan version)
     then Inl (InvalidAutomation ''approval evidence mismatch'')
     else and_then (insert_idempotent (ad_approvals db) (apr_id approval) approval db
            (Inr (db\<lparr>ad_approvals := btree_insert (apr_id approval) approval (ad_approvals db)\<rparr>))) (\<lambda>db'. Inr ((), db')))"

definition has_exact_approval :: "AutomationDatabase \<Rightarrow> AutomationActivation \<Rightarrow> bool" where
  "has_exact_approval db activation =
     list_ex (\<lambda>(_, a). apr_automation_id a = act_automation_id activation \<and> apr_version a = act_version activation \<and>
       apr_state a = Approval_Approved \<and> apr_document_hash a = act_document_hash activation \<and>
       apr_plan_hash a = act_plan_hash activation) (ad_approvals db)"

definition activate :: "IdSupply \<Rightarrow> AutomationActivation \<Rightarrow> AutomationDatabase \<Rightarrow>
   StorageError + AutomationIdentityState \<times> AutomationDatabase" where
  "activate ids activation db =
     and_then (require_version db (act_automation_id activation) (act_version activation) ''activation version missing'') (\<lambda>version.
     if act_document_hash activation \<noteq> pl_document_hash (sv_plan version) \<or> act_plan_hash activation \<noteq> pl_plan_hash (sv_plan version) \<or>
        act_registry_revision activation \<noteq> pl_registry_revision (sv_plan version)
     then Inl (InvalidAutomation ''activation evidence mismatch'')
     else case sv_simulation version of
       None \<Rightarrow> Inl (InvalidAutomation ''successful simulation evidence missing'')
     | Some simulation \<Rightarrow>
         if \<not> sev_succeeded simulation then Inl (InvalidAutomation ''successful simulation evidence missing'')
         else if sev_document_hash simulation \<noteq> act_document_hash activation \<or> sev_plan_hash simulation \<noteq> act_plan_hash activation \<or>
            sev_registry_revision simulation \<noteq> act_registry_revision activation
         then Inl (InvalidAutomation ''activation simulation evidence mismatch'')
         else if pl_approval (sv_plan version) = ExplicitUserApproval \<and> \<not> has_exact_approval db activation
         then Inl (InvalidAutomation ''exact user approval missing'')
         else and_then (ok_or (map_of (ad_identities db) (act_automation_id activation)) (InvalidAutomation ''automation identity missing'')) (\<lambda>identity.
           if ids_state identity = Operational_Retired then Inl (InvalidAutomation ''retired automation cannot activate'')
           else if ids_revision identity \<noteq> act_expected_revision activation
           then Inl (AutomationIdentityConflict (act_expected_revision activation) (ids_revision identity))
           else let identity' = identity\<lparr>ids_state := Operational_Active, ids_active_version := Some (act_version activation),
                      ids_revision := saturating_add u64_max (ids_revision identity) 1, ids_updated_at := act_activated_at activation\<rparr>
                in and_then (storage_to_i64 (ids_revision identity')) (\<lambda>_.
                   Inr (identity', operational_event ids identity' (ids_state identity)
                     (Some (sup_text ids (prov_author_id (doc_provenance (sv_document version)))))
                     (db\<lparr>ad_identities := btree_insert (act_automation_id activation) identity' (ad_identities db)\<rparr>)))))"

definition identity_actor :: "IdSupply \<Rightarrow> AutomationDatabase \<Rightarrow> AutomationIdentityState \<Rightarrow> StorageError + string option" where
  "identity_actor ids db current = (case ids_active_version current of
       Some version \<Rightarrow> and_then (load_version db (ids_id current) version) (\<lambda>v.
         Inr (map_option (\<lambda>v. sup_text ids (prov_author_id (doc_provenance (sv_document v)))) v))
     | None \<Rightarrow> Inr (map_option (\<lambda>d. sup_text ids (prov_author_id (doc_provenance (dra_document d)))) (map_of (ad_drafts db) (ids_id current))))"

definition transition_identity :: "IdSupply \<Rightarrow> AutomationIdentityState \<Rightarrow> nat \<Rightarrow> AutomationDatabase \<Rightarrow>
   StorageError + AutomationIdentityState \<times> AutomationDatabase" where
  "transition_identity ids identity expected_revision db =
     and_then (ok_or (map_of (ad_identities db) (ids_id identity)) (InvalidAutomation ''automation identity missing'')) (\<lambda>current.
     if ids_revision current \<noteq> expected_revision then Inl (AutomationIdentityConflict expected_revision (ids_revision current))
     else if ids_revision identity \<noteq> saturating_add u64_max expected_revision 1 \<or>
        \<not> AutomationOperationalState_allows (ids_state current) (ids_state identity) \<or>
        ids_active_version current \<noteq> ids_active_version identity \<or> ids_created_at current \<noteq> ids_created_at identity
     then Inl (InvalidAutomation ''invalid automation identity transition'')
     else and_then (identity_actor ids db current) (\<lambda>actor.
          and_then (storage_to_i64 (ids_revision identity)) (\<lambda>_.
          Inr (identity, operational_event ids identity (ids_state current) actor
            (db\<lparr>ad_identities := btree_insert (ids_id identity) identity (ad_identities db)\<rparr>)))))"

definition load_active_versions :: "AutomationDatabase \<Rightarrow> nat \<Rightarrow> ActiveAutomationVersion list" where
  "load_active_versions db limit =
     take (min MAX_QUERY_PAGE (max 1 limit)) (List.map_filter (\<lambda>(i, identity).
       if ids_state identity = Operational_Active
       then case ids_active_version identity of
              None \<Rightarrow> None
            | Some version \<Rightarrow> map_option (\<lambda>v. \<lparr>aav_identity = identity, aav_version = v\<rparr>) (map_of (ad_versions db) (i, version))
       else None) (ad_identities db))"

section \<open>Occurrences, runs, timers and trace\<close>

definition same_occurrence :: "AutomationOccurrence \<Rightarrow> AutomationOccurrence \<Rightarrow> bool" where
  "same_occurrence a b \<longleftrightarrow> occ_automation_id a = occ_automation_id b \<and> occ_version a = occ_version b \<and>
     occ_occurred_at a = occ_occurred_at b \<and> occ_window_ends_at a = occ_window_ends_at b \<and> occ_event_cursor a = occ_event_cursor b \<and>
     occ_correlation_id a = occ_correlation_id b \<and> occ_causation_event_id a = occ_causation_event_id b \<and> occ_catch_up a = occ_catch_up b"

definition version_exists :: "AutomationDatabase \<Rightarrow> uuid \<Rightarrow> nat \<Rightarrow> bool" where
  "version_exists db i version \<longleftrightarrow> map_of (ad_versions db) (i, version) \<noteq> None"

definition require_row :: "bool \<Rightarrow> AutomationDatabase \<Rightarrow> StorageError + AutomationDatabase" where
  "require_row holds db = (if holds then Inr db else Inl (Sqlite ConstraintViolation))"

definition create_occurrence :: "AutomationOccurrence \<Rightarrow> AutomationDatabase \<Rightarrow> StorageError + unit \<times> AutomationDatabase" where
  "create_occurrence occurrence db =
     (case map_of (ad_occurrences db) (occ_id occurrence) of
        Some existing \<Rightarrow>
          if same_occurrence existing occurrence then Inr ((), db)
          else Inl (InvalidAutomation ''stable occurrence identity payload conflict'')
      | None \<Rightarrow>
          and_then (insert_idempotent (ad_occurrences db) (occ_id occurrence) occurrence db
            (and_then (storage_to_i64 (occ_version occurrence)) (\<lambda>_.
             and_then (case occ_event_cursor occurrence of None \<Rightarrow> Inr 0 | Some c \<Rightarrow> storage_to_i64 c) (\<lambda>_.
             require_row (version_exists db (occ_automation_id occurrence) (occ_version occurrence))
               (db\<lparr>ad_occurrences := btree_insert (occ_id occurrence) occurrence (ad_occurrences db)\<rparr>))))) (\<lambda>db'. Inr ((), db')))"

definition transition_occurrence :: "AutomationOccurrence \<Rightarrow> AutomationDatabase \<Rightarrow> StorageError + unit \<times> AutomationDatabase" where
  "transition_occurrence occurrence db =
     and_then (ok_or (map_of (ad_occurrences db) (occ_id occurrence)) (InvalidAutomation ''automation occurrence missing'')) (\<lambda>current.
     if \<not> same_occurrence current occurrence \<or> \<not> AutomationOccurrenceState_allows (occ_state current) (occ_state occurrence)
     then Inl (InvalidAutomation ''invalid automation occurrence transition'')
     else Inr ((), db\<lparr>ad_occurrences := btree_insert (occ_id occurrence) occurrence (ad_occurrences db)\<rparr>))"

definition create_run :: "IdSupply \<Rightarrow> AutomationRun \<Rightarrow> AutomationDatabase \<Rightarrow> StorageError + unit \<times> AutomationDatabase" where
  "create_run ids run db =
     (if run_revision run \<noteq> 0 then Inl (InvalidAutomation ''new automation run revision must be zero'')
      else and_then (insert_idempotent (ad_runs db) (run_id run) run db
        (and_then (storage_to_i64 (run_version run)) (\<lambda>_.
         and_then (require_row (version_exists db (run_automation_id run) (run_version run) \<and>
             map_of (ad_occurrences db) (run_occurrence_id run) \<noteq> None \<and>
             \<not> list_ex (\<lambda>(_, r). run_occurrence_id r = run_occurrence_id run) (ad_runs db))
           (db\<lparr>ad_runs := btree_insert (run_id run) run (ad_runs db)\<rparr>)) (\<lambda>db'.
         Inr (run_event ids run None db'))))) (\<lambda>db'. Inr ((), db')))"

definition transition_run :: "IdSupply \<Rightarrow> AutomationRun \<Rightarrow> nat \<Rightarrow> AutomationDatabase \<Rightarrow> StorageError + unit \<times> AutomationDatabase" where
  "transition_run ids run expected_revision db =
     and_then (ok_or (map_of (ad_runs db) (run_id run)) (InvalidAutomation ''automation run missing'')) (\<lambda>current.
     if run_revision current \<noteq> expected_revision then Inl (AutomationRunConflict expected_revision (run_revision current))
     else if run_revision run \<noteq> saturating_add u64_max expected_revision 1 \<or>
        \<not> AutomationRunState_allows_revision_to (run_state current) (run_state run) \<or>
        run_automation_id current \<noteq> run_automation_id run \<or> run_version current \<noteq> run_version run \<or>
        run_occurrence_id current \<noteq> run_occurrence_id run \<or> run_actor_id current \<noteq> run_actor_id run \<or>
        run_created_at current \<noteq> run_created_at run
     then Inl (InvalidAutomation ''invalid automation run transition'')
     else and_then (storage_to_i64 (run_revision run)) (\<lambda>_.
          Inr ((), run_event ids run (Some (run_state current)) (db\<lparr>ad_runs := btree_insert (run_id run) run (ad_runs db)\<rparr>))))"

definition create_timer :: "AutomationTimer \<Rightarrow> AutomationDatabase \<Rightarrow> StorageError + AutomationDatabase" where
  "create_timer timer db =
     insert_idempotent (ad_timers db) (tm_id timer) timer db
       (require_row (map_of (ad_runs db) (tm_run_id timer) \<noteq> None)
         (db\<lparr>ad_timers := btree_insert (tm_id timer) timer (ad_timers db)\<rparr>))"

definition transition_timer :: "AutomationTimer \<Rightarrow> AutomationDatabase \<Rightarrow> StorageError + AutomationDatabase" where
  "transition_timer timer db =
     and_then (ok_or (map_of (ad_timers db) (tm_id timer)) (InvalidAutomation ''automation timer missing'')) (\<lambda>current.
     if tm_run_id current \<noteq> tm_run_id timer \<or> tm_node_id current \<noteq> tm_node_id timer \<or> tm_kind current \<noteq> tm_kind timer \<or>
        tm_ready_at current \<noteq> tm_ready_at timer \<or> \<not> AutomationTimerState_allows (tm_state current) (tm_state timer)
     then Inl (InvalidAutomation ''invalid automation timer transition'')
     else Inr (db\<lparr>ad_timers := btree_insert (tm_id timer) timer (ad_timers db)\<rparr>))"

definition run_trace :: "AutomationDatabase \<Rightarrow> uuid \<Rightarrow> AutomationTraceStep list" where
  "run_trace db run = filter (\<lambda>s. ts_run_id s = run) (ad_trace db)"

definition expected_sequence :: "AutomationDatabase \<Rightarrow> uuid \<Rightarrow> int" where
  "expected_sequence db run =
     (let sequences = map (\<lambda>s. int (ts_sequence s)) (run_trace db run)
      in if sequences = [] then 0 else min (2 ^ 63 - 1) (Max (set sequences) + 1))"

definition append_trace :: "AutomationTraceStep \<Rightarrow> AutomationDatabase \<Rightarrow> StorageError + AutomationDatabase" where
  "append_trace step db =
     and_then (storage_to_i64 (ts_sequence step)) (\<lambda>sequence.
     if sequence \<noteq> expected_sequence db (ts_run_id step) then Inl (InvalidAutomation ''automation trace sequence is not contiguous'')
     else require_row (map_of (ad_runs db) (ts_run_id step) \<noteq> None \<and> \<not> list_ex (\<lambda>s. ts_id s = ts_id step) (ad_trace db) \<and>
         \<not> list_ex (\<lambda>s. ts_sequence s = ts_sequence step) (run_trace db (ts_run_id step)))
       (db\<lparr>ad_trace := ad_trace db @ [step]\<rparr>))"

fun each :: "('a \<Rightarrow> AutomationDatabase \<Rightarrow> StorageError + AutomationDatabase) \<Rightarrow> 'a list \<Rightarrow> AutomationDatabase \<Rightarrow> StorageError + AutomationDatabase" where
  "each f [] db = Inr db"
| "each f (x # xs) db = and_then (f x db) (each f xs)"

definition commit_step :: "IdSupply \<Rightarrow> AutomationStepWrite \<Rightarrow> AutomationDatabase \<Rightarrow> StorageError + unit \<times> AutomationDatabase" where
  "commit_step ids w db =
     (if list_ex (\<lambda>s. ts_run_id s \<noteq> run_id (sw_run w)) (sw_trace w) \<or>
         list_ex (\<lambda>t. tm_run_id t \<noteq> run_id (sw_run w)) (sw_create_timers w @ sw_transition_timers w)
      then Inl (InvalidAutomation ''automation step contains cross-run state'')
      else and_then (transition_run ids (sw_run w) (sw_expected_run_revision w) db) (\<lambda>(_, db1).
           and_then (each create_timer (sw_create_timers w) db1) (\<lambda>db2.
           and_then (each transition_timer (sw_transition_timers w) db2) (\<lambda>db3.
           and_then (each append_trace (sw_trace w) db3) (\<lambda>db4. Inr ((), db4))))))"

definition load_trace :: "AutomationDatabase \<Rightarrow> uuid \<Rightarrow> nat option \<Rightarrow> nat \<Rightarrow> StorageError + AutomationTraceStep list" where
  "load_trace db run after_sequence limit =
     and_then (case after_sequence of None \<Rightarrow> Inr (- 1) | Some s \<Rightarrow> storage_to_i64 s) (\<lambda>after.
     Inr (take (min limit MAX_QUERY_PAGE) (sort_key ts_sequence (filter (\<lambda>s. after < int (ts_sequence s)) (run_trace db run)))))"

section \<open>Recovery and retention\<close>

text \<open>Rows ordered by one column, then by primary key, up to a limit.\<close>

definition page :: "('a \<Rightarrow> bool) \<Rightarrow> ('a \<Rightarrow> 'b::linorder) \<Rightarrow> nat \<Rightarrow> ('k::linorder, 'a) btree \<Rightarrow> ('k, 'a) btree" where
  "page selected key limit table = take limit (sort_key (\<lambda>(k, x). (key x, k)) (filter (\<lambda>(_, x). selected x) table))"

definition automation_recover :: "AutomationDatabase \<Rightarrow> nat \<Rightarrow> AutomationRecovery" where
  "automation_recover db limit =
     (let limit = min limit MAX_QUERY_PAGE in
      \<lparr>rec_occurrences = map snd (page (\<lambda>o'. occ_state o' \<in> {Occurrence_Scheduled, Occurrence_Accepted})
          (\<lambda>o'. (occ_occurred_at o', occ_event_cursor o' \<noteq> None, case occ_event_cursor o' of None \<Rightarrow> 0 | Some c \<Rightarrow> c)) limit (ad_occurrences db)),
       rec_runs = map snd (page (\<lambda>r. run_state r \<in> {Run_Pending, Run_Running, Run_Waiting}) run_created_at limit (ad_runs db)),
       rec_timers = map snd (page (\<lambda>t. tm_state t \<in> {Timer_Pending, Timer_Ready}) tm_ready_at limit (ad_timers db))\<rparr>)"

definition delete_rows :: "('k \<times> 'a) list \<Rightarrow> ('k, 'b) btree \<Rightarrow> ('k, 'b) btree" where
  "delete_rows rows table = filter (\<lambda>(k, _). k \<notin> fst ` set rows) table"

definition run_settled :: "AutomationDatabase \<Rightarrow> datetime \<Rightarrow> uuid \<Rightarrow> bool" where
  "run_settled db before i = (case map_of (ad_runs db) i of
       None \<Rightarrow> False
     | Some r \<Rightarrow> AutomationRunState_is_terminal (run_state r) \<and> run_updated_at r < before)"

definition retain_drafts :: "AutomationRetention \<Rightarrow> nat \<Rightarrow> AutomationDatabase \<Rightarrow> nat \<times> AutomationDatabase" where
  "retain_drafts policy limit db =
     (let rows = page (\<lambda>d. dra_updated_at d < art_drafts_before policy) dra_updated_at limit (ad_drafts db)
      in (length rows, db\<lparr>ad_drafts := delete_rows rows (ad_drafts db)\<rparr>))"

definition retain_trace :: "AutomationRetention \<Rightarrow> nat \<Rightarrow> AutomationDatabase \<Rightarrow> nat \<times> AutomationDatabase" where
  "retain_trace policy limit db =
     (let rows = take limit (sort_key (\<lambda>s. (ts_occurred_at s, ts_id s)) (filter (\<lambda>s. run_settled db (art_runtime_before policy) (ts_run_id s)) (ad_trace db)))
      in (length rows, db\<lparr>ad_trace := filter (\<lambda>s. ts_id s \<notin> ts_id ` set rows) (ad_trace db)\<rparr>))"

definition retain_timers :: "AutomationRetention \<Rightarrow> nat \<Rightarrow> AutomationDatabase \<Rightarrow> nat \<times> AutomationDatabase" where
  "retain_timers policy limit db =
     (let rows = page (\<lambda>t. tm_state t \<in> {Timer_Consumed, Timer_Cancelled} \<and> run_settled db (art_runtime_before policy) (tm_run_id t)) tm_ready_at limit (ad_timers db)
      in (length rows, db\<lparr>ad_timers := delete_rows rows (ad_timers db)\<rparr>))"

text \<open>Deleting a run deletes its trace with it.\<close>

definition retain_runs :: "AutomationRetention \<Rightarrow> nat \<Rightarrow> AutomationDatabase \<Rightarrow> nat \<times> AutomationDatabase" where
  "retain_runs policy limit db =
     (let rows = page (\<lambda>r. AutomationRunState_is_terminal (run_state r) \<and> run_updated_at r < art_runtime_before policy \<and> \<not> list_ex (\<lambda>(_, t). tm_run_id t = run_id r) (ad_timers db))
            run_updated_at limit (ad_runs db)
      in (length rows, db\<lparr>ad_runs := delete_rows rows (ad_runs db),
            ad_trace := filter (\<lambda>s. ts_run_id s \<notin> fst ` set rows) (ad_trace db)\<rparr>))"

definition retain_occurrences :: "AutomationRetention \<Rightarrow> nat \<Rightarrow> AutomationDatabase \<Rightarrow> nat \<times> AutomationDatabase" where
  "retain_occurrences policy limit db =
     (let rows = page (\<lambda>o'. occ_state o' \<in> {Occurrence_Accepted, Occurrence_MissedSkipped, Occurrence_Suppressed} \<and>
              occ_window_ends_at o' < art_runtime_before policy \<and> \<not> list_ex (\<lambda>(_, r). run_occurrence_id r = occ_id o') (ad_runs db))
            occ_window_ends_at limit (ad_occurrences db)
      in (length rows, db\<lparr>ad_occurrences := delete_rows rows (ad_occurrences db)\<rparr>))"

definition version_candidates :: "AutomationRetention \<Rightarrow> nat \<Rightarrow> AutomationDatabase \<Rightarrow> (uuid \<times> nat, StoredAutomationVersion) btree" where
  "version_candidates policy limit db =
     page (\<lambda>v. sv_state v = Version_Retired \<and> doc_created_at (sv_document v) < art_versions_before policy \<and>
         (case map_of (ad_identities db) (doc_id (sv_document v)) of
            None \<Rightarrow> True | Some i \<Rightarrow> ids_active_version i \<noteq> Some (doc_version (sv_document v))) \<and>
         \<not> list_ex (\<lambda>(_, o'). occ_automation_id o' = doc_id (sv_document v) \<and> occ_version o' = doc_version (sv_document v)) (ad_occurrences db))
       (\<lambda>v. doc_created_at (sv_document v)) limit (ad_versions db)"

text \<open>Deletes the versions with their approvals; a run that still refers to one makes the deletion fail.\<close>

fun delete_versions :: "(uuid \<times> nat, StoredAutomationVersion) btree \<Rightarrow> nat \<times> nat \<Rightarrow> AutomationDatabase \<Rightarrow>
   StorageError + (nat \<times> nat) \<times> AutomationDatabase" where
  "delete_versions [] counts db = Inr (counts, db)"
| "delete_versions ((k, v) # rest) (approvals, versions) db =
     (let rows = filter (\<lambda>(_, a). (apr_automation_id a, apr_version a) = k) (ad_approvals db)
      in if list_ex (\<lambda>(_, r). (run_automation_id r, run_version r) = k) (ad_runs db) then Inl (Sqlite ConstraintViolation)
         else delete_versions rest (saturating_add u64_max approvals (length rows), saturating_add u64_max versions 1)
           (db\<lparr>ad_approvals := filter (\<lambda>(_, a). (apr_automation_id a, apr_version a) \<noteq> k) (ad_approvals db),
               ad_versions := filter (\<lambda>(j, _). j \<noteq> k) (ad_versions db)\<rparr>))"

definition automation_retain :: "AutomationRetention \<Rightarrow> AutomationDatabase \<Rightarrow> StorageError + AutomationRetentionResult \<times> AutomationDatabase" where
  "automation_retain policy db0 =
     (let limit = max 1 (art_limit_per_category policy);
          (drafts, db1) = retain_drafts policy limit db0;
          (trace_steps, db2) = retain_trace policy limit db1;
          (timers, db3) = retain_timers policy limit db2;
          (runs, db4) = retain_runs policy limit db3;
          (occurrences, db5) = retain_occurrences policy limit db4
      in and_then (delete_versions (version_candidates policy limit db5) (0, 0) db5) (\<lambda>((approvals, versions), db6).
         Inr (\<lparr>arr_drafts = drafts, arr_trace_steps = trace_steps, arr_timers = timers, arr_runs = runs, arr_occurrences = occurrences,
               arr_approvals = approvals, arr_versions = versions\<rparr>, db6)))"

section \<open>Reachable databases\<close>

text \<open>One committed write of the repository.\<close>

inductive store_step :: "AutomationLibrary \<Rightarrow> IdSupply \<Rightarrow> AutomationDatabase \<Rightarrow> AutomationDatabase \<Rightarrow> bool" for lib ids where
  step_draft: "store_draft draft expected db = Inr (u, db') \<Longrightarrow> store_step lib ids db db'"
| step_version: "store_version lib ids v db = Inr (u, db') \<Longrightarrow> store_step lib ids db db'"
| step_transition_version: "transition_version lib ids v expected_state db = Inr (u, db') \<Longrightarrow> store_step lib ids db db'"
| step_approval: "append_approval approval db = Inr (u, db') \<Longrightarrow> store_step lib ids db db'"
| step_activate: "activate ids activation db = Inr (identity, db') \<Longrightarrow> store_step lib ids db db'"
| step_identity: "transition_identity ids identity expected_revision db = Inr (identity', db') \<Longrightarrow> store_step lib ids db db'"
| step_cursor: "advance_event_cursor expected_revision cursor db = Inr (c, db') \<Longrightarrow> store_step lib ids db db'"
| step_occurrence: "create_occurrence occurrence db = Inr (u, db') \<Longrightarrow> store_step lib ids db db'"
| step_transition_occurrence: "transition_occurrence occurrence db = Inr (u, db') \<Longrightarrow> store_step lib ids db db'"
| step_run: "create_run ids run db = Inr (u, db') \<Longrightarrow> store_step lib ids db db'"
| step_transition_run: "transition_run ids run expected_revision db = Inr (u, db') \<Longrightarrow> store_step lib ids db db'"
| step_timer: "create_timer timer db = Inr db' \<Longrightarrow> store_step lib ids db db'"
| step_transition_timer: "transition_timer timer db = Inr db' \<Longrightarrow> store_step lib ids db db'"
| step_commit: "commit_step ids w db = Inr (u, db') \<Longrightarrow> store_step lib ids db db'"
| step_trace: "append_trace step db = Inr db' \<Longrightarrow> store_step lib ids db db'"
| step_retain: "automation_retain policy db = Inr (result, db') \<Longrightarrow> store_step lib ids db db'"

text \<open>The tables a group of operations leaves alone.\<close>

definition same_governance :: "AutomationDatabase \<Rightarrow> AutomationDatabase \<Rightarrow> bool" where
  "same_governance db db' \<longleftrightarrow> ad_identities db' = ad_identities db \<and> ad_versions db' = ad_versions db \<and> ad_approvals db' = ad_approvals db"

definition same_runs :: "AutomationDatabase \<Rightarrow> AutomationDatabase \<Rightarrow> bool" where
  "same_runs db db' \<longleftrightarrow> ad_runs db' = ad_runs db \<and> ad_trace db' = ad_trace db"

interpretation governance: state_preorder same_governance
  by unfold_locales (auto simp: same_governance_def)

interpretation runs: state_preorder same_runs
  by unfold_locales (auto simp: same_runs_def)

lemma append_event_sel [simp]:
  "ad_identities (append_event ids at c k db) = ad_identities db" "ad_versions (append_event ids at c k db) = ad_versions db"
  "ad_approvals (append_event ids at c k db) = ad_approvals db" "ad_runs (append_event ids at c k db) = ad_runs db"
  "ad_trace (append_event ids at c k db) = ad_trace db" "ad_timers (append_event ids at c k db) = ad_timers db"
  "ad_occurrences (append_event ids at c k db) = ad_occurrences db" "ad_drafts (append_event ids at c k db) = ad_drafts db"
  by (simp_all add: append_event_def)

lemma version_event_sel [simp]:
  "ad_identities (version_event ids v f at db) = ad_identities db" "ad_versions (version_event ids v f at db) = ad_versions db"
  "ad_approvals (version_event ids v f at db) = ad_approvals db" "ad_runs (version_event ids v f at db) = ad_runs db"
  "ad_trace (version_event ids v f at db) = ad_trace db" "ad_timers (version_event ids v f at db) = ad_timers db"
  by (simp_all add: version_event_def)

lemma operational_event_sel [simp]:
  "ad_identities (operational_event ids i f a db) = ad_identities db" "ad_versions (operational_event ids i f a db) = ad_versions db"
  "ad_approvals (operational_event ids i f a db) = ad_approvals db" "ad_runs (operational_event ids i f a db) = ad_runs db"
  "ad_trace (operational_event ids i f a db) = ad_trace db" "ad_timers (operational_event ids i f a db) = ad_timers db"
  by (simp_all add: operational_event_def)

lemma run_event_sel [simp]:
  "ad_identities (run_event ids r f db) = ad_identities db" "ad_versions (run_event ids r f db) = ad_versions db"
  "ad_approvals (run_event ids r f db) = ad_approvals db" "ad_runs (run_event ids r f db) = ad_runs db"
  "ad_trace (run_event ids r f db) = ad_trace db" "ad_timers (run_event ids r f db) = ad_timers db"
  by (simp_all add: run_event_def)

lemma ensure_identity_sel [simp]:
  "ad_versions (ensure_identity i at db) = ad_versions db" "ad_approvals (ensure_identity i at db) = ad_approvals db"
  "ad_runs (ensure_identity i at db) = ad_runs db" "ad_trace (ensure_identity i at db) = ad_trace db"
  by (simp_all add: ensure_identity_def split: option.split)

lemma insert_idempotent_Inr:
  "insert_idempotent table i x db added = Inr db' \<longleftrightarrow> (map_of table i = Some x \<and> db' = db) \<or> (map_of table i = None \<and> added = Inr db')"
  by (auto simp: insert_idempotent_def split: option.split)

lemma require_row_Inr: "require_row holds db = Inr db' \<longleftrightarrow> holds \<and> db' = db"
  by (auto simp: require_row_def)

lemmas store_simps = result_simps insert_idempotent_Inr require_row_Inr require_version_def load_version_def

lemma each_preserves:
  assumes "\<And>x db db'. x \<in> set xs \<Longrightarrow> f x db = Inr db' \<Longrightarrow> P db \<Longrightarrow> P db'"
  shows "each f xs db = Inr db' \<Longrightarrow> P db \<Longrightarrow> P db'"
  using assms by (induction xs arbitrary: db) (auto simp: result_simps)

lemma runtime_governance:
  "create_occurrence occurrence db = Inr (u, db') \<Longrightarrow> same_governance db db'"
  "transition_occurrence occurrence db = Inr (u, db') \<Longrightarrow> same_governance db db'"
  "create_run ids run db = Inr (u, db') \<Longrightarrow> same_governance db db'"
  "transition_run ids run expected db = Inr (u, db') \<Longrightarrow> same_governance db db'"
  "create_timer timer db = Inr db' \<Longrightarrow> same_governance db db'"
  "transition_timer timer db = Inr db' \<Longrightarrow> same_governance db db'"
  "append_trace step db = Inr db' \<Longrightarrow> same_governance db db'"
  "advance_event_cursor expected cursor db = Inr (c, db') \<Longrightarrow> same_governance db db'"
  by (auto simp: same_governance_def create_occurrence_def transition_occurrence_def create_run_def transition_run_def create_timer_def
      transition_timer_def append_trace_def advance_event_cursor_def Let_def store_simps split: option.splits if_splits)

lemma commit_step_governance: "commit_step ids w db = Inr (u, db') \<Longrightarrow> same_governance db db'"
  unfolding commit_step_def
  by (auto simp: result_simps split: if_splits dest!: runtime_governance(4)
      each_preserves [where P = "same_governance db", rotated] intro: governance.rel_trans runtime_governance)

section \<open>Activation is governed\<close>

text \<open>The evidence an active version rests on: a successful simulation of exactly its plan and, where
  the plan asks for it, an approval of exactly its document and plan.\<close>

definition approved :: "AutomationDatabase \<Rightarrow> uuid \<Rightarrow> nat \<Rightarrow> AutomationExecutionPlan \<Rightarrow> bool" where
  "approved db i version plan \<longleftrightarrow> (\<exists>(_, a) \<in> set (ad_approvals db). apr_automation_id a = i \<and> apr_version a = version \<and>
     apr_state a = Approval_Approved \<and> apr_document_hash a = pl_document_hash plan \<and> apr_plan_hash a = pl_plan_hash plan)"

definition evidenced :: "AutomationDatabase \<Rightarrow> uuid \<Rightarrow> nat \<Rightarrow> StoredAutomationVersion \<Rightarrow> bool" where
  "evidenced db i version v \<longleftrightarrow> (\<exists>s. sv_simulation v = Some s \<and> sev_succeeded s \<and> sev_document_hash s = pl_document_hash (sv_plan v) \<and>
     sev_plan_hash s = pl_plan_hash (sv_plan v) \<and> sev_registry_revision s = pl_registry_revision (sv_plan v)) \<and>
     (pl_approval (sv_plan v) = ExplicitUserApproval \<longrightarrow> approved db i version (sv_plan v))"

definition version_wf :: "AutomationLibrary \<Rightarrow> uuid \<times> nat \<Rightarrow> StoredAutomationVersion \<Rightarrow> bool" where
  "version_wf lib k v \<longleftrightarrow> version_key v = k \<and> validate_version lib v = Inr ()"

definition governed :: "AutomationLibrary \<Rightarrow> AutomationDatabase \<Rightarrow> bool" where
  "governed lib db \<longleftrightarrow> btree_wf (ad_identities db) \<and> (\<forall>(k, v) \<in> set (ad_versions db). version_wf lib k v) \<and>
     (\<forall>i identity version. map_of (ad_identities db) i = Some identity \<longrightarrow> ids_active_version identity = Some version \<longrightarrow>
        (\<exists>v. map_of (ad_versions db) (i, version) = Some v \<and> evidenced db i version v))"

lemma governedD:
  assumes "governed lib db"
  shows "(k, v) \<in> set (ad_versions db) \<Longrightarrow> version_wf lib k v"
    and "map_of (ad_identities db) i = Some identity \<Longrightarrow> ids_active_version identity = Some version \<Longrightarrow>
      \<exists>v. map_of (ad_versions db) (i, version) = Some v \<and> evidenced db i version v"
    and "btree_wf (ad_identities db)"
  using assms unfolding governed_def by (blast, metis, blast)

lemma governedI:
  assumes "\<And>k v. (k, v) \<in> set (ad_versions db) \<Longrightarrow> version_wf lib k v"
    and "\<And>i identity version. map_of (ad_identities db) i = Some identity \<Longrightarrow> ids_active_version identity = Some version \<Longrightarrow>
      \<exists>v. map_of (ad_versions db) (i, version) = Some v \<and> evidenced db i version v"
    and "btree_wf (ad_identities db)"
  shows "governed lib db"
  using assms by (auto simp: governed_def)

lemma governed_frame: "governed lib db \<Longrightarrow> same_governance db db' \<Longrightarrow> governed lib db'"
  by (simp add: governed_def same_governance_def evidenced_def approved_def)

lemma evidenced_mono: "evidenced db i version v \<Longrightarrow> set (ad_approvals db) \<subseteq> set (ad_approvals db') \<Longrightarrow> evidenced db' i version v"
  unfolding evidenced_def approved_def by blast

lemma set_btree_insert_subset: "set (btree_insert k v m) \<subseteq> Set.insert (k, v) (set m)"
  by (induction k v m rule: btree_insert.induct) auto

lemma set_btree_insert_new: "map_of m k = None \<Longrightarrow> set (btree_insert k v m) = Set.insert (k, v) (set m)"
  by (induction k v m rule: btree_insert.induct) (auto split: if_splits)

text \<open>The shape of every change of the versions: rows are added or advanced, never altered in content.\<close>

lemma governed_versions:
  assumes "governed lib db"
    and "ad_identities db' = ad_identities db" "set (ad_approvals db) \<subseteq> set (ad_approvals db')"
    and "ad_versions db' = btree_insert (version_key v) v (ad_versions db)" "validate_version lib v = Inr ()"
    and "\<And>w. map_of (ad_versions db) (version_key v) = Some w \<Longrightarrow> sv_plan w = sv_plan v \<and> (sv_simulation w = None \<or> sv_simulation w = sv_simulation v)"
  shows "governed lib db'"
proof (rule governedI)
  fix k x assume "(k, x) \<in> set (ad_versions db')"
  then have "(k, x) = (version_key v, v) \<or> (k, x) \<in> set (ad_versions db)" unfolding assms(4) using set_btree_insert_subset by fast
  then show "version_wf lib k x" using governedD(1) [OF assms(1), of k x] assms(5) by (auto simp: version_wf_def)
next
  fix i identity version
  assume "map_of (ad_identities db') i = Some identity" "ids_active_version identity = Some version"
  then obtain w where w: "map_of (ad_versions db) (i, version) = Some w" "evidenced db i version w"
    using governedD(2) [OF assms(1)] unfolding assms(2) by blast
  let ?w = "if (i, version) = version_key v then v else w"
  have "sv_plan ?w = sv_plan w" "sv_simulation ?w = sv_simulation w"
    using assms(6) w by (auto simp: evidenced_def)
  then have "evidenced db' i version ?w" using w(2) assms(3) unfolding evidenced_def approved_def by auto
  moreover have "map_of (ad_versions db') (i, version) = Some ?w" using w(1) assms(4) by simp
  ultimately show "\<exists>v. map_of (ad_versions db') (i, version) = Some v \<and> evidenced db' i version v" by blast
qed (use governedD(3) [OF assms(1)] assms(2) in simp)

lemma governed_ensure:
  assumes "governed lib db"
  shows "governed lib (ensure_identity i at db)"
proof (cases "map_of (ad_identities db) i")
  case None
  show ?thesis
  proof (rule governedI)
    fix k v assume "(k, v) \<in> set (ad_versions (ensure_identity i at db))"
    then show "version_wf lib k v" using governedD(1) [OF assms] by simp
  next
    fix j identity version
    assume "map_of (ad_identities (ensure_identity i at db)) j = Some identity" "ids_active_version identity = Some version"
    then have "map_of (ad_identities db) j = Some identity" using None by (auto simp: ensure_identity_def split: if_splits)
    from governedD(2) [OF assms this] show "\<exists>v. map_of (ad_versions (ensure_identity i at db)) (j, version) = Some v \<and>
        evidenced (ensure_identity i at db) j version v"
      using \<open>ids_active_version identity = Some version\<close> by (simp add: evidenced_def approved_def)
  qed (use None governedD(3) [OF assms] in \<open>simp add: ensure_identity_def\<close>)
qed (use assms in \<open>simp add: ensure_identity_def\<close>)

lemma governed_store_draft: "governed lib db \<Longrightarrow> store_draft draft expected db = Inr (u, db') \<Longrightarrow> governed lib db'"
  using governed_ensure [of lib db "dra_automation_id draft" "doc_created_at (dra_document draft)"]
  by (auto simp: store_draft_def Let_def result_simps same_governance_def split: if_splits intro: governed_frame)

lemma governed_store_version:
  assumes "governed lib db" "store_version lib ids v db = Inr (u, db')"
  shows "governed lib db'"
proof -
  let ?db = "ensure_identity (doc_id (sv_document v)) (doc_created_at (sv_document v)) db"
  have base: "governed lib ?db" using governed_ensure [OF assms(1)] .
  have valid: "validate_version lib v = Inr ()" using assms(2) by (auto simp: store_version_def result_simps)
  show ?thesis
  proof (cases "version_row_ignored v ?db")
    case True
    then show ?thesis using assms(2) base by (auto simp: store_version_def Let_def result_simps split: if_splits)
  next
    case False
    then have "db' = version_event ids v None (vev_validated_at (sv_validation v)) (?db\<lparr>ad_versions := btree_insert (version_key v) v (ad_versions ?db)\<rparr>)"
      using assms(2) by (auto simp: store_version_def Let_def result_simps)
    moreover have "map_of (ad_versions ?db) (version_key v) = None" using False by (auto simp: version_row_ignored_def)
    ultimately show ?thesis using valid by (intro governed_versions [OF base, of _ v]) simp_all
  qed
qed

lemma governed_transition_version:
  assumes "governed lib db" "transition_version lib ids v expected_state db = Inr (u, db')"
  shows "governed lib db'"
proof -
  obtain w where w: "map_of (ad_versions db) (version_key v) = Some w" "sv_plan w = sv_plan v" "sv_simulation w = None \<or> sv_simulation w = sv_simulation v"
    and valid: "validate_version lib v = Inr ()"
    and db': "ad_identities db' = ad_identities db" "ad_approvals db' = ad_approvals db" "ad_versions db' = btree_insert (version_key v) v (ad_versions db)"
    using assms(2) by (auto simp: transition_version_def store_simps version_key_def)
  show ?thesis using w db' by (intro governed_versions [OF assms(1) _ _ _ valid]) simp_all
qed

lemma governed_append_approval:
  assumes "governed lib db" "append_approval approval db = Inr (u, db')"
  shows "governed lib db'"
proof -
  have "ad_identities db' = ad_identities db \<and> ad_versions db' = ad_versions db \<and> set (ad_approvals db) \<subseteq> set (ad_approvals db')"
    using assms(2) by (auto simp: append_approval_def store_simps set_btree_insert_new split: if_splits)
  then have db': "ad_identities db' = ad_identities db" "ad_versions db' = ad_versions db" and more: "set (ad_approvals db) \<subseteq> set (ad_approvals db')"
    by simp_all
  show ?thesis
  proof (rule governedI)
    fix i identity version
    assume "map_of (ad_identities db') i = Some identity" "ids_active_version identity = Some version"
    then show "\<exists>v. map_of (ad_versions db') (i, version) = Some v \<and> evidenced db' i version v"
      using governedD(2) [OF assms(1)] evidenced_mono [OF _ more] unfolding db' by blast
  qed (use governedD(1,3) [OF assms(1)] db' in simp_all)
qed

lemma governed_identity:
  assumes "governed lib db" "ad_versions db' = ad_versions db" "ad_approvals db' = ad_approvals db"
    and "ad_identities db' = btree_insert i identity (ad_identities db)"
    and "\<And>version. ids_active_version identity = Some version \<Longrightarrow> \<exists>v. map_of (ad_versions db) (i, version) = Some v \<and> evidenced db i version v"
  shows "governed lib db'"
proof (rule governedI)
  fix j identity' version
  assume j: "map_of (ad_identities db') j = Some identity'" "ids_active_version identity' = Some version"
  have "\<exists>v. map_of (ad_versions db) (j, version) = Some v \<and> evidenced db j version v"
    using j assms(4,5) governedD(2) [OF assms(1)] by (auto split: if_splits)
  then show "\<exists>v. map_of (ad_versions db') (j, version) = Some v \<and> evidenced db' j version v"
    using assms(2,3) evidenced_mono [of db j version _ db'] by auto
qed (use governedD(1,3) [OF assms(1)] assms(2,4) in simp_all)

lemma activation_evidence:
  assumes "activate ids activation db = Inr (identity, db')"
  obtains v where "map_of (ad_versions db) (act_automation_id activation, act_version activation) = Some v"
    "evidenced db (act_automation_id activation) (act_version activation) v" "ids_active_version identity = Some (act_version activation)"
    "ad_versions db' = ad_versions db" "ad_approvals db' = ad_approvals db"
    "ad_identities db' = btree_insert (act_automation_id activation) identity (ad_identities db)"
proof -
  obtain v s where v: "map_of (ad_versions db) (act_automation_id activation, act_version activation) = Some v"
      "act_document_hash activation = pl_document_hash (sv_plan v)" "act_plan_hash activation = pl_plan_hash (sv_plan v)"
      "act_registry_revision activation = pl_registry_revision (sv_plan v)"
    and s: "sv_simulation v = Some s" "sev_succeeded s" "sev_document_hash s = act_document_hash activation"
      "sev_plan_hash s = act_plan_hash activation" "sev_registry_revision s = act_registry_revision activation"
    and approval: "pl_approval (sv_plan v) = ExplicitUserApproval \<longrightarrow> has_exact_approval db activation"
    and db': "ids_active_version identity = Some (act_version activation)" "ad_versions db' = ad_versions db" "ad_approvals db' = ad_approvals db"
      "ad_identities db' = btree_insert (act_automation_id activation) identity (ad_identities db)"
    using assms by (auto simp: activate_def store_simps Let_def split: if_splits option.splits)
  have "evidenced db (act_automation_id activation) (act_version activation) v"
    using v s approval unfolding evidenced_def approved_def has_exact_approval_def list_ex_iff by auto
  then show thesis using that v(1) db' by blast
qed

lemma governed_activate:
  assumes "governed lib db" "activate ids activation db = Inr (identity, db')"
  shows "governed lib db'"
proof -
  obtain v where "map_of (ad_versions db) (act_automation_id activation, act_version activation) = Some v"
    "evidenced db (act_automation_id activation) (act_version activation) v" "ids_active_version identity = Some (act_version activation)"
    "ad_versions db' = ad_versions db" "ad_approvals db' = ad_approvals db"
    "ad_identities db' = btree_insert (act_automation_id activation) identity (ad_identities db)"
    by (rule activation_evidence [OF assms(2)])
  then show ?thesis by (intro governed_identity [OF assms(1)]) auto
qed

lemma governed_transition_identity:
  assumes "governed lib db" "transition_identity ids identity expected db = Inr (identity', db')"
  shows "governed lib db'"
proof -
  obtain current where current: "map_of (ad_identities db) (ids_id identity) = Some current" "ids_active_version current = ids_active_version identity"
    and db': "ad_versions db' = ad_versions db" "ad_approvals db' = ad_approvals db"
      "ad_identities db' = btree_insert (ids_id identity) identity (ad_identities db)"
    using assms(2) by (auto simp: transition_identity_def store_simps)
  show ?thesis using governedD(2) [OF assms(1) current(1)] current(2) by (intro governed_identity [OF assms(1) db']) simp
qed

lemma page_subset: "set (page selected key limit table) \<subseteq> {(k, x) \<in> set table. selected x}"
  unfolding page_def using set_take_subset by fastforce

lemma map_of_filter_key: "map_of (filter (\<lambda>(j, _). P j) m) = (\<lambda>j. if P j then map_of m j else None)"
  by (induction m) (auto simp: fun_eq_iff)

text \<open>Retention only touches versions that are no identity's active one, with their approvals.\<close>

definition disposable :: "AutomationDatabase \<Rightarrow> uuid \<times> nat \<Rightarrow> bool" where
  "disposable db k \<longleftrightarrow> (case map_of (ad_identities db) (fst k) of None \<Rightarrow> True | Some i \<Rightarrow> ids_active_version i \<noteq> Some (snd k))"

lemma governed_delete_versions:
  "governed lib db \<Longrightarrow> \<forall>k \<in> fst ` set rows. disposable db k \<Longrightarrow> delete_versions rows counts db = Inr (counts', db') \<Longrightarrow> governed lib db'"
proof (induction rows counts db rule: delete_versions.induct)
  case (2 k v rest approvals versions db)
  let ?db = "db\<lparr>ad_approvals := filter (\<lambda>(_, a). (apr_automation_id a, apr_version a) \<noteq> k) (ad_approvals db),
      ad_versions := filter (\<lambda>(j, _). j \<noteq> k) (ad_versions db)\<rparr>"
  have k: "disposable db k" using "2.prems"(2) by simp
  have "governed lib ?db"
  proof (rule governedI)
    fix j w assume "(j, w) \<in> set (ad_versions ?db)"
    then show "version_wf lib j w" using governedD(1) [OF "2.prems"(1)] by simp
  next
    fix i identity version
    assume i: "map_of (ad_identities ?db) i = Some identity" "ids_active_version identity = Some version"
    then have other: "(i, version) \<noteq> k" using k by (auto simp: disposable_def)
    from i obtain w where w: "map_of (ad_versions db) (i, version) = Some w" "evidenced db i version w"
      using governedD(2) [OF "2.prems"(1), of i identity version] by auto
    have "evidenced ?db i version w" using w(2) other unfolding evidenced_def approved_def by fastforce
    then show "\<exists>v. map_of (ad_versions ?db) (i, version) = Some v \<and> evidenced ?db i version v"
      using w(1) other by (auto simp: map_of_filter_key)
  qed (use governedD(3) [OF "2.prems"(1)] in simp)
  moreover have "disposable ?db = disposable db" by (simp add: disposable_def fun_eq_iff)
  ultimately show ?case using "2.IH" "2.prems" by (auto simp: Let_def split: if_splits)
qed simp

lemma retention_frames:
  "same_governance db (snd (retain_drafts policy limit db))" "same_governance db (snd (retain_trace policy limit db))"
  "same_governance db (snd (retain_timers policy limit db))" "same_governance db (snd (retain_runs policy limit db))"
  "same_governance db (snd (retain_occurrences policy limit db))"
  by (simp_all add: same_governance_def retain_drafts_def retain_trace_def retain_timers_def retain_runs_def retain_occurrences_def Let_def)

definition retained_runtime :: "AutomationRetention \<Rightarrow> AutomationDatabase \<Rightarrow> AutomationDatabase" where
  "retained_runtime policy db = (let limit = max 1 (art_limit_per_category policy) in
     snd (retain_occurrences policy limit (snd (retain_runs policy limit (snd (retain_timers policy limit
       (snd (retain_trace policy limit (snd (retain_drafts policy limit db))))))))))"

lemma automation_retain_Inr:
  assumes "automation_retain policy db = Inr (result, db')"
  obtains counts where "delete_versions (version_candidates policy (max 1 (art_limit_per_category policy)) (retained_runtime policy db)) (0, 0)
    (retained_runtime policy db) = Inr (counts, db')"
  using assms by (auto simp: automation_retain_def retained_runtime_def Let_def result_simps case_prod_unfold)

lemma governed_retain:
  assumes "governed lib db" "automation_retain policy db = Inr (result, db')"
  shows "governed lib db'"
proof -
  let ?db = "retained_runtime policy db"
  have same: "same_governance db ?db"
    unfolding retained_runtime_def Let_def by (meson governance.rel_trans retention_frames)
  have base: "governed lib ?db" using governed_frame [OF assms(1) same] .
  obtain counts where deleted: "delete_versions (version_candidates policy (max 1 (art_limit_per_category policy)) ?db) (0, 0) ?db = Inr (counts, db')"
    by (rule automation_retain_Inr [OF assms(2)])
  have "disposable ?db k" if kv: "(k, v) \<in> set (version_candidates policy (max 1 (art_limit_per_category policy)) ?db)" for k v
  proof -
    from kv page_subset have row: "(k, v) \<in> set (ad_versions ?db)"
      and free: "case map_of (ad_identities ?db) (doc_id (sv_document v)) of
        None \<Rightarrow> True | Some i \<Rightarrow> ids_active_version i \<noteq> Some (doc_version (sv_document v))"
      unfolding version_candidates_def by fastforce+
    have "version_key v = k" using governedD(1) [OF base row] by (simp add: version_wf_def)
    then show ?thesis using free by (auto simp: disposable_def version_key_def split: option.splits)
  qed
  then have "\<forall>k \<in> fst ` set (version_candidates policy (max 1 (art_limit_per_category policy)) ?db). disposable ?db k" by auto
  from governed_delete_versions [OF base this deleted] show ?thesis .
qed

text \<open>What holds of the empty database and survives every committed write holds of every database.\<close>

locale store_invariant =
  fixes lib :: AutomationLibrary and ids :: IdSupply and I :: "AutomationDatabase \<Rightarrow> bool"
  assumes initial: "I AutomationDatabase_empty"
    and preserved: "store_step lib ids db db' \<Longrightarrow> I db \<Longrightarrow> I db'"
begin

lemma reachable: "(store_step lib ids)\<^sup>*\<^sup>* AutomationDatabase_empty db \<Longrightarrow> I db"
  by (induction rule: rtranclp_induct) (auto intro: initial preserved)

end

lemma governed_empty: "governed lib AutomationDatabase_empty"
  by (simp add: governed_def AutomationDatabase_empty_def)

lemma governed_step: "store_step lib ids db db' \<Longrightarrow> governed lib db \<Longrightarrow> governed lib db'"
  by (induction rule: store_step.induct)
    (blast intro: governed_store_draft governed_store_version governed_transition_version governed_append_approval governed_activate
      governed_transition_identity governed_retain governed_frame runtime_governance commit_step_governance)+

section \<open>Traces are contiguous\<close>

definition traced :: "AutomationDatabase \<Rightarrow> bool" where
  "traced db \<longleftrightarrow> btree_wf (ad_runs db) \<and> distinct (map ts_id (ad_trace db)) \<and>
     (\<forall>s \<in> set (ad_trace db). map_of (ad_runs db) (ts_run_id s) \<noteq> None) \<and>
     (\<forall>i r. map_of (ad_runs db) i = Some r \<longrightarrow> run_id r = i) \<and>
     (\<forall>i r. map_of (ad_runs db) i = Some r \<longrightarrow> \<not> AutomationRunState_is_terminal (run_state r) \<longrightarrow>
        map ts_sequence (run_trace db i) = [0..<length (run_trace db i)])"

lemma tracedD:
  assumes "traced db"
  shows "btree_wf (ad_runs db)" "distinct (map ts_id (ad_trace db))" "s \<in> set (ad_trace db) \<Longrightarrow> map_of (ad_runs db) (ts_run_id s) \<noteq> None"
    "map_of (ad_runs db) i = Some r \<Longrightarrow> \<not> AutomationRunState_is_terminal (run_state r) \<Longrightarrow>
      map ts_sequence (run_trace db i) = [0..<length (run_trace db i)]"
    "map_of (ad_runs db) i = Some r \<Longrightarrow> run_id r = i"
  using assms unfolding traced_def by metis+

lemma traced_frame: "traced db \<Longrightarrow> same_runs db db' \<Longrightarrow> traced db'"
  by (simp add: traced_def same_runs_def run_trace_def)

lemma governance_runs:
  "store_draft draft expected db = Inr (u, db') \<Longrightarrow> same_runs db db'"
  "store_version lib ids v db = Inr (u, db') \<Longrightarrow> same_runs db db'"
  "transition_version lib ids v expected_state db = Inr (u, db') \<Longrightarrow> same_runs db db'"
  "append_approval approval db = Inr (u, db') \<Longrightarrow> same_runs db db'"
  "activate ids activation db = Inr (identity, db') \<Longrightarrow> same_runs db db'"
  "transition_identity ids identity expected_revision db = Inr (identity', db') \<Longrightarrow> same_runs db db'"
  "advance_event_cursor expected_revision cursor db = Inr (c, db') \<Longrightarrow> same_runs db db'"
  "create_occurrence occurrence db = Inr (u, db') \<Longrightarrow> same_runs db db'"
  "transition_occurrence occurrence db = Inr (u, db') \<Longrightarrow> same_runs db db'"
  "create_timer timer db = Inr db' \<Longrightarrow> same_runs db db'"
  "transition_timer timer db = Inr db' \<Longrightarrow> same_runs db db'"
  by (auto simp: same_runs_def store_draft_def store_version_def transition_version_def append_approval_def activate_def
      transition_identity_def create_occurrence_def transition_occurrence_def create_timer_def
      transition_timer_def advance_event_cursor_def Let_def store_simps split: option.splits if_splits)

lemma not_terminal_revision: "AutomationRunState_allows_revision_to s t \<Longrightarrow> \<not> AutomationRunState_is_terminal s"
  by (cases s) (auto simp: AutomationRunState_allows_revision_to_def AutomationRunState_is_terminal_def)

text \<open>What a committed revision of a run is.\<close>

lemma transition_run_Inr:
  assumes "transition_run ids run expected db = Inr (u, db')"
  obtains current where "map_of (ad_runs db) (run_id run) = Some current" "run_revision current = expected"
    "run_revision run = saturating_add u64_max expected 1" "AutomationRunState_allows_revision_to (run_state current) (run_state run)"
    "db' = run_event ids run (Some (run_state current)) (db\<lparr>ad_runs := btree_insert (run_id run) run (ad_runs db)\<rparr>)"
  using assms by (auto simp: transition_run_def store_simps)

lemma traced_transition_run:
  assumes "traced db" "transition_run ids run expected db = Inr (u, db')"
  shows "traced db'"
proof -
  obtain current where current: "map_of (ad_runs db) (run_id run) = Some current"
    "AutomationRunState_allows_revision_to (run_state current) (run_state run)"
    "db' = run_event ids run (Some (run_state current)) (db\<lparr>ad_runs := btree_insert (run_id run) run (ad_runs db)\<rparr>)"
    by (rule transition_run_Inr [OF assms(2)])
  have runs: "map_of (ad_runs db') = (map_of (ad_runs db))(run_id run \<mapsto> run)" "btree_wf (ad_runs db')"
    and trace: "ad_trace db' = ad_trace db" "run_trace db' = run_trace db"
    using tracedD(1) [OF assms(1)] by (simp_all add: current(3) run_trace_def fun_eq_iff)
  show ?thesis
    unfolding traced_def trace
    using tracedD [OF assms(1)] not_terminal_revision [OF current(2)] current(1) runs by (auto split: if_splits)
qed

lemma traced_create_run:
  assumes "traced db" "create_run ids run db = Inr (u, db')"
  shows "traced db'"
proof (cases "map_of (ad_runs db) (run_id run)")
  case None
  then have db': "db' = run_event ids run None (db\<lparr>ad_runs := btree_insert (run_id run) run (ad_runs db)\<rparr>)"
    using assms(2) by (auto simp: create_run_def store_simps)
  have new: "run_trace db (run_id run) = []"
    using tracedD(3) [OF assms(1)] None by (metis (mono_tags, lifting) filter_False run_trace_def)
  have trace: "ad_trace db' = ad_trace db" "run_trace db' = run_trace db" by (simp_all add: db' run_trace_def fun_eq_iff)
  have runs: "map_of (ad_runs db') = (map_of (ad_runs db))(run_id run \<mapsto> run)" "btree_wf (ad_runs db')"
    using tracedD(1) [OF assms(1)] by (simp_all add: db')
  show ?thesis unfolding traced_def trace using tracedD [OF assms(1)] new runs by (auto split: if_splits)
qed (use assms in \<open>auto simp: create_run_def store_simps split: if_splits\<close>)

lemma expected_sequence_contiguous:
  assumes "map ts_sequence (run_trace db i) = [0..<length (run_trace db i)]"
  shows "expected_sequence db i = (if run_trace db i = [] then 0 else min (2 ^ 63 - 1) (int (length (run_trace db i))))"
proof (cases "run_trace db i = []")
  case False
  let ?n = "length (run_trace db i)"
  have "set (map (\<lambda>s. int (ts_sequence s)) (run_trace db i)) = int ` {0..<?n}"
    using arg_cong [OF assms, of "map int"] by (metis (no_types, lifting) list.map_comp comp_apply list.set_map map_eq_conv set_upt)
  moreover have "Max (int ` {0..<?n}) = int ?n - 1" using False by (intro Max_eqI) (auto simp: image_iff Suc_le_eq intro!: bexI [of _ "?n - 1"])
  ultimately show ?thesis using False by (simp add: expected_sequence_def Let_def)
qed (simp add: expected_sequence_def)

lemma append_trace_Inr:
  "append_trace step db = Inr db' \<longleftrightarrow> try_i64 (ts_sequence step) \<noteq> None \<and> int (ts_sequence step) = expected_sequence db (ts_run_id step) \<and>
     map_of (ad_runs db) (ts_run_id step) \<noteq> None \<and> ts_id step \<notin> ts_id ` set (ad_trace db) \<and>
     ts_sequence step \<notin> ts_sequence ` set (run_trace db (ts_run_id step)) \<and> db' = db\<lparr>ad_trace := ad_trace db @ [step]\<rparr>"
  by (auto simp: append_trace_def store_simps storage_to_i64_def try_i64_def list_ex_iff image_iff)

lemma traced_append_trace:
  assumes "traced db" "append_trace step db = Inr db'"
  shows "traced db'"
proof -
  note ok = assms(2) [unfolded append_trace_Inr]
  have db': "ad_runs db' = ad_runs db" "ad_trace db' = ad_trace db @ [step]" using ok by simp_all
  have trace: "run_trace db' i = run_trace db i @ (if ts_run_id step = i then [step] else [])" for i
    by (simp add: run_trace_def db')
  have succ: "ts_sequence step = length (run_trace db i)"
    if "ts_run_id step = i" "map ts_sequence (run_trace db i) = [0..<length (run_trace db i)]" for i
  proof -
    have "ts_sequence ` set (run_trace db i) = {0..<length (run_trace db i)}" using arg_cong [OF that(2), of set] by simp
    then have "ts_sequence step \<notin> {0..<length (run_trace db i)}" using ok that(1) by blast
    then show ?thesis using ok that expected_sequence_contiguous [OF that(2)] by (auto split: if_splits)
  qed
  show ?thesis
    unfolding traced_def
  proof (intro conjI allI impI)
    fix i r assume "map_of (ad_runs db') i = Some r" "\<not> AutomationRunState_is_terminal (run_state r)"
    then have "map ts_sequence (run_trace db i) = [0..<length (run_trace db i)]" using tracedD(4) [OF assms(1)] db' by simp
    then show "map ts_sequence (run_trace db' i) = [0..<length (run_trace db' i)]" using succ [of i] by (simp add: trace)
  qed (use tracedD [OF assms(1)] ok in \<open>auto simp: db'\<close>)
qed

lemma traced_commit_step:
  assumes "traced db" "commit_step ids w db = Inr (u, db')"
  shows "traced db'"
proof -
  obtain db1 db2 db3 where steps: "transition_run ids (sw_run w) (sw_expected_run_revision w) db = Inr ((), db1)"
    "each create_timer (sw_create_timers w) db1 = Inr db2" "each transition_timer (sw_transition_timers w) db2 = Inr db3"
    "each append_trace (sw_trace w) db3 = Inr db'"
    using assms(2) by (auto simp: commit_step_def result_simps split: if_splits)
  have "traced db1" using traced_transition_run [OF assms(1) steps(1)] .
  with each_preserves [OF _ steps(2)] have "traced db2" by (metis traced_frame governance_runs(10))
  with each_preserves [OF _ steps(3)] have "traced db3" by (metis traced_frame governance_runs(11))
  with each_preserves [OF _ steps(4)] show ?thesis by (metis traced_append_trace)
qed

lemma run_settled_terminal: "run_settled db before i \<Longrightarrow> map_of (ad_runs db) i = Some r \<Longrightarrow> AutomationRunState_is_terminal (run_state r)"
  by (simp add: run_settled_def)

lemma traced_retain_trace:
  assumes "traced db"
  shows "traced (snd (retain_trace policy limit db))"
proof -
  note old = tracedD [OF assms]
  have id_inj: "a = b" if "a \<in> set (ad_trace db)" "b \<in> set (ad_trace db)" "ts_id a = ts_id b" for a b
    using old(2) that by (simp add: distinct_map inj_on_def)
  let ?rows = "take limit (sort_key (\<lambda>s. (ts_occurred_at s, ts_id s)) (filter (\<lambda>s. run_settled db (art_runtime_before policy) (ts_run_id s)) (ad_trace db)))"
  let ?db = "snd (retain_trace policy limit db)"
  have trace: "ad_trace ?db = filter (\<lambda>s. ts_id s \<notin> ts_id ` set ?rows) (ad_trace db)" and runs: "ad_runs ?db = ad_runs db"
    by (simp_all add: retain_trace_def Let_def)
  have rows: "s \<in> set (ad_trace db) \<and> run_settled db (art_runtime_before policy) (ts_run_id s)" if "s \<in> set ?rows" for s
    using in_set_takeD [OF that] by simp
  have kept: "run_trace ?db i = run_trace db i"
    if active: "map_of (ad_runs db) i = Some r" "\<not> AutomationRunState_is_terminal (run_state r)" for i r
  proof -
    have free: "ts_id s \<notin> ts_id ` set ?rows" if s: "s \<in> set (ad_trace db)" "ts_run_id s = i" for s
    proof
      assume "ts_id s \<in> ts_id ` set ?rows"
      then obtain s' where s': "s' \<in> set ?rows" "ts_id s' = ts_id s" by auto
      then have "s' = s" using id_inj [of s' s] rows [OF s'(1)] s(1) by simp
      then have "run_settled db (art_runtime_before policy) i" using rows [OF s'(1)] s(2) by simp
      from run_settled_terminal [OF this active(1)] active(2) show False by simp
    qed
    then show ?thesis unfolding run_trace_def trace filter_filter by (intro filter_cong) auto
  qed
  show ?thesis
    unfolding traced_def runs
  proof (intro conjI allI impI)
    show "distinct (map ts_id (ad_trace ?db))" unfolding trace using old(2) by (simp add: distinct_map_filter)
    fix i r assume "map_of (ad_runs db) i = Some r" "\<not> AutomationRunState_is_terminal (run_state r)"
    then show "map ts_sequence (run_trace ?db i) = [0..<length (run_trace ?db i)]" using kept old(4) by simp
  qed (use old in \<open>auto simp: trace\<close>)
qed

lemma btree_wf_filter: "btree_wf m \<Longrightarrow> btree_wf (filter P m)"
  unfolding btree_wf_def by (induction m) auto

lemma traced_retain_runs:
  assumes "traced db"
  shows "traced (snd (retain_runs policy limit db))"
proof -
  note old = tracedD [OF assms]
  let ?db = "snd (retain_runs policy limit db)"
  obtain keys where runs: "ad_runs ?db = filter (\<lambda>(k, _). k \<notin> keys) (ad_runs db)"
    and trace: "ad_trace ?db = filter (\<lambda>s. ts_run_id s \<notin> keys) (ad_trace db)"
    by (simp add: retain_runs_def Let_def delete_rows_def)
  have "map_of (ad_runs ?db) = (\<lambda>j. if j \<notin> keys then map_of (ad_runs db) j else None)" unfolding runs by (rule map_of_filter_key)
  moreover have "run_trace ?db i = (if i \<in> keys then [] else run_trace db i)" for i
    unfolding run_trace_def trace filter_filter by (auto simp: filter_empty_conv intro: filter_cong)
  moreover have "btree_wf (ad_runs ?db)" unfolding runs by (rule btree_wf_filter [OF old(1)])
  ultimately show ?thesis
    unfolding traced_def trace using old by (auto simp: distinct_map_filter split: if_splits)
qed

lemma delete_versions_runs: "delete_versions rows counts db = Inr (counts', db') \<Longrightarrow> same_runs db db'"
  by (induction rows counts db rule: delete_versions.induct) (auto simp: same_runs_def Let_def split: if_splits)

lemma traced_retain:
  assumes "traced db" "automation_retain policy db = Inr (result, db')"
  shows "traced db'"
proof -
  have frames: "same_runs x (snd (retain_drafts policy limit x))" "same_runs x (snd (retain_timers policy limit x))"
    "same_runs x (snd (retain_occurrences policy limit x))" for x limit
    by (simp_all add: same_runs_def retain_drafts_def retain_timers_def retain_occurrences_def Let_def)
  have "traced (retained_runtime policy db)"
    unfolding retained_runtime_def Let_def
    by (intro traced_frame [OF _ frames(3)] traced_retain_runs traced_frame [OF _ frames(2)] traced_retain_trace traced_frame [OF assms(1) frames(1)])
  moreover obtain counts rows where "delete_versions rows (0, 0) (retained_runtime policy db) = Inr (counts, db')"
    by (rule automation_retain_Inr [OF assms(2)])
  ultimately show ?thesis using traced_frame delete_versions_runs by blast
qed

lemma traced_empty: "traced AutomationDatabase_empty"
  by (simp add: traced_def AutomationDatabase_empty_def)

lemma traced_step: "store_step lib ids db db' \<Longrightarrow> traced db \<Longrightarrow> traced db'"
  by (induction rule: store_step.induct)
    (blast intro: traced_frame governance_runs traced_transition_run traced_create_run traced_append_trace traced_commit_step traced_retain)+

interpretation governance_invariant: store_invariant lib ids "governed lib" for lib ids
  by unfold_locales (auto intro: governed_empty governed_step)

interpretation trace_invariant: store_invariant lib ids traced for lib ids
  by unfold_locales (auto intro: traced_empty traced_step)

text \<open>The effect of a committed interpreter step: one revision of its run and its trace steps; other
  runs and their traces stay.\<close>

lemma each_runs:
  assumes "\<And>x db db'. f x db = Inr db' \<Longrightarrow> same_runs db db'"
  shows "each f xs db = Inr db' \<Longrightarrow> same_runs db db'"
proof (induction xs arbitrary: db)
  case (Cons x xs)
  then obtain mid where "f x db = Inr mid" "each f xs mid = Inr db'" by (auto simp: result_simps)
  then show ?case using runs.rel_trans [OF assms Cons.IH] by blast
qed (simp add: runs.rel_refl)

lemma commit_step_effect:
  assumes "commit_step ids w db = Inr (u, db')" "sw_trace w = [s]"
  obtains current where "map_of (ad_runs db) (run_id (sw_run w)) = Some current" "run_revision current = sw_expected_run_revision w"
    "run_revision (sw_run w) = saturating_add u64_max (sw_expected_run_revision w) 1"
    "AutomationRunState_allows_revision_to (run_state current) (run_state (sw_run w))"
    "map_of (ad_runs db') = (map_of (ad_runs db))(run_id (sw_run w) \<mapsto> sw_run w)"
    "ad_trace db' = ad_trace db @ [s]" "int (ts_sequence s) = expected_sequence db (ts_run_id s)"
    "ts_sequence s \<notin> ts_sequence ` set (run_trace db (ts_run_id s))"
proof -
  obtain db1 db2 db3 where steps: "transition_run ids (sw_run w) (sw_expected_run_revision w) db = Inr ((), db1)"
    "each create_timer (sw_create_timers w) db1 = Inr db2" "each transition_timer (sw_transition_timers w) db2 = Inr db3"
    "append_trace s db3 = Inr db'"
    using assms by (auto simp: commit_step_def result_simps split: if_splits)
  obtain current where current: "map_of (ad_runs db) (run_id (sw_run w)) = Some current" "run_revision current = sw_expected_run_revision w"
    "run_revision (sw_run w) = saturating_add u64_max (sw_expected_run_revision w) 1"
    "AutomationRunState_allows_revision_to (run_state current) (run_state (sw_run w))"
    "db1 = run_event ids (sw_run w) (Some (run_state current)) (db\<lparr>ad_runs := btree_insert (run_id (sw_run w)) (sw_run w) (ad_runs db)\<rparr>)"
    by (rule transition_run_Inr [OF steps(1)])
  have same: "same_runs db1 db3" using each_runs [OF governance_runs(10) steps(2)] each_runs [OF governance_runs(11) steps(3)] by (rule runs.rel_trans)
  then have "run_trace db3 = run_trace db" "expected_sequence db3 = expected_sequence db"
    by (simp_all add: fun_eq_iff same_runs_def run_trace_def expected_sequence_def current(5))
  then show thesis
    using that [OF current(1-4)] same steps(4) by (simp add: append_trace_Inr same_runs_def current(5))
qed

end
