(* ===== verification/Command_Service.thy ===== *)
theory Command_Service
  imports Command_Store
begin

text \<open>
  The actor-bound command service (\<open>homemagic-application/src/command_service.rs\<close>) over the
  command store. The world holds the durable store, the admission limits, the device snapshot
  and what the service did to its environment: the envelopes handed to the adapter and the
  audit records published. The adapter, the confirmation source, the audit sink, the clock, the
  identifier generator, the digest and the optional dispatch control are fields of the service
  record; each answer of an adapter, confirmation or sink may depend on everything it was asked
  before.

  Every operation is a function of the world to a result and a world: an error keeps what was
  already durable.
\<close>

section \<open>Service, requests and errors\<close>

record CommandRequest =
  rq_device_id :: uuid
  rq_endpoint_id :: endpoint_id
  rq_payload :: CommandPayload
  rq_idempotency_key :: string
  rq_deadline :: datetime
  rq_expected :: "ExpectedObservation option"
  rq_dry_run :: bool
  rq_correlation_id :: uuid
  rq_causation_event_id :: "uuid option"
  rq_automation_causation :: "AutomationCausation option"

datatype BoxError = StorageFailure StorageError | OtherFailure string

datatype CommandServiceError =
    DeviceNotFound
  | CommandNotFound
  | ActorNotFound
  | ActorMismatch
  | NotCancellable
  | Service_IdempotencyConflict uuid
  | Repository BoxError
  | AuditPublication BoxError
  | Confirmation_error BoxError
  | CanonicalSerialization
  | InvalidDescriptor
  | InvalidTransition
  | UnlockApprovalUnavailable
  | UnlockNotPending
  | UnlockApprovalDenied

datatype CommandConfirmationOutcome =
    Outcome_Confirmed ObservedConfirmation
  | Outcome_Pending
  | Outcome_Failed CommandFailure

datatype DesiredStateRegistration =
    Registration_Unmanaged
  | Registration_Managed uuid nat "CommandAuditRecord option"

datatype MatterDispatchAdmission =
    Admission_Unmanaged
  | Admission_Committed CommandAggregate CommandAuditRecord
  | Admission_Superseded CommandAggregate
  | AwaitingUnlockAuthorization

text \<open>The \<open>CommandDispatchControl\<close> port: each call may write the store.\<close>

record CommandDispatchControl =
  register_desired :: "Database \<Rightarrow> CommandAggregate \<Rightarrow> datetime
    \<Rightarrow> (BoxError + DesiredStateRegistration) \<times> Database"
  commit_dispatch :: "Database \<Rightarrow> CommandAggregate \<Rightarrow> datetime
    \<Rightarrow> (BoxError + MatterDispatchAdmission) \<times> Database"
  authorize_unlock :: "Database \<Rightarrow> Actor \<Rightarrow> CommandAggregate \<Rightarrow> PolicyDecision \<Rightarrow> datetime
    \<Rightarrow> (BoxError + MatterDispatchAdmission) \<times> Database"

type_synonym canonical_request =
  "uuid \<times> uuid \<times> endpoint_id \<times> CommandPayload \<times> datetime \<times> ExpectedObservation option \<times> bool"

record CommandService =
  cs_limits :: CommandLimitConfig
  cs_freshness :: FreshnessPolicy
  cs_dispatcher :: "CommandEnvelope list \<Rightarrow> CommandEnvelope \<Rightarrow> CommandFailure + AdapterAcknowledgement"
  cs_confirmation :: "nat \<Rightarrow> CommandAggregate \<Rightarrow> BoxError + CommandConfirmationOutcome"
  cs_audits :: "CommandAuditRecord list \<Rightarrow> CommandAuditRecord \<Rightarrow> BoxError + unit"
  cs_clock :: "nat \<Rightarrow> datetime"
  cs_fresh_id :: "nat \<Rightarrow> uuid"
  cs_encode :: "canonical_request \<Rightarrow> nat list option"
  cs_sha256 :: "nat list \<Rightarrow> nat list"
  cs_dispatch_control :: "CommandDispatchControl option"

record World =
  w_db :: Database
  w_limits :: LimitState
  w_foundation :: "BoxError + DeviceRecord list"
  w_ids :: nat
  w_clock :: nat
  w_confirmations :: nat
  w_dispatched :: "CommandEnvelope list"
  w_published :: "CommandAuditRecord list"

type_synonym 'a svc = "World \<Rightarrow> (CommandServiceError + 'a) \<times> World"

definition svc_bind :: "'a svc \<Rightarrow> ('a \<Rightarrow> 'b svc) \<Rightarrow> 'b svc" where
  "svc_bind m f w = (case m w of (Inl e, w') \<Rightarrow> (Inl e, w') | (Inr x, w') \<Rightarrow> f x w')"

definition svc_return :: "'a \<Rightarrow> 'a svc" where
  "svc_return x w = (Inr x, w)"

definition svc_error :: "CommandServiceError \<Rightarrow> 'a svc" where
  "svc_error e w = (Inl e, w)"

definition svc_lift :: "(World \<Rightarrow> CommandServiceError + 'a) \<Rightarrow> 'a svc" where
  "svc_lift f w = (f w, w)"

text \<open>A fresh identifier and a clock reading.\<close>

definition fresh_id :: "CommandService \<Rightarrow> uuid svc" where
  "fresh_id cs w = (Inr (cs_fresh_id cs (w_ids w)), w\<lparr>w_ids := w_ids w + 1\<rparr>)"

definition clock_now :: "CommandService \<Rightarrow> datetime svc" where
  "clock_now cs w = (Inr (cs_clock cs (w_clock w)), w\<lparr>w_clock := w_clock w + 1\<rparr>)"

section \<open>Pure helpers\<close>

definition requested_descriptor :: "CommandPayload \<Rightarrow> CommandServiceError + CapabilityDescriptor" where
  "requested_descriptor payload =
     (let (name, risk) = (case payload of
          OnOff _ \<Rightarrow> (''on_off'', Comfort)
        | Level _ \<Rightarrow> (''level'', Comfort)
        | Position _ \<Rightarrow> (''position'', Mechanical)
        | AccessControl _ \<Rightarrow> (''access_control'', Security))
      in case CapabilityDescriptor_new name 1 risk of
          Inl _ \<Rightarrow> Inl InvalidDescriptor
        | Inr d \<Rightarrow> Inr d)"

definition constraint_state :: "CommandPayload \<Rightarrow> endpoint_id \<Rightarrow> DeviceRecord \<Rightarrow> ConstraintState" where
  "constraint_state payload endpoint device =
     (case payload of
        Position (GoTo _) \<Rightarrow>
          (if list_ex (\<lambda>c. case c of Position_snapshot (Some _) _ _ \<Rightarrow> True | _ \<Rightarrow> False)
                (concat (map es_capabilities
                  (filter (\<lambda>e. es_id e = endpoint) (ds_endpoints (dr_snapshot device)))))
           then Constraint_Available else Constraint_Unavailable)
      | _ \<Rightarrow> Constraint_Available)"

fun find_map :: "('a \<Rightarrow> 'b option) \<Rightarrow> 'a list \<Rightarrow> 'b option" where
  "find_map f [] = None"
| "find_map f (x # xs) = (case f x of Some y \<Rightarrow> Some y | None \<Rightarrow> find_map f xs)"

definition effective_payload ::
  "CommandPayload \<Rightarrow> endpoint_id \<Rightarrow> DeviceRecord \<Rightarrow> FreshnessPolicy \<Rightarrow> datetime \<Rightarrow> CommandPayload" where
  "effective_payload payload endpoint device freshness now =
     (if payload \<noteq> OnOff Toggle \<or>
         DeviceRecord_freshness_at device freshness now \<noteq> FreshnessState.Fresh
      then payload
      else case Option.bind (find (\<lambda>e. es_id e = endpoint) (ds_endpoints (dr_snapshot device)))
             (\<lambda>e. find_map (\<lambda>c. case c of OnOff_snapshot on _ \<Rightarrow> Some (\<not> on) | _ \<Rightarrow> None)
                    (es_capabilities e)) of
          None \<Rightarrow> payload
        | Some on \<Rightarrow> OnOff (OnOff_Set on))"

definition validate_target ::
  "CommandAggregate \<Rightarrow> DeviceRecord \<Rightarrow> datetime \<Rightarrow> CommandErrorCode + unit" where
  "validate_target c device now =
     (let e = ca_envelope c in
      and_then (CommandEnvelope_validate e now) (\<lambda>_.
        if \<not> (case map_of (dr_capability_descriptors device) (ce_endpoint_id e) of
                None \<Rightarrow> False | Some ds \<Rightarrow> ce_capability e \<in> set ds)
        then Inl CapabilityMismatch
        else if (case ce_expected e of None \<Rightarrow> False
                 | Some x \<Rightarrow> eo_observed_at x \<noteq> ds_observed_at (dr_snapshot device))
        then Inl StaleObservation
        else if ce_payload e = OnOff Toggle then Inl StaleObservation
        else if constraint_state (ce_payload e) (ce_endpoint_id e) device = Constraint_Unavailable
        then Inl UnsupportedConstraint
        else Inr ()))"

definition canonical_hash :: "CommandService \<Rightarrow> Actor \<Rightarrow> CommandRequest \<Rightarrow> CommandServiceError + string" where
  "canonical_hash cs actor r =
     and_then (ok_or (cs_encode cs (actor_id actor, rq_device_id r, rq_endpoint_id r, rq_payload r,
        rq_deadline r, rq_expected r, rq_dry_run r)) CanonicalSerialization) (\<lambda>encoded.
     case CanonicalRequestHash_new (hex (cs_sha256 cs encoded)) of
       Inl _ \<Rightarrow> Inl InvalidDescriptor
     | Inr h \<Rightarrow> Inr h)"

definition command_audit :: "uuid \<Rightarrow> CommandAggregate \<Rightarrow> CommandState option \<Rightarrow> CommandAuditRecord" where
  "command_audit aid c from_state =
     \<lparr>au_id = aid, au_command_id = ce_id (ca_envelope c), au_sequence = ca_version c,
      au_from = from_state, au_to = ca_state c, au_actor_id = ce_actor_id (ca_envelope c),
      au_policy = ca_policy c, au_failure = ca_failure c,
      au_acknowledgement = ca_acknowledgement c, au_confirmation = ca_confirmation c,
      au_correlation_id = ce_correlation_id (ca_envelope c),
      au_causation_event_id = ce_causation_event_id (ca_envelope c),
      au_occurred_at = ca_updated_at c\<rparr>"

section \<open>Durable transitions\<close>

definition publish :: "CommandService \<Rightarrow> CommandAuditRecord \<Rightarrow> unit svc" where
  "publish cs a w =
     (case cs_audits cs (w_published w) a of
        Inl e \<Rightarrow> (Inl (AuditPublication e), w)
      | Inr _ \<Rightarrow> (Inr (), w\<lparr>w_published := w_published w @ [a]\<rparr>))"

definition store_transition :: "CommandAggregate \<Rightarrow> nat \<Rightarrow> CommandAuditRecord \<Rightarrow> unit svc" where
  "store_transition c v a w =
     (case transition_command (w_db w) c v a of
        Inl e \<Rightarrow> (Inl (Repository (StorageFailure e)), w)
      | Inr db \<Rightarrow> (Inr (), w\<lparr>w_db := db\<rparr>))"

definition transition ::
  "CommandService \<Rightarrow> CommandAggregate \<Rightarrow> CommandState \<Rightarrow> datetime \<Rightarrow> CommandAggregate svc" where
  "transition cs c next now =
     (case CommandAggregate_transition c next now of
        Inl _ \<Rightarrow> svc_error InvalidTransition
      | Inr c' \<Rightarrow>
          svc_bind (fresh_id cs) (\<lambda>aid.
          let a = command_audit aid c' (Some (ca_state c)) in
          svc_bind (store_transition c' (ca_version c) a) (\<lambda>_.
          svc_bind (publish cs a) (\<lambda>_.
          svc_return c'))))"

definition reject ::
  "CommandService \<Rightarrow> CommandAggregate \<Rightarrow> CommandErrorCode \<Rightarrow> datetime \<Rightarrow> PolicyDecision option
     \<Rightarrow> CommandAggregate svc" where
  "reject cs c code now policy =
     transition cs
       ((if policy \<noteq> None then c\<lparr>ca_policy := policy\<rparr> else c)
          \<lparr>ca_failure := Some \<lparr>cf_code = code, cf_detail = None\<rparr>\<rparr>)
       Rejected now"

definition timeout :: "CommandService \<Rightarrow> CommandAggregate \<Rightarrow> datetime \<Rightarrow> CommandAggregate svc" where
  "timeout cs c now =
     transition cs (c\<lparr>ca_failure := Some \<lparr>cf_code = DeadlineExceeded, cf_detail = None\<rparr>\<rparr>) TimedOut now"

section \<open>Dispatch and confirmation\<close>

definition confirm :: "CommandService \<Rightarrow> CommandAggregate \<Rightarrow> datetime \<Rightarrow> CommandAggregate svc" where
  "confirm cs c now w =
     (let w' = w\<lparr>w_confirmations := w_confirmations w + 1\<rparr> in
      case cs_confirmation cs (w_confirmations w) c of
        Inl e \<Rightarrow> (Inl (Confirmation_error e), w')
      | Inr (Outcome_Confirmed k) \<Rightarrow> transition cs (c\<lparr>ca_confirmation := Some k\<rparr>) Confirmed now w'
      | Inr (Outcome_Failed f) \<Rightarrow> transition cs (c\<lparr>ca_failure := Some f\<rparr>) Failed now w'
      | Inr Outcome_Pending \<Rightarrow>
          (if ce_deadline (ca_envelope c) \<le> now then timeout cs c now w' else (Inr c, w')))"

definition adapter_dispatch ::
  "CommandService \<Rightarrow> CommandEnvelope \<Rightarrow> (CommandFailure + AdapterAcknowledgement) svc" where
  "adapter_dispatch cs e w =
     (Inr (cs_dispatcher cs (w_dispatched w) e), w\<lparr>w_dispatched := w_dispatched w @ [e]\<rparr>)"

definition dispatch_committed :: "CommandService \<Rightarrow> CommandAggregate \<Rightarrow> CommandAggregate svc" where
  "dispatch_committed cs c =
     svc_bind (adapter_dispatch cs (ca_envelope c)) (\<lambda>answer.
     case answer of
       Inr ack \<Rightarrow>
         (let c' = c\<lparr>ca_acknowledgement := Some ack\<rparr> in
          svc_bind (clock_now cs) (\<lambda>after_dispatch.
          if ce_deadline (ca_envelope c') \<le> after_dispatch then timeout cs c' after_dispatch
          else svc_bind (transition cs c' Acknowledged after_dispatch) (\<lambda>c''.
            svc_bind (clock_now cs) (\<lambda>now. confirm cs c'' now))))
     | Inl failure \<Rightarrow>
         svc_bind (clock_now cs) (\<lambda>now.
         transition cs (c\<lparr>ca_failure := Some failure\<rparr>) Failed now))"

definition with_control ::
  "(Database \<Rightarrow> (BoxError + 'a) \<times> Database) \<Rightarrow> 'a svc" where
  "with_control f w =
     (case f (w_db w) of
        (Inl e, db) \<Rightarrow> (Inl (Repository e), w\<lparr>w_db := db\<rparr>)
      | (Inr x, db) \<Rightarrow> (Inr x, w\<lparr>w_db := db\<rparr>))"

definition dispatch :: "CommandService \<Rightarrow> CommandAggregate \<Rightarrow> datetime \<Rightarrow> CommandAggregate svc" where
  "dispatch cs c now =
     (if ce_deadline (ca_envelope c) \<le> now then timeout cs c now
      else case cs_dispatch_control cs of
        Some control \<Rightarrow>
          svc_bind (with_control (\<lambda>db. register_desired control db c now)) (\<lambda>registration.
          svc_bind (case registration of
              Registration_Managed _ _ (Some a) \<Rightarrow> publish cs a
            | _ \<Rightarrow> svc_return ()) (\<lambda>_.
          svc_bind (with_control (\<lambda>db. commit_dispatch control db c now)) (\<lambda>admission.
          case admission of
            Admission_Unmanaged \<Rightarrow>
              svc_bind (transition cs c Dispatched now) (\<lambda>c'. dispatch_committed cs c')
          | Admission_Committed dispatched a \<Rightarrow>
              svc_bind (publish cs a) (\<lambda>_. dispatch_committed cs dispatched)
          | Admission_Superseded durable \<Rightarrow> svc_return durable
          | AwaitingUnlockAuthorization \<Rightarrow> svc_return c)))
      | None \<Rightarrow>
          svc_bind (transition cs c Dispatched now) (\<lambda>c'. dispatch_committed cs c'))"

section \<open>Admission\<close>

definition acquire :: "CommandService \<Rightarrow> uuid \<Rightarrow> uuid \<Rightarrow> datetime \<Rightarrow> CommandLimitCapacities svc" where
  "acquire cs actor device now w =
     (case CommandLimits_try_acquire (cs_limits cs) (w_limits w) actor device now of
        (caps, limits) \<Rightarrow> (Inr caps, w\<lparr>w_limits := limits\<rparr>))"

text \<open>The permit is dropped when the operation returns, whatever it returns.\<close>

definition holding :: "CommandLimitCapacities \<Rightarrow> uuid \<Rightarrow> 'a svc \<Rightarrow> 'a svc" where
  "holding caps device m w =
     (case m w of (r, w') \<Rightarrow>
        (r, if lim_permit caps then w'\<lparr>w_limits := limit_release (w_limits w') device\<rparr> else w'))"

definition actor_security :: "uuid \<Rightarrow> ActorSecurity svc" where
  "actor_security actor = svc_lift (\<lambda>w. ok_or (load_actor_security (w_db w) actor) ActorNotFound)"

definition execute_policy_input ::
  "CommandService \<Rightarrow> Actor \<Rightarrow> CommandAggregate \<Rightarrow> DeviceRecord \<Rightarrow> CommandLimitCapacities \<Rightarrow> datetime
     \<Rightarrow> PolicyInput" where
  "execute_policy_input cs actor c device caps now =
     \<lparr>pi_actor = actor, pi_action = Execute, pi_device_id = ce_device_id (ca_envelope c),
      pi_endpoint_id = ce_endpoint_id (ca_envelope c),
      pi_schema = CapabilityDescriptor_schema (ce_capability (ca_envelope c)),
      pi_risk = cd_risk (ce_capability (ca_envelope c)), pi_spaces = dr_spaces device,
      pi_freshness = DeviceRecord_freshness_at device (cs_freshness cs) now,
      pi_constraint = constraint_state (ce_payload (ca_envelope c))
        (ce_endpoint_id (ca_envelope c)) device,
      pi_rate_capacity = lim_rate caps, pi_device_capacity = lim_device caps,
      pi_dry_run = ce_dry_run (ca_envelope c), pi_evaluated_at = now\<rparr>"

text \<open>The verdict on an admitted command: the tail of \<open>continue_received\<close>.\<close>

definition decide_received ::
  "CommandService \<Rightarrow> CommandAggregate \<Rightarrow> ActorSecurity \<Rightarrow> DeviceRecord \<Rightarrow> CommandLimitCapacities \<Rightarrow> datetime
     \<Rightarrow> CommandAggregate svc" where
  "decide_received cs c security device caps now =
     (let decision = PolicyEvaluator_evaluate
            (execute_policy_input cs (as_actor security) c device caps now) (as_grants security);
          c' = c\<lparr>ca_policy := Some decision\<rparr> in
      if \<not> pd_allowed decision then reject cs c' PolicyDenied now (Some decision)
      else svc_bind (transition cs c' Validated now) (\<lambda>c''.
        if ce_dry_run (ca_envelope c'') then svc_return c''
        else dispatch cs c'' now))"

definition continue_received ::
  "CommandService \<Rightarrow> CommandAggregate \<Rightarrow> Actor \<Rightarrow> DeviceRecord \<Rightarrow> datetime \<Rightarrow> CommandAggregate svc" where
  "continue_received cs c authenticated device now =
     (case validate_target c device now of
        Inl code \<Rightarrow> reject cs c code now None
      | Inr _ \<Rightarrow>
          svc_bind (actor_security (actor_id authenticated)) (\<lambda>security.
          svc_bind (acquire cs (actor_id (as_actor security)) (ce_device_id (ca_envelope c)) now) (\<lambda>caps.
          holding caps (ce_device_id (ca_envelope c))
            (decide_received cs c security device caps now))))"

section \<open>Operations\<close>

definition find_device :: "uuid \<Rightarrow> DeviceRecord svc" where
  "find_device device = svc_lift (\<lambda>w.
     case w_foundation w of
       Inl e \<Rightarrow> Inl (Repository e)
     | Inr devices \<Rightarrow> ok_or (find (\<lambda>d. ds_id (dr_snapshot d) = device) devices) DeviceNotFound)"

definition store_create ::
  "CommandAggregate \<Rightarrow> string \<Rightarrow> CommandAuditRecord \<Rightarrow> CommandCreateOutcome svc" where
  "store_create c h a w =
     (case create_command (w_db w) c h a of
        Inl e \<Rightarrow> (Inl (Repository (StorageFailure e)), w)
      | Inr (out, db) \<Rightarrow> (Inr out, w\<lparr>w_db := db\<rparr>))"

definition request_envelope ::
  "CommandService \<Rightarrow> uuid \<Rightarrow> Actor \<Rightarrow> CommandRequest \<Rightarrow> DeviceRecord \<Rightarrow> CapabilityDescriptor \<Rightarrow> datetime
     \<Rightarrow> CommandEnvelope" where
  "request_envelope cs cid actor r device fallback now =
     \<lparr>ce_id = cid, ce_actor_id = actor_id actor, ce_device_id = rq_device_id r,
      ce_endpoint_id = rq_endpoint_id r,
      ce_capability = (case Option.bind
            (map_of (dr_capability_descriptors device) (rq_endpoint_id r))
            (find (\<lambda>d. CapabilityDescriptor_schema d = CommandPayload_schema (rq_payload r))) of
          None \<Rightarrow> fallback | Some d \<Rightarrow> d),
      ce_payload = effective_payload (rq_payload r) (rq_endpoint_id r) device (cs_freshness cs) now,
      ce_idempotency_key = rq_idempotency_key r, ce_deadline = rq_deadline r,
      ce_expected = rq_expected r, ce_dry_run = rq_dry_run r,
      ce_correlation_id = rq_correlation_id r, ce_causation_event_id = rq_causation_event_id r,
      ce_automation_causation = rq_automation_causation r, ce_received_at = now\<rparr>"

definition execute :: "CommandService \<Rightarrow> Actor \<Rightarrow> CommandRequest \<Rightarrow> datetime \<Rightarrow> CommandAggregate svc" where
  "execute cs actor r now =
     svc_bind (find_device (rq_device_id r)) (\<lambda>device.
     svc_bind (svc_lift (\<lambda>_. requested_descriptor (rq_payload r))) (\<lambda>fallback.
     svc_bind (fresh_id cs) (\<lambda>cid.
     let c = CommandAggregate_received (request_envelope cs cid actor r device fallback now) in
     svc_bind (svc_lift (\<lambda>_. canonical_hash cs actor r)) (\<lambda>h.
     svc_bind (fresh_id cs) (\<lambda>aid.
     let receipt = command_audit aid c None in
     svc_bind (store_create c h receipt) (\<lambda>outcome.
     case outcome of
       ExistingEquivalent existing \<Rightarrow> svc_return existing
     | Conflict existing \<Rightarrow> svc_error (Service_IdempotencyConflict existing)
     | Created _ \<Rightarrow>
         svc_bind (publish cs receipt) (\<lambda>_. continue_received cs c actor device now)))))))"

definition get :: "uuid \<Rightarrow> uuid \<Rightarrow> CommandAggregate option svc" where
  "get actor cid = svc_lift (\<lambda>w.
     case load_command (w_db w) cid of
       Some c \<Rightarrow> (if ce_actor_id (ca_envelope c) \<noteq> actor then Inl ActorMismatch else Inr (Some c))
     | None \<Rightarrow> Inr None)"

definition MAX_COMMAND_QUERY_PAGE :: nat where "MAX_COMMAND_QUERY_PAGE = 256"
definition MAX_AUDIT_QUERY_PAGE :: nat where "MAX_AUDIT_QUERY_PAGE = 256"
definition RECOVERY_PAGE :: nat where "RECOVERY_PAGE = 256"

definition list_commands :: "uuid \<Rightarrow> nat \<Rightarrow> CommandAggregate list svc" where
  "list_commands actor limit = svc_lift (\<lambda>w.
     Inr (load_actor_commands (w_db w) actor (max 1 (min limit MAX_COMMAND_QUERY_PAGE))))"

definition audit_page :: "uuid \<Rightarrow> uuid \<Rightarrow> nat option \<Rightarrow> nat \<Rightarrow> CommandAuditRecord list svc" where
  "audit_page actor cid after_sequence limit =
     svc_bind (get actor cid) (\<lambda>found.
     svc_bind (svc_lift (\<lambda>_. ok_or found CommandNotFound)) (\<lambda>_.
     svc_lift (\<lambda>w.
       case load_command_audit (w_db w) cid after_sequence (max 1 (min limit MAX_AUDIT_QUERY_PAGE)) of
         Inl e \<Rightarrow> Inl (Repository (StorageFailure e))
       | Inr page \<Rightarrow> Inr page)))"

definition cancel :: "CommandService \<Rightarrow> uuid \<Rightarrow> uuid \<Rightarrow> datetime \<Rightarrow> CommandAggregate svc" where
  "cancel cs actor cid now =
     svc_bind (get actor cid) (\<lambda>found.
     svc_bind (svc_lift (\<lambda>_. ok_or found CommandNotFound)) (\<lambda>c.
     if CommandAggregate_is_terminal c \<or> ca_state c \<notin> {Received, Validated}
     then svc_error NotCancellable
     else transition cs c Cancelled now))"

definition recover_one :: "CommandService \<Rightarrow> datetime \<Rightarrow> CommandAggregate \<Rightarrow> unit svc" where
  "recover_one cs now c =
     (let done = (\<lambda>_. svc_return ()) in
      case ca_state c of
        Received \<Rightarrow>
          (if ce_deadline (ca_envelope c) \<le> now then svc_bind (timeout cs c now) done
           else svc_bind (find_device (ce_device_id (ca_envelope c))) (\<lambda>device.
             svc_bind (actor_security (ce_actor_id (ca_envelope c))) (\<lambda>security.
             svc_bind (continue_received cs c (as_actor security) device now) done)))
      | Validated \<Rightarrow>
          (if ce_deadline (ca_envelope c) \<le> now then svc_bind (timeout cs c now) done
           else svc_bind (find_device (ce_device_id (ca_envelope c))) (\<lambda>device.
             svc_bind (actor_security (ce_actor_id (ca_envelope c))) (\<lambda>security.
             svc_bind (acquire cs (ce_actor_id (ca_envelope c)) (ce_device_id (ca_envelope c)) now) (\<lambda>caps.
             holding caps (ce_device_id (ca_envelope c))
               (let decision = PolicyEvaluator_evaluate
                      (execute_policy_input cs (as_actor security) c device caps now) (as_grants security)
                in if pd_allowed decision then svc_bind (dispatch cs c now) done
                   else svc_bind (reject cs c PolicyDenied now (Some decision)) done)))))
      | Dispatched \<Rightarrow> svc_bind (confirm cs c now) done
      | Acknowledged \<Rightarrow> svc_bind (confirm cs c now) done
      | _ \<Rightarrow> svc_return ())"

fun recover_each :: "CommandService \<Rightarrow> datetime \<Rightarrow> CommandAggregate list \<Rightarrow> unit svc" where
  "recover_each cs now [] = svc_return ()"
| "recover_each cs now (c # commands) =
     svc_bind (recover_one cs now c) (\<lambda>_. recover_each cs now commands)"

definition recover :: "CommandService \<Rightarrow> datetime \<Rightarrow> nat svc" where
  "recover cs now =
     svc_bind (svc_lift (\<lambda>w. case load_recoverable_commands (w_db w) RECOVERY_PAGE of
         Inl e \<Rightarrow> Inl (Repository (StorageFailure e)) | Inr commands \<Rightarrow> Inr commands)) (\<lambda>commands.
     svc_bind (recover_each cs now commands) (\<lambda>_. svc_return (length commands)))"

definition approve_unlock ::
  "CommandService \<Rightarrow> Actor \<Rightarrow> uuid \<Rightarrow> datetime \<Rightarrow> CommandAggregate svc" where
  "approve_unlock cs approver cid now =
     svc_bind (svc_lift (\<lambda>w. ok_or (load_command (w_db w) cid) CommandNotFound)) (\<lambda>c.
     if ca_state c \<noteq> Validated \<or> ce_deadline (ca_envelope c) \<le> now \<or>
        ce_payload (ca_envelope c) \<noteq> AccessControl Unlock
     then svc_error UnlockNotPending
     else svc_bind (actor_security (actor_id approver)) (\<lambda>security.
       svc_bind (find_device (ce_device_id (ca_envelope c))) (\<lambda>device.
       let approval = PolicyEvaluator_evaluate
             \<lparr>pi_actor = as_actor security, pi_action = ApproveUnlock,
              pi_device_id = ce_device_id (ca_envelope c),
              pi_endpoint_id = ce_endpoint_id (ca_envelope c),
              pi_schema = CapabilityDescriptor_schema (ce_capability (ca_envelope c)),
              pi_risk = Security, pi_spaces = dr_spaces device,
              pi_freshness = DeviceRecord_freshness_at device (cs_freshness cs) now,
              pi_constraint = Constraint_Available, pi_rate_capacity = Capacity_Available,
              pi_device_capacity = Capacity_Available, pi_dry_run = False,
              pi_evaluated_at = now\<rparr> (as_grants security) in
       if \<not> pd_allowed approval then svc_error UnlockApprovalDenied
       else case cs_dispatch_control cs of
         None \<Rightarrow> svc_error UnlockApprovalUnavailable
       | Some control \<Rightarrow>
           svc_bind (with_control (\<lambda>db. authorize_unlock control db (as_actor security) c approval now))
             (\<lambda>admission. case admission of
                Admission_Committed dispatched a \<Rightarrow>
                  svc_bind (publish cs a) (\<lambda>_. dispatch_committed cs dispatched)
              | Admission_Superseded durable \<Rightarrow> svc_return durable
              | Admission_Unmanaged \<Rightarrow> svc_error UnlockApprovalUnavailable
              | AwaitingUnlockAuthorization \<Rightarrow> svc_error UnlockApprovalUnavailable))))"

end
