(* ===== verification/Automation_Runtime.thy ===== *)
theory Automation_Runtime
  imports Automation_Store Command_Service Automation_Evaluator
begin

text \<open>
  The durable interpreter (\<open>homemagic-application/src/automation_runtime.rs\<close>): one call performs at
  most one step of one run against the automation database and, for command nodes, the command
  service. The state is the database, the world of the command service and the number of clock
  readings and foundation loads so far; the readings and the loaded snapshots are functions of these
  numbers. Hashing of timed conditions, chrono's checked sum and the printing of JSON numbers are parameters.
\<close>

section \<open>Results, errors and state\<close>

datatype AutomationRuntimeStep = Step_Advanced | Step_Waiting | Step_Completed | Step_NoWork

datatype AutomationRuntimeError =
    Rt_Repository StorageError
  | Rt_Foundation string
  | Rt_InvalidPlan
  | Rt_Evaluation AutomationEvaluationError
  | Rt_DurationOverflow
  | Rt_BudgetExceeded
  | Rt_CommandPathUnavailable
  | Rt_CommandActorUnavailable
  | Rt_Command CommandServiceError
  | Rt_InvalidIdempotencyKey

record AutomationRuntime =
  ar_ids :: IdSupply
  ar_clock :: "nat \<Rightarrow> datetime"
  ar_foundation :: "nat \<Rightarrow> string + FoundationSnapshot"
  ar_commands :: "CommandService option"
  ar_calendar :: Calendar
  ar_condition_hash :: "ResolvedAutomationCondition \<Rightarrow> nat \<Rightarrow> string option"
  ar_checked_add_signed :: "datetime \<Rightarrow> int \<Rightarrow> datetime option"
  ar_number_text :: "json_number \<Rightarrow> string"

record RuntimeState =
  rs_db :: AutomationDatabase
  rs_world :: World
  rs_clock :: nat
  rs_loads :: nat

record CommandNode =
  cn_node_id :: node_id
  cn_targets :: "ResolvedAutomationTarget list"
  cn_payload :: CommandPayload
  cn_retry :: AutomationRetryPolicy
  cn_on_failure :: AutomationPlanFailurePolicy
  cn_following :: "node_id option"
  cn_maximum_run_duration_ms :: nat

record CommandRetryPlan =
  crp_target_indices :: "nat list"
  crp_command_ids :: "uuid list"
  crp_ready_at :: datetime

datatype RuntimeDurationRequest =
    Request_Start AutomationConditionDuration AutomationTimer
  | Request_Pending
  | Request_Mature string AutomationTimer

record PreparedRuntimeCondition =
  prc_value :: bool
  prc_durations :: "AutomationConditionDuration list"
  prc_reset_timers :: "AutomationTimer list"
  prc_active_timers :: "AutomationTimer list"

datatype RuntimeConditionResult = Condition_Resolved PreparedRuntimeCondition | Condition_Waiting

definition TIMER_RECOVERY_PAGE :: nat where "TIMER_RECOVERY_PAGE = 1000"

type_synonym 'a rt = "RuntimeState \<Rightarrow> (AutomationRuntimeError + 'a) \<times> RuntimeState"

definition rt_bind :: "'a rt \<Rightarrow> ('a \<Rightarrow> 'b rt) \<Rightarrow> 'b rt" where
  "rt_bind m f st = (case m st of (Inl e, st') \<Rightarrow> (Inl e, st') | (Inr x, st') \<Rightarrow> f x st')"

definition rt_return :: "'a \<Rightarrow> 'a rt" where
  "rt_return x st = (Inr x, st)"

definition rt_error :: "AutomationRuntimeError \<Rightarrow> 'a rt" where
  "rt_error e st = (Inl e, st)"

definition rt_lift :: "AutomationRuntimeError + 'a \<Rightarrow> 'a rt" where
  "rt_lift r st = (r, st)"

definition rt_db :: "(AutomationDatabase \<Rightarrow> AutomationRuntimeError + 'a) \<Rightarrow> 'a rt" where
  "rt_db f st = (f (rs_db st), st)"

definition rt_now :: "AutomationRuntime \<Rightarrow> datetime rt" where
  "rt_now ar st = (Inr (ar_clock ar (rs_clock st)), st\<lparr>rs_clock := rs_clock st + 1\<rparr>)"

definition rt_load :: "AutomationRuntime \<Rightarrow> FoundationSnapshot rt" where
  "rt_load ar st = (case ar_foundation ar (rs_loads st) of Inl e \<Rightarrow> Inl (Rt_Foundation e) | Inr s \<Rightarrow> Inr s,
     st\<lparr>rs_loads := rs_loads st + 1\<rparr>)"

definition rt_service :: "'a svc \<Rightarrow> 'a rt" where
  "rt_service m st = (case m (rs_world st) of
       (Inl e, w) \<Rightarrow> (Inl (Rt_Command e), st\<lparr>rs_world := w\<rparr>)
     | (Inr x, w) \<Rightarrow> (Inr x, st\<lparr>rs_world := w\<rparr>))"

definition repository_error :: "StorageError + 'a \<Rightarrow> AutomationRuntimeError + 'a" where
  "repository_error r = (case r of Inl e \<Rightarrow> Inl (Rt_Repository e) | Inr x \<Rightarrow> Inr x)"

section \<open>Helpers\<close>

definition add_milliseconds :: "AutomationRuntime \<Rightarrow> datetime \<Rightarrow> nat \<Rightarrow> AutomationRuntimeError + datetime" where
  "add_milliseconds ar at milliseconds =
     and_then (ok_or (try_i64 milliseconds) Rt_DurationOverflow) (\<lambda>ms.
     ok_or (ar_checked_add_signed ar at (ms * 1000000)) Rt_DurationOverflow)"

definition timestamp_millis :: "datetime \<Rightarrow> int" where
  "timestamp_millis at = at div 1000000"

definition scoped_timer :: "AutomationRuntime \<Rightarrow> uuid \<Rightarrow> node_id \<Rightarrow> AutomationTimerKind \<Rightarrow> datetime \<Rightarrow> AutomationTimer" where
  "scoped_timer ar run node kind ready_at =
     \<lparr>tm_id = AutomationTimerId_from_scoped_key (sup_v5 (ar_ids ar)) (sup_text (ar_ids ar)) run node (AutomationTimerKind_scope_key kind) (timestamp_millis ready_at),
      tm_run_id = run, tm_node_id = node, tm_kind = kind, tm_ready_at = ready_at, tm_state = Timer_Pending\<rparr>"

definition cancel_timer :: "AutomationTimer \<Rightarrow> AutomationTimer" where
  "cancel_timer t = (if tm_state t \<in> {Timer_Pending, Timer_Ready} then t\<lparr>tm_state := Timer_Cancelled\<rparr> else t)"

definition checkpoint :: "AutomationRun \<Rightarrow> datetime \<Rightarrow> AutomationRun" where
  "checkpoint run now = run\<lparr>run_revision := saturating_add u64_max (run_revision run) 1, run_updated_at := now\<rparr>"

fun run_apply_failure :: "AutomationRun \<Rightarrow> AutomationPlanFailurePolicy \<Rightarrow> node_id option \<Rightarrow> AutomationRun \<times> AutomationRuntimeStep" where
  "run_apply_failure run PF_Continue following = (run\<lparr>run_state := Run_Running, run_node_id := following\<rparr>, Step_Advanced)"
| "run_apply_failure run (PF_Fallback entry) following =
     (run\<lparr>run_state := Run_Running, run_node_id := (case entry of Some e \<Rightarrow> Some e | None \<Rightarrow> following)\<rparr>, Step_Advanced)"
| "run_apply_failure run PF_StopBranch following =
     (if run_continuations run \<noteq> []
      then let frame = last (run_continuations run) in
        (run\<lparr>run_continuations := butlast (run_continuations run) @ [frame\<lparr>ct_current_branch_failed := True\<rparr>],
             run_state := Run_Running, run_node_id := Some (ct_join_node_id frame)\<rparr>, Step_Advanced)
      else (run\<lparr>run_state := Run_Failed, run_node_id := None\<rparr>, Step_Completed))"
| "run_apply_failure run PF_StopRun following = (run\<lparr>run_state := Run_Failed, run_node_id := None\<rparr>, Step_Completed)"

definition run_trace_step :: "AutomationRuntime \<Rightarrow> AutomationRun \<Rightarrow> nat \<Rightarrow> node_id option \<Rightarrow> AutomationTraceKind \<Rightarrow>
   (string \<times> AutomationValue) list \<Rightarrow> datetime \<Rightarrow> AutomationTraceStep" where
  "run_trace_step ar run sequence node kind details at =
     \<lparr>ts_id = AutomationTraceId_from_run_sequence (sup_v5 (ar_ids ar)) (sup_text (ar_ids ar)) (run_id run) sequence, ts_run_id = run_id run,
      ts_sequence = sequence, ts_node_id = node, ts_kind = kind, ts_details = btree_of_list details, ts_occurred_at = at,
      ts_correlation_id = run_correlation_id run, ts_causation_event_id = run_causation_event_id run\<rparr>"

definition commit :: "AutomationRuntime \<Rightarrow> AutomationStepWrite \<Rightarrow> unit rt" where
  "commit ar w st = (case commit_step (ar_ids ar) w (rs_db st) of
       Inl e \<Rightarrow> (Inl (Rt_Repository e), st)
     | Inr (_, db) \<Rightarrow> (Inr (), st\<lparr>rs_db := db\<rparr>))"

text \<open>The write every step ends with: the checkpointed run, one trace step and the timers.\<close>

definition commit_checkpoint :: "AutomationRuntime \<Rightarrow> AutomationRun \<Rightarrow> (AutomationRun \<Rightarrow> AutomationRun) \<Rightarrow> nat \<Rightarrow> node_id option \<Rightarrow>
   AutomationTraceKind \<Rightarrow> (string \<times> AutomationValue) list \<Rightarrow> AutomationTimer list \<Rightarrow> AutomationTimer list \<Rightarrow> unit rt" where
  "commit_checkpoint ar run update sequence node kind details create_timers transition_timers =
     rt_bind (rt_now ar) (\<lambda>now.
     let next = update (checkpoint run now) in
     rt_bind (rt_now ar) (\<lambda>at.
     commit ar \<lparr>sw_run = next, sw_expected_run_revision = run_revision run, sw_trace = [run_trace_step ar next sequence node kind details at],
       sw_create_timers = create_timers, sw_transition_timers = transition_timers\<rparr>))"

section \<open>Conditions\<close>

definition json_as_i64 :: "json_number \<Rightarrow> int option" where
  "json_as_i64 n = (case n of PosInt k \<Rightarrow> if int k < 2 ^ 63 then Some (int k) else None | NegInt i \<Rightarrow> Some i | JFloat _ \<Rightarrow> None)"

fun json_value :: "AutomationRuntime \<Rightarrow> json \<Rightarrow> AutomationValue option" where
  "json_value ar JNull = Some V_Null"
| "json_value ar (JBool b) = Some (V_Boolean b)"
| "json_value ar (JNumber n) = Some (case json_as_i64 n of Some i \<Rightarrow> V_Integer i | None \<Rightarrow> V_Decimal (ar_number_text ar n))"
| "json_value ar (JString s) = Some (V_String s)"
| "json_value ar (JArray _) = None"
| "json_value ar (JObject _) = None"

record RuntimeEvaluationContext =
  rex_now :: datetime
  rex_snapshot :: FoundationSnapshot
  rex_run_id :: "uuid option"
  rex_node_id :: "node_id option"
  rex_durations :: "AutomationConditionDuration list"
  rex_timers :: "(uuid, AutomationTimer) btree option"

definition RuntimeEvaluationContext_stateless :: "datetime \<Rightarrow> FoundationSnapshot \<Rightarrow> RuntimeEvaluationContext" where
  "RuntimeEvaluationContext_stateless now snapshot =
     \<lparr>rex_now = now, rex_snapshot = snapshot, rex_run_id = None, rex_node_id = None, rex_durations = [], rex_timers = None\<rparr>"

text \<open>The mutable part of the context: the request and the invalidated durations.\<close>

type_synonym duration_state = "RuntimeDurationRequest option \<times> string set"

definition runtime_observation :: "AutomationRuntime \<Rightarrow> FoundationSnapshot \<Rightarrow> ResolvedAutomationTarget \<Rightarrow> string \<Rightarrow> AutomationValue option" where
  "runtime_observation ar snapshot target field =
     (case find (\<lambda>x. co_device_id x = rt_device_id target \<and> co_endpoint_id x = rt_endpoint_id target \<and>
          CapabilityDescriptor_schema (co_capability x) = rt_capability target) (fs_observations snapshot) of
        None \<Rightarrow> None
      | Some x \<Rightarrow> (case map_of (co_values x) field of None \<Rightarrow> None | Some v \<Rightarrow> json_value ar (ov_value v)))"

definition duration_request :: "AutomationRuntime \<Rightarrow> RuntimeEvaluationContext \<Rightarrow> uuid \<Rightarrow> node_id \<Rightarrow> string \<Rightarrow> nat \<Rightarrow> duration_state \<Rightarrow>
   (AutomationEvaluationError + bool) \<times> duration_state" where
  "duration_request ar cx run node hash duration_ms s =
     (case find (\<lambda>d. cdu_condition_hash d = hash) (rex_durations cx) of
        Some d \<Rightarrow>
          (case cdu_phase d of
             Duration_Mature \<Rightarrow> (Inr True, s)
           | Duration_Pending \<Rightarrow>
               (case (case rex_timers cx of None \<Rightarrow> None | Some timers \<Rightarrow> map_of timers (cdu_timer_id d)) of
                  None \<Rightarrow> (Inl DurationTimerMissing, s)
                | Some timer \<Rightarrow>
                    (case tm_state timer of
                       Timer_Pending \<Rightarrow> (Inl DurableDurationRequired, (Some Request_Pending, snd s))
                     | Timer_Ready \<Rightarrow> (Inl DurableDurationRequired, (Some (Request_Mature hash timer), snd s))
                     | _ \<Rightarrow> (Inl DurationTimerMissing, s))))
      | None \<Rightarrow>
          (case try_i64 duration_ms of
             None \<Rightarrow> (Inl DurationOverflow, s)
           | Some ms \<Rightarrow>
               (case ar_checked_add_signed ar (rex_now cx) (ms * 1000000) of
                  None \<Rightarrow> (Inl DurationOverflow, s)
                | Some ready_at \<Rightarrow>
                    (let timer = scoped_timer ar run node Timer_StateDuration ready_at in
                     (Inl DurableDurationRequired,
                      (Some (Request_Start \<lparr>cdu_node_id = node, cdu_condition_hash = hash, cdu_duration_ms = duration_ms,
                         cdu_ready_at = ready_at, cdu_timer_id = tm_id timer, cdu_phase = Duration_Pending\<rparr> timer), snd s))))))"

definition runtime_state_duration :: "AutomationRuntime \<Rightarrow> RuntimeEvaluationContext \<Rightarrow> ResolvedAutomationCondition \<Rightarrow> nat \<Rightarrow>
   duration_state evaluation \<Rightarrow> duration_state evaluation" where
  "runtime_state_duration ar cx condition duration_ms evaluate s =
     (case (rex_node_id cx, rex_run_id cx) of
        (Some node, Some run) \<Rightarrow>
          (case ar_condition_hash ar condition duration_ms of
             None \<Rightarrow> (Inl ConditionHash, s)
           | Some hash \<Rightarrow>
               (case evaluate s of
                  (Inl e, s') \<Rightarrow> (Inl e, s')
                | (Inr holds, s') \<Rightarrow>
                    if \<not> holds then (Inr False, (fst s', insert hash (snd s')))
                    else duration_request ar cx run node hash duration_ms s'))
      | _ \<Rightarrow> (Inl DurableDurationRequired, s))"

definition runtime_context :: "AutomationRuntime \<Rightarrow> RuntimeEvaluationContext \<Rightarrow> duration_state AutomationEvaluationContext" where
  "runtime_context ar cx = \<lparr>cx_now = (\<lambda>_. rex_now cx), cx_observation = (\<lambda>_. runtime_observation ar (rex_snapshot cx)),
     cx_state_duration = runtime_state_duration ar cx\<rparr>"

fun load_duration_timers :: "AutomationConditionDuration list \<Rightarrow> AutomationDatabase \<Rightarrow> AutomationRuntimeError + (uuid, AutomationTimer) btree" where
  "load_duration_timers [] db = Inr []"
| "load_duration_timers (d # ds) db =
     and_then (ok_or (map_of (ad_timers db) (cdu_timer_id d)) Rt_InvalidPlan) (\<lambda>timer.
     and_then (load_duration_timers ds db) (\<lambda>timers. Inr (btree_insert (tm_id timer) timer timers)))"

text \<open>The first stored duration of the condition matures.\<close>

fun mature_duration :: "string \<Rightarrow> AutomationConditionDuration list \<Rightarrow> AutomationConditionDuration list option" where
  "mature_duration hash [] = None"
| "mature_duration hash (d # ds) =
     (if cdu_condition_hash d = hash then Some (d\<lparr>cdu_phase := Duration_Mature\<rparr> # ds)
      else map_option (\<lambda>ds'. d # ds') (mature_duration hash ds))"

definition apply_duration_request :: "RuntimeDurationRequest \<Rightarrow> AutomationConditionDuration list \<Rightarrow> AutomationTimer list \<Rightarrow>
   AutomationRuntimeError + AutomationConditionDuration list \<times> AutomationTimer list \<times> AutomationTimer list \<times> string" where
  "apply_duration_request request durations reset_timers = (case request of
       Request_Start duration timer \<Rightarrow> Inr (durations @ [duration], [timer], reset_timers, ''state_duration_started'')
     | Request_Pending \<Rightarrow> Inr (durations, [], reset_timers, ''state_duration_reset'')
     | Request_Mature hash timer \<Rightarrow>
         and_then (ok_or (mature_duration hash durations) Rt_InvalidPlan) (\<lambda>durations'.
         Inr (durations', [], reset_timers @ [timer\<lparr>tm_state := Timer_Consumed\<rparr>], ''state_duration_matured'')))"

definition evaluate_runtime_condition :: "AutomationRuntime \<Rightarrow> AutomationRun \<Rightarrow> node_id \<Rightarrow> ResolvedAutomationCondition \<Rightarrow> nat \<Rightarrow> RuntimeConditionResult rt" where
  "evaluate_runtime_condition ar run node condition sequence =
     rt_bind (rt_load ar) (\<lambda>snapshot.
     rt_bind (rt_db (load_duration_timers (filter (\<lambda>d. cdu_node_id d = node \<and> cdu_phase d = Duration_Pending) (run_condition_durations run)))) (\<lambda>timers.
     rt_bind (rt_now ar) (\<lambda>now.
     let cx = \<lparr>rex_now = now, rex_snapshot = snapshot, rex_run_id = Some (run_id run), rex_node_id = Some node,
           rex_durations = run_condition_durations run, rex_timers = Some timers\<rparr>;
         (evaluated, request, invalid) = evaluate_automation_condition (ar_calendar ar) (runtime_context ar cx) (run_variables run) condition (None, {});
         durations = filter (\<lambda>d. cdu_condition_hash d \<notin> invalid) (run_condition_durations run);
         is_reset = (\<lambda>t. list_ex (\<lambda>d. cdu_timer_id d = tm_id t \<and> cdu_condition_hash d \<in> invalid) (run_condition_durations run));
         reset_timers = map cancel_timer (filter is_reset (map snd timers));
         active_timers = filter (\<lambda>t. \<not> list_ex (\<lambda>r. tm_id r = tm_id t) reset_timers) (map snd timers)
     in case evaluated of
          Inr holds \<Rightarrow> rt_return (Condition_Resolved \<lparr>prc_value = holds, prc_durations = durations, prc_reset_timers = reset_timers,
            prc_active_timers = active_timers\<rparr>)
        | Inl e \<Rightarrow>
            if e \<noteq> DurableDurationRequired then rt_error (Rt_Evaluation e)
            else rt_bind (rt_lift (ok_or request Rt_InvalidPlan)) (\<lambda>wanted.
              if wanted = Request_Pending \<and> reset_timers = [] then rt_return Condition_Waiting
              else rt_bind (rt_lift (apply_duration_request wanted durations reset_timers)) (\<lambda>(durations', create_timers, transition_timers, event).
                   rt_bind (commit_checkpoint ar run (\<lambda>r. r\<lparr>run_state := Run_Waiting, run_condition_durations := durations'\<rparr>)
                     sequence (Some node) Trace_Timer [(''event'', V_String event)] create_timers transition_timers) (\<lambda>_.
                   rt_return Condition_Waiting))))))"

section \<open>Groups and joins\<close>

definition enter_group :: "AutomationRuntime \<Rightarrow> AutomationRun \<Rightarrow> node_id \<Rightarrow> node_id list \<Rightarrow> nat \<Rightarrow> node_id option \<Rightarrow>
   AutomationRunContinuationKind \<Rightarrow> nat \<Rightarrow> AutomationRuntimeStep rt" where
  "enter_group ar run node branches maximum_parallel join kind sequence = (case (branches, join) of
       ([], _) \<Rightarrow> rt_error Rt_InvalidPlan
     | (_, None) \<Rightarrow> rt_error Rt_InvalidPlan
     | (first # remaining, Some join_node) \<Rightarrow>
         rt_bind (commit_checkpoint ar run (\<lambda>r. r\<lparr>run_node_id := Some first, run_continuations := run_continuations r @
             [\<lparr>ct_group_node_id = node, ct_kind = kind, ct_join_node_id = join_node, ct_remaining_branches = remaining,
               ct_current_branch_failed = False, ct_maximum_parallel = maximum_parallel\<rparr>]\<rparr>)
           sequence (Some node) Trace_Branch
           [(''event'', V_String ''group_started''), (''branches'', V_Integer (int (length branches)))] [] []) (\<lambda>_.
         rt_return Step_Advanced))"

definition join_run :: "AutomationRun \<Rightarrow> node_id \<Rightarrow> node_id option \<Rightarrow> AutomationRun \<times> string \<times> AutomationRuntimeStep" where
  "join_run run node following =
     (if run_continuations run \<noteq> [] \<and> ct_join_node_id (last (run_continuations run)) = node
      then let frame = last (run_continuations run); outer = butlast (run_continuations run); success = (\<not> ct_current_branch_failed frame)
           in if ct_kind frame = Continuation_Race \<and> success
              then (run\<lparr>run_continuations := outer, run_node_id := following\<rparr>, ''race_won'', Step_Advanced)
              else case ct_remaining_branches frame of
                branch # rest \<Rightarrow> (run\<lparr>run_continuations := outer @ [frame\<lparr>ct_remaining_branches := rest, ct_current_branch_failed := False\<rparr>],
                  run_node_id := Some branch\<rparr>, ''next_branch'', Step_Advanced)
              | [] \<Rightarrow>
                  if ct_kind frame = Continuation_Race \<and> \<not> success
                  then (run\<lparr>run_continuations := outer, run_state := Run_Failed, run_node_id := None\<rparr>, ''race_failed'', Step_Completed)
                  else (run\<lparr>run_continuations := outer, run_node_id := following\<rparr>, ''group_completed'', Step_Advanced)
      else (run\<lparr>run_node_id := following\<rparr>, ''join'', Step_Advanced))"

definition step_join :: "AutomationRuntime \<Rightarrow> AutomationRun \<Rightarrow> node_id \<Rightarrow> node_id option \<Rightarrow> nat \<Rightarrow> AutomationRuntimeStep rt" where
  "step_join ar run node following sequence =
     (let (_, event, outcome) = join_run run node following in
      rt_bind (commit_checkpoint ar run (\<lambda>r. fst (join_run r node following)) sequence (Some node) Trace_Branch [(''event'', V_String event)] [] []) (\<lambda>_.
      rt_return outcome))"

section \<open>Delays and waits\<close>

definition find_timer :: "AutomationRun \<Rightarrow> node_id \<Rightarrow> AutomationTimerKind \<Rightarrow> AutomationTimer rt" where
  "find_timer run node kind = rt_db (\<lambda>db. ok_or (find (\<lambda>t. tm_run_id t = run_id run \<and> tm_node_id t = node \<and> tm_kind t = kind)
     (rec_timers (automation_recover db TIMER_RECOVERY_PAGE))) Rt_InvalidPlan)"

definition start_timer :: "AutomationRuntime \<Rightarrow> AutomationRun \<Rightarrow> node_id \<Rightarrow> AutomationTimerKind \<Rightarrow> nat \<Rightarrow> nat \<Rightarrow> (string \<times> AutomationValue) list \<Rightarrow>
   AutomationRuntimeStep rt" where
  "start_timer ar run node kind duration_ms sequence details =
     rt_bind (rt_lift (ok_or (try_i64 duration_ms) Rt_DurationOverflow)) (\<lambda>_.
     rt_bind (rt_now ar) (\<lambda>now.
     rt_bind (rt_lift (add_milliseconds ar now duration_ms)) (\<lambda>ready_at.
     rt_bind (commit_checkpoint ar run (\<lambda>r. r\<lparr>run_state := Run_Waiting\<rparr>) sequence (Some node) Trace_Timer details
       [scoped_timer ar (run_id run) node kind ready_at] []) (\<lambda>_.
     rt_return Step_Waiting))))"

definition step_delay :: "AutomationRuntime \<Rightarrow> AutomationRun \<Rightarrow> node_id \<Rightarrow> nat \<Rightarrow> node_id option \<Rightarrow> nat \<Rightarrow> AutomationRuntimeStep rt" where
  "step_delay ar run node duration_ms following sequence =
     (if run_state run = Run_Running
      then start_timer ar run node Timer_Delay duration_ms sequence
        [(''event'', V_String ''delay_created''), (''duration_ms'', V_DurationMillis duration_ms)]
      else rt_bind (find_timer run node Timer_Delay) (\<lambda>timer.
        if tm_state timer \<noteq> Timer_Ready then rt_return Step_Waiting
        else rt_bind (commit_checkpoint ar run (\<lambda>r. r\<lparr>run_state := Run_Running, run_node_id := following\<rparr>) sequence (Some node) Trace_Timer
               [(''event'', V_String ''delay_ready'')] [] [timer\<lparr>tm_state := Timer_Consumed\<rparr>]) (\<lambda>_.
             rt_return Step_Advanced)))"

definition drop_durations :: "node_id \<Rightarrow> AutomationRun \<Rightarrow> AutomationRun" where
  "drop_durations node r = r\<lparr>run_condition_durations := filter (\<lambda>d. cdu_node_id d \<noteq> node) (run_condition_durations r)\<rparr>"

definition finish_wait :: "AutomationRuntime \<Rightarrow> AutomationRun \<Rightarrow> node_id \<Rightarrow> AutomationPlanFailurePolicy \<Rightarrow> node_id option \<Rightarrow> nat \<Rightarrow>
   PreparedRuntimeCondition \<Rightarrow> AutomationTimer \<Rightarrow> AutomationRuntimeStep rt" where
  "finish_wait ar run node on_timeout following sequence prepared timer =
     (let released = prc_reset_timers prepared @ map cancel_timer (prc_active_timers prepared) in
      if prc_value prepared
      then rt_bind (commit_checkpoint ar run (\<lambda>r. drop_durations node (r\<lparr>run_state := Run_Running, run_node_id := following\<rparr>)) sequence (Some node)
             Trace_Condition [(''result'', V_Boolean True)] [] (released @ [timer\<lparr>tm_state := Timer_Cancelled\<rparr>])) (\<lambda>_.
           rt_return Step_Advanced)
      else if tm_state timer \<noteq> Timer_Ready
      then if prc_reset_timers prepared = [] \<and> prc_durations prepared = run_condition_durations run then rt_return Step_Waiting
           else rt_bind (commit_checkpoint ar run (\<lambda>r. r\<lparr>run_condition_durations := prc_durations prepared\<rparr>) sequence (Some node)
                  Trace_Condition [(''result'', V_Boolean False)] [] (prc_reset_timers prepared)) (\<lambda>_.
                rt_return Step_Waiting)
      else rt_bind (commit_checkpoint ar run (\<lambda>r. fst (run_apply_failure (drop_durations node r) on_timeout following)) sequence (Some node)
             Trace_Timer [(''event'', V_String ''wait_timeout'')] [] (released @ [timer\<lparr>tm_state := Timer_Consumed\<rparr>])) (\<lambda>_.
           rt_return (snd (run_apply_failure run on_timeout following))))"

definition step_wait :: "AutomationRuntime \<Rightarrow> AutomationRun \<Rightarrow> node_id \<Rightarrow> ResolvedAutomationCondition \<Rightarrow> nat \<Rightarrow> AutomationPlanFailurePolicy \<Rightarrow>
   node_id option \<Rightarrow> nat \<Rightarrow> AutomationRuntimeStep rt" where
  "step_wait ar run node condition timeout_ms on_timeout following sequence =
     (if run_state run = Run_Running
      then start_timer ar run node Timer_WaitTimeout timeout_ms sequence [(''event'', V_String ''wait_started'')]
      else rt_bind (evaluate_runtime_condition ar run node condition sequence) (\<lambda>result.
        case result of
          Condition_Waiting \<Rightarrow> rt_return Step_Waiting
        | Condition_Resolved prepared \<Rightarrow>
            rt_bind (find_timer run node Timer_WaitTimeout) (\<lambda>timer.
            finish_wait ar run node on_timeout following sequence prepared timer)))"

definition step_branch :: "AutomationRuntime \<Rightarrow> AutomationRun \<Rightarrow> node_id \<Rightarrow> ResolvedAutomationCondition \<Rightarrow> node_id option \<Rightarrow> node_id option \<Rightarrow>
   node_id option \<Rightarrow> nat \<Rightarrow> AutomationRuntimeStep rt" where
  "step_branch ar run node condition then_node else_node join sequence =
     rt_bind (evaluate_runtime_condition ar run node condition sequence) (\<lambda>result.
     case result of
       Condition_Waiting \<Rightarrow> rt_return Step_Waiting
     | Condition_Resolved prepared \<Rightarrow>
         rt_bind (commit_checkpoint ar run (\<lambda>r. drop_durations node (r\<lparr>run_state := Run_Running,
             run_node_id := (case if prc_value prepared then then_node else else_node of Some n \<Rightarrow> Some n | None \<Rightarrow> join)\<rparr>)) sequence (Some node)
           Trace_Branch [(''then'', V_Boolean (prc_value prepared))] []
           (prc_reset_timers prepared @ map cancel_timer (prc_active_timers prepared))) (\<lambda>_.
         rt_return Step_Advanced))"

definition step_set_variable :: "AutomationRuntime \<Rightarrow> AutomationRun \<Rightarrow> node_id \<Rightarrow> string \<Rightarrow> ResolvedAutomationExpression \<Rightarrow> node_id option \<Rightarrow> nat \<Rightarrow>
   AutomationRuntimeStep rt" where
  "step_set_variable ar run node name expression following sequence =
     rt_bind (rt_load ar) (\<lambda>snapshot.
     rt_bind (rt_now ar) (\<lambda>now.
     rt_bind (rt_lift (case evaluate_automation_expression (runtime_context ar (RuntimeEvaluationContext_stateless now snapshot)) (run_variables run)
         expression (None, {}) of Inl e \<Rightarrow> Inl (Rt_Evaluation e) | Inr v \<Rightarrow> Inr v)) (\<lambda>v.
     rt_bind (commit_checkpoint ar run (\<lambda>r. r\<lparr>run_variables := btree_insert name v (run_variables r), run_node_id := following\<rparr>) sequence (Some node)
       Trace_Variable [(''name'', V_String name), (''value'', v)] [] []) (\<lambda>_.
     rt_return Step_Advanced))))"

section \<open>Commands\<close>

text \<open>The failed targets, their commands and the latest failure; absent when one failure is final.\<close>

fun retry_scan :: "CommandErrorCode list \<Rightarrow> (nat \<times> CommandAggregate) list \<Rightarrow> (nat list \<times> uuid list \<times> datetime option) option" where
  "retry_scan retryable [] = Some ([], [], None)"
| "retry_scan retryable ((index, c) # rest) =
     (if ca_state c = Confirmed then retry_scan retryable rest
      else case ca_failure c of
        None \<Rightarrow> None
      | Some failure \<Rightarrow>
          if cf_code failure \<notin> set retryable then None
          else map_option (\<lambda>(targets, commands, latest).
              (index # targets, ce_id (ca_envelope c) # commands,
               Some (case latest of None \<Rightarrow> ca_updated_at c | Some t \<Rightarrow> max (ca_updated_at c) t))) (retry_scan retryable rest))"

definition retry_plan :: "AutomationRuntime \<Rightarrow> nat \<Rightarrow> nat list \<Rightarrow> CommandAggregate list \<Rightarrow> AutomationRetryPolicy \<Rightarrow>
   AutomationRuntimeError + CommandRetryPlan option" where
  "retry_plan ar attempt target_indices commands policy =
     (if rp_maximum_retries policy \<le> attempt \<or> length target_indices \<noteq> length commands then Inr None
      else case retry_scan (rp_retryable_command_errors policy) (zip target_indices commands) of
        None \<Rightarrow> Inr None
      | Some (_, _, None) \<Rightarrow> Inr None
      | Some (targets, ids, Some latest) \<Rightarrow>
          and_then (add_milliseconds ar latest (rp_backoff_ms policy)) (\<lambda>ready_at.
          Inr (Some \<lparr>crp_target_indices = targets, crp_command_ids = ids, crp_ready_at = ready_at\<rparr>)))"

fun command_state_name :: "CommandState \<Rightarrow> string" where
  "command_state_name Received = ''received''"
| "command_state_name Validated = ''validated''"
| "command_state_name Rejected = ''rejected''"
| "command_state_name Dispatched = ''dispatched''"
| "command_state_name Acknowledged = ''acknowledged''"
| "command_state_name Confirmed = ''confirmed''"
| "command_state_name Failed = ''failed''"
| "command_state_name TimedOut = ''timed_out''"
| "command_state_name Cancelled = ''cancelled''"

fun join_comma :: "string list \<Rightarrow> string" where
  "join_comma [] = []"
| "join_comma [x] = x"
| "join_comma (x # xs) = x @ '','' @ join_comma xs"

text \<open>The run, the outcome and the timers after an attempt has been answered.\<close>

definition attempt_outcome :: "AutomationRuntime \<Rightarrow> CommandNode \<Rightarrow> nat \<Rightarrow> nat list \<Rightarrow> CommandAggregate list \<Rightarrow> AutomationRun \<Rightarrow>
   AutomationRuntimeError + AutomationRun \<times> AutomationRuntimeStep \<times> AutomationTimer list" where
  "attempt_outcome ar node attempt target_indices commands next =
     (let ids = map (\<lambda>c. ce_id (ca_envelope c)) commands in
      if list_all (\<lambda>c. ca_state c = Confirmed) commands
      then Inr (next\<lparr>run_state := Run_Running, run_node_id := cn_following node, run_command_attempt := None\<rparr>, Step_Advanced, [])
      else if list_ex (\<lambda>c. \<not> CommandState_is_terminal (ca_state c)) commands
      then Inr (next\<lparr>run_state := Run_Waiting, run_command_attempt := Some \<lparr>cat_node_id = cn_node_id node, cat_attempt = attempt,
             cat_target_indices = target_indices, cat_command_ids = ids, cat_phase = AwaitingOutcome, cat_retry_ready_at = None\<rparr>\<rparr>, Step_Waiting, [])
      else and_then (retry_plan ar attempt target_indices commands (cn_retry node)) (\<lambda>plan.
        case plan of
          Some retry \<Rightarrow>
            Inr (next\<lparr>run_state := Run_Waiting, run_command_attempt := Some \<lparr>cat_node_id = cn_node_id node, cat_attempt = attempt,
                cat_target_indices = crp_target_indices retry, cat_command_ids = crp_command_ids retry, cat_phase = Backoff,
                cat_retry_ready_at = Some (crp_ready_at retry)\<rparr>\<rparr>, Step_Waiting,
              [scoped_timer ar (run_id next) (cn_node_id node) Timer_CommandRetry (crp_ready_at retry)])
        | None \<Rightarrow>
            (case run_apply_failure (next\<lparr>run_command_attempt := None\<rparr>) (cn_on_failure node) (cn_following node) of
               (failed, outcome) \<Rightarrow> Inr (failed, outcome, []))))"

definition checkpoint_command_result :: "AutomationRuntime \<Rightarrow> AutomationRun \<Rightarrow> CommandNode \<Rightarrow> nat \<Rightarrow> nat \<Rightarrow> nat list \<Rightarrow> CommandAggregate list \<Rightarrow> bool \<Rightarrow>
   AutomationRuntimeStep rt" where
  "checkpoint_command_result ar run node sequence attempt target_indices commands append_command_ids =
     (if length commands \<noteq> length target_indices then rt_error Rt_InvalidPlan
      else let extend = (\<lambda>r. if append_command_ids
                 then r\<lparr>run_command_ids := run_command_ids r @ map (\<lambda>c. ce_id (ca_envelope c)) commands\<rparr> else r) in
        rt_bind (rt_now ar) (\<lambda>now.
        rt_bind (rt_lift (attempt_outcome ar node attempt target_indices commands (extend (checkpoint run now)))) (\<lambda>(next, outcome, create_timers).
        rt_bind (rt_now ar) (\<lambda>at.
        rt_bind (commit ar \<lparr>sw_run = next, sw_expected_run_revision = run_revision run,
            sw_trace = [run_trace_step ar next sequence (Some (cn_node_id node)) Trace_Command
              [(''attempt'', V_Integer (int attempt)), (''state'', V_String (join_comma (map (\<lambda>c. command_state_name (ca_state c)) commands)))] at],
            sw_create_timers = create_timers, sw_transition_timers = []\<rparr>) (\<lambda>_.
        rt_return outcome)))))"

definition command_key :: "AutomationRuntime \<Rightarrow> AutomationRun \<Rightarrow> node_id \<Rightarrow> nat \<Rightarrow> nat \<Rightarrow> string" where
  "command_key ar run node index attempt = ''automation:'' @ sup_text (ar_ids ar) (run_id run) @ '':'' @ show_nat node @ '':'' @ show_nat index @ '':'' @ show_nat attempt"

definition command_request :: "AutomationRun \<Rightarrow> CommandNode \<Rightarrow> ResolvedAutomationTarget \<Rightarrow> string \<Rightarrow> datetime \<Rightarrow> CommandRequest" where
  "command_request run node target key deadline =
     \<lparr>rq_device_id = rt_device_id target, rq_endpoint_id = rt_endpoint_id target, rq_payload = cn_payload node, rq_idempotency_key = key,
      rq_deadline = deadline, rq_expected = None, rq_dry_run = False, rq_correlation_id = run_correlation_id run,
      rq_causation_event_id = run_causation_event_id run,
      rq_automation_causation = Some \<lparr>ac_automation_id = run_automation_id run, ac_version = run_version run, ac_run_id = run_id run\<rparr>\<rparr>"

fun dispatch_targets :: "AutomationRuntime \<Rightarrow> CommandService \<Rightarrow> Actor \<Rightarrow> AutomationRun \<Rightarrow> CommandNode \<Rightarrow> nat \<Rightarrow> datetime \<Rightarrow> nat list \<Rightarrow> CommandAggregate list rt" where
  "dispatch_targets ar cs actor run node attempt deadline [] = rt_return []"
| "dispatch_targets ar cs actor run node attempt deadline (index # rest) =
     (if length (cn_targets node) \<le> index then rt_error Rt_InvalidPlan
      else case IdempotencyKey_new (command_key ar run (cn_node_id node) index attempt) of
        Inl _ \<Rightarrow> rt_error Rt_InvalidIdempotencyKey
      | Inr key \<Rightarrow>
          rt_bind (rt_now ar) (\<lambda>now.
          rt_bind (rt_service (execute cs actor (command_request run node (cn_targets node ! index) key deadline) now)) (\<lambda>c.
          rt_bind (dispatch_targets ar cs actor run node attempt deadline rest) (\<lambda>cs'. rt_return (c # cs')))))"

definition attempt_targets :: "AutomationRun \<Rightarrow> CommandNode \<Rightarrow> AutomationRuntimeError + nat \<times> nat list" where
  "attempt_targets run node = (case run_command_attempt run of
       Some a \<Rightarrow> if cat_phase a = Attempt_Dispatch then Inr (cat_attempt a, cat_target_indices a) else Inl Rt_InvalidPlan
     | None \<Rightarrow> if length (cn_targets node) \<le> 65536 then Inr (0, [0..<length (cn_targets node)]) else Inl Rt_InvalidPlan)"

definition dispatch_command_attempt :: "AutomationRuntime \<Rightarrow> AutomationRun \<Rightarrow> CommandNode \<Rightarrow> nat \<Rightarrow> AutomationRuntimeStep rt" where
  "dispatch_command_attempt ar run node sequence =
     rt_bind (rt_lift (attempt_targets run node)) (\<lambda>(attempt, target_indices).
     if target_indices = [] then rt_error Rt_InvalidPlan
     else rt_bind (rt_lift (ok_or (ar_commands ar) Rt_CommandPathUnavailable)) (\<lambda>cs.
       rt_bind (\<lambda>st. (ok_or (map_option as_actor (load_actor_security (w_db (rs_world st)) (run_actor_id run))) Rt_CommandActorUnavailable, st)) (\<lambda>actor.
       rt_bind (rt_lift (add_milliseconds ar (run_created_at run) (cn_maximum_run_duration_ms node))) (\<lambda>deadline.
       rt_bind (dispatch_targets ar cs actor run node attempt deadline target_indices) (\<lambda>results.
       checkpoint_command_result ar run node sequence attempt target_indices results True)))))"

fun load_commands :: "uuid \<Rightarrow> uuid list \<Rightarrow> CommandAggregate list rt" where
  "load_commands actor [] = rt_return []"
| "load_commands actor (i # is) =
     rt_bind (rt_service (get actor i)) (\<lambda>found.
     rt_bind (rt_lift (ok_or found Rt_InvalidPlan)) (\<lambda>c.
     rt_bind (load_commands actor is) (\<lambda>cs. rt_return (c # cs))))"

definition load_attempt_commands :: "AutomationRuntime \<Rightarrow> AutomationRun \<Rightarrow> AutomationCommandAttempt \<Rightarrow> CommandAggregate list rt" where
  "load_attempt_commands ar run attempt =
     rt_bind (rt_lift (ok_or (ar_commands ar) Rt_CommandPathUnavailable)) (\<lambda>_.
     if length (cat_command_ids attempt) \<noteq> length (cat_target_indices attempt) then rt_error Rt_InvalidPlan
     else load_commands (run_actor_id run) (cat_command_ids attempt))"

definition resume_command_backoff :: "AutomationRuntime \<Rightarrow> AutomationRun \<Rightarrow> CommandNode \<Rightarrow> AutomationCommandAttempt \<Rightarrow> nat \<Rightarrow> AutomationRuntimeStep rt" where
  "resume_command_backoff ar run node attempt sequence =
     rt_bind (rt_lift (ok_or (cat_retry_ready_at attempt) Rt_InvalidPlan)) (\<lambda>ready_at.
     rt_bind (rt_db (\<lambda>db. ok_or (map_of (ad_timers db) (tm_id (scoped_timer ar (run_id run) (cn_node_id node) Timer_CommandRetry ready_at))) Rt_InvalidPlan)) (\<lambda>timer.
     if tm_state timer \<noteq> Timer_Ready then rt_return Step_Waiting
     else rt_bind (commit_checkpoint ar run (\<lambda>r. r\<lparr>run_state := Run_Running, run_command_attempt := Some (attempt\<lparr>
              cat_attempt := saturating_add 65535 (cat_attempt attempt) 1, cat_command_ids := [], cat_phase := Attempt_Dispatch,
              cat_retry_ready_at := None\<rparr>)\<rparr>) sequence (Some (cn_node_id node)) Trace_Timer [(''event'', V_String ''retry_ready'')] []
            [timer\<lparr>tm_state := Timer_Consumed\<rparr>]) (\<lambda>_.
          rt_return Step_Advanced)))"

definition step_command :: "AutomationRuntime \<Rightarrow> AutomationRun \<Rightarrow> CommandNode \<Rightarrow> nat \<Rightarrow> AutomationRuntimeStep rt" where
  "step_command ar run node sequence = (case run_command_attempt run of
       None \<Rightarrow> dispatch_command_attempt ar run node sequence
     | Some attempt \<Rightarrow>
         if cat_node_id attempt \<noteq> cn_node_id node then rt_error Rt_InvalidPlan
         else case cat_phase attempt of
           Backoff \<Rightarrow> resume_command_backoff ar run node attempt sequence
         | AwaitingOutcome \<Rightarrow>
             rt_bind (load_attempt_commands ar run attempt) (\<lambda>commands.
             if list_ex (\<lambda>c. \<not> CommandState_is_terminal (ca_state c)) commands then rt_return Step_Waiting
             else checkpoint_command_result ar run node sequence (cat_attempt attempt) (cat_target_indices attempt) commands False)
         | Attempt_Dispatch \<Rightarrow> dispatch_command_attempt ar run node sequence)"

section \<open>One step\<close>

definition step_node :: "AutomationRuntime \<Rightarrow> AutomationRun \<Rightarrow> AutomationExecutionPlan \<Rightarrow> AutomationPlanNode \<Rightarrow> nat \<Rightarrow> AutomationRuntimeStep rt" where
  "step_node ar run plan node sequence = (let n = pn_id node in case pn_kind node of
       N_Complete \<Rightarrow>
         rt_bind (commit_checkpoint ar run (\<lambda>r. r\<lparr>run_state := Run_Completed, run_node_id := None\<rparr>) sequence (Some n) Trace_Outcome
           [(''status'', V_String ''completed'')] [] []) (\<lambda>_. rt_return Step_Completed)
     | N_Delay duration_ms following \<Rightarrow> step_delay ar run n duration_ms following sequence
     | N_SetVariable name expression following \<Rightarrow> step_set_variable ar run n name expression following sequence
     | N_Branch condition then_node else_node join \<Rightarrow> step_branch ar run n condition then_node else_node join sequence
     | N_Join following \<Rightarrow> step_join ar run n following sequence
     | N_Command targets payload _ retry on_failure following \<Rightarrow>
         step_command ar run \<lparr>cn_node_id = n, cn_targets = targets, cn_payload = payload, cn_retry = retry, cn_on_failure = on_failure,
           cn_following = following, cn_maximum_run_duration_ms = rb_maximum_run_duration_ms (pl_budget plan)\<rparr> sequence
     | N_Wait condition timeout_ms on_timeout following \<Rightarrow> step_wait ar run n condition timeout_ms on_timeout following sequence
     | N_Parallel branches maximum_parallel join \<Rightarrow> enter_group ar run n branches maximum_parallel join Continuation_Parallel sequence
     | N_Race branches maximum_parallel join \<Rightarrow> enter_group ar run n branches maximum_parallel join Continuation_Race sequence)"

definition budget_millis :: "nat \<Rightarrow> int" where
  "budget_millis ms = (case try_i64 ms of None \<Rightarrow> 2 ^ 63 - 1 | Some i \<Rightarrow> i)"

definition check_budget :: "AutomationRuntime \<Rightarrow> AutomationRun \<Rightarrow> AutomationResourceBudget \<Rightarrow> AutomationTraceStep list \<Rightarrow> unit rt" where
  "check_budget ar run budget trace =
     (if rb_maximum_trace_steps budget \<le> length trace then rt_error Rt_BudgetExceeded
      else rt_bind (rt_now ar) (\<lambda>now.
        if budget_millis (rb_maximum_run_duration_ms budget) * 1000000 < now - run_created_at run then rt_error Rt_BudgetExceeded
        else rt_return ()))"

definition step_run :: "AutomationRuntime \<Rightarrow> AutomationRun \<Rightarrow> StoredAutomationVersion \<Rightarrow> AutomationRuntimeStep rt" where
  "step_run ar run version =
     rt_bind (rt_db (\<lambda>db. repository_error (load_trace db (run_id run) None
       (saturating_add u64_max (rb_maximum_trace_steps (pl_budget (sv_plan version))) 1)))) (\<lambda>trace.
     rt_bind (check_budget ar run (pl_budget (sv_plan version)) trace) (\<lambda>_.
     let sequence = length trace in
     if run_state run = Run_Pending
     then rt_bind (commit_checkpoint ar run (\<lambda>r. r\<lparr>run_state := Run_Running\<rparr>) sequence None Trace_Trigger [(''accepted'', V_Boolean True)] [] []) (\<lambda>_.
          rt_return Step_Advanced)
     else rt_bind (rt_lift (ok_or (run_node_id run) Rt_InvalidPlan)) (\<lambda>n.
          rt_bind (rt_lift (ok_or (find (\<lambda>node. pn_id node = n) (pl_nodes (sv_plan version))) Rt_InvalidPlan)) (\<lambda>node.
          step_node ar run (sv_plan version) node sequence))))"

definition runtime_step :: "AutomationRuntime \<Rightarrow> uuid \<Rightarrow> AutomationRuntimeStep rt" where
  "runtime_step ar i =
     rt_bind (rt_db (\<lambda>db. Inr (map_of (ad_runs db) i))) (\<lambda>found.
     case found of
       None \<Rightarrow> rt_return Step_NoWork
     | Some run \<Rightarrow>
         if AutomationRunState_is_terminal (run_state run) then rt_return Step_NoWork
         else rt_bind (rt_db (\<lambda>db. Inr (map_of (ad_identities db) (run_automation_id run)))) (\<lambda>identity.
           case identity of
             None \<Rightarrow> rt_return Step_NoWork
           | Some identity \<Rightarrow>
               if ids_active_version identity \<noteq> Some (run_version run) then rt_return Step_NoWork
               else rt_bind (rt_db (\<lambda>db. and_then (repository_error (load_version db (run_automation_id run) (run_version run)))
                      (\<lambda>v. ok_or v Rt_InvalidPlan))) (\<lambda>version.
                    step_run ar run version)))"

end
