(* ===== verification/Automation_Simulator.thy ===== *)
theory Automation_Simulator
  imports Automation_Compiler Identity "HOL-Library.Product_Lexorder"
begin

text \<open>
  The simulator (\<open>homemagic-application/src/automation_simulator.rs\<close>): fixtures, virtual ports,
  trigger acceptance and the step interpreter that walks a compiled plan. A fixture is data; the
  interpreter's state is the record below, passed along; an error ends the whole simulation, so
  a failed step carries no state.

  The node loop is bounded by the plan's trace budget, not by the plan's shape, so it is defined
  by recursion on fuel, and running out of fuel is the value \<^const>\<open>None\<close>. The two loops over pending
  state changes remove at least one change per round and take the number of pending changes as
  their bound.
\<close>

section \<open>Fixtures and results\<close>

record SimulationObservationKey =
  ok_target :: ResolvedAutomationTarget
  ok_field :: string

record SimulationStateChange =
  ch_at :: datetime
  ch_key :: SimulationObservationKey
  ch_value :: AutomationValue

record SimulationCommandOutcome =
  out_state :: CommandState
  out_error :: "CommandErrorCode option"

datatype SimulationTriggerKind =
    Sim_Schedule
  | Sim_ObservationChanged SimulationObservationKey
  | Sim_DeviceEvent ResolvedAutomationTarget string
  | Sim_CommandOutcome ResolvedAutomationTarget CommandState
  | Sim_ExplicitCatchUp

record SimulationTriggerContext =
  tg_kind :: SimulationTriggerKind
  tg_occurred_at :: datetime
  tg_accepted_at :: datetime
  tg_window_ends_at :: datetime
  tg_explicit_catch_up :: bool
  tg_active_runs :: nat
  tg_queued_triggers :: nat
  tg_caused_by_version :: "nat option"
  tg_same_correlation :: bool

record AutomationSimulationFixture =
  fx_plan :: AutomationExecutionPlan
  fx_run_id :: uuid
  fx_correlation_id :: uuid
  fx_causation_event_id :: "uuid option"
  fx_trigger :: SimulationTriggerContext
  fx_initial_state :: "SimulationObservationKey \<rightharpoonup> AutomationValue"
  fx_state_changes :: "SimulationStateChange list"
  fx_command_outcomes :: "SimulationCommandOutcome list"

record SimulatedCommandIntent =
  in_node_id :: node_id
  in_targets :: "ResolvedAutomationTarget list"
  in_payload :: CommandPayload
  in_attempt :: nat
  in_at :: datetime
  in_outcome :: SimulationCommandOutcome
  in_safety_profiles :: "AutomationSafetyProfile set"
  in_approval :: AutomationApprovalRequirement

datatype AutomationSimulationStatus = Sim_Completed | Sim_Suppressed | Sim_MissedSkipped | Sim_Failed

record AutomationSimulationResult =
  res_status :: AutomationSimulationStatus
  res_trace :: "AutomationTraceStep list"
  res_command_intents :: "SimulatedCommandIntent list"
  res_variables :: variables
  res_finished_at :: datetime
  res_trace_hash :: string

datatype AutomationSimulationError =
    Sim_MissingNode node_id
  | Sim_MissingValue string
  | Sim_TypeMismatch
  | Sim_BudgetExceeded
  | Sim_InvalidSchedule
  | Sim_TraceHash

text \<open>The libraries the simulator calls: those of the compiler, chrono's checked sum of an instant
  and a span in nanoseconds, and the name hash of identities.\<close>

record SimulationLibrary =
  sl_library :: AutomationLibrary
  sl_checked_add_signed :: "datetime \<Rightarrow> int \<Rightarrow> datetime option"
  sl_uuid_v5 :: uuid_v5

definition nanos_per_milli :: int where "nanos_per_milli = 1000000"

definition add_millis :: "SimulationLibrary \<Rightarrow> datetime \<Rightarrow> nat \<Rightarrow> AutomationSimulationError + datetime" where
  "add_millis sl at milliseconds =
     and_then (ok_or (try_i64 milliseconds) Sim_BudgetExceeded) (\<lambda>ms.
     ok_or (sl_checked_add_signed sl at (ms * nanos_per_milli)) Sim_BudgetExceeded)"

section \<open>Virtual ports\<close>

record VirtualSimulationPorts =
  vp_now :: datetime
  vp_state :: "SimulationObservationKey \<rightharpoonup> AutomationValue"
  vp_changes :: "SimulationStateChange list"
  vp_outcomes :: "SimulationCommandOutcome list"

definition change_key :: "SimulationStateChange \<Rightarrow> datetime \<times> uuid \<times> endpoint_id \<times> string \<times> string" where
  "change_key c = (ch_at c, rt_device_id (ok_target (ch_key c)), rt_endpoint_id (ok_target (ch_key c)),
     rt_capability (ok_target (ch_key c)), ok_field (ch_key c))"

definition VirtualSimulationPorts_new :: "AutomationSimulationFixture \<Rightarrow> VirtualSimulationPorts" where
  "VirtualSimulationPorts_new fx =
     \<lparr>vp_now = tg_accepted_at (fx_trigger fx), vp_state = fx_initial_state fx,
      vp_changes = sort_key change_key (fx_state_changes fx), vp_outcomes = fx_command_outcomes fx\<rparr>"

definition apply_change :: "SimulationStateChange \<Rightarrow> (SimulationObservationKey \<rightharpoonup> AutomationValue) \<Rightarrow>
   (SimulationObservationKey \<rightharpoonup> AutomationValue)" where
  "apply_change c m = m(ch_key c \<mapsto> ch_value c)"

definition advance_to :: "VirtualSimulationPorts \<Rightarrow> datetime \<Rightarrow> VirtualSimulationPorts" where
  "advance_to p at = p\<lparr>vp_state := fold apply_change (takeWhile (\<lambda>c. ch_at c \<le> at) (vp_changes p)) (vp_state p),
     vp_changes := dropWhile (\<lambda>c. ch_at c \<le> at) (vp_changes p), vp_now := max (vp_now p) at\<rparr>"

definition next_change_through :: "VirtualSimulationPorts \<Rightarrow> datetime \<Rightarrow> datetime option" where
  "next_change_through p deadline =
     (case vp_changes p of [] \<Rightarrow> None | c # _ \<Rightarrow> if ch_at c \<le> deadline then Some (ch_at c) else None)"

definition command_outcome :: "VirtualSimulationPorts \<Rightarrow> SimulationCommandOutcome \<times> VirtualSimulationPorts" where
  "command_outcome p = (case vp_outcomes p of
       [] \<Rightarrow> (\<lparr>out_state = Confirmed, out_error = None\<rparr>, p)
     | out # rest \<Rightarrow> (out, p\<lparr>vp_outcomes := rest\<rparr>))"

section \<open>Evaluation context\<close>

text \<open>The loop of a timed condition: it must hold at every pending change up to the deadline and at
  the deadline itself.\<close>

fun hold_through :: "nat \<Rightarrow> VirtualSimulationPorts evaluation \<Rightarrow> datetime \<Rightarrow> VirtualSimulationPorts evaluation" where
  "hold_through 0 evaluate deadline p = evaluate (advance_to p deadline)"
| "hold_through (Suc n) evaluate deadline p =
     (case next_change_through p deadline of
        None \<Rightarrow> evaluate (advance_to p deadline)
      | Some at \<Rightarrow>
          (case evaluate (advance_to p at) of
             (Inl e, p') \<Rightarrow> (Inl e, p')
           | (Inr holds, p') \<Rightarrow> if holds then hold_through n evaluate deadline p' else (Inr False, p')))"

definition state_duration ::
  "SimulationLibrary \<Rightarrow> ResolvedAutomationCondition \<Rightarrow> nat \<Rightarrow> VirtualSimulationPorts evaluation \<Rightarrow> VirtualSimulationPorts evaluation" where
  "state_duration sl condition duration_ms evaluate p =
     (case evaluate p of
        (Inl e, p1) \<Rightarrow> (Inl e, p1)
      | (Inr holds, p1) \<Rightarrow>
          if \<not> holds then (Inr False, p1)
          else (case try_i64 duration_ms of
             None \<Rightarrow> (Inl Eval_TypeMismatch, p1)
           | Some ms \<Rightarrow>
               (case sl_checked_add_signed sl (vp_now p1) (ms * nanos_per_milli) of
                  None \<Rightarrow> (Inl Eval_TypeMismatch, p1)
                | Some deadline \<Rightarrow> hold_through (length (vp_changes p1)) evaluate deadline p1)))"

definition SimulationEvaluationContext :: "SimulationLibrary \<Rightarrow> VirtualSimulationPorts AutomationEvaluationContext" where
  "SimulationEvaluationContext sl =
     \<lparr>cx_now = vp_now,
      cx_observation = (\<lambda>p target field. vp_state p \<lparr>ok_target = target, ok_field = field\<rparr>),
      cx_state_duration = state_duration sl\<rparr>"

fun map_evaluation_error :: "AutomationEvaluationError \<Rightarrow> AutomationSimulationError" where
  "map_evaluation_error (MissingValue v) = Sim_MissingValue v"
| "map_evaluation_error Eval_TypeMismatch = Sim_TypeMismatch"
| "map_evaluation_error InvalidTimeWindow = Sim_InvalidSchedule"
| "map_evaluation_error _ = Sim_TypeMismatch"

section \<open>Interpreter state\<close>

record StepInterpreter =
  si_ports :: VirtualSimulationPorts
  si_trace :: "AutomationTraceStep list"
  si_intents :: "SimulatedCommandIntent list"
  si_variables :: variables
  si_steps :: nat

type_synonym 'a interpreted = "AutomationSimulationError + 'a \<times> StepInterpreter"

datatype Flow = Flow_Completed | Flow_StopRun | Flow_StopBranch

definition StepInterpreter_new :: "AutomationSimulationFixture \<Rightarrow> VirtualSimulationPorts \<Rightarrow> StepInterpreter" where
  "StepInterpreter_new fx ports =
     \<lparr>si_ports = ports, si_trace = [], si_intents = [],
      si_variables = List.map_filter (\<lambda>(name, def). map_option (Pair name) (vd_initial def)) (pl_variables (fx_plan fx)),
      si_steps = 0\<rparr>"

definition trace_step ::
  "SimulationLibrary \<Rightarrow> AutomationSimulationFixture \<Rightarrow> AutomationTraceKind \<Rightarrow> node_id option \<Rightarrow>
   (string \<times> AutomationValue) list \<Rightarrow> StepInterpreter \<Rightarrow> unit interpreted" where
  "trace_step sl fx kind node values st =
     (if rb_maximum_trace_steps (pl_budget (fx_plan fx)) \<le> length (si_trace st) then Inl Sim_BudgetExceeded
      else Inr ((), st\<lparr>si_trace := si_trace st @
        [\<lparr>ts_id = AutomationTraceId_from_run_sequence (sl_uuid_v5 sl) (lib_show_uuid (sl_library sl)) (fx_run_id fx)
             (length (si_trace st)),
          ts_run_id = fx_run_id fx, ts_sequence = length (si_trace st), ts_node_id = node, ts_kind = kind,
          ts_details = btree_of_list values, ts_occurred_at = vp_now (si_ports st),
          ts_correlation_id = fx_correlation_id fx, ts_causation_event_id = fx_causation_event_id fx\<rparr>]\<rparr>))"

definition consume_budget :: "AutomationSimulationFixture \<Rightarrow> StepInterpreter \<Rightarrow> unit interpreted" where
  "consume_budget fx st =
     (let st' = st\<lparr>si_steps := saturating_add u32_max (si_steps st) 1\<rparr>;
          budget = pl_budget (fx_plan fx);
          limit = (case try_i64 (rb_maximum_run_duration_ms budget) of None \<Rightarrow> int i64_max | Some ms \<Rightarrow> ms)
      in if rb_maximum_trace_steps budget < si_steps st' \<or> rb_maximum_trace_steps budget \<le> length (si_trace st') \<or>
            limit * nanos_per_milli < vp_now (si_ports st') - tg_accepted_at (fx_trigger fx)
         then Inl Sim_BudgetExceeded else Inr ((), st'))"

definition evaluate_condition :: "SimulationLibrary \<Rightarrow> ResolvedAutomationCondition \<Rightarrow> StepInterpreter \<Rightarrow> bool interpreted" where
  "evaluate_condition sl condition st =
     (case evaluate_automation_condition (lib_calendar (sl_library sl)) (SimulationEvaluationContext sl) (si_variables st)
             condition (si_ports st) of
        (Inl e, _) \<Rightarrow> Inl (map_evaluation_error e)
      | (Inr b, ports) \<Rightarrow> Inr (b, st\<lparr>si_ports := ports\<rparr>))"

definition evaluate_expression :: "SimulationLibrary \<Rightarrow> ResolvedAutomationExpression \<Rightarrow> StepInterpreter \<Rightarrow>
   AutomationSimulationError + AutomationValue" where
  "evaluate_expression sl e st =
     (case evaluate_automation_expression (SimulationEvaluationContext sl) (si_variables st) e (si_ports st) of
        Inl err \<Rightarrow> Inl (map_evaluation_error err)
      | Inr v \<Rightarrow> Inr v)"

section \<open>Trigger acceptance\<close>

definition trigger_matches :: "AutomationSimulationFixture \<Rightarrow> bool" where
  "trigger_matches fx =
     (case tg_kind (fx_trigger fx) of
        Sim_ExplicitCatchUp \<Rightarrow> tg_explicit_catch_up (fx_trigger fx)
      | Sim_Schedule \<Rightarrow> list_ex (\<lambda>t. case t of RT_Schedule _ \<Rightarrow> True | _ \<Rightarrow> False) (pl_triggers (fx_plan fx))
      | Sim_ObservationChanged key \<Rightarrow>
          list_ex (\<lambda>t. case t of
              RT_ObservationChanged targets field \<Rightarrow>
                ok_target key \<in> set targets \<and> (field = None \<or> field = Some (ok_field key))
            | _ \<Rightarrow> False) (pl_triggers (fx_plan fx))
      | Sim_DeviceEvent target event \<Rightarrow>
          list_ex (\<lambda>t. case t of
              RT_DeviceEvent targets expected \<Rightarrow> target \<in> set targets \<and> expected = event
            | _ \<Rightarrow> False) (pl_triggers (fx_plan fx))
      | Sim_CommandOutcome target state \<Rightarrow>
          list_ex (\<lambda>t. case t of
              RT_CommandOutcome targets states \<Rightarrow>
                (case targets of None \<Rightarrow> True | Some ts \<Rightarrow> target \<in> set ts) \<and> state \<in> states
            | _ \<Rightarrow> False) (pl_triggers (fx_plan fx)))"

definition self_suppressed :: "AutomationSimulationFixture \<Rightarrow> bool" where
  "self_suppressed fx =
     (case pl_self_trigger (fx_plan fx) of
        SuppressSameVersion \<Rightarrow> tg_caused_by_version (fx_trigger fx) = Some (pl_automation_version (fx_plan fx))
      | SuppressSameCorrelation \<Rightarrow> tg_same_correlation (fx_trigger fx)
      | Allow \<Rightarrow> False)"

definition run_suppressed :: "AutomationSimulationFixture \<Rightarrow> bool" where
  "run_suppressed fx =
     (case pl_run_mode (fx_plan fx) of
        Single \<Rightarrow> 0 < tg_active_runs (fx_trigger fx)
      | Restart \<Rightarrow> False
      | Queued capacity \<Rightarrow> capacity \<le> tg_queued_triggers (fx_trigger fx)
      | Parallel_mode maximum_parallel \<Rightarrow> maximum_parallel \<le> tg_active_runs (fx_trigger fx))"

definition suppress ::
  "SimulationLibrary \<Rightarrow> AutomationSimulationFixture \<Rightarrow> string \<Rightarrow> AutomationSimulationStatus \<Rightarrow> StepInterpreter \<Rightarrow>
   AutomationSimulationStatus option interpreted" where
  "suppress sl fx reason status st =
     and_then (trace_step sl fx Trace_Suppression None [(''reason'', V_String reason)] st) (\<lambda>(_, st').
     Inr (Some status, st'))"

definition accept_trigger ::
  "SimulationLibrary \<Rightarrow> AutomationSimulationFixture \<Rightarrow> StepInterpreter \<Rightarrow> AutomationSimulationStatus option interpreted" where
  "accept_trigger sl fx st =
     (let trigger = fx_trigger fx in
      if \<not> trigger_matches fx then suppress sl fx ''trigger_not_matched'' Sim_Suppressed st
      else if tg_window_ends_at trigger < tg_accepted_at trigger \<and> \<not> tg_explicit_catch_up trigger
      then suppress sl fx ''missed_skipped'' Sim_MissedSkipped st
      else if self_suppressed fx \<or> run_suppressed fx then suppress sl fx ''trigger_suppressed'' Sim_Suppressed st
      else
        and_then (trace_step sl fx Trace_Trigger None
            [(''accepted'', V_Boolean True), (''explicit_catch_up'', V_Boolean (tg_explicit_catch_up trigger))] st) (\<lambda>(_, st1).
        case pl_condition (fx_plan fx) of
          None \<Rightarrow> Inr (None, st1)
        | Some condition \<Rightarrow>
            and_then (evaluate_condition sl condition st1) (\<lambda>(accepted, st2).
            and_then (trace_step sl fx Trace_Condition None [(''result'', V_Boolean accepted)] st2) (\<lambda>(_, st3).
            Inr (if accepted then None else Some Sim_Suppressed, st3)))))"

section \<open>Node execution\<close>

fun CommandState_json :: "CommandState \<Rightarrow> string" where
  "CommandState_json Received = ''received''"
| "CommandState_json Validated = ''validated''"
| "CommandState_json Rejected = ''rejected''"
| "CommandState_json Dispatched = ''dispatched''"
| "CommandState_json Acknowledged = ''acknowledged''"
| "CommandState_json Confirmed = ''confirmed''"
| "CommandState_json Failed = ''failed''"
| "CommandState_json TimedOut = ''timed_out''"
| "CommandState_json Cancelled = ''cancelled''"

text \<open>The attempts of one command node: true when an attempt is confirmed, false when the failure
  policy applies.\<close>

function command_attempts ::
  "SimulationLibrary \<Rightarrow> AutomationSimulationFixture \<Rightarrow> node_id \<Rightarrow> ResolvedAutomationTarget list \<Rightarrow> CommandPayload \<Rightarrow>
   AutomationRetryPolicy \<Rightarrow> nat \<Rightarrow> StepInterpreter \<Rightarrow> bool interpreted" where
  "command_attempts sl fx node targets payload retry attempt st =
     (let (outcome, ports) = command_outcome (si_ports st);
          intent = \<lparr>in_node_id = node, in_targets = targets, in_payload = payload, in_attempt = attempt,
            in_at = vp_now ports, in_outcome = outcome, in_safety_profiles = pl_safety_profiles (fx_plan fx),
            in_approval = pl_approval (fx_plan fx)\<rparr>;
          st1 = st\<lparr>si_ports := ports, si_intents := si_intents st @ [intent]\<rparr>
      in case trace_step sl fx Trace_Command (Some node)
            [(''attempt'', V_Integer (int attempt)), (''state'', V_String (CommandState_json (out_state outcome)))] st1 of
           Inl e \<Rightarrow> Inl e
         | Inr (_, st2) \<Rightarrow>
             if out_state outcome = Confirmed then Inr (True, st2)
             else if attempt < rp_maximum_retries retry \<and>
                (case out_error outcome of None \<Rightarrow> False | Some e \<Rightarrow> e \<in> set (rp_retryable_command_errors retry))
             then (case add_millis sl (vp_now (si_ports st2)) (rp_backoff_ms retry) of
                  Inl e \<Rightarrow> Inl e
                | Inr at \<Rightarrow> command_attempts sl fx node targets payload retry (attempt + 1)
                    (st2\<lparr>si_ports := advance_to (si_ports st2) at\<rparr>))
             else Inr (False, st2))"
  by pat_completeness auto
termination
  by (relation "measure (\<lambda>(_, _, _, _, _, retry, attempt, _). rp_maximum_retries retry - attempt)") auto

declare command_attempts.simps [simp del]

text \<open>The rounds of a wait after its first evaluation: true when the condition is satisfied.\<close>

fun wait_rounds :: "SimulationLibrary \<Rightarrow> nat \<Rightarrow> ResolvedAutomationCondition \<Rightarrow> datetime \<Rightarrow> StepInterpreter \<Rightarrow> bool interpreted" where
  "wait_rounds sl 0 condition deadline st = Inr (False, st)"
| "wait_rounds sl (Suc n) condition deadline st =
     (case next_change_through (si_ports st) deadline of
        None \<Rightarrow> Inr (False, st)
      | Some at \<Rightarrow>
          (case evaluate_condition sl condition (st\<lparr>si_ports := advance_to (si_ports st) at\<rparr>) of
             Inl e \<Rightarrow> Inl e
           | Inr (satisfied, st') \<Rightarrow>
               if satisfied then Inr (True, st') else wait_rounds sl n condition deadline st'))"

definition wait_for :: "SimulationLibrary \<Rightarrow> ResolvedAutomationCondition \<Rightarrow> datetime \<Rightarrow> StepInterpreter \<Rightarrow> bool interpreted" where
  "wait_for sl condition deadline st =
     and_then (evaluate_condition sl condition st) (\<lambda>(satisfied, st').
     if satisfied then Inr (True, st') else wait_rounds sl (length (vp_changes (si_ports st'))) condition deadline st')"

type_synonym 'a fuelled = "'a interpreted option"
type_synonym executor = "node_id \<Rightarrow> node_id option \<Rightarrow> StepInterpreter \<Rightarrow> Flow fuelled"

definition then_run :: "'a interpreted \<Rightarrow> ('a \<Rightarrow> StepInterpreter \<Rightarrow> 'b fuelled) \<Rightarrow> 'b fuelled" where
  "then_run r f = (case r of Inl e \<Rightarrow> Some (Inl e) | Inr (x, st) \<Rightarrow> f x st)"

definition proceed :: "executor \<Rightarrow> node_id option \<Rightarrow> node_id option \<Rightarrow> StepInterpreter \<Rightarrow> Flow fuelled" where
  "proceed execute following stop_before st =
     (case following of None \<Rightarrow> Some (Inr (Flow_Completed, st)) | Some n \<Rightarrow> execute n stop_before st)"

definition apply_failure ::
  "executor \<Rightarrow> AutomationPlanFailurePolicy \<Rightarrow> node_id option \<Rightarrow> StepInterpreter \<Rightarrow> Flow fuelled" where
  "apply_failure execute policy following st =
     (case policy of
        PF_StopRun \<Rightarrow> Some (Inr (Flow_StopRun, st))
      | PF_StopBranch \<Rightarrow> Some (Inr (Flow_StopBranch, st))
      | PF_Continue \<Rightarrow> proceed execute following None st
      | PF_Fallback entry \<Rightarrow> proceed execute (case entry of None \<Rightarrow> following | Some e \<Rightarrow> Some e) None st)"

fun run_parallel :: "executor \<Rightarrow> node_id list \<Rightarrow> node_id option \<Rightarrow> StepInterpreter \<Rightarrow> Flow fuelled" where
  "run_parallel execute [] join st = Some (Inr (Flow_Completed, st))"
| "run_parallel execute (b # bs) join st =
     (case execute b join st of
        None \<Rightarrow> None
      | Some (Inl e) \<Rightarrow> Some (Inl e)
      | Some (Inr (flow, st')) \<Rightarrow>
          if flow = Flow_StopRun then Some (Inr (Flow_StopRun, st')) else run_parallel execute bs join st')"

fun run_race :: "executor \<Rightarrow> node_id list \<Rightarrow> node_id option \<Rightarrow> StepInterpreter \<Rightarrow> Flow fuelled" where
  "run_race execute [] join st = Some (Inr (Flow_StopRun, st))"
| "run_race execute (b # bs) join st =
     (case execute b join st of
        None \<Rightarrow> None
      | Some (Inl e) \<Rightarrow> Some (Inl e)
      | Some (Inr (flow, st')) \<Rightarrow>
          (case flow of
             Flow_Completed \<Rightarrow> Some (Inr (Flow_Completed, st'))
           | Flow_StopRun \<Rightarrow> Some (Inr (Flow_StopRun, st'))
           | Flow_StopBranch \<Rightarrow> run_race execute bs join st'))"

definition after_group :: "Flow fuelled \<Rightarrow> (StepInterpreter \<Rightarrow> Flow fuelled) \<Rightarrow> Flow fuelled" where
  "after_group r continue =
     (case r of
        None \<Rightarrow> None
      | Some (Inl e) \<Rightarrow> Some (Inl e)
      | Some (Inr (flow, st)) \<Rightarrow> if flow = Flow_StopRun then Some (Inr (Flow_StopRun, st)) else continue st)"

definition execute_node ::
  "SimulationLibrary \<Rightarrow> AutomationSimulationFixture \<Rightarrow> executor \<Rightarrow> node_id \<Rightarrow> node_id option \<Rightarrow> AutomationPlanNodeKind \<Rightarrow>
   StepInterpreter \<Rightarrow> Flow fuelled" where
  "execute_node sl fx execute node stop_before kind st =
     (case kind of
        N_Complete \<Rightarrow>
          then_run (trace_step sl fx Trace_Outcome (Some node) [(''status'', V_String ''completed'')] st) (\<lambda>_ st1.
          Some (Inr (Flow_Completed, st1)))
      | N_Delay duration_ms following \<Rightarrow>
          (case add_millis sl (vp_now (si_ports st)) duration_ms of
             Inl e \<Rightarrow> Some (Inl e)
           | Inr ready_at \<Rightarrow>
               then_run (trace_step sl fx Trace_Timer (Some node)
                   [(''event'', V_String ''delay_ready''), (''duration_ms'', V_DurationMillis duration_ms)]
                   (st\<lparr>si_ports := advance_to (si_ports st) ready_at\<rparr>)) (\<lambda>_ st1.
               proceed execute following stop_before st1))
      | N_Command targets payload segment retry on_failure following \<Rightarrow>
          then_run (command_attempts sl fx node targets payload retry 0 st) (\<lambda>confirmed st1.
          if confirmed then proceed execute following stop_before st1 else apply_failure execute on_failure following st1)
      | N_Wait condition timeout_ms on_timeout following \<Rightarrow>
          (case add_millis sl (vp_now (si_ports st)) timeout_ms of
             Inl e \<Rightarrow> Some (Inl e)
           | Inr deadline \<Rightarrow>
               then_run (wait_for sl condition deadline st) (\<lambda>satisfied st1.
               if satisfied
               then then_run (trace_step sl fx Trace_Condition (Some node) [(''result'', V_Boolean True)] st1) (\<lambda>_ st2.
                    proceed execute following stop_before st2)
               else then_run (trace_step sl fx Trace_Timer (Some node) [(''event'', V_String ''wait_timeout'')]
                      (st1\<lparr>si_ports := advance_to (si_ports st1) deadline\<rparr>)) (\<lambda>_ st2.
                    apply_failure execute on_timeout following st2)))
      | N_SetVariable name e following \<Rightarrow>
          (case evaluate_expression sl e st of
             Inl err \<Rightarrow> Some (Inl err)
           | Inr v \<Rightarrow>
               then_run (trace_step sl fx Trace_Variable (Some node) [(''name'', V_String name), (''value'', v)]
                   (st\<lparr>si_variables := btree_insert name v (si_variables st)\<rparr>)) (\<lambda>_ st1.
               proceed execute following stop_before st1))
      | N_Branch condition then_node else_node join \<Rightarrow>
          then_run (evaluate_condition sl condition st) (\<lambda>selected st1.
          then_run (trace_step sl fx Trace_Branch (Some node) [(''then'', V_Boolean selected)] st1) (\<lambda>_ st2.
          proceed execute (case if selected then then_node else else_node of None \<Rightarrow> join | Some n \<Rightarrow> Some n) stop_before st2))
      | N_Parallel branches width join \<Rightarrow>
          after_group (run_parallel execute branches join st) (\<lambda>st1. proceed execute join stop_before st1)
      | N_Race branches width join \<Rightarrow>
          after_group (run_race execute branches join st) (\<lambda>st1. proceed execute join stop_before st1)
      | N_Join following \<Rightarrow> proceed execute following stop_before st)"

definition find_node :: "AutomationSimulationFixture \<Rightarrow> node_id \<Rightarrow> AutomationPlanNodeKind option" where
  "find_node fx node = map_option pn_kind (find (\<lambda>n. pn_id n = node) (pl_nodes (fx_plan fx)))"

primrec execute_from ::
  "nat \<Rightarrow> SimulationLibrary \<Rightarrow> AutomationSimulationFixture \<Rightarrow> node_id \<Rightarrow> node_id option \<Rightarrow> StepInterpreter \<Rightarrow> Flow fuelled" where
  "execute_from 0 sl fx node stop_before st = None"
| "execute_from (Suc fuel) sl fx node stop_before st =
     (if Some node = stop_before then Some (Inr (Flow_Completed, st))
      else
        then_run (consume_budget fx st) (\<lambda>_ st1.
        case find_node fx node of
          None \<Rightarrow> Some (Inl (Sim_MissingNode node))
        | Some kind \<Rightarrow> execute_node sl fx (execute_from fuel sl fx) node stop_before kind st1))"

section \<open>Simulation\<close>

definition canonical_trace_hash :: "AutomationLibrary \<Rightarrow> AutomationTraceStep list \<Rightarrow> string + string" where
  "canonical_trace_hash lib steps = digest_hash lib (lib_trace_json lib steps)"

definition finish ::
  "SimulationLibrary \<Rightarrow> AutomationSimulationStatus \<Rightarrow> StepInterpreter \<Rightarrow> AutomationSimulationError + AutomationSimulationResult" where
  "finish sl status st =
     (case canonical_trace_hash (sl_library sl) (si_trace st) of
        Inl _ \<Rightarrow> Inl Sim_TraceHash
      | Inr h \<Rightarrow> Inr \<lparr>res_status = status, res_trace = si_trace st, res_command_intents = si_intents st,
          res_variables = si_variables st, res_finished_at = vp_now (si_ports st), res_trace_hash = h\<rparr>)"

definition conclude ::
  "SimulationLibrary \<Rightarrow> AutomationSimulationFixture \<Rightarrow> AutomationSimulationStatus \<Rightarrow> StepInterpreter \<Rightarrow>
   AutomationSimulationError + AutomationSimulationResult" where
  "conclude sl fx status st =
     (if status = Sim_Failed
      then and_then (trace_step sl fx Trace_Outcome None [(''status'', V_String ''failed'')] st) (\<lambda>(_, st').
           finish sl status st')
      else finish sl status st)"

definition AutomationSimulator_simulate ::
  "nat \<Rightarrow> SimulationLibrary \<Rightarrow> AutomationSimulationFixture \<Rightarrow> (AutomationSimulationError + AutomationSimulationResult) option" where
  "AutomationSimulator_simulate fuel sl fx =
     (case accept_trigger sl fx (StepInterpreter_new fx (VirtualSimulationPorts_new fx)) of
        Inl e \<Rightarrow> Some (Inl e)
      | Inr (Some status, st) \<Rightarrow> Some (conclude sl fx status st)
      | Inr (None, st) \<Rightarrow>
          (case execute_from fuel sl fx (pl_entry (fx_plan fx)) None st of
             None \<Rightarrow> None
           | Some (Inl e) \<Rightarrow> Some (Inl e)
           | Some (Inr (flow, st')) \<Rightarrow>
               Some (conclude sl fx (if flow = Flow_Completed then Sim_Completed else Sim_Failed) st')))"

end
