(* ===== verification/Automation_Scheduler.thy ===== *)
theory Automation_Scheduler
  imports Automation_Runtime Automation_Simulator
begin

text \<open>
  Work for the interpreter: the durable scheduler (\<open>automation_scheduler.rs\<close>), the subscriber that
  turns domain events into occurrences (\<open>automation_events.rs\<close>) and the engine that runs both and
  then steps every recovered run once (\<open>automation_engine.rs\<close>), all of \<open>homemagic-application\<close>. They share the state of the
  interpreter. The cron iterator, chrono's checked sums and its last instant are parameters, as are the
  event pages the foundation returns and the answers of the wake-up sink.
\<close>

section \<open>Stages\<close>

type_synonym ('e, 'a) stage = "RuntimeState \<Rightarrow> ('e + 'a) \<times> RuntimeState"

definition sg_bind :: "('e, 'a) stage \<Rightarrow> ('a \<Rightarrow> ('e, 'b) stage) \<Rightarrow> ('e, 'b) stage" where
  "sg_bind m f st = (case m st of (Inl e, st') \<Rightarrow> (Inl e, st') | (Inr x, st') \<Rightarrow> f x st')"

definition sg_return :: "'a \<Rightarrow> ('e, 'a) stage" where
  "sg_return x st = (Inr x, st)"

definition sg_error :: "'e \<Rightarrow> ('e, 'a) stage" where
  "sg_error e st = (Inl e, st)"

definition sg_lift :: "'e + 'a \<Rightarrow> ('e, 'a) stage" where
  "sg_lift r st = (r, st)"

definition sg_read :: "(AutomationDatabase \<Rightarrow> 'e + 'a) \<Rightarrow> ('e, 'a) stage" where
  "sg_read f st = (f (rs_db st), st)"

definition sg_now :: "(nat \<Rightarrow> datetime) \<Rightarrow> ('e, datetime) stage" where
  "sg_now clock st = (Inr (clock (rs_clock st)), st\<lparr>rs_clock := rs_clock st + 1\<rparr>)"

text \<open>A repository transaction: its error leaves the database as it was.\<close>

definition sg_write :: "(StorageError \<Rightarrow> 'e) \<Rightarrow> (AutomationDatabase \<Rightarrow> StorageError + 'a \<times> AutomationDatabase) \<Rightarrow> ('e, 'a) stage" where
  "sg_write err operation st = (case run_write operation (rs_db st) of
       (Inl e, db) \<Rightarrow> (Inl (err e), st\<lparr>rs_db := db\<rparr>) | (Inr x, db) \<Rightarrow> (Inr x, st\<lparr>rs_db := db\<rparr>))"

definition map_error :: "('e \<Rightarrow> 'f) \<Rightarrow> 'e + 'a \<Rightarrow> 'f + 'a" where
  "map_error f r = (case r of Inl e \<Rightarrow> Inl (f e) | Inr x \<Rightarrow> Inr x)"

definition sg_map_error :: "('e \<Rightarrow> 'f) \<Rightarrow> ('e, 'a) stage \<Rightarrow> ('f, 'a) stage" where
  "sg_map_error f m st = (case m st of (r, st') \<Rightarrow> (map_error f r, st'))"

fun sg_each :: "('x \<Rightarrow> 'a \<Rightarrow> ('e, 'a) stage) \<Rightarrow> 'x list \<Rightarrow> 'a \<Rightarrow> ('e, 'a) stage" where
  "sg_each f [] a = sg_return a"
| "sg_each f (x # xs) a = sg_bind (f x a) (sg_each f xs)"

text \<open>A write that only returns the database.\<close>

definition plain_write :: "(AutomationDatabase \<Rightarrow> StorageError + AutomationDatabase) \<Rightarrow> AutomationDatabase \<Rightarrow> StorageError + unit \<times> AutomationDatabase" where
  "plain_write operation db = (case operation db of Inl e \<Rightarrow> Inl e | Inr db' \<Rightarrow> Inr ((), db'))"

section \<open>Schedules\<close>

text \<open>The libraries of the scheduler: the parsers of the compiler, the instant that the iterator of
  \<open>cron::Schedule::after\<close> yields after a given one, chrono's checked arithmetic and \<open>MAX_UTC\<close>.\<close>

record ScheduleLibrary =
  shl_calendar :: Calendar
  shl_next_after :: "string \<Rightarrow> string \<Rightarrow> datetime \<Rightarrow> datetime option"
  shl_checked_add_signed :: "datetime \<Rightarrow> int \<Rightarrow> datetime option"
  shl_checked_sub_signed :: "datetime \<Rightarrow> int \<Rightarrow> datetime option"
  shl_max_utc :: datetime

text \<open>The instants of an iterator up to a bound. A cron iterator only moves forward; an instant that does
  not ends the enumeration here.\<close>

function occurrences_from :: "(datetime \<Rightarrow> datetime option) \<Rightarrow> datetime \<Rightarrow> datetime \<Rightarrow> datetime list" where
  "occurrences_from next_after through previous = (case next_after previous of
       None \<Rightarrow> []
     | Some instant \<Rightarrow>
         if previous < instant \<and> instant \<le> through then instant # occurrences_from next_after through instant else [])"
  by pat_completeness auto
termination by (relation "measure (\<lambda>(_, through, previous). nat (through - previous))") auto

declare occurrences_from.simps [simp del]

definition schedule_occurrences :: "ScheduleLibrary \<Rightarrow> AutomationSchedule \<Rightarrow> datetime \<Rightarrow> datetime \<Rightarrow> AutomationSimulationError + datetime list" where
  "schedule_occurrences lib schedule from_instant through =
     (let cron = ''0 '' @ sc_cron schedule in
      if cal_timezone (shl_calendar lib) (sc_timezone schedule) = None then Inl Sim_InvalidSchedule
      else if \<not> cal_schedule_valid (shl_calendar lib) cron then Inl Sim_InvalidSchedule
      else Inr (occurrences_from (shl_next_after lib cron (sc_timezone schedule)) through from_instant))"

section \<open>The scheduler\<close>

text \<open>The last constructor is the panic of chrono's sum beyond its last instant.\<close>

datatype AutomationSchedulerError =
    Sch_Repository StorageError
  | Sch_InvalidSchedule
  | Sch_InvalidCatchUpInstant
  | Sch_ScheduleNotMissed
  | Sch_AutomationNotActive
  | Sch_DurationOverflow
  | Sch_Panic

record AutomationSchedulerTick =
  skt_scheduled :: nat
  skt_accepted :: nat
  skt_missed_skipped :: nat
  skt_suppressed :: nat
  skt_runs :: nat
  skt_runs_cancelled :: nat
  skt_timers_ready :: nat

definition AutomationSchedulerTick_default :: AutomationSchedulerTick where
  "AutomationSchedulerTick_default = \<lparr>skt_scheduled = 0, skt_accepted = 0, skt_missed_skipped = 0, skt_suppressed = 0,
     skt_runs = 0, skt_runs_cancelled = 0, skt_timers_ready = 0\<rparr>"

record AutomationScheduler =
  sdl_ids :: IdSupply
  sdl_library :: ScheduleLibrary
  sdl_clock :: "nat \<Rightarrow> datetime"

definition SCHEDULER_RECOVERY_PAGE :: nat where "SCHEDULER_RECOVERY_PAGE = 1000"

definition count_up :: "nat \<Rightarrow> nat" where
  "count_up n = saturating_add u64_max n 1"

definition schedule_key :: "datetime \<Rightarrow> string" where
  "schedule_key instant = ''schedule:'' @ show_int (timestamp_millis instant)"

definition occurrence_id :: "IdSupply \<Rightarrow> ActiveAutomationVersion \<Rightarrow> string \<Rightarrow> uuid" where
  "occurrence_id ids active key =
     AutomationOccurrenceId_from_key (sup_v5 ids) (sup_text ids) (ids_id (aav_identity active)) (doc_version (sv_document (aav_version active))) key"

definition millis_or_max :: "nat \<Rightarrow> int" where
  "millis_or_max ms = (case try_i64 ms of None \<Rightarrow> 2 ^ 63 - 1 | Some m \<Rightarrow> m)"

definition schedule_occurrence :: "IdSupply \<Rightarrow> ActiveAutomationVersion \<Rightarrow> datetime \<Rightarrow> datetime \<Rightarrow> AutomationOccurrenceState \<Rightarrow> AutomationOccurrence" where
  "schedule_occurrence ids active instant window_ends_at state =
     (let i = occurrence_id ids active (schedule_key instant) in
      \<lparr>occ_id = i, occ_automation_id = ids_id (aav_identity active), occ_version = doc_version (sv_document (aav_version active)),
       occ_occurred_at = instant, occ_window_ends_at = window_ends_at, occ_state = state, occ_event_cursor = None,
       occ_correlation_id = CorrelationId_from_key (sup_v5 ids) (sup_text ids i), occ_causation_event_id = None, occ_catch_up = None\<rparr>)"

definition materialize_instant :: "AutomationScheduler \<Rightarrow> ActiveAutomationVersion \<Rightarrow> AutomationSchedule \<Rightarrow> datetime \<Rightarrow> AutomationSchedulerTick \<Rightarrow>
   (AutomationSchedulerError, AutomationSchedulerTick) stage" where
  "materialize_instant s active schedule instant result =
     sg_bind (sg_lift (ok_or (shl_checked_add_signed (sdl_library s) instant (millis_or_max (sc_occurrence_window_ms schedule) * 1000000)) Sch_Panic))
       (\<lambda>window_ends_at.
     sg_bind (sg_write Sch_Repository (create_occurrence (schedule_occurrence (sdl_ids s) active instant window_ends_at Occurrence_Scheduled))) (\<lambda>_.
     sg_return (result\<lparr>skt_scheduled := count_up (skt_scheduled result)\<rparr>)))"

definition materialize_trigger :: "AutomationScheduler \<Rightarrow> datetime \<Rightarrow> datetime \<Rightarrow> ActiveAutomationVersion \<Rightarrow> AutomationTrigger \<Rightarrow> AutomationSchedulerTick \<Rightarrow>
   (AutomationSchedulerError, AutomationSchedulerTick) stage" where
  "materialize_trigger s from_instant through active trigger result = (case trigger of
       Trigger_Schedule schedule \<Rightarrow>
         sg_bind (sg_lift (map_error (\<lambda>_. Sch_InvalidSchedule) (schedule_occurrences (sdl_library s) schedule from_instant through))) (\<lambda>instants.
         sg_each (materialize_instant s active schedule) instants result)
     | _ \<Rightarrow> sg_return result)"

datatype Admission = Admission_Accept | Admission_Defer | Admission_Suppress

fun admission :: "AutomationRunMode \<Rightarrow> nat \<Rightarrow> nat \<Rightarrow> Admission" where
  "admission Single active queued = (if active = 0 then Admission_Accept else Admission_Suppress)"
| "admission Restart active queued = Admission_Accept"
| "admission (Queued capacity) active queued =
     (if active = 0 then Admission_Accept else if queued < capacity then Admission_Defer else Admission_Suppress)"
| "admission (Parallel_mode maximum_parallel) active queued =
     (if active < maximum_parallel then Admission_Accept else Admission_Suppress)"

text \<open>The write that cancels a run with its timers and one trace step.\<close>

definition cancel_write :: "IdSupply \<Rightarrow> AutomationRun \<Rightarrow> AutomationTimer list \<Rightarrow> nat \<Rightarrow> datetime \<Rightarrow> datetime \<Rightarrow> string \<Rightarrow> uuid option \<Rightarrow>
   AutomationStepWrite" where
  "cancel_write ids run timers sequence updated_at occurred_at reason causation_event_id =
     \<lparr>sw_run = run\<lparr>run_state := Run_Cancelled, run_revision := saturating_add u64_max (run_revision run) 1, run_updated_at := updated_at\<rparr>,
      sw_expected_run_revision = run_revision run,
      sw_trace = [\<lparr>ts_id = AutomationTraceId_from_run_sequence (sup_v5 ids) (sup_text ids) (run_id run) sequence, ts_run_id = run_id run,
        ts_sequence = sequence, ts_node_id = run_node_id run, ts_kind = Trace_Outcome, ts_details = [(''reason'', V_String reason)],
        ts_occurred_at = occurred_at, ts_correlation_id = run_correlation_id run, ts_causation_event_id = causation_event_id\<rparr>],
      sw_create_timers = [],
      sw_transition_timers = map (\<lambda>t. t\<lparr>tm_state := Timer_Cancelled\<rparr>)
        (filter (\<lambda>t. tm_run_id t = run_id run \<and> tm_state t \<in> {Timer_Pending, Timer_Ready}) timers)\<rparr>"

fun cancel_for_restart :: "AutomationScheduler \<Rightarrow> AutomationTimer list \<Rightarrow> AutomationOccurrence \<Rightarrow> datetime \<Rightarrow> AutomationRun list \<Rightarrow>
   (AutomationSchedulerError, AutomationRun list \<times> nat) stage" where
  "cancel_for_restart s timers occurrence now [] = sg_return ([], 0)"
| "cancel_for_restart s timers occurrence now (run # runs) =
     (if run_automation_id run = occ_automation_id occurrence \<and> run_version run = occ_version occurrence \<and>
         \<not> AutomationRunState_is_terminal (run_state run)
      then sg_bind (sg_read (\<lambda>db. map_error Sch_Repository (load_trace db (run_id run) None SCHEDULER_RECOVERY_PAGE))) (\<lambda>trace.
           let w = cancel_write (sdl_ids s) run timers (length trace) now now ''restart_mode'' (occ_causation_event_id occurrence) in
           sg_bind (sg_write Sch_Repository (commit_step (sdl_ids s) w)) (\<lambda>_.
           sg_bind (cancel_for_restart s timers occurrence now runs) (\<lambda>(rest, cancelled).
           sg_return (sw_run w # rest, count_up cancelled))))
      else sg_bind (cancel_for_restart s timers occurrence now runs) (\<lambda>(rest, cancelled). sg_return (run # rest, cancelled)))"

definition scheduler_create_run :: "AutomationScheduler \<Rightarrow> ActiveAutomationVersion \<Rightarrow> AutomationOccurrence \<Rightarrow> datetime \<Rightarrow>
   (AutomationSchedulerError, AutomationRun) stage" where
  "scheduler_create_run s active occurrence now =
     (let i = AutomationRunId_from_occurrence (sup_v5 (sdl_ids s)) (sup_text (sdl_ids s)) (occ_id occurrence) in
      sg_bind (sg_read (\<lambda>db. Inr (map_of (ad_runs db) i))) (\<lambda>found.
      case found of
        Some run \<Rightarrow> sg_return run
      | None \<Rightarrow>
          let plan = sv_plan (aav_version active);
              run = \<lparr>run_id = i, run_automation_id = occ_automation_id occurrence, run_version = occ_version occurrence,
                run_occurrence_id = occ_id occurrence, run_actor_id = prov_author_id (doc_provenance (sv_document (aav_version active))),
                run_state = Run_Pending, run_revision = 0, run_node_id = Some (pl_entry plan),
                run_variables = List.map_filter (\<lambda>(name, definition). map_option (Pair name) (vd_initial definition)) (pl_variables plan),
                run_command_ids = [], run_command_attempt = None, run_condition_durations = [], run_continuations = [],
                run_correlation_id = occ_correlation_id occurrence, run_causation_event_id = occ_causation_event_id occurrence,
                run_created_at = now, run_updated_at = now\<rparr>
          in sg_bind (sg_write Sch_Repository (create_run (sdl_ids s) run)) (\<lambda>_. sg_return run)))"

text \<open>What a pass over the recovered occurrences carries along.\<close>

record RecoveryPass =
  rcp_active_runs :: "AutomationRun list"
  rcp_active_counts :: "uuid \<times> nat \<Rightarrow> nat"
  rcp_queued_counts :: "uuid \<times> nat \<Rightarrow> nat"
  rcp_result :: AutomationSchedulerTick

definition run_key :: "AutomationRun \<Rightarrow> uuid \<times> nat" where
  "run_key run = (run_automation_id run, run_version run)"

definition occurrence_key :: "AutomationOccurrence \<Rightarrow> uuid \<times> nat" where
  "occurrence_key occurrence = (occ_automation_id occurrence, occ_version occurrence)"

definition count_active :: "AutomationRun list \<Rightarrow> uuid \<times> nat \<Rightarrow> nat" where
  "count_active runs key = length (filter (\<lambda>run. \<not> AutomationRunState_is_terminal (run_state run) \<and> run_key run = key) runs)"

fun ready_timers :: "datetime \<Rightarrow> AutomationTimer list \<Rightarrow> AutomationSchedulerTick \<Rightarrow>
   (AutomationSchedulerError, AutomationTimer list \<times> AutomationSchedulerTick) stage" where
  "ready_timers now [] result = sg_return ([], result)"
| "ready_timers now (timer # timers) result =
     (if tm_state timer = Timer_Pending \<and> tm_ready_at timer \<le> now
      then let timer' = timer\<lparr>tm_state := Timer_Ready\<rparr> in
           sg_bind (sg_write Sch_Repository (plain_write (transition_timer timer'))) (\<lambda>_.
           sg_bind (ready_timers now timers (result\<lparr>skt_timers_ready := count_up (skt_timers_ready result)\<rparr>)) (\<lambda>(rest, result').
           sg_return (timer' # rest, result')))
      else sg_bind (ready_timers now timers result) (\<lambda>(rest, result'). sg_return (timer # rest, result')))"

definition transition_to :: "AutomationOccurrence \<Rightarrow> AutomationOccurrenceState \<Rightarrow> (AutomationSchedulerError, unit) stage" where
  "transition_to occurrence state = sg_write Sch_Repository (transition_occurrence (occurrence\<lparr>occ_state := state\<rparr>))"

definition start_run :: "AutomationScheduler \<Rightarrow> datetime \<Rightarrow> ActiveAutomationVersion \<Rightarrow> AutomationOccurrence \<Rightarrow> RecoveryPass \<Rightarrow>
   (AutomationSchedulerError, RecoveryPass) stage" where
  "start_run s now version occurrence pass =
     sg_bind (scheduler_create_run s version occurrence now) (\<lambda>run.
     sg_return (pass\<lparr>rcp_active_runs := (if \<not> AutomationRunState_is_terminal (run_state run) \<and>
             list_all (\<lambda>item. run_id item \<noteq> run_id run) (rcp_active_runs pass)
           then rcp_active_runs pass @ [run] else rcp_active_runs pass),
         rcp_result := (rcp_result pass)\<lparr>skt_runs := count_up (skt_runs (rcp_result pass))\<rparr>\<rparr>))"

text \<open>An accepted occurrence; in restart mode the runs before it are cancelled.\<close>

definition admit_occurrence :: "AutomationScheduler \<Rightarrow> datetime \<Rightarrow> AutomationTimer list \<Rightarrow> ActiveAutomationVersion \<Rightarrow> AutomationOccurrence \<Rightarrow> RecoveryPass \<Rightarrow>
   (AutomationSchedulerError, RecoveryPass) stage" where
  "admit_occurrence s now timers version occurrence pass =
     (let key = occurrence_key occurrence in
      sg_bind (if pl_run_mode (sv_plan (aav_version version)) = Restart
        then sg_bind (cancel_for_restart s timers occurrence now (rcp_active_runs pass)) (\<lambda>(runs, cancelled).
             sg_return (pass\<lparr>rcp_active_runs := runs,
               rcp_result := (rcp_result pass)\<lparr>skt_runs_cancelled := saturating_add u64_max (skt_runs_cancelled (rcp_result pass)) cancelled\<rparr>,
               rcp_active_counts := (rcp_active_counts pass)(key := 0)\<rparr>))
        else sg_return pass) (\<lambda>pass.
      sg_bind (transition_to occurrence Occurrence_Accepted) (\<lambda>_.
      start_run s now version (occurrence\<lparr>occ_state := Occurrence_Accepted\<rparr>)
        (pass\<lparr>rcp_active_counts := (rcp_active_counts pass)(key := rcp_active_counts pass key + 1),
              rcp_result := (rcp_result pass)\<lparr>skt_accepted := count_up (skt_accepted (rcp_result pass))\<rparr>\<rparr>))))"

definition recover_occurrence :: "AutomationScheduler \<Rightarrow> datetime \<Rightarrow> AutomationTimer list \<Rightarrow> ActiveAutomationVersion list \<Rightarrow> AutomationOccurrence \<Rightarrow> RecoveryPass \<Rightarrow>
   (AutomationSchedulerError, RecoveryPass) stage" where
  "recover_occurrence s now timers active occurrence pass =
     (case find (\<lambda>a. ids_id (aav_identity a) = occ_automation_id occurrence \<and> doc_version (sv_document (aav_version a)) = occ_version occurrence) active of
        None \<Rightarrow> sg_return pass
      | Some version \<Rightarrow>
          let key = occurrence_key occurrence; result = rcp_result pass in
          if occ_state occurrence = Occurrence_Scheduled
          then if occ_window_ends_at occurrence < now
               then sg_bind (transition_to occurrence Occurrence_MissedSkipped) (\<lambda>_.
                    sg_return (pass\<lparr>rcp_result := result\<lparr>skt_missed_skipped := count_up (skt_missed_skipped result)\<rparr>\<rparr>))
               else if now < occ_occurred_at occurrence then sg_return pass
               else (case admission (pl_run_mode (sv_plan (aav_version version))) (rcp_active_counts pass key) (rcp_queued_counts pass key) of
                   Admission_Defer \<Rightarrow> sg_return (pass\<lparr>rcp_queued_counts := (rcp_queued_counts pass)(key := rcp_queued_counts pass key + 1)\<rparr>)
                 | Admission_Suppress \<Rightarrow> sg_bind (transition_to occurrence Occurrence_Suppressed) (\<lambda>_.
                     sg_return (pass\<lparr>rcp_result := result\<lparr>skt_suppressed := count_up (skt_suppressed result)\<rparr>\<rparr>))
                 | Admission_Accept \<Rightarrow> admit_occurrence s now timers version occurrence pass)
          else if occ_state occurrence = Occurrence_Accepted then start_run s now version occurrence pass
          else sg_return pass)"

definition process_recovery :: "AutomationScheduler \<Rightarrow> ActiveAutomationVersion list \<Rightarrow> AutomationSchedulerTick \<Rightarrow>
   (AutomationSchedulerError, AutomationSchedulerTick) stage" where
  "process_recovery s active result =
     sg_bind (sg_now (sdl_clock s)) (\<lambda>now.
     sg_bind (sg_read (\<lambda>db. Inr (automation_recover db SCHEDULER_RECOVERY_PAGE))) (\<lambda>recovery.
     sg_bind (ready_timers now (rec_timers recovery) result) (\<lambda>(timers, result).
     sg_bind (sg_each (recover_occurrence s now timers active) (rec_occurrences recovery)
       \<lparr>rcp_active_runs = rec_runs recovery, rcp_active_counts = count_active (rec_runs recovery), rcp_queued_counts = (\<lambda>_. 0), rcp_result = result\<rparr>) (\<lambda>pass.
     sg_return (rcp_result pass)))))"

definition scheduler_tick :: "AutomationScheduler \<Rightarrow> datetime \<Rightarrow> datetime \<Rightarrow> (AutomationSchedulerError, AutomationSchedulerTick) stage" where
  "scheduler_tick s from_instant through =
     sg_bind (sg_read (\<lambda>db. Inr (load_active_versions db SCHEDULER_RECOVERY_PAGE))) (\<lambda>active.
     sg_bind (sg_each (\<lambda>a. sg_each (materialize_trigger s from_instant through a) (doc_triggers (sv_document (aav_version a)))) active
       AutomationSchedulerTick_default) (\<lambda>result.
     process_recovery s active result))"

section \<open>Catch-up\<close>

text \<open>The active version of an automation, the schedule that has the given instant, and the record that it was
  missed.\<close>

definition settle_missed :: "uuid \<Rightarrow> (AutomationSchedulerError, unit) stage" where
  "settle_missed missed_id =
     sg_bind (sg_read (\<lambda>db. ok_or (map_of (ad_occurrences db) missed_id) Sch_ScheduleNotMissed)) (\<lambda>missed.
     case occ_state missed of
       Occurrence_Scheduled \<Rightarrow> transition_to missed Occurrence_MissedSkipped
     | Occurrence_MissedSkipped \<Rightarrow> sg_return ()
     | _ \<Rightarrow> sg_error Sch_ScheduleNotMissed)"

definition prepare_missed_schedule :: "AutomationScheduler \<Rightarrow> uuid \<Rightarrow> datetime \<Rightarrow>
   (AutomationSchedulerError, ActiveAutomationVersion \<times> uuid) stage" where
  "prepare_missed_schedule s automation scheduled_for =
     sg_bind (sg_read (\<lambda>db. ok_or (find (\<lambda>a. ids_id (aav_identity a) = automation) (load_active_versions db SCHEDULER_RECOVERY_PAGE)) Sch_AutomationNotActive)) (\<lambda>active.
     sg_bind (sg_lift (ok_or (shl_checked_sub_signed (sdl_library s) scheduled_for 1000000) Sch_DurationOverflow)) (\<lambda>before.
     sg_bind (sg_lift (ok_or (find (\<lambda>schedule. schedule_occurrences (sdl_library s) schedule before scheduled_for = Inr [scheduled_for])
         (List.map_filter (\<lambda>t. case t of Trigger_Schedule schedule \<Rightarrow> Some schedule | _ \<Rightarrow> None) (doc_triggers (sv_document (aav_version active)))))
         Sch_InvalidCatchUpInstant)) (\<lambda>schedule.
     sg_bind (sg_lift (ok_or (try_i64 (sc_occurrence_window_ms schedule)) Sch_DurationOverflow)) (\<lambda>window_millis.
     sg_bind (sg_lift (ok_or (shl_checked_add_signed (sdl_library s) scheduled_for (window_millis * 1000000)) Sch_DurationOverflow)) (\<lambda>window_ends_at.
     sg_bind (sg_now (sdl_clock s)) (\<lambda>now.
     if now \<le> window_ends_at then sg_error Sch_ScheduleNotMissed
     else let missed = schedule_occurrence (sdl_ids s) active scheduled_for window_ends_at Occurrence_MissedSkipped in
       sg_bind (sg_write Sch_Repository (create_occurrence missed)) (\<lambda>_.
       sg_bind (settle_missed (occ_id missed)) (\<lambda>_.
       sg_return (active, occ_id missed)))))))))"

definition request_catch_up :: "AutomationScheduler \<Rightarrow> uuid \<Rightarrow> datetime \<Rightarrow> uuid \<Rightarrow> string \<Rightarrow> (AutomationSchedulerError, AutomationOccurrence) stage" where
  "request_catch_up s automation scheduled_for requested_by idempotency_key =
     sg_bind (prepare_missed_schedule s automation scheduled_for) (\<lambda>(active, missed_id).
     let ids = sdl_ids s;
         i = occurrence_id ids active (''catch_up:'' @ sup_text ids missed_id @ '':'' @ sup_text ids requested_by @ '':'' @ idempotency_key) in
     sg_bind (sg_read (\<lambda>db. Inr (map_of (ad_occurrences db) i))) (\<lambda>existing.
     case existing of
       Some occurrence \<Rightarrow> sg_return occurrence
     | None \<Rightarrow>
         sg_bind (sg_now (sdl_clock s)) (\<lambda>now.
         let occurrence = \<lparr>occ_id = i, occ_automation_id = ids_id (aav_identity active), occ_version = doc_version (sv_document (aav_version active)),
               occ_occurred_at = now, occ_window_ends_at = shl_max_utc (sdl_library s), occ_state = Occurrence_Scheduled, occ_event_cursor = None,
               occ_correlation_id = CorrelationId_from_key (sup_v5 ids) (sup_text ids i), occ_causation_event_id = None,
               occ_catch_up = Some \<lparr>cu_missed_occurrence_id = missed_id, cu_requested_by = requested_by, cu_idempotency_key = idempotency_key,
                 cu_requested_at = now\<rparr>\<rparr> in
         sg_bind (sg_write Sch_Repository (create_occurrence occurrence)) (\<lambda>_. sg_return occurrence))))"

section \<open>Events\<close>

datatype ProcessorSource = Automation_source StorageError | Foundation_source string

datatype AutomationEventProcessorError =
    Ev_Repository string ProcessorSource
  | Ev_CursorExpired nat nat

record AutomationEventProcessorTick =
  ept_events :: nat
  ept_occurrences :: nat
  ept_suppressed :: nat
  ept_cursor :: nat

record AutomationEventProcessor =
  evp_ids :: IdSupply
  evp_clock :: "nat \<Rightarrow> datetime"
  evp_events_after :: "nat \<Rightarrow> nat \<Rightarrow> nat \<Rightarrow> string + EventPage"
  evp_max_utc :: datetime

definition MAX_EVENT_PAGE :: nat where "MAX_EVENT_PAGE = 1000"
definition MAX_ACTIVE_AUTOMATIONS :: nat where "MAX_ACTIVE_AUTOMATIONS = 1000"

definition exact_target :: "ResolvedAutomationTarget \<Rightarrow> DomainEvent \<Rightarrow> endpoint_id \<Rightarrow> string \<Rightarrow> bool" where
  "exact_target target event endpoint capability \<longleftrightarrow>
     de_device_id event = Some (rt_device_id target) \<and> rt_endpoint_id target = endpoint \<and> rt_capability target = capability"

fun event_trigger_matches :: "ResolvedAutomationTrigger \<Rightarrow> DomainEvent \<Rightarrow> bool" where
  "event_trigger_matches (RT_ObservationChanged targets field) event = (case de_kind event of
       ObservationChanged endpoint capability changed_fields \<Rightarrow>
         list_ex (\<lambda>target. exact_target target event endpoint (CapabilityDescriptor_schema capability) \<and>
           (case field of None \<Rightarrow> True | Some f \<Rightarrow> f \<in> set changed_fields)) targets
     | _ \<Rightarrow> False)"
| "event_trigger_matches (RT_DeviceEvent targets expected) event = (case de_kind event of
       DeviceEvent endpoint actual \<Rightarrow>
         expected = actual \<and> list_ex (\<lambda>target. de_device_id event = Some (rt_device_id target) \<and> rt_endpoint_id target = endpoint) targets
     | _ \<Rightarrow> False)"
| "event_trigger_matches (RT_CommandOutcome targets states) event = (case de_kind event of
       CommandTransitioned _ _ to_state _ endpoint capability \<Rightarrow>
         to_state \<in> states \<and> (case targets of
             None \<Rightarrow> True
           | Some ts \<Rightarrow> (case (endpoint, capability) of
               (Some e, Some c) \<Rightarrow> list_ex (\<lambda>target. exact_target target event e c) ts
             | _ \<Rightarrow> False))
     | _ \<Rightarrow> False)"
| "event_trigger_matches (RT_Schedule _) event = False"

definition event_self_suppressed :: "ActiveAutomationVersion \<Rightarrow> DomainEvent \<Rightarrow> bool" where
  "event_self_suppressed automation event = (case cm_automation (de_causation event) of
       None \<Rightarrow> False
     | Some cause \<Rightarrow>
         if ac_automation_id cause \<noteq> ids_id (aav_identity automation) then False
         else (case pl_self_trigger (sv_plan (aav_version automation)) of
             SuppressSameVersion \<Rightarrow> ac_version cause = doc_version (sv_document (aav_version automation))
           | SuppressSameCorrelation \<Rightarrow> True
           | Allow \<Rightarrow> False))"

definition event_occurrence :: "AutomationEventProcessor \<Rightarrow> ActiveAutomationVersion \<Rightarrow> CursorEvent \<Rightarrow> AutomationOccurrence" where
  "event_occurrence p automation event =
     \<lparr>occ_id = occurrence_id (evp_ids p) automation (''event:'' @ show_nat (cev_cursor event)), occ_automation_id = ids_id (aav_identity automation),
      occ_version = doc_version (sv_document (aav_version automation)), occ_occurred_at = de_occurred_at (cev_event event),
      occ_window_ends_at = evp_max_utc p,
      occ_state = (if event_self_suppressed automation (cev_event event) then Occurrence_Suppressed else Occurrence_Scheduled),
      occ_event_cursor = Some (cev_cursor event), occ_correlation_id = cm_correlation_id (de_causation (cev_event event)),
      occ_causation_event_id = Some (de_id (cev_event event)), occ_catch_up = None\<rparr>"

definition materialize_automation :: "AutomationEventProcessor \<Rightarrow> CursorEvent \<Rightarrow> ActiveAutomationVersion \<Rightarrow> AutomationEventProcessorTick \<Rightarrow>
   (AutomationEventProcessorError, AutomationEventProcessorTick) stage" where
  "materialize_automation p event automation result =
     (if \<not> list_ex (\<lambda>trigger. event_trigger_matches trigger (cev_event event)) (pl_triggers (sv_plan (aav_version automation))) then sg_return result
      else sg_bind (sg_write (\<lambda>e. Ev_Repository ''create_occurrence'' (Automation_source e)) (create_occurrence (event_occurrence p automation event))) (\<lambda>_.
           sg_return (result\<lparr>ept_occurrences := count_up (ept_occurrences result),
             ept_suppressed := (if event_self_suppressed automation (cev_event event) then count_up (ept_suppressed result) else ept_suppressed result)\<rparr>)))"

definition materialize_event :: "AutomationEventProcessor \<Rightarrow> ActiveAutomationVersion list \<Rightarrow> CursorEvent \<Rightarrow> AutomationEventProcessorTick \<Rightarrow>
   (AutomationEventProcessorError, AutomationEventProcessorTick) stage" where
  "materialize_event p active event result = sg_each (materialize_automation p event) active result"

definition process_event :: "AutomationEventProcessor \<Rightarrow> ActiveAutomationVersion list \<Rightarrow> CursorEvent \<Rightarrow> AutomationEventCursor \<times> AutomationEventProcessorTick \<Rightarrow>
   (AutomationEventProcessorError, AutomationEventCursor \<times> AutomationEventProcessorTick) stage" where
  "process_event p active event acc = (case acc of (mark, result) \<Rightarrow>
     sg_bind (materialize_event p active event result) (\<lambda>result.
     sg_bind (sg_now (evp_clock p)) (\<lambda>_.
     sg_bind (sg_write (\<lambda>e. Ev_Repository ''advance_cursor'' (Automation_source e)) (advance_event_cursor (aec_revision mark) (cev_cursor event))) (\<lambda>mark.
     sg_return (mark, result\<lparr>ept_events := count_up (ept_events result), ept_cursor := aec_cursor mark\<rparr>)))))"

definition load_event_page :: "AutomationEventProcessor \<Rightarrow> nat \<Rightarrow> nat \<Rightarrow> (AutomationEventProcessorError, EventPage) stage" where
  "load_event_page p cursor limit st =
     (map_error (\<lambda>e. Ev_Repository ''load_events'' (Foundation_source e)) (evp_events_after p (rs_loads st) cursor limit),
      st\<lparr>rs_loads := rs_loads st + 1\<rparr>)"

definition process_page :: "AutomationEventProcessor \<Rightarrow> AutomationEventCursor \<Rightarrow> EventPage \<Rightarrow> (AutomationEventProcessorError, AutomationEventProcessorTick) stage" where
  "process_page p mark event_page =
     sg_bind (sg_read (\<lambda>db. Inr (load_active_versions db MAX_ACTIVE_AUTOMATIONS))) (\<lambda>active.
     sg_bind (sg_each (process_event p active) (ep_events event_page)
       (mark, \<lparr>ept_events = 0, ept_occurrences = 0, ept_suppressed = 0, ept_cursor = aec_cursor mark\<rparr>)) (\<lambda>(_, result).
     sg_return result))"

definition process_events :: "AutomationEventProcessor \<Rightarrow> nat \<Rightarrow> (AutomationEventProcessorError, AutomationEventProcessorTick) stage" where
  "process_events p limit =
     sg_bind (sg_read (\<lambda>db. Inr (load_event_cursor db))) (\<lambda>mark.
     sg_bind (load_event_page p (aec_cursor mark) (min MAX_EVENT_PAGE (max 1 limit))) (\<lambda>event_page.
     case ep_earliest_cursor event_page of
       Some earliest \<Rightarrow>
         if saturating_add u64_max (aec_cursor mark) 1 < earliest then sg_error (Ev_CursorExpired (aec_cursor mark) earliest)
         else process_page p mark event_page
     | None \<Rightarrow> process_page p mark event_page))"

section \<open>The engine\<close>

datatype AutomationEngineError =
    Eng_Events AutomationEventProcessorError
  | Eng_Scheduler AutomationSchedulerError
  | Eng_Recovery StorageError
  | Eng_EventWakeup string

record AutomationEngineTick =
  ent_events :: AutomationEventProcessorTick
  ent_scheduler :: AutomationSchedulerTick
  ent_advanced :: nat
  ent_waiting :: nat
  ent_completed :: nat
  ent_no_work :: nat
  ent_failures :: "(uuid \<times> AutomationRuntimeError) list"

record AutomationEngine =
  eng_events :: AutomationEventProcessor
  eng_scheduler :: AutomationScheduler
  eng_runtime :: AutomationRuntime
  eng_wake :: "nat \<Rightarrow> string + unit"

definition WORK_PAGE :: nat where "WORK_PAGE = 1000"

text \<open>One recovered run; its failure is collected and its siblings go on.\<close>

definition engine_step :: "AutomationEngine \<Rightarrow> AutomationRun \<Rightarrow> AutomationEngineTick \<times> bool \<Rightarrow> (AutomationEngineError, AutomationEngineTick \<times> bool) stage" where
  "engine_step e run acc st = (case acc of (result, transitioned) \<Rightarrow>
     (case runtime_step (eng_runtime e) (run_id run) st of (outcome, st') \<Rightarrow>
       (Inr (case outcome of
           Inl error \<Rightarrow> (result\<lparr>ent_failures := ent_failures result @ [(run_id run, error)]\<rparr>, transitioned)
         | Inr Step_Advanced \<Rightarrow> (result\<lparr>ent_advanced := count_up (ent_advanced result)\<rparr>, True)
         | Inr Step_Waiting \<Rightarrow> (result\<lparr>ent_waiting := count_up (ent_waiting result)\<rparr>,
             transitioned \<or> (case map_of (ad_runs (rs_db st')) (run_id run) of None \<Rightarrow> False | Some current \<Rightarrow> run_revision current \<noteq> run_revision run))
         | Inr Step_Completed \<Rightarrow> (result\<lparr>ent_completed := count_up (ent_completed result)\<rparr>, True)
         | Inr Step_NoWork \<Rightarrow> (result\<lparr>ent_no_work := count_up (ent_no_work result)\<rparr>, transitioned)),
        st')))"

definition engine_tick :: "AutomationEngine \<Rightarrow> datetime \<Rightarrow> datetime \<Rightarrow> (AutomationEngineError, AutomationEngineTick) stage" where
  "engine_tick e schedule_from through =
     sg_bind (sg_map_error Eng_Events (process_events (eng_events e) WORK_PAGE)) (\<lambda>events.
     sg_bind (sg_map_error Eng_Scheduler (scheduler_tick (eng_scheduler e) schedule_from through)) (\<lambda>scheduler.
     sg_bind (sg_read (\<lambda>db. Inr (automation_recover db WORK_PAGE))) (\<lambda>recovery.
     sg_bind (sg_each (engine_step e) (rec_runs recovery)
       (\<lparr>ent_events = events, ent_scheduler = scheduler, ent_advanced = 0, ent_waiting = 0, ent_completed = 0, ent_no_work = 0, ent_failures = []\<rparr>, False))
       (\<lambda>(result, transitioned).
     if 0 < skt_runs scheduler \<or> 0 < skt_runs_cancelled scheduler \<or> transitioned
     then sg_bind (\<lambda>st. (map_error Eng_EventWakeup (eng_wake e (rs_clock st)), st)) (\<lambda>_. sg_return result)
     else sg_return result))))"

end
