(* ===== verification/Command_Safety.thy ===== *)
theory Command_Safety
  imports Command_Service
begin

text \<open>
  What the command service guarantees about its environment. The central invariant relates the
  envelopes the adapter was handed to the durable audit trail: an envelope is handed over only
  after a dispatch record with an allowed policy decision is durable, and no more often than the
  trail has such records, which is at most once.
\<close>

section \<open>Relations every operation keeps\<close>

definition svc_rel :: "(World \<Rightarrow> World \<Rightarrow> bool) \<Rightarrow> 'a svc \<Rightarrow> bool" where
  "svc_rel R m \<longleftrightarrow> (\<forall>w. R w (snd (m w)))"

named_theorems svc_rel_intros \<open>closure of relations under the service combinators\<close>

lemma svc_relD: "svc_rel R m \<Longrightarrow> m w = (r, w') \<Longrightarrow> R w w'"
  by (metis snd_conv svc_rel_def)

lemma svc_relI: "(\<And>w r w'. m w = (r, w') \<Longrightarrow> R w w') \<Longrightarrow> svc_rel R m"
  by (metis prod.collapse svc_rel_def)

lemma svc_bind_Inr:
  "svc_bind m f w = (Inr y, w') \<longleftrightarrow> (\<exists>x w1. m w = (Inr x, w1) \<and> f x w1 = (Inr y, w'))"
  by (auto simp: svc_bind_def split: prod.splits sum.splits)

lemma svc_bind_Inl:
  "svc_bind m f w = (Inl e, w') \<longleftrightarrow>
     m w = (Inl e, w') \<or> (\<exists>x w1. m w = (Inr x, w1) \<and> f x w1 = (Inl e, w'))"
  by (auto simp: svc_bind_def split: prod.splits sum.splits)

locale world_preorder =
  fixes R :: "World \<Rightarrow> World \<Rightarrow> bool"
  assumes refl: "R w w"
    and trans: "R u v \<Longrightarrow> R v w \<Longrightarrow> R u w"
begin

lemma rel_bind: "svc_rel R m \<Longrightarrow> (\<And>x. svc_rel R (f x)) \<Longrightarrow> svc_rel R (svc_bind m f)"
proof (rule svc_relI)
  fix w r w'
  assume m: "svc_rel R m" and f: "\<And>x. svc_rel R (f x)" and run: "svc_bind m f w = (r, w')"
  obtain r1 w1 where m1: "m w = (r1, w1)" by (cases "m w")
  note step = svc_relD [OF m m1]
  show "R w w'"
  proof (cases r1)
    case (Inl e)
    with run m1 step show ?thesis by (simp add: svc_bind_def)
  next
    case (Inr x)
    with run m1 have "f x w1 = (r, w')" by (simp add: svc_bind_def)
    with svc_relD [OF f] trans step show ?thesis by blast
  qed
qed

lemma rel_return: "svc_rel R (svc_return x)"
  by (simp add: svc_rel_def svc_return_def refl)

lemma rel_error: "svc_rel R (svc_error e)"
  by (simp add: svc_rel_def svc_error_def refl)

lemma rel_lift: "svc_rel R (svc_lift f)"
  by (simp add: svc_rel_def svc_lift_def refl)

lemmas rel_basic = rel_bind rel_return rel_error rel_lift

end

section \<open>Operations that never reach the adapter\<close>

definition quiet :: "World \<Rightarrow> World \<Rightarrow> bool" where
  "quiet w w' \<longleftrightarrow> w_dispatched w' = w_dispatched w"

interpretation quiet: world_preorder quiet
  by unfold_locales (simp_all add: quiet_def)

lemma quiet_basic:
  "svc_rel quiet (fresh_id cs)" "svc_rel quiet (clock_now cs)" "svc_rel quiet (publish cs a)"
  "svc_rel quiet (store_transition c v a)" "svc_rel quiet (acquire cs x y now)"
  "svc_rel quiet (actor_security x)" "svc_rel quiet (find_device d)"
  "svc_rel quiet (store_create c h a)" "svc_rel quiet (get x cid)"
  by (simp_all add: svc_rel_def quiet_def fresh_id_def clock_now_def publish_def store_transition_def
      acquire_def actor_security_def find_device_def svc_lift_def store_create_def get_def
      split: sum.splits prod.splits)

lemma quiet_transition: "svc_rel quiet (transition cs c s now)"
  unfolding transition_def Let_def
  by (cases "CommandAggregate_transition c s now")
    (auto intro!: quiet.rel_basic quiet_basic)

lemma quiet_reject_timeout: "svc_rel quiet (reject cs c code now p)" "svc_rel quiet (timeout cs c now)"
  by (simp_all add: reject_def timeout_def quiet_transition)

lemma quiet_confirm: "svc_rel quiet (confirm cs c now)"
proof (rule svc_relI)
  fix w r w'
  assume run: "confirm cs c now w = (r, w')"
  let ?w = "w\<lparr>w_confirmations := w_confirmations w + 1\<rparr>"
  have "quiet ?w w'"
    using run svc_relD [OF quiet_transition, of cs _ _ now ?w r w']
      svc_relD [OF quiet_reject_timeout(2), of cs c now ?w r w'] quiet.refl
    by (auto simp: confirm_def Let_def split: sum.splits CommandConfirmationOutcome.splits if_splits)
  then show "quiet w w'" by (simp add: quiet_def)
qed

lemma quiet_cancel: "svc_rel quiet (cancel cs actor cid now)"
  unfolding cancel_def
  by (intro quiet.rel_bind quiet_basic quiet.rel_lift, split if_split)
    (simp add: quiet.rel_error quiet_transition)

section \<open>The dispatch invariant\<close>

definition audit_allows :: "CommandAuditRecord \<Rightarrow> bool" where
  "audit_allows a \<longleftrightarrow> au_to a = Dispatched \<and>
     (case au_policy a of None \<Rightarrow> False | Some d \<Rightarrow> pd_allowed d)"

definition dispatch_count :: "World \<Rightarrow> uuid \<Rightarrow> nat" where
  "dispatch_count w cid = length (filter (\<lambda>e. ce_id e = cid) (w_dispatched w))"

definition dispatch_records :: "Database \<Rightarrow> uuid \<Rightarrow> nat" where
  "dispatch_records db cid = length (filter audit_allows (audit_trail db cid))"

definition world_inv :: "World \<Rightarrow> bool" where
  "world_inv w \<longleftrightarrow> store_inv (w_db w) \<and>
     (\<forall>cid. dispatch_count w cid \<le> dispatch_records (w_db w) cid) \<and>
     (\<forall>e \<in> set (w_dispatched w). \<exists>c. load_command (w_db w) (ce_id e) = Some c \<and> ca_envelope c = e)"

text \<open>The store only grows: trails are extended, envelopes, keys and request hashes never change.\<close>

definition key_entry :: "Database \<Rightarrow> uuid \<Rightarrow> string \<Rightarrow> (uuid \<times> string) option" where
  "key_entry db actor key =
     map_option (\<lambda>r. (crow_id r, crow_request_hash r)) (find_idempotent db actor key)"

definition store_extends :: "Database \<Rightarrow> Database \<Rightarrow> bool" where
  "store_extends db db' \<longleftrightarrow> store_inv db' \<and>
     (\<forall>cid. prefix (audit_trail db cid) (audit_trail db' cid)) \<and>
     (\<forall>cid c. load_command db cid = Some c \<longrightarrow>
        (\<exists>c'. load_command db' cid = Some c' \<and> ca_envelope c' = ca_envelope c)) \<and>
     (\<forall>actor key x. key_entry db actor key = Some x \<longrightarrow> key_entry db' actor key = Some x)"

lemma store_extends_refl: "store_inv db \<Longrightarrow> store_extends db db"
  by (simp add: store_extends_def)

lemma store_extends_records:
  "store_extends db db' \<Longrightarrow> dispatch_records db cid \<le> dispatch_records db' cid"
proof -
  assume "store_extends db db'"
  then obtain zs where "audit_trail db' cid = audit_trail db cid @ zs"
    unfolding store_extends_def prefix_def by blast
  then show ?thesis by (simp add: dispatch_records_def)
qed

lemma world_inv_extend:
  assumes "world_inv w" and "store_extends (w_db w) (w_db w')" and "w_dispatched w' = w_dispatched w"
  shows "world_inv w'"
proof -
  have "dispatch_count w' cid \<le> dispatch_records (w_db w') cid" for cid
    using assms store_extends_records [OF assms(2), of cid]
    unfolding world_inv_def dispatch_count_def by (metis le_trans)
  with assms show ?thesis
    unfolding world_inv_def store_extends_def by metis
qed

lemma find_map_same:
  "(\<And>r. P (f r) = P r) \<Longrightarrow> find P (map f rows) = map_option f (find P rows)"
  by (induction rows) auto

lemma transition_key_entry:
  assumes "store_inv db" and "transition_command db c v a = Inr db'"
  shows "key_entry db' actor key = key_entry db actor key"
proof -
  have "rows_inv db" using assms(1) by (simp add: store_inv_def)
  then obtain f where db': "db_commands db' = map f (db_commands db)"
      and f: "\<And>r. crow_id (f r) = crow_id r" "\<And>r. crow_request_hash (f r) = crow_request_hash r"
        "\<And>r. crow_actor_id (f r) = crow_actor_id r"
        "\<And>r. crow_idempotency_key (f r) = crow_idempotency_key r"
    using assms(2)
    by (rule transition_effect) (auto intro: that
        [of "\<lambda>r. if crow_id r = ce_id (ca_envelope c) then update_command_row c (int (ca_version c)) r else r"])
  have "find_idempotent db' actor key = map_option f (find_idempotent db actor key)"
    unfolding find_idempotent_def db' by (rule find_map_same) (simp add: f)
  then show ?thesis by (simp add: key_entry_def option.map_comp comp_def f)
qed

lemma transition_extends:
  assumes "store_inv db" and "transition_command db c v a = Inr db'"
  shows "store_extends db db'"
proof -
  note load = sql.transition_load [OF assms] and trail = sql.transition_trail [OF assms]
  show ?thesis
    unfolding store_extends_def transition_key_entry [OF assms]
    using sql.transition_inv [OF assms] load trail by (auto simp: prefix_def)
qed

lemma find_append_Some: "find P xs = Some x \<Longrightarrow> find P (xs @ ys) = Some x"
  by (induction xs) auto

lemma create_key_entry:
  assumes ok: "create_command db c h a = Inr (Created c', db')"
  shows "key_entry db' (ce_actor_id (ca_envelope c)) (ce_idempotency_key (ca_envelope c))
      = Some (ce_id (ca_envelope c), h)"
    and "key_entry db actor key = Some x \<Longrightarrow> key_entry db' actor key = Some x"
proof -
  let ?none = "find_idempotent db (ce_actor_id (ca_envelope c)) (ce_idempotency_key (ca_envelope c))"
  have none: "?none = None" by (rule create_command_Created_find [OF ok])
  obtain inst db1 where
      "insert_command_row db (new_command_row c inst h (int (ca_version c))) = Inr db1"
      "insert_audit db1 inst a = Inr db'"
    by (rule create_command_fresh [OF ok none])
  then have db': "db_commands db' = db_commands db @ [new_command_row c inst h (int (ca_version c))]"
    using insert_audit_commands [of db1 inst a db'] by (simp add: insert_command_row_Inr)
  have "find P (xs @ [row]) = (if P row then Some row else None)"
    if "find P xs = None" for P and xs :: "CommandRow list" and row
    using that by (induction xs) (auto split: if_splits)
  from this [OF none [unfolded find_idempotent_def]]
  show "key_entry db' (ce_actor_id (ca_envelope c)) (ce_idempotency_key (ca_envelope c))
      = Some (ce_id (ca_envelope c), h)"
    by (simp add: key_entry_def find_idempotent_def db' new_command_row_def)
  assume "key_entry db actor key = Some x"
  then show "key_entry db' actor key = Some x"
    by (auto simp: key_entry_def find_idempotent_def db' find_append_Some)
qed

lemma create_extends:
  assumes "store_inv db" and "create_command db c h a = Inr (out, db')"
  shows "store_extends db db'"
proof (cases "out = Created c")
  case True
  note load = sql.create_created [OF assms [unfolded True]] and trail = sql.create_trail [OF assms(2) [unfolded True]]
  show ?thesis
    unfolding store_extends_def
    using sql.create_inv [OF assms] load trail create_key_entry(2) [OF assms(2) [unfolded True]]
    by (auto simp: prefix_def)
next
  case False
  with sql.create_existing [OF assms(2)] assms(1) store_extends_refl show ?thesis by simp
qed

text \<open>At most one dispatch record per trail.\<close>

lemma successively_rank:
  "successively CommandState_allows_transition_to xs \<Longrightarrow> sorted_wrt (<) (map command_rank xs)"
proof -
  assume "successively CommandState_allows_transition_to xs"
  then have "successively (\<lambda>a b. command_rank a < command_rank b) xs"
    by (rule successively_mono) (rule cmd.rank_increases)
  then show ?thesis
    by (simp add: successively_map [symmetric] successively_conv_sorted_wrt transp_on_def)
qed

lemma distinct_count_le_1: "distinct (map f xs) \<Longrightarrow> (\<And>x. P x \<Longrightarrow> f x = k) \<Longrightarrow> length (filter P xs) \<le> 1"
proof -
  assume d: "distinct (map f xs)" and P: "\<And>x. P x \<Longrightarrow> f x = k"
  have "length (filter P xs) = card (set (map f (filter P xs)))"
    using d distinct_card [of "map f (filter P xs)"] by (simp add: distinct_map_filter)
  also have "\<dots> \<le> card {k}" using P by (intro card_mono) auto
  finally show ?thesis by simp
qed

lemma dispatch_records_le_1:
  assumes "store_inv db"
  shows "dispatch_records db cid \<le> 1"
proof (cases "cid \<in> crow_id ` set (db_commands db)")
  case True
  then obtain r where r: "r \<in> set (db_commands db)" "cid = crow_id r" by blast
  have "\<forall>r \<in> set (db_commands db). trail_ok (audit_trail db (crow_id r)) (crow_payload r)"
    using assms unfolding store_inv_def chain_inv_def by blast
  with r have "trail_ok (audit_trail db cid) (crow_payload r)" by simp
  then have "sorted_wrt (<) (map command_rank (map au_to (audit_trail db cid)))"
    by (intro successively_rank) (simp add: trail_ok_def)
  then have "distinct (map command_rank (map au_to (audit_trail db cid)))"
    by (simp only: strict_sorted_iff)
  then have "distinct (map (command_rank \<circ> au_to) (audit_trail db cid))" by simp
  then show ?thesis
    unfolding dispatch_records_def
    by (rule distinct_count_le_1 [where k = "command_rank Dispatched"]) (simp add: audit_allows_def)
next
  case False
  then have "audit_trail db cid = []"
    using assms by (intro audit_trail_absent) (auto simp: store_inv_def chain_inv_def)
  then show ?thesis by (simp add: dispatch_records_def)
qed

section \<open>Operations keep the invariant\<close>

definition keeps_inv :: "World \<Rightarrow> World \<Rightarrow> bool" where
  "keeps_inv w w' \<longleftrightarrow> (world_inv w \<longrightarrow> world_inv w' \<and> store_extends (w_db w) (w_db w'))"

lemma store_extends_trans:
  assumes "store_extends a b" and "store_extends b c"
  shows "store_extends a c"
proof -
  have "prefix (audit_trail a cid) (audit_trail c cid)" for cid
    using assms prefix_order.trans unfolding store_extends_def by blast
  moreover have "\<exists>z. load_command c cid = Some z \<and> ca_envelope z = ca_envelope x"
    if "load_command a cid = Some x" for cid x
  proof -
    from assms(1) that obtain y where "load_command b cid = Some y" "ca_envelope y = ca_envelope x"
      unfolding store_extends_def by blast
    with assms(2) show ?thesis unfolding store_extends_def by metis
  qed
  moreover have "key_entry c actor key = Some x" if "key_entry a actor key = Some x" for actor key x
    using assms that unfolding store_extends_def by blast
  ultimately show ?thesis using assms(2) by (simp add: store_extends_def)
qed

interpretation keeps: world_preorder keeps_inv
proof unfold_locales
  show "keeps_inv w w" for w
    by (auto simp: keeps_inv_def world_inv_def intro: store_extends_refl)
  show "keeps_inv u v \<Longrightarrow> keeps_inv v w \<Longrightarrow> keeps_inv u w" for u v w
    unfolding keeps_inv_def using store_extends_trans by blast
qed

lemma keeps_same_store:
  "w_db w' = w_db w \<Longrightarrow> w_dispatched w' = w_dispatched w \<Longrightarrow> keeps_inv w w'"
  using world_inv_extend [of w w'] store_extends_refl unfolding keeps_inv_def world_inv_def by metis

lemma keeps_extends:
  "(world_inv w \<Longrightarrow> store_extends (w_db w) (w_db w')) \<Longrightarrow> w_dispatched w' = w_dispatched w \<Longrightarrow> keeps_inv w w'"
  using world_inv_extend [of w w'] unfolding keeps_inv_def by blast

lemma keeps_basic:
  "svc_rel keeps_inv (fresh_id cs)" "svc_rel keeps_inv (clock_now cs)" "svc_rel keeps_inv (publish cs a)"
  "svc_rel keeps_inv (acquire cs x y now)" "svc_rel keeps_inv (actor_security x)"
  "svc_rel keeps_inv (find_device d)" "svc_rel keeps_inv (get x cid)"
  by (auto simp: svc_rel_def fresh_id_def clock_now_def publish_def acquire_def actor_security_def
      find_device_def svc_lift_def get_def intro!: keeps_same_store split: sum.splits prod.splits)

lemma keeps_store:
  "svc_rel keeps_inv (store_transition c v a)" "svc_rel keeps_inv (store_create c h a)"
  by (rule svc_relI, rule keeps_extends,
      auto simp: store_transition_def store_create_def world_inv_def
        intro: transition_extends create_extends store_extends_refl split: sum.splits prod.splits)+

lemma keeps_transition: "svc_rel keeps_inv (transition cs c s now)"
  unfolding transition_def Let_def
  by (cases "CommandAggregate_transition c s now")
    (auto intro!: keeps.rel_basic keeps_basic keeps_store)

lemma keeps_reject_timeout:
  "svc_rel keeps_inv (reject cs c code now p)" "svc_rel keeps_inv (timeout cs c now)"
  by (simp_all add: reject_def timeout_def keeps_transition)

lemma keeps_confirm: "svc_rel keeps_inv (confirm cs c now)"
proof (rule svc_relI)
  fix w r w'
  assume run: "confirm cs c now w = (r, w')"
  let ?w = "w\<lparr>w_confirmations := w_confirmations w + 1\<rparr>"
  have "keeps_inv ?w w'"
    using run svc_relD [OF keeps_transition, of cs _ _ now ?w r w']
      svc_relD [OF keeps_reject_timeout(2), of cs c now ?w r w'] keeps.refl
    by (auto simp: confirm_def Let_def split: sum.splits CommandConfirmationOutcome.splits if_splits)
  moreover have "keeps_inv w ?w" by (rule keeps_same_store) simp_all
  ultimately show "keeps_inv w w'" using keeps.trans by blast
qed

text \<open>The adapter may be called for a command whose dispatch record is durable and unused.\<close>

definition ready :: "World \<Rightarrow> CommandEnvelope \<Rightarrow> bool" where
  "ready w e \<longleftrightarrow> dispatch_count w (ce_id e) < dispatch_records (w_db w) (ce_id e) \<and>
     (\<exists>c. load_command (w_db w) (ce_id e) = Some c \<and> ca_envelope c = e)"

lemma adapter_dispatch_inv:
  assumes "world_inv w" and "ready w e"
  shows "world_inv (w\<lparr>w_dispatched := w_dispatched w @ [e]\<rparr>)"
proof -
  have "dispatch_count (w\<lparr>w_dispatched := w_dispatched w @ [e]\<rparr>) cid \<le> dispatch_records (w_db w) cid" for cid
    using assms by (cases "ce_id e = cid") (auto simp: world_inv_def ready_def dispatch_count_def)
  with assms show ?thesis by (auto simp: world_inv_def ready_def)
qed

lemma dispatch_committed_inv:
  assumes inv: "world_inv w" and rdy: "ready w (ca_envelope c)"
    and run: "dispatch_committed cs c w = (r, w')"
  shows "world_inv w' \<and> store_extends (w_db w) (w_db w')"
proof -
  let ?e = "ca_envelope c" and ?w = "w\<lparr>w_dispatched := w_dispatched w @ [ca_envelope c]\<rparr>"
  define rest where "rest = (case cs_dispatcher cs (w_dispatched w) ?e of
       Inr ack \<Rightarrow>
         (let c' = c\<lparr>ca_acknowledgement := Some ack\<rparr> in
          svc_bind (clock_now cs) (\<lambda>after_dispatch.
          if ce_deadline (ca_envelope c') \<le> after_dispatch then timeout cs c' after_dispatch
          else svc_bind (transition cs c' Acknowledged after_dispatch) (\<lambda>c''.
            svc_bind (clock_now cs) (\<lambda>now. confirm cs c'' now))))
     | Inl failure \<Rightarrow>
         svc_bind (clock_now cs) (\<lambda>now.
         transition cs (c\<lparr>ca_failure := Some failure\<rparr>) Failed now))"
  have "rest ?w = (r, w')"
    using run by (simp add: dispatch_committed_def svc_bind_def adapter_dispatch_def rest_def split: sum.splits)
  moreover have "svc_rel keeps_inv rest"
    unfolding rest_def Let_def
    by (auto intro!: keeps.rel_basic keeps_basic keeps_transition keeps_reject_timeout keeps_confirm
        split: sum.split)
  ultimately have "keeps_inv ?w w'" using svc_relD by blast
  with adapter_dispatch_inv [OF inv rdy] show ?thesis by (simp add: keeps_inv_def)
qed

lemma transition_Inr:
  assumes "transition cs c s now w = (Inr c', w')"
  obtains aid db where "CommandAggregate_transition c s now = Inr c'"
    "transition_command (w_db w) c' (ca_version c) (command_audit aid c' (Some (ca_state c))) = Inr db"
    "w_db w' = db" "w_dispatched w' = w_dispatched w" "w_foundation w' = w_foundation w"
    "w_limits w' = w_limits w"
  using assms
  by (auto simp: transition_def svc_bind_Inr fresh_id_def store_transition_def publish_def
      svc_return_def svc_error_def Let_def split: sum.splits)

lemma transition_ready:
  assumes inv: "world_inv w" and run: "transition cs c Dispatched now w = (Inr c', w')"
  shows "world_inv w' \<and> store_extends (w_db w) (w_db w') \<and> ready w' (ca_envelope c') \<and>
    ca_envelope c' = ca_envelope c"
  using run
proof (rule transition_Inr)
  fix aid db
  assume tr: "CommandAggregate_transition c Dispatched now = Inr c'"
    and st: "transition_command (w_db w) c' (ca_version c) (command_audit aid c' (Some (ca_state c))) = Inr db"
    and db: "w_db w' = db" and same: "w_dispatched w' = w_dispatched w"
  let ?a = "command_audit aid c' (Some (ca_state c))" and ?id = "ce_id (ca_envelope c')"
  from inv have sinv: "store_inv (w_db w)" by (simp add: world_inv_def)
  have load: "load_command db ?id = Some c'" by (rule sql.transition_same [OF sinv st])
  have state: "ca_state c' = Dispatched" and env: "ca_envelope c' = ca_envelope c"
    using tr by (auto simp: transition_Inr_iff)
  then have "policy_allowed c'"
    using sql.dispatched_policy [OF sql.transition_inv [OF sinv st] load] by simp
  then have "audit_allows ?a"
    using state by (simp add: audit_allows_def command_audit_def policy_allowed_def)
  moreover have "audit_trail db ?id = audit_trail (w_db w) ?id @ [?a]"
    using sql.transition_trail [OF sinv st] by simp
  ultimately have "dispatch_records db ?id = dispatch_records (w_db w) ?id + 1"
    by (simp add: dispatch_records_def)
  then have "dispatch_count w' ?id < dispatch_records (w_db w') ?id"
    using inv same db by (auto simp: world_inv_def dispatch_count_def less_Suc_eq_le)
  with load env world_inv_extend [OF inv _ same] transition_extends [OF sinv st] db
  show ?thesis by (simp add: ready_def)
qed

section \<open>The dispatch control contract\<close>

text \<open>
  What the service relies on of a dispatch control: it only extends the store, a committed
  admission appended one dispatch record with an allowed decision for the command it was asked
  about, and the other answers report the durable command.
\<close>

definition admission_ok ::
  "Database \<Rightarrow> CommandAggregate \<Rightarrow> BoxError + MatterDispatchAdmission \<Rightarrow> Database \<Rightarrow> bool" where
  "admission_ok db c r db' \<longleftrightarrow> store_extends db db' \<and>
     (\<forall>d a. r = Inr (Admission_Committed d a) \<longrightarrow>
        ca_envelope d = ca_envelope c \<and> load_command db' (ce_id (ca_envelope c)) = Some d \<and>
        audit_trail db' (ce_id (ca_envelope c)) = audit_trail db (ce_id (ca_envelope c)) @ [a] \<and>
        audit_allows a) \<and>
     (\<forall>d. r = Inr (Admission_Superseded d) \<longrightarrow> load_command db' (ce_id (ca_envelope c)) = Some d) \<and>
     (r \<in> {Inr Admission_Unmanaged, Inr AwaitingUnlockAuthorization} \<longrightarrow>
        load_command db' (ce_id (ca_envelope c)) = load_command db (ce_id (ca_envelope c)))"

definition control_ok :: "CommandDispatchControl \<Rightarrow> bool" where
  "control_ok k \<longleftrightarrow>
     (\<forall>db c now r db'. store_inv db \<longrightarrow> register_desired k db c now = (r, db') \<longrightarrow>
        store_extends db db' \<and>
        load_command db' (ce_id (ca_envelope c)) = load_command db (ce_id (ca_envelope c))) \<and>
     (\<forall>db c now r db'. store_inv db \<longrightarrow> commit_dispatch k db c now = (r, db') \<longrightarrow>
        admission_ok db c r db') \<and>
     (\<forall>db x c p now r db'. store_inv db \<longrightarrow> authorize_unlock k db x c p now = (r, db') \<longrightarrow>
        admission_ok db c r db')"

definition service_ok :: "CommandService \<Rightarrow> bool" where
  "service_ok cs \<longleftrightarrow> (\<forall>k. cs_dispatch_control cs = Some k \<longrightarrow> control_ok k)"

text \<open>The control of an installation in which no target is managed.\<close>

definition unmanaged_control :: CommandDispatchControl where
  "unmanaged_control = \<lparr>register_desired = (\<lambda>db c now. (Inr Registration_Unmanaged, db)),
     commit_dispatch = (\<lambda>db c now. (Inr Admission_Unmanaged, db)),
     authorize_unlock = (\<lambda>db x c p now. (Inr Admission_Unmanaged, db))\<rparr>"

lemma unmanaged_control_ok: "control_ok unmanaged_control"
  by (simp add: control_ok_def unmanaged_control_def admission_ok_def store_extends_refl)

lemma control_steps:
  assumes "control_ok k" and "store_inv db"
  shows "register_desired k db c now = (r, db') \<Longrightarrow> store_extends db db' \<and>
      load_command db' (ce_id (ca_envelope c)) = load_command db (ce_id (ca_envelope c))"
    and "commit_dispatch k db c now = (r2, db') \<Longrightarrow> admission_ok db c r2 db'"
    and "authorize_unlock k db x c p now = (r2, db') \<Longrightarrow> admission_ok db c r2 db'"
  using assms unfolding control_ok_def by blast+

lemma with_control_keeps:
  assumes "\<And>db r db'. store_inv db \<Longrightarrow> f db = (r, db') \<Longrightarrow> store_extends db db'"
  shows "svc_rel keeps_inv (with_control f)"
proof (rule svc_relI, rule keeps_extends)
  fix w r w'
  assume run: "with_control f w = (r, w')"
  show "w_dispatched w' = w_dispatched w"
    using run by (auto simp: with_control_def split: prod.splits sum.splits)
  assume "world_inv w"
  with run assms show "store_extends (w_db w) (w_db w')"
    by (auto simp: with_control_def world_inv_def split: prod.splits sum.splits)
qed

lemma with_control_Inr:
  "with_control f w = (Inr x, w') \<longleftrightarrow> (\<exists>db. f (w_db w) = (Inr x, db) \<and> w' = w\<lparr>w_db := db\<rparr>)"
  by (auto simp: with_control_def split: prod.splits sum.splits)

lemma keeps_dispatch_after: "svc_rel keeps_inv (svc_bind (transition cs c Dispatched now) (dispatch_committed cs))"
proof (rule svc_relI)
  fix w r w'
  assume run: "svc_bind (transition cs c Dispatched now) (dispatch_committed cs) w = (r, w')"
  obtain r1 w1 where t: "transition cs c Dispatched now w = (r1, w1)" by fastforce
  show "keeps_inv w w'"
  proof (cases r1)
    case (Inl e)
    with run t svc_relD [OF keeps_transition t] show ?thesis by (simp add: svc_bind_def)
  next
    case (Inr c')
    with run t have d: "dispatch_committed cs c' w1 = (r, w')" by (simp add: svc_bind_def)
    show ?thesis
      unfolding keeps_inv_def
    proof
      assume "world_inv w"
      from transition_ready [OF this t [unfolded Inr]] dispatch_committed_inv [OF _ _ d]
      show "world_inv w' \<and> store_extends (w_db w) (w_db w')" using store_extends_trans by blast
    qed
  qed
qed

lemma committed_ready:
  assumes inv: "world_inv w" and adm: "admission_ok (w_db w) c (Inr (Admission_Committed d a)) db"
  shows "world_inv (w\<lparr>w_db := db\<rparr>) \<and> ready (w\<lparr>w_db := db\<rparr>) (ca_envelope d) \<and> store_extends (w_db w) db"
proof -
  let ?id = "ce_id (ca_envelope c)"
  from adm have ext: "store_extends (w_db w) db" and env: "ca_envelope d = ca_envelope c"
    and load: "load_command db ?id = Some d" and allows: "audit_allows a"
    and trail: "audit_trail db ?id = audit_trail (w_db w) ?id @ [a]"
    by (simp_all add: admission_ok_def)
  have "dispatch_records db ?id = dispatch_records (w_db w) ?id + 1"
    using trail allows by (simp add: dispatch_records_def)
  then have "dispatch_count w ?id < dispatch_records db ?id"
    using inv by (simp add: world_inv_def less_Suc_eq_le)
  with world_inv_extend [OF inv, of "w\<lparr>w_db := db\<rparr>"] ext env load show ?thesis
    by (simp add: ready_def dispatch_count_def)
qed

lemma publish_effect:
  "publish cs a w = (r, w') \<Longrightarrow> w_db w' = w_db w \<and> w_dispatched w' = w_dispatched w"
  by (auto simp: publish_def split: sum.splits)

lemma committed_keeps:
  assumes inv: "world_inv w" and adm: "admission_ok (w_db w) c (Inr (Admission_Committed d a)) db"
    and run: "svc_bind (publish cs a) (\<lambda>_. dispatch_committed cs d) (w\<lparr>w_db := db\<rparr>) = (r, w')"
  shows "world_inv w' \<and> store_extends (w_db w) (w_db w')"
proof -
  let ?w = "w\<lparr>w_db := db\<rparr>"
  note rdy = committed_ready [OF inv adm]
  obtain r1 w1 where p: "publish cs a ?w = (r1, w1)" by fastforce
  note eff = publish_effect [OF p]
  have inv1: "world_inv w1" and rdy1: "ready w1 (ca_envelope d)"
    using rdy eff by (simp_all add: world_inv_def ready_def dispatch_count_def)
  show ?thesis
  proof (cases r1)
    case (Inl e)
    with run p have "w' = w1" by (simp add: svc_bind_def)
    with inv1 rdy eff show ?thesis by simp
  next
    case (Inr u)
    with run p have "dispatch_committed cs d w1 = (r, w')" by (simp add: svc_bind_def)
    from dispatch_committed_inv [OF inv1 rdy1 this] have "world_inv w'" "store_extends db (w_db w')"
      using eff by simp_all
    with rdy store_extends_trans [of "w_db w" db "w_db w'"] show ?thesis by simp
  qed
qed

lemma keeps_admission:
  assumes "\<And>db r db'. store_inv db \<Longrightarrow> f db = (r, db') \<Longrightarrow> admission_ok db c r db'"
    and "\<And>adm. (\<nexists>d a. adm = Admission_Committed d a) \<Longrightarrow> svc_rel keeps_inv (g adm)"
    and "\<And>d a. g (Admission_Committed d a) = svc_bind (publish cs a) (\<lambda>_. dispatch_committed cs d)"
  shows "svc_rel keeps_inv (svc_bind (with_control f) g)"
proof (rule svc_relI)
  fix w r w'
  assume run: "svc_bind (with_control f) g w = (r, w')"
  have ext: "svc_rel keeps_inv (with_control f)"
    using assms(1) by (intro with_control_keeps) (auto simp: admission_ok_def)
  obtain r1 w1 where c1: "with_control f w = (r1, w1)" by fastforce
  note step = svc_relD [OF ext c1]
  show "keeps_inv w w'"
  proof (cases r1)
    case (Inl e)
    with run c1 step show ?thesis by (simp add: svc_bind_def)
  next
    case (Inr adm)
    with run c1 have g: "g adm w1 = (r, w')" by (simp add: svc_bind_def)
    show ?thesis
    proof (cases "\<exists>d a. adm = Admission_Committed d a")
      case False
      with assms(2) svc_relD g step keeps.trans show ?thesis by blast
    next
      case True
      then obtain d a where adm: "adm = Admission_Committed d a" by blast
      from c1 Inr obtain db where f: "f (w_db w) = (Inr adm, db)" and w1: "w1 = w\<lparr>w_db := db\<rparr>"
        by (auto simp: with_control_Inr)
      show ?thesis
        unfolding keeps_inv_def
      proof
        assume inv: "world_inv w"
        then have "admission_ok (w_db w) c (Inr (Admission_Committed d a)) db"
          using assms(1) [OF _ f] by (simp add: world_inv_def adm)
        from committed_keeps [OF inv this] g
        show "world_inv w' \<and> store_extends (w_db w) (w_db w')" by (simp add: adm assms(3) w1)
      qed
    qed
  qed
qed

lemma keeps_dispatch:
  assumes "service_ok cs"
  shows "svc_rel keeps_inv (dispatch cs c now)"
proof (cases "cs_dispatch_control cs")
  case None
  then show ?thesis
    unfolding dispatch_def by (simp add: keeps_reject_timeout keeps_dispatch_after)
next
  case (Some k)
  with assms have k: "control_ok k" by (simp add: service_ok_def)
  have register: "svc_rel keeps_inv (with_control (\<lambda>db. register_desired k db c now))"
    using control_steps(1) [OF k] by (intro with_control_keeps) blast
  have superseded: "svc_rel keeps_inv (case reg of Registration_Managed _ _ (Some a) \<Rightarrow> publish cs a
      | _ \<Rightarrow> svc_return ())" for reg
    by (auto intro: keeps.rel_return keeps_basic split: DesiredStateRegistration.split option.split)
  have commit: "svc_rel keeps_inv (svc_bind (with_control (\<lambda>db. commit_dispatch k db c now)) (\<lambda>admission.
      case admission of
        Admission_Unmanaged \<Rightarrow> svc_bind (transition cs c Dispatched now) (dispatch_committed cs)
      | Admission_Committed dispatched a \<Rightarrow> svc_bind (publish cs a) (\<lambda>_. dispatch_committed cs dispatched)
      | Admission_Superseded durable \<Rightarrow> svc_return durable
      | AwaitingUnlockAuthorization \<Rightarrow> svc_return c))"
    by (rule keeps_admission [where c = c])
      (use control_steps(2) [OF k] in \<open>auto intro: keeps.rel_return keeps_dispatch_after
        split: MatterDispatchAdmission.split\<close>)
  show ?thesis
    unfolding dispatch_def Some option.case
    using keeps_reject_timeout(2) keeps.rel_bind [OF register keeps.rel_bind [OF superseded commit]]
    by simp
qed

lemma keeps_holding: "svc_rel keeps_inv m \<Longrightarrow> svc_rel keeps_inv (holding caps d m)"
proof (rule svc_relI)
  fix w r w'
  assume m: "svc_rel keeps_inv m" and run: "holding caps d m w = (r, w')"
  obtain r1 w1 where m1: "m w = (r1, w1)" by fastforce
  have "keeps_inv w1 w'"
    using run m1 by (intro keeps_same_store) (auto simp: holding_def)
  with svc_relD [OF m m1] keeps.trans show "keeps_inv w w'" by blast
qed

lemma keeps_continue_received:
  assumes "service_ok cs"
  shows "svc_rel keeps_inv (continue_received cs c actor device now)"
proof (cases "validate_target c device now")
  case (Inl code)
  then show ?thesis by (simp add: continue_received_def keeps_reject_timeout)
next
  case (Inr u)
  then show ?thesis
    unfolding continue_received_def decide_received_def Let_def
    by (auto intro!: keeps.rel_bind keeps_basic keeps_holding keeps_reject_timeout keeps_transition
        keeps.rel_return keeps_dispatch assms)
qed

lemma keeps_execute:
  assumes "service_ok cs"
  shows "svc_rel keeps_inv (execute cs actor req now)"
  unfolding execute_def Let_def
  by (intro keeps.rel_bind keeps_basic keeps.rel_lift keeps_store)
    (auto split: CommandCreateOutcome.split intro!: keeps.rel_basic keeps_basic keeps_continue_received assms)

lemma keeps_cancel: "svc_rel keeps_inv (cancel cs actor cid now)"
  unfolding cancel_def
  by (intro keeps.rel_bind keeps_basic keeps.rel_lift, split if_split)
    (simp add: keeps.rel_error keeps_transition)

lemma keeps_recover_one:
  assumes "service_ok cs"
  shows "svc_rel keeps_inv (recover_one cs now c)"
  unfolding recover_one_def Let_def
  by (cases "ca_state c")
    (auto intro!: keeps.rel_basic keeps_basic keeps_holding keeps_reject_timeout keeps_confirm
      keeps_continue_received keeps_dispatch assms)

lemma keeps_recover:
  assumes "service_ok cs"
  shows "svc_rel keeps_inv (recover cs now)"
proof -
  have "svc_rel keeps_inv (recover_each cs now commands)" for commands
    by (induction commands) (auto intro!: keeps.rel_basic keeps_recover_one assms)
  then show ?thesis unfolding recover_def by (intro keeps.rel_basic)
qed

lemma keeps_approve_unlock:
  assumes "service_ok cs"
  shows "svc_rel keeps_inv (approve_unlock cs approver cid now)"
proof -
  have adm: "svc_rel keeps_inv (svc_bind
      (with_control (\<lambda>db. authorize_unlock k db x c p now))
        (\<lambda>admission. case admission of
                Admission_Committed dispatched a \<Rightarrow>
                  svc_bind (publish cs a) (\<lambda>_. dispatch_committed cs dispatched)
              | Admission_Superseded durable \<Rightarrow> svc_return durable
              | Admission_Unmanaged \<Rightarrow> svc_error UnlockApprovalUnavailable
              | AwaitingUnlockAuthorization \<Rightarrow> svc_error UnlockApprovalUnavailable))"
    if "cs_dispatch_control cs = Some k" for k x c p
    by (rule keeps_admission [where c = c])
      (use that assms control_steps(3) in \<open>auto simp: service_ok_def intro: keeps.rel_return keeps.rel_error
        split: MatterDispatchAdmission.split\<close>)
  show ?thesis
    unfolding approve_unlock_def Let_def
    by (intro keeps.rel_bind keeps.rel_lift, split if_split)
      (auto intro!: keeps.rel_bind keeps.rel_error keeps_basic adm split: option.split)
qed

section \<open>Returned aggregates are durable\<close>

definition settled :: "World \<Rightarrow> uuid \<Rightarrow> CommandAggregate \<Rightarrow> bool" where
  "settled w cid c \<longleftrightarrow> load_command (w_db w) cid = Some c \<and> ce_id (ca_envelope c) = cid"

lemma load_command_id: "store_inv db \<Longrightarrow> load_command db cid = Some c \<Longrightarrow> ce_id (ca_envelope c) = cid"
  by (auto simp: store_inv_def load_command_Some rows_inv_def row_ok_def Let_def)

lemma settledI: "world_inv w \<Longrightarrow> load_command (w_db w) cid = Some c \<Longrightarrow> settled w cid c"
  using load_command_id [of "w_db w" cid c] by (simp add: settled_def world_inv_def)

lemma transition_settled:
  assumes "world_inv w" and run: "transition cs c s now w = (Inr c', w')"
  shows "settled w' (ce_id (ca_envelope c)) c' \<and> world_inv w'"
  using run
proof (rule transition_Inr)
  fix aid db
  assume tr: "CommandAggregate_transition c s now = Inr c'"
    and st: "transition_command (w_db w) c' (ca_version c) (command_audit aid c' (Some (ca_state c))) = Inr db"
    and db: "w_db w' = db"
  have "load_command db (ce_id (ca_envelope c')) = Some c'"
    using sql.transition_same [OF _ st] assms(1) by (simp add: world_inv_def)
  then show ?thesis
    using transition_envelope [OF tr] db svc_relD [OF keeps_transition run] assms(1)
    by (simp add: settled_def keeps_inv_def)
qed

lemma reject_timeout_settled:
  assumes "world_inv w"
  shows "reject cs c code now p w = (Inr c', w') \<Longrightarrow> settled w' (ce_id (ca_envelope c)) c'"
    and "timeout cs c now w = (Inr c', w') \<Longrightarrow> settled w' (ce_id (ca_envelope c)) c'"
  using transition_settled [OF assms, of cs
      "(if p \<noteq> None then c\<lparr>ca_policy := p\<rparr> else c)\<lparr>ca_failure := Some \<lparr>cf_code = code, cf_detail = None\<rparr>\<rparr>"
      Rejected now c' w']
    transition_settled [OF assms, of cs
      "c\<lparr>ca_failure := Some \<lparr>cf_code = DeadlineExceeded, cf_detail = None\<rparr>\<rparr>" TimedOut now c' w']
  by (simp_all add: reject_def timeout_def split: if_splits)

lemma confirm_settled:
  assumes inv: "world_inv w" and dur: "settled w (ce_id (ca_envelope c)) c"
    and run: "confirm cs c now w = (Inr c', w')"
  shows "settled w' (ce_id (ca_envelope c)) c'"
proof -
  let ?w = "w\<lparr>w_confirmations := w_confirmations w + 1\<rparr>"
  have inv': "world_inv ?w" using inv by (simp add: world_inv_def dispatch_count_def)
  show ?thesis
  proof (cases "cs_confirmation cs (w_confirmations w) c")
    case (Inl e)
    with run show ?thesis by (simp add: confirm_def Let_def)
  next
    case (Inr out)
    show ?thesis
    proof (cases out)
      case (Outcome_Confirmed k)
      with Inr run have "transition cs (c\<lparr>ca_confirmation := Some k\<rparr>) Confirmed now ?w = (Inr c', w')"
        by (simp add: confirm_def Let_def)
      from transition_settled [OF inv' this] show ?thesis by simp
    next
      case Outcome_Pending
      with Inr run reject_timeout_settled(2) [OF inv', of cs c now c' w'] dur show ?thesis
        by (auto simp: confirm_def Let_def settled_def split: if_splits)
    next
      case (Outcome_Failed f)
      with Inr run have "transition cs (c\<lparr>ca_failure := Some f\<rparr>) Failed now ?w = (Inr c', w')"
        by (simp add: confirm_def Let_def)
      from transition_settled [OF inv' this] show ?thesis by simp
    qed
  qed
qed

lemma clock_now_Inr:
  "clock_now cs w = (Inr t, w') \<longleftrightarrow> t = cs_clock cs (w_clock w) \<and> w' = w\<lparr>w_clock := w_clock w + 1\<rparr>"
  by (auto simp: clock_now_def)

lemma world_inv_clock [simp]: "world_inv (w\<lparr>w_clock := n\<rparr>) = world_inv w"
  by (simp add: world_inv_def dispatch_count_def)

lemma settled_clock [simp]: "settled (w\<lparr>w_clock := n\<rparr>) cid c = settled w cid c"
  by (simp add: settled_def)

lemma dispatch_committed_settled:
  assumes inv: "world_inv w" and rdy: "ready w (ca_envelope c)"
    and run: "dispatch_committed cs c w = (Inr c', w')"
  shows "settled w' (ce_id (ca_envelope c)) c'"
proof -
  let ?w = "w\<lparr>w_dispatched := w_dispatched w @ [ca_envelope c]\<rparr>"
  note inv' = adapter_dispatch_inv [OF inv rdy]
  show ?thesis
  proof (cases "cs_dispatcher cs (w_dispatched w) (ca_envelope c)")
    case (Inl f)
    with run have "transition cs (c\<lparr>ca_failure := Some f\<rparr>) Failed (cs_clock cs (w_clock w))
        (?w\<lparr>w_clock := w_clock w + 1\<rparr>) = (Inr c', w')"
      by (auto simp: dispatch_committed_def adapter_dispatch_def svc_bind_Inr clock_now_Inr)
    from transition_settled [OF _ this] inv' show ?thesis by simp
  next
    case (Inr ack)
    let ?c = "c\<lparr>ca_acknowledgement := Some ack\<rparr>" and ?t = "cs_clock cs (w_clock w)"
      and ?w1 = "?w\<lparr>w_clock := w_clock w + 1\<rparr>"
    have rest: "(if ce_deadline (ca_envelope ?c) \<le> ?t then timeout cs ?c ?t
        else svc_bind (transition cs ?c Acknowledged ?t) (\<lambda>c''.
          svc_bind (clock_now cs) (\<lambda>now. confirm cs c'' now))) ?w1 = (Inr c', w')"
      using run Inr
      by (auto simp: dispatch_committed_def adapter_dispatch_def svc_bind_Inr clock_now_Inr Let_def)
    show ?thesis
    proof (cases "ce_deadline (ca_envelope c) \<le> ?t")
      case True
      with rest reject_timeout_settled(2) [of ?w1 cs ?c ?t c' w'] inv' show ?thesis by simp
    next
      case False
      with rest obtain d w2 where tr: "transition cs ?c Acknowledged ?t ?w1 = (Inr d, w2)"
          and cf: "confirm cs d (cs_clock cs (w_clock w2)) (w2\<lparr>w_clock := w_clock w2 + 1\<rparr>) = (Inr c', w')"
        by (auto simp: svc_bind_Inr clock_now_Inr)
      from transition_settled [OF _ tr] inv' have d: "settled w2 (ce_id (ca_envelope c)) d" "world_inv w2"
        by simp_all
      then have "ce_id (ca_envelope d) = ce_id (ca_envelope c)" by (simp add: settled_def)
      with confirm_settled [OF _ _ cf] d show ?thesis by simp
    qed
  qed
qed

lemma dispatch_after_settled:
  assumes inv: "world_inv w"
    and run: "svc_bind (transition cs c Dispatched now) (dispatch_committed cs) w = (Inr c', w')"
  shows "settled w' (ce_id (ca_envelope c)) c'"
proof -
  from run obtain d w1 where t: "transition cs c Dispatched now w = (Inr d, w1)"
      and dc: "dispatch_committed cs d w1 = (Inr c', w')"
    by (auto simp: svc_bind_Inr)
  note rdy = transition_ready [OF inv t]
  from dispatch_committed_settled [OF _ _ dc] rdy have "settled w' (ce_id (ca_envelope d)) c'" by blast
  with rdy show ?thesis by simp
qed

lemma keeps_world: "svc_rel keeps_inv m \<Longrightarrow> world_inv w \<Longrightarrow> m w = (r, w') \<Longrightarrow>
    world_inv w' \<and> store_extends (w_db w) (w_db w')"
  using svc_relD unfolding keeps_inv_def by blast

lemma admission_settled:
  assumes inv: "world_inv w" and dur: "settled w (ce_id (ca_envelope c)) c"
    and adm: "admission_ok (w_db w) c (Inr adm) db"
    and run: "(case adm of
        Admission_Unmanaged \<Rightarrow> svc_bind (transition cs c Dispatched now) (dispatch_committed cs)
      | Admission_Committed dispatched a \<Rightarrow> svc_bind (publish cs a) (\<lambda>_. dispatch_committed cs dispatched)
      | Admission_Superseded durable \<Rightarrow> svc_return durable
      | AwaitingUnlockAuthorization \<Rightarrow> svc_return c) (w\<lparr>w_db := db\<rparr>) = (Inr c', w')"
  shows "settled w' (ce_id (ca_envelope c)) c'"
proof -
  let ?w = "w\<lparr>w_db := db\<rparr>"
  have inv': "world_inv ?w"
    using world_inv_extend [OF inv, of ?w] adm by (simp add: admission_ok_def)
  show ?thesis
  proof (cases adm)
    case Admission_Unmanaged
    with dispatch_after_settled [OF inv'] run show ?thesis by simp
  next
    case (Admission_Committed d a)
    with run obtain w1 where p: "publish cs a ?w = (Inr (), w1)"
        and dc: "dispatch_committed cs d w1 = (Inr c', w')"
      by (auto simp: svc_bind_Inr)
    have rdy: "ready ?w (ca_envelope d)" and env: "ca_envelope d = ca_envelope c"
      using committed_ready [OF inv adm [unfolded Admission_Committed]] adm
      by (simp_all add: Admission_Committed admission_ok_def)
    have "world_inv w1" "ready w1 (ca_envelope d)"
      using publish_effect [OF p] inv' rdy by (simp_all add: world_inv_def ready_def dispatch_count_def)
    from dispatch_committed_settled [OF this dc] env show ?thesis by simp
  next
    case (Admission_Superseded d)
    with run adm have "w' = ?w" "c' = d" "load_command (w_db ?w) (ce_id (ca_envelope c)) = Some d"
      by (auto simp: svc_return_def admission_ok_def)
    with settledI [OF inv'] show ?thesis by simp
  next
    case AwaitingUnlockAuthorization
    with run adm dur have "w' = ?w" "c' = c" "load_command (w_db ?w) (ce_id (ca_envelope c)) = Some c"
      by (auto simp: svc_return_def admission_ok_def settled_def)
    with settledI [OF inv'] show ?thesis by simp
  qed
qed

lemma dispatch_settled:
  assumes ok: "service_ok cs" and inv: "world_inv w" and dur: "settled w (ce_id (ca_envelope c)) c"
    and run: "dispatch cs c now w = (Inr c', w')"
  shows "settled w' (ce_id (ca_envelope c)) c'"
proof (cases "ce_deadline (ca_envelope c) \<le> now")
  case True
  with run reject_timeout_settled(2) [OF inv] show ?thesis by (simp add: dispatch_def)
next
  case pending: False
  show ?thesis
  proof (cases "cs_dispatch_control cs")
    case None
    with run pending dispatch_after_settled [OF inv] show ?thesis by (simp add: dispatch_def)
  next
    case (Some k)
    then have k: "control_ok k" using ok by (simp add: service_ok_def)
    from run pending Some obtain reg db1 w1 adm db2 where
        r: "register_desired k (w_db w) c now = (Inr reg, db1)"
        and p: "(case reg of Registration_Managed _ _ (Some a) \<Rightarrow> publish cs a | _ \<Rightarrow> svc_return ())
              (w\<lparr>w_db := db1\<rparr>) = (Inr (), w1)"
        and cm: "commit_dispatch k (w_db w1) c now = (Inr adm, db2)"
        and rest: "(case adm of
            Admission_Unmanaged \<Rightarrow> svc_bind (transition cs c Dispatched now) (dispatch_committed cs)
          | Admission_Committed dispatched a \<Rightarrow> svc_bind (publish cs a) (\<lambda>_. dispatch_committed cs dispatched)
          | Admission_Superseded durable \<Rightarrow> svc_return durable
          | AwaitingUnlockAuthorization \<Rightarrow> svc_return c) (w1\<lparr>w_db := db2\<rparr>) = (Inr c', w')"
      by (simp add: dispatch_def svc_bind_Inr with_control_Inr) blast
    have sinv: "store_inv (w_db w)" using inv by (simp add: world_inv_def)
    note reg = control_steps(1) [OF k sinv r]
    have w1: "w_db w1 = db1" "w_dispatched w1 = w_dispatched w"
      using p by (auto simp: publish_def svc_return_def split: DesiredStateRegistration.splits option.splits sum.splits)
    have inv1: "world_inv w1" using world_inv_extend [OF inv] reg w1 by simp
    have dur1: "settled w1 (ce_id (ca_envelope c)) c" using reg dur w1 by (simp add: settled_def)
    have "admission_ok (w_db w1) c (Inr adm) db2"
      using control_steps(2) [OF k _ cm] inv1 by (simp add: world_inv_def)
    from admission_settled [OF inv1 dur1 this rest] show ?thesis .
  qed
qed

lemma holding_Inr:
  "holding caps d m w = (Inr x, w') \<longleftrightarrow> (\<exists>w1. m w = (Inr x, w1) \<and>
     w' = (if lim_permit caps then w1\<lparr>w_limits := limit_release (w_limits w1) d\<rparr> else w1))"
  by (auto simp: holding_def split: prod.splits)

lemma limits_irrelevant [simp]:
  "world_inv (w\<lparr>w_limits := l\<rparr>) = world_inv w" "settled (w\<lparr>w_limits := l\<rparr>) cid c = settled w cid c"
  by (simp_all add: world_inv_def dispatch_count_def settled_def)

lemma acquire_Inr:
  "acquire cs x d now w = (Inr caps, w') \<longleftrightarrow>
     (\<exists>l. CommandLimits_try_acquire (cs_limits cs) (w_limits w) x d now = (caps, l) \<and>
       w' = w\<lparr>w_limits := l\<rparr>)"
  by (auto simp: acquire_def split: prod.splits)

lemma svc_lift_Inr: "svc_lift f w = (Inr x, w') \<longleftrightarrow> f w = Inr x \<and> w' = w"
  by (auto simp: svc_lift_def)

lemma decide_received_settled:
  assumes ok: "service_ok cs" and inv: "world_inv w"
    and run: "decide_received cs c sec device caps now w = (Inr c', w')"
  shows "settled w' (ce_id (ca_envelope c)) c'"
proof -
  define decision where "decision = PolicyEvaluator_evaluate
      (execute_policy_input cs (as_actor sec) c device caps now) (as_grants sec)"
  let ?cp = "c\<lparr>ca_policy := Some decision\<rparr>"
  note body = run [unfolded decide_received_def Let_def, folded decision_def]
  show ?thesis
  proof (cases "pd_allowed decision")
    case False
    with body reject_timeout_settled(1) [OF inv, of cs ?cp] show ?thesis by simp
  next
    case True
    with body obtain d w1 where t: "transition cs ?cp Validated now w = (Inr d, w1)"
        and rest: "(if ce_dry_run (ca_envelope d) then svc_return d else dispatch cs d now) w1 = (Inr c', w')"
      by (auto simp: svc_bind_Inr)
    from transition_settled [OF inv t] have d: "settled w1 (ce_id (ca_envelope c)) d" and inv1: "world_inv w1"
      by simp_all
    then have did: "ce_id (ca_envelope d) = ce_id (ca_envelope c)" by (simp add: settled_def)
    show ?thesis
      using rest d did dispatch_settled [OF ok inv1, of d now c' w']
      by (auto simp: svc_return_def split: if_splits)
  qed
qed

lemma continue_received_settled:
  assumes ok: "service_ok cs" and inv: "world_inv w"
    and run: "continue_received cs c actor device now w = (Inr c', w')"
  shows "settled w' (ce_id (ca_envelope c)) c'"
proof (cases "validate_target c device now")
  case (Inl code)
  with run reject_timeout_settled(1) [OF inv] show ?thesis by (simp add: continue_received_def)
next
  case (Inr u)
  with run obtain sec caps l w2 where
      body: "decide_received cs c sec device caps now (w\<lparr>w_limits := l\<rparr>) = (Inr c', w2)"
      and w': "w' = (if lim_permit caps
        then w2\<lparr>w_limits := limit_release (w_limits w2) (ce_device_id (ca_envelope c))\<rparr> else w2)"
    by (auto simp: continue_received_def svc_bind_Inr actor_security_def svc_lift_Inr acquire_Inr holding_Inr)
  have "settled w2 (ce_id (ca_envelope c)) c'"
    using decide_received_settled [OF ok _ body] inv by simp
  then show ?thesis by (simp add: w')
qed

text \<open>The steps of an execution up to the store.\<close>

lemma execute_Inr:
  assumes "execute cs actor r now w = (Inr c', w')"
  obtains device fallback h out w1 cid aid where
    "find_device (rq_device_id r) w = (Inr device, w)"
    "requested_descriptor (rq_payload r) = Inr fallback" "canonical_hash cs actor r = Inr h"
    "w1 = w\<lparr>w_ids := w_ids w + 2\<rparr>" "cid = cs_fresh_id cs (w_ids w)" "aid = cs_fresh_id cs (w_ids w + 1)"
    "svc_bind (store_create (CommandAggregate_received (request_envelope cs cid actor r device fallback now)) h
        (command_audit aid (CommandAggregate_received (request_envelope cs cid actor r device fallback now)) None))
      (\<lambda>outcome. case outcome of
         ExistingEquivalent existing \<Rightarrow> svc_return existing
       | Conflict existing \<Rightarrow> svc_error (Service_IdempotencyConflict existing)
       | Created _ \<Rightarrow> svc_bind (publish cs (command_audit aid
             (CommandAggregate_received (request_envelope cs cid actor r device fallback now)) None))
           (\<lambda>_. continue_received cs
             (CommandAggregate_received (request_envelope cs cid actor r device fallback now)) actor device now))
      w1 = (Inr c', w')"
  using assms
  unfolding execute_def Let_def svc_bind_Inr [of "find_device (rq_device_id r)"]
  by (auto simp: svc_bind_Inr [of "svc_lift _"] svc_bind_Inr [of "fresh_id cs"] svc_lift_Inr fresh_id_def
      find_device_def intro: that)

lemma request_envelope_ids [simp]:
  "ce_id (request_envelope cs cid actor r device fallback now) = cid"
  "ce_actor_id (request_envelope cs cid actor r device fallback now) = actor_id actor"
  "ce_idempotency_key (request_envelope cs cid actor r device fallback now) = rq_idempotency_key r"
  "ce_dry_run (request_envelope cs cid actor r device fallback now) = rq_dry_run r"
  "ce_deadline (request_envelope cs cid actor r device fallback now) = rq_deadline r"
  by (simp_all add: request_envelope_def)

lemma received_envelope [simp]: "ca_envelope (CommandAggregate_received e) = e"
  by (simp add: CommandAggregate_received_def)

lemma store_create_Inr:
  "store_create c h a w = (Inr out, w') \<longleftrightarrow>
     (\<exists>db. create_command (w_db w) c h a = Inr (out, db) \<and> w' = w\<lparr>w_db := db\<rparr>)"
  by (auto simp: store_create_def split: sum.splits)

lemma execute_result:
  assumes ok: "service_ok cs" and inv: "world_inv w" and run: "execute cs actor r now w = (Inr c', w')"
  obtains h where "canonical_hash cs actor r = Inr h"
    "settled w' (ce_id (ca_envelope c')) c'"
    "key_entry (w_db w') (actor_id actor) (rq_idempotency_key r) = Some (ce_id (ca_envelope c'), h)"
  using run
proof (rule execute_Inr)
  fix device fallback h out w1 cid aid
  let ?c = "CommandAggregate_received (request_envelope cs cid actor r device fallback now)"
  let ?a = "command_audit aid ?c None"
  assume h: "canonical_hash cs actor r = Inr h" and w1: "w1 = w\<lparr>w_ids := w_ids w + 2\<rparr>"
    and rest: "svc_bind (store_create ?c h ?a) (\<lambda>outcome. case outcome of
         ExistingEquivalent existing \<Rightarrow> svc_return existing
       | Conflict existing \<Rightarrow> svc_error (Service_IdempotencyConflict existing)
       | Created _ \<Rightarrow> svc_bind (publish cs ?a) (\<lambda>_. continue_received cs ?c actor device now)) w1 = (Inr c', w')"
  have inv1: "world_inv w1" using inv by (simp add: w1 world_inv_def dispatch_count_def)
  then have sinv: "store_inv (w_db w1)" by (simp add: world_inv_def)
  from rest obtain out db where cr: "create_command (w_db w1) ?c h ?a = Inr (out, db)"
      and k: "(case out of
         ExistingEquivalent existing \<Rightarrow> svc_return existing
       | Conflict existing \<Rightarrow> svc_error (Service_IdempotencyConflict existing)
       | Created _ \<Rightarrow> svc_bind (publish cs ?a) (\<lambda>_. continue_received cs ?c actor device now))
         (w1\<lparr>w_db := db\<rparr>) = (Inr c', w')"
    by (auto simp: svc_bind_Inr [of "store_create _ _ _"] store_create_Inr)
  show thesis
  proof (cases out)
    case (Conflict x)
    with k show ?thesis by (simp add: svc_error_def)
  next
    case (ExistingEquivalent e)
    with k have e: "c' = e" "w' = w1\<lparr>w_db := db\<rparr>" by (auto simp: svc_return_def)
    have db: "db = w_db w1" using sql.create_existing [OF cr] ExistingEquivalent by simp
    obtain row where row: "find_idempotent (w_db w1) (actor_id actor) (rq_idempotency_key r) = Some row"
        "crow_payload row = e" "crow_request_hash row = h"
      using cr ExistingEquivalent
      by (cases "find_idempotent (w_db w1) (actor_id actor) (rq_idempotency_key r)")
        (auto simp: create_command_existing elim: create_command_fresh split: if_splits)
    then have "row \<in> set (db_commands (w_db w1))" by (auto simp: find_idempotent_def dest: find_Some_mem)
    then have "row_ok row" "load_command (w_db w1) (crow_id row) = Some e"
      using sinv row(2) load_command_Some [of "w_db w1" "crow_id row" e]
      by (auto simp: store_inv_def rows_inv_def)
    then have "load_command (w_db w1) (ce_id (ca_envelope e)) = Some e" "crow_id row = ce_id (ca_envelope e)"
      using row(2) by (simp_all add: row_ok_def Let_def)
    then show ?thesis
      using that [OF h] row e db by (simp add: settled_def key_entry_def)
  next
    case (Created c1)
    note cr' = cr [unfolded Created]
    from k Created obtain w2 where p: "publish cs ?a (w1\<lparr>w_db := db\<rparr>) = (Inr (), w2)"
        and cont: "continue_received cs ?c actor device now w2 = (Inr c', w')"
      by (auto simp: svc_bind_Inr)
    note eff = publish_effect [OF p]
    have inv2: "world_inv w2"
      using world_inv_extend [OF inv1, of w2] create_extends [OF sinv cr] eff by simp
    have entry: "key_entry (w_db w2) (actor_id actor) (rq_idempotency_key r) = Some (cid, h)"
      using create_key_entry(1) [OF cr'] eff by simp
    have settled: "settled w' cid c'"
      using continue_received_settled [OF ok inv2 cont] by simp
    have "store_extends (w_db w2) (w_db w')"
      using keeps_world [OF keeps_continue_received [OF ok] inv2 cont] by simp
    with entry have "key_entry (w_db w') (actor_id actor) (rq_idempotency_key r) = Some (cid, h)"
      unfolding store_extends_def by blast
    moreover have "ce_id (ca_envelope c') = cid" using settled by (simp add: settled_def)
    ultimately show ?thesis using that [OF h] settled by simp
  qed
qed

section \<open>Idempotent retries\<close>

lemma requested_descriptor_Inr: "\<exists>d. requested_descriptor payload = Inr d"
  by (cases payload)
    (auto simp: requested_descriptor_def CapabilityDescriptor_new_def trim_is_empty_def rust_chars_def
      is_whitespace_def)

lemma execute_existing:
  assumes dev: "find_device (rq_device_id r) w = (Inr device, w)"
    and h: "canonical_hash cs actor r = Inr h"
    and row: "find_idempotent (w_db w) (actor_id actor) (rq_idempotency_key r) = Some row"
    and hash: "crow_request_hash row = h"
  shows "execute cs actor r now w = (Inr (crow_payload row), w\<lparr>w_ids := w_ids w + 2\<rparr>)"
proof -
  obtain fallback where "requested_descriptor (rq_payload r) = Inr fallback"
    using requested_descriptor_Inr by blast
  then show ?thesis
    using assms
    by (simp add: execute_def svc_bind_def svc_lift_def fresh_id_def Let_def store_create_def
        create_command_existing svc_return_def)
qed

lemma key_entry_load:
  assumes "store_inv db" and "key_entry db actor key = Some (cid, h)"
  obtains row where "find_idempotent db actor key = Some row" "crow_request_hash row = h"
    "load_command db cid = Some (crow_payload row)"
proof -
  from assms(2) obtain row where row: "find_idempotent db actor key = Some row" "crow_id row = cid"
      "crow_request_hash row = h"
    by (auto simp: key_entry_def)
  then have "row \<in> set (db_commands db)" by (auto simp: find_idempotent_def dest: find_Some_mem)
  with row assms(1) have "load_command db cid = Some (crow_payload row)"
    using load_command_Some [of db cid "crow_payload row"] by (auto simp: store_inv_def)
  with row that show ?thesis by blast
qed

section \<open>Dry runs\<close>

lemma quiet_decide_dry:
  assumes "ce_dry_run (ca_envelope c)"
  shows "svc_rel quiet (decide_received cs c sec device caps now)"
proof (rule svc_relI)
  fix w r w'
  define decision where "decision = PolicyEvaluator_evaluate
      (execute_policy_input cs (as_actor sec) c device caps now) (as_grants sec)"
  let ?cp = "c\<lparr>ca_policy := Some decision\<rparr>"
  assume run: "decide_received cs c sec device caps now w = (r, w')"
  note body = run [unfolded decide_received_def Let_def, folded decision_def]
  show "quiet w w'"
  proof (cases "pd_allowed decision")
    case False
    with body have "reject cs ?cp PolicyDenied now (Some decision) w = (r, w')" by simp
    with svc_relD [OF quiet_reject_timeout(1)] show ?thesis by blast
  next
    case True
    obtain r1 w1 where t: "transition cs ?cp Validated now w = (r1, w1)" by fastforce
    have "w' = w1"
    proof (cases r1)
      case (Inl e)
      with body True t show ?thesis by (simp add: svc_bind_def)
    next
      case (Inr d)
      then obtain "ca_envelope d = ca_envelope c"
        using t transition_envelope by (fastforce elim: transition_Inr)
      with body True t Inr assms show ?thesis by (simp add: svc_bind_def svc_return_def)
    qed
    with svc_relD [OF quiet_transition t] show ?thesis by simp
  qed
qed

lemma quiet_holding: "svc_rel quiet m \<Longrightarrow> svc_rel quiet (holding caps d m)"
  by (auto simp: svc_rel_def holding_def quiet_def split: prod.splits)
    (metis snd_conv)+

lemma quiet_continue_dry:
  assumes "ce_dry_run (ca_envelope c)"
  shows "svc_rel quiet (continue_received cs c actor device now)"
  unfolding continue_received_def
  by (cases "validate_target c device now")
    (auto intro!: quiet.rel_bind quiet_basic quiet_holding quiet_decide_dry quiet_reject_timeout assms)

lemma quiet_execute_dry:
  assumes "rq_dry_run r"
  shows "svc_rel quiet (execute cs actor r now)"
  unfolding execute_def Let_def
  by (intro quiet.rel_bind quiet_basic quiet.rel_lift)
    (auto split: CommandCreateOutcome.split intro!: quiet.rel_basic quiet_basic quiet_continue_dry
      simp: assms)

section \<open>Recovery\<close>

lemma quiet_recover_dispatched:
  "ca_state c \<in> {Dispatched, Acknowledged} \<Longrightarrow> svc_rel quiet (recover_one cs now c)"
  by (auto simp: recover_one_def Let_def intro!: quiet.rel_basic quiet_confirm)

text \<open>A dry run never becomes recoverable work after validation, and before it validation
  stops it again.\<close>

lemma recoverable_not_terminal:
  assumes "store_inv db" and "load_recoverable_commands db limit = Inr cs" and "c \<in> set cs"
  shows "\<not> CommandAggregate_is_terminal c \<and> load_command db (ce_id (ca_envelope c)) = Some c"
proof -
  from assms(2,3) obtain r where r: "r \<in> set (db_commands db)" "\<not> crow_terminal r" "crow_payload r = c"
    by (auto simp: load_recoverable_commands_def and_then_Inr_iff dest!: in_set_takeD)
  with assms(1) have ok: "row_ok r" by (simp add: store_inv_def rows_inv_def)
  then have "crow_id r = ce_id (ca_envelope c)" "crow_terminal r = CommandAggregate_is_terminal c"
    using r(3) by (auto simp: row_ok_def Let_def)
  with r assms(1) load_command_Some [of db "ce_id (ca_envelope c)" c] show ?thesis
    by (auto simp: store_inv_def)
qed

lemma quiet_recover_dry:
  assumes "ce_dry_run (ca_envelope c)" and "\<not> CommandAggregate_is_terminal c"
  shows "svc_rel quiet (recover_one cs now c)"
  using assms
  by (cases "ca_state c")
    (auto simp: recover_one_def Let_def CommandAggregate_is_terminal_def
      intro!: quiet.rel_basic quiet_basic quiet_confirm quiet_reject_timeout quiet_continue_dry)

section \<open>Sequences of operations\<close>

text \<open>Everything that happens to one service between a start and an observation: requests,
  cancellations, recoveries, unlock approvals, administration and new device snapshots.\<close>

datatype service_op =
    Do_execute Actor CommandRequest datetime
  | Do_cancel uuid uuid datetime
  | Do_recover datetime
  | Do_approve_unlock Actor uuid datetime
  | Do_store_actor Actor "ActorCredential option"
  | Do_replace_grants uuid "ActorGrant list"
  | Do_foundation "BoxError + DeviceRecord list"

fun perform :: "CommandService \<Rightarrow> World \<Rightarrow> service_op \<Rightarrow> World" where
  "perform cs w (Do_execute actor r now) = snd (execute cs actor r now w)"
| "perform cs w (Do_cancel actor cid now) = snd (cancel cs actor cid now w)"
| "perform cs w (Do_recover now) = snd (recover cs now w)"
| "perform cs w (Do_approve_unlock actor cid now) = snd (approve_unlock cs actor cid now w)"
| "perform cs w (Do_store_actor actor cred) =
     (case store_actor (w_db w) actor cred of Inl _ \<Rightarrow> w | Inr db \<Rightarrow> w\<lparr>w_db := db\<rparr>)"
| "perform cs w (Do_replace_grants actor gs) =
     (case replace_actor_grants (w_db w) actor gs of Inl _ \<Rightarrow> w | Inr db \<Rightarrow> w\<lparr>w_db := db\<rparr>)"
| "perform cs w (Do_foundation f) = w\<lparr>w_foundation := f\<rparr>"

lemma same_tables_extend:
  assumes "store_inv db" and "db_commands db' = db_commands db" and "db_audit db' = db_audit db"
  shows "store_extends db db'"
proof -
  have "load_command db' = load_command db" "key_entry db' = key_entry db" "audit_trail db' = audit_trail db"
    using assms(2,3)
    by (simp_all add: fun_eq_iff audit_trail_def load_command_def find_command_def key_entry_def
        find_idempotent_def)
  then show ?thesis
    using assms(1) inv_unchanged [OF assms(2,3)] by (simp add: store_extends_def store_inv_def)
qed

lemma perform_keeps:
  assumes "service_ok cs"
  shows "keeps_inv w (perform cs w op)"
proof (cases op)
  case (Do_store_actor actor cred)
  then show ?thesis
    by (cases "store_actor (w_db w) actor cred")
      (auto intro!: keeps.refl keeps_extends same_tables_extend simp: world_inv_def dest: store_actor_commands)
next
  case (Do_replace_grants actor gs)
  then show ?thesis
    by (cases "replace_actor_grants (w_db w) actor gs")
      (auto intro!: keeps.refl keeps_extends same_tables_extend simp: world_inv_def
        dest: replace_actor_grants_commands)
next
  case (Do_foundation f)
  then show ?thesis by (auto intro: keeps_same_store)
qed (use keeps_execute [OF assms] keeps_cancel keeps_recover [OF assms] keeps_approve_unlock [OF assms]
    in \<open>auto simp: svc_rel_def\<close>)

lemma performs_keep:
  assumes "service_ok cs"
  shows "keeps_inv w (foldl (perform cs) w ops)"
proof (induction ops arbitrary: w)
  case Nil
  then show ?case by (simp add: keeps.refl)
next
  case (Cons op ops)
  from keeps.trans [OF perform_keeps [OF assms] Cons.IH] show ?case by simp
qed

section \<open>Cancellation\<close>

lemma cancel_Inr:
  assumes "cancel cs actor cid now w = (Inr c, w')"
  obtains d where "load_command (w_db w) cid = Some d" "ce_actor_id (ca_envelope d) = actor"
    "ca_state d \<in> {Received, Validated}" "transition cs d Cancelled now w = (Inr c, w')"
  using assms
  by (auto simp: cancel_def svc_bind_Inr get_def svc_lift_Inr svc_error_def
      split: option.splits if_splits)

lemma load_trail_ok: "store_inv db \<Longrightarrow> load_command db cid = Some c \<Longrightarrow> trail_ok (audit_trail db cid) c"
  by (auto simp: store_inv_def load_command_Some chain_inv_def)

text \<open>Before dispatch, a trail has no dispatch record.\<close>

lemma undispatched_records:
  assumes "world_inv w" and "load_command (w_db w) cid = Some d" and "ca_state d \<in> {Received, Validated}"
  shows "dispatch_records (w_db w) cid = 0"
proof -
  let ?t = "audit_trail (w_db w) cid"
  have ok: "trail_ok ?t d" using assms(1,2) load_trail_ok by (simp add: world_inv_def)
  then have ne: "?t \<noteq> []" and ends: "au_to (last ?t) = ca_state d"
    by (auto simp: trail_ok_def)
  have sorted: "sorted_wrt (<) (map command_rank (map au_to ?t))"
    by (rule successively_rank) (use ok in \<open>simp add: trail_ok_def\<close>)
  have "command_rank (au_to a) \<le> command_rank (ca_state d)" if a: "a \<in> set ?t" for a
  proof -
    obtain xs where t: "?t = xs @ [last ?t]" using ne by (metis append_butlast_last_id)
    from sorted have "sorted_wrt (<) (map command_rank (map au_to (xs @ [last ?t])))" using t by simp
    then have "\<forall>x \<in> set xs. command_rank (au_to x) < command_rank (ca_state d)"
      using ends by (simp add: sorted_wrt_append)
    moreover have "a \<in> set (xs @ [last ?t])" using a t by simp
    ultimately show ?thesis using ends by auto
  qed
  then have "\<not> audit_allows a" if "a \<in> set ?t" for a
    using that assms(3) by (fastforce simp: audit_allows_def)
  then show ?thesis by (simp add: dispatch_records_def filter_empty_conv)
qed

text \<open>The trail of a command in a terminal state is never extended.\<close>

lemma terminal_trail_fixed:
  assumes "store_inv db" and "load_command db cid = Some c" and "CommandState_is_terminal (ca_state c)"
    and "store_extends db db'"
  shows "audit_trail db' cid = audit_trail db cid"
proof -
  have ok: "trail_ok (audit_trail db cid) c" using load_trail_ok assms(1,2) by blast
  from assms(4) obtain zs where zs: "audit_trail db' cid = audit_trail db cid @ zs"
    unfolding store_extends_def prefix_def by blast
  from assms(2,4) obtain c' where "load_command db' cid = Some c'" unfolding store_extends_def by blast
  then have ok': "trail_ok (audit_trail db' cid) c'"
    using load_trail_ok assms(4) unfolding store_extends_def by blast
  have ne: "audit_trail db cid \<noteq> []" using ok by (auto simp: trail_ok_def)
  show ?thesis
  proof (cases zs)
    case (Cons z more)
    from ok' have "successively CommandState_allows_transition_to (map au_to (audit_trail db cid) @ map au_to zs)"
      by (simp add: trail_ok_def zs)
    then have "CommandState_allows_transition_to (au_to (last (audit_trail db cid))) (au_to z)"
      using ne by (simp add: successively_append_iff Cons last_map)
    with ok assms(3) cmd.terminal_stuck show ?thesis by (simp add: trail_ok_def)
  qed (simp add: zs)
qed

lemma transition_trail_append:
  assumes "world_inv w" and "transition cs d s now w = (Inr c, w')"
  obtains a where "audit_trail (w_db w') (ce_id (ca_envelope d)) = audit_trail (w_db w) (ce_id (ca_envelope d)) @ [a]"
    "au_to a = s" "ca_state c = s" "ca_envelope c = ca_envelope d"
  using assms(2)
proof (rule transition_Inr)
  fix aid db
  assume tr: "CommandAggregate_transition d s now = Inr c"
    and st: "transition_command (w_db w) c (ca_version d) (command_audit aid c (Some (ca_state d))) = Inr db"
    and db: "w_db w' = db"
  have "store_inv (w_db w)" using assms(1) by (simp add: world_inv_def)
  from sql.transition_trail [OF this st] tr db that show thesis
    by (auto simp: transition_Inr_iff command_audit_def)
qed

end
