(* ===== verification/Runtime_Safety.thy ===== *)
theory Runtime_Safety
  imports Automation_Runtime Command_Safety
begin

text \<open>
  What one interpreter step does to the automation database: nothing, or exactly one commit that
  revises its run once and appends one trace step. The steps are composed from readers, which leave
  the database alone, and one final commit.
\<close>

section \<open>Readers and single commits\<close>

definition reads :: "'a rt \<Rightarrow> bool" where
  "reads m \<longleftrightarrow> (\<forall>st. rs_db (snd (m st)) = rs_db st)"

text \<open>A failing computation leaves the database alone; a successful one may have committed one write,
  and then its result is one that reports a commit.\<close>

definition commits :: "AutomationRuntime \<Rightarrow> (AutomationStepWrite \<Rightarrow> bool) \<Rightarrow> ('a \<Rightarrow> bool) \<Rightarrow> 'a rt \<Rightarrow> bool" where
  "commits ar W Q m \<longleftrightarrow> (\<forall>st r st'. m st = (r, st') \<longrightarrow> rs_db st' \<noteq> rs_db st \<longrightarrow>
     (\<exists>x w. r = Inr x \<and> Q x \<and> W w \<and> commit_step (ar_ids ar) w (rs_db st) = Inr ((), rs_db st')))"

lemma commitsD:
  "commits ar W Q m \<Longrightarrow> m st = (r, st') \<Longrightarrow> rs_db st' \<noteq> rs_db st \<Longrightarrow>
     \<exists>x w. r = Inr x \<and> Q x \<and> W w \<and> commit_step (ar_ids ar) w (rs_db st) = Inr ((), rs_db st')"
  unfolding commits_def by blast

lemma commitsI:
  "(\<And>st r st'. m st = (r, st') \<Longrightarrow> rs_db st' \<noteq> rs_db st \<Longrightarrow>
     \<exists>x w. r = Inr x \<and> Q x \<and> W w \<and> commit_step (ar_ids ar) w (rs_db st) = Inr ((), rs_db st')) \<Longrightarrow> commits ar W Q m"
  unfolding commits_def by blast

lemma readsD: "reads m \<Longrightarrow> m st = (r, st') \<Longrightarrow> rs_db st' = rs_db st"
  by (metis reads_def snd_conv)

lemma reads_basic [simp, intro]:
  "reads (rt_return x)" "reads (rt_error e)" "reads (rt_lift r)" "reads (rt_db f)" "reads (rt_now ar)" "reads (rt_load ar)" "reads (rt_service s)"
  by (auto simp: reads_def rt_return_def rt_error_def rt_lift_def rt_db_def rt_now_def rt_load_def rt_service_def split: prod.split sum.split)

lemma reads_bind [intro]: "reads m \<Longrightarrow> (\<And>x. reads (f x)) \<Longrightarrow> reads (rt_bind m f)"
  by (auto simp: reads_def rt_bind_def split: prod.split sum.split) (metis snd_conv)+

lemma reads_commits: "reads m \<Longrightarrow> commits ar W Q m"
  by (auto simp: commits_def dest: readsD)

lemma commits_basic: "commits ar W Q (rt_return x)" "commits ar W Q (rt_error e)"
  by (intro reads_commits reads_basic)+

lemma commits_after:
  assumes "reads m" "\<And>x. commits ar W Q (f x)"
  shows "commits ar W Q (rt_bind m f)"
proof (rule commitsI)
  fix st r st' assume run: "rt_bind m f st = (r, st')" and changed: "rs_db st' \<noteq> rs_db st"
  obtain a st1 where m: "m st = (a, st1)" by (cases "m st")
  have same: "rs_db st1 = rs_db st" using readsD [OF assms(1) m] .
  with run m changed obtain x where "f x st1 = (r, st')" by (auto simp: rt_bind_def split: sum.splits)
  from commitsD [OF assms(2) this] same changed
  show "\<exists>x w. r = Inr x \<and> Q x \<and> W w \<and> commit_step (ar_ids ar) w (rs_db st) = Inr ((), rs_db st')" by simp
qed

text \<open>After a computation that may commit, only those results are followed by another commit that
  report none.\<close>

lemma commits_then:
  assumes "commits ar W P m" "\<And>x. P x \<Longrightarrow> \<exists>y. f x = rt_return y \<and> Q y" "\<And>x. commits ar W Q (f x)"
  shows "commits ar W Q (rt_bind m f)"
proof (rule commitsI)
  fix st r st' assume run: "rt_bind m f st = (r, st')" and changed: "rs_db st' \<noteq> rs_db st"
  obtain a st1 where m: "m st = (a, st1)" by (cases "m st")
  show "\<exists>x w. r = Inr x \<and> Q x \<and> W w \<and> commit_step (ar_ids ar) w (rs_db st) = Inr ((), rs_db st')"
  proof (cases "rs_db st1 = rs_db st")
    case True
    with run m changed obtain x where "f x st1 = (r, st')" by (auto simp: rt_bind_def split: sum.splits)
    from commitsD [OF assms(3) this] True changed show ?thesis by simp
  next
    case False
    from commitsD [OF assms(1) m this] obtain x w where x: "a = Inr x" "P x" "W w" "commit_step (ar_ids ar) w (rs_db st) = Inr ((), rs_db st1)" by blast
    moreover obtain y where "f x = rt_return y" "Q y" using assms(2) [OF x(2)] by blast
    ultimately show ?thesis using run m by (auto simp: rt_bind_def rt_return_def)
  qed
qed

lemma commits_return:
  assumes "commits ar W (\<lambda>_. True) m" "\<And>x. Q (g x)"
  shows "commits ar W Q (rt_bind m (\<lambda>x. rt_return (g x)))"
  using assms by (intro commits_then [OF assms(1)]) (auto intro: commits_basic)

lemma commits_if: "(b \<Longrightarrow> commits ar W Q m) \<Longrightarrow> (\<not> b \<Longrightarrow> commits ar W Q m') \<Longrightarrow> commits ar W Q (if b then m else m')"
  by simp

section \<open>The write of a step\<close>

definition step_write :: "AutomationRun \<Rightarrow> nat \<Rightarrow> AutomationStepWrite \<Rightarrow> bool" where
  "step_write run sequence w \<longleftrightarrow> run_id (sw_run w) = run_id run \<and> sw_expected_run_revision w = run_revision run \<and>
     (\<exists>s. sw_trace w = [s] \<and> ts_run_id s = run_id run \<and> ts_sequence s = sequence)"

text \<open>An update of a step keeps the identity of the run.\<close>

definition same_run :: "(AutomationRun \<Rightarrow> AutomationRun) \<Rightarrow> bool" where
  "same_run f \<longleftrightarrow> (\<forall>r. run_id (f r) = run_id r)"

lemma commits_commit: "W w \<Longrightarrow> commits ar W (\<lambda>_. True) (commit ar w)"
  by (auto simp: commits_def commit_def split: sum.splits prod.splits)

lemma commits_checkpoint:
  assumes "same_run update"
  shows "commits ar (step_write run sequence) (\<lambda>_. True) (commit_checkpoint ar run update sequence node kind details create_timers transition_timers)"
  using assms unfolding commit_checkpoint_def Let_def
  by (intro commits_after reads_basic commits_commit)
    (simp add: step_write_def same_run_def checkpoint_def run_trace_step_def)

lemma same_run_failure [simp]: "run_id (fst (run_apply_failure r policy following)) = run_id r"
  by (cases policy) (simp_all add: Let_def)

lemma same_run_join [simp]: "run_id (fst (join_run r node following)) = run_id r"
  by (auto simp: join_run_def Let_def split: list.split)

lemma same_run_drop [simp]: "run_id (drop_durations node r) = run_id r"
  by (simp add: drop_durations_def)

lemma commits_finish:
  "same_run update \<Longrightarrow> Q x \<Longrightarrow>
   commits ar (step_write run sequence) Q (rt_bind (commit_checkpoint ar run update sequence node kind details create_timers transition_timers) (\<lambda>_. rt_return x))"
  by (intro commits_return commits_checkpoint)

text \<open>A step reads and decides, and may finish with its commit.\<close>

lemmas committing = commits_if commits_basic commits_finish commits_after [OF reads_basic(3)] commits_after [OF reads_basic(4)]
  commits_after [OF reads_basic(5)] commits_after [OF reads_basic(6)] commits_after [OF reads_basic(7)]

lemma evaluate_runtime_condition_commits:
  "commits ar (step_write run sequence) (\<lambda>x. x = Condition_Waiting) (evaluate_runtime_condition ar run node condition sequence)"
  unfolding evaluate_runtime_condition_def Let_def case_prod_unfold
  by (auto intro!: committing simp: same_run_def split: sum.split)

abbreviation stepped :: "AutomationRuntimeStep \<Rightarrow> bool" where
  "stepped x \<equiv> x \<noteq> Step_NoWork"

lemma stepped_failure [simp]: "snd (run_apply_failure r policy following) \<noteq> Step_NoWork"
  by (cases policy) (simp_all add: Let_def)

lemma failure_result: "run_apply_failure r policy following = (r', outcome) \<Longrightarrow> run_id r' = run_id r \<and> outcome \<noteq> Step_NoWork"
  by (metis fst_conv same_run_failure snd_conv stepped_failure)

lemma stepped_join [simp]: "snd (snd (join_run r node following)) \<noteq> Step_NoWork"
  by (auto simp: join_run_def Let_def split: list.split)

lemma enter_group_commits: "commits ar (step_write run sequence) stepped (enter_group ar run node branches maximum_parallel join kind sequence)"
  by (cases branches; cases join) (auto simp: enter_group_def same_run_def intro!: committing)

lemma step_join_commits: "commits ar (step_write run sequence) stepped (step_join ar run node following sequence)"
  unfolding step_join_def case_prod_unfold Let_def by (intro committing) (simp_all add: same_run_def)

lemma start_timer_commits: "commits ar (step_write run sequence) stepped (start_timer ar run node kind duration_ms sequence details)"
  unfolding start_timer_def by (intro committing) (simp_all add: same_run_def)

lemma step_delay_commits: "commits ar (step_write run sequence) stepped (step_delay ar run node duration_ms following sequence)"
  unfolding step_delay_def find_timer_def by (intro committing start_timer_commits) (simp_all add: same_run_def)

lemma finish_wait_commits: "commits ar (step_write run sequence) stepped (finish_wait ar run node on_timeout following sequence prepared timer)"
  unfolding finish_wait_def Let_def by (intro committing) (simp_all add: same_run_def)

lemma after_condition:
  assumes "\<And>prepared. commits ar (step_write run sequence) stepped (f prepared)"
  shows "commits ar (step_write run sequence) stepped (rt_bind (evaluate_runtime_condition ar run node condition sequence) (\<lambda>result.
     case result of Condition_Waiting \<Rightarrow> rt_return Step_Waiting | Condition_Resolved prepared \<Rightarrow> f prepared))"
  using assms by (intro commits_then [OF evaluate_runtime_condition_commits]) (auto intro: commits_basic split: RuntimeConditionResult.split)

lemma step_wait_commits: "commits ar (step_write run sequence) stepped (step_wait ar run node condition timeout_ms on_timeout following sequence)"
  unfolding step_wait_def find_timer_def by (intro start_timer_commits after_condition committing finish_wait_commits)

lemma step_branch_commits: "commits ar (step_write run sequence) stepped (step_branch ar run node condition then_node else_node join sequence)"
  unfolding step_branch_def by (intro after_condition committing) (simp_all add: same_run_def)

lemma step_set_variable_commits: "commits ar (step_write run sequence) stepped (step_set_variable ar run node name expression following sequence)"
  unfolding step_set_variable_def by (intro committing) (simp_all add: same_run_def)

section \<open>Command nodes\<close>

lemma reads_dispatch_targets: "reads (dispatch_targets ar cs actor run node attempt deadline indices)"
  by (induction indices) (auto split: sum.split)

lemma reads_load_commands: "reads (load_commands actor is)"
  by (induction "is") auto

lemma attempt_outcome_run:
  assumes "attempt_outcome ar node attempt target_indices commands r = Inr (succ_run, outcome, timers)"
  shows "run_id succ_run = run_id r" "outcome \<noteq> Step_NoWork"
  using assms by (auto simp: attempt_outcome_def Let_def result_simps dest: failure_result split: if_splits option.splits prod.splits)

lemma checkpoint_command_result_commits:
  "commits ar (step_write run sequence) stepped (checkpoint_command_result ar run node sequence attempt target_indices commands append_command_ids)"
proof -
  have "commits ar (step_write run sequence) stepped (rt_bind (rt_lift (attempt_outcome ar node attempt target_indices commands r)) (\<lambda>(next, outcome, create_timers).
        rt_bind (rt_now ar) (\<lambda>at.
        rt_bind (commit ar \<lparr>sw_run = next, sw_expected_run_revision = run_revision run,
            sw_trace = [run_trace_step ar next sequence (Some (cn_node_id node)) Trace_Command
              [(''attempt'', V_Integer (int attempt)), (''state'', V_String (join_comma (map (\<lambda>c. command_state_name (ca_state c)) commands)))] at],
            sw_create_timers = create_timers, sw_transition_timers = []\<rparr>) (\<lambda>_.
        rt_return outcome))))" if r: "run_id r = run_id run" for r
  proof (cases "attempt_outcome ar node attempt target_indices commands r")
    case (Inl e)
    then show ?thesis by (intro reads_commits) (simp add: reads_def rt_bind_def rt_lift_def)
  next
    case (Inr x)
    obtain succ_run outcome create_timers where x: "x = (succ_run, outcome, create_timers)" by (cases x)
    note facts = attempt_outcome_run [OF Inr [unfolded x]]
    have lift: "rt_bind (rt_lift (Inr x)) f = f x" for f :: "_ \<Rightarrow> AutomationRuntimeStep rt" by (simp add: fun_eq_iff rt_bind_def rt_lift_def)
    show ?thesis
      unfolding Inr lift unfolding x prod.case using facts r
      by (intro commits_after commits_return commits_commit reads_basic) (simp_all add: step_write_def run_trace_step_def)
  qed
  then show ?thesis
    unfolding checkpoint_command_result_def Let_def
    by (intro commits_if commits_basic commits_after [OF reads_basic(5)]) (simp add: checkpoint_def)
qed

lemma dispatch_command_attempt_commits:
  "commits ar (step_write run sequence) stepped (dispatch_command_attempt ar run node sequence)"
proof -
  have security: "reads (\<lambda>st. (ok_or (map_option as_actor (load_actor_security (w_db (rs_world st)) (run_actor_id run))) Rt_CommandActorUnavailable, st))"
    by (simp add: reads_def)
  show ?thesis
    unfolding dispatch_command_attempt_def case_prod_unfold
    by (intro committing commits_after [OF security] commits_after [OF reads_dispatch_targets] checkpoint_command_result_commits)
qed

lemma resume_command_backoff_commits:
  "commits ar (step_write run sequence) stepped (resume_command_backoff ar run node attempt sequence)"
  unfolding resume_command_backoff_def by (intro committing) (simp_all add: same_run_def)

lemma step_command_commits: "commits ar (step_write run sequence) stepped (step_command ar run node sequence)"
proof -
  have "reads (load_attempt_commands ar run attempt)" for attempt
    unfolding load_attempt_commands_def by (auto intro: reads_load_commands)
  then show ?thesis
    unfolding step_command_def
    by (auto intro!: commits_if commits_basic commits_after dispatch_command_attempt_commits resume_command_backoff_commits
        checkpoint_command_result_commits split: option.split AutomationCommandAttemptPhase.split)
qed

lemmas node_commits = enter_group_commits step_join_commits step_delay_commits step_wait_commits step_branch_commits
  step_set_variable_commits step_command_commits

lemma step_node_commits: "commits ar (step_write run sequence) stepped (step_node ar run plan node sequence)"
proof -
  have "commits ar (step_write run sequence) stepped (rt_bind (commit_checkpoint ar run (\<lambda>r. r\<lparr>run_state := Run_Completed, run_node_id := None\<rparr>)
      sequence (Some n) Trace_Outcome details [] []) (\<lambda>_. rt_return Step_Completed))" for n details
    by (intro commits_return commits_checkpoint) (simp_all add: same_run_def)
  then show ?thesis
    unfolding step_node_def Let_def by (auto intro: node_commits split: AutomationPlanNodeKind.split)
qed

section \<open>One step of a run\<close>

text \<open>The steps that the interpreter reads of a trace, and the number it gives the next one.\<close>

definition loaded_trace :: "AutomationDatabase \<Rightarrow> AutomationRun \<Rightarrow> StoredAutomationVersion \<Rightarrow> nat" where
  "loaded_trace db run version = min (min (saturating_add u64_max (rb_maximum_trace_steps (pl_budget (sv_plan version))) 1) MAX_QUERY_PAGE)
     (length (run_trace db (run_id run)))"

lemma load_trace_length:
  "load_trace db i None limit = Inr (take (min limit MAX_QUERY_PAGE) (sort_key ts_sequence (run_trace db i)))"
proof -
  have "filter (\<lambda>s. - 1 < int (ts_sequence s)) (run_trace db i) = run_trace db i" by (simp add: filter_id_conv)
  then show ?thesis by (simp add: load_trace_def)
qed

lemma bind_db: "rt_bind (rt_db f) g st = (case f (rs_db st) of Inl e \<Rightarrow> (Inl e, st) | Inr x \<Rightarrow> g x st)"
  by (simp add: rt_bind_def rt_db_def split: sum.split)

definition step_trace :: "AutomationDatabase \<Rightarrow> AutomationRun \<Rightarrow> StoredAutomationVersion \<Rightarrow> AutomationTraceStep list" where
  "step_trace db run version = take (min (saturating_add u64_max (rb_maximum_trace_steps (pl_budget (sv_plan version))) 1) MAX_QUERY_PAGE)
     (sort_key ts_sequence (run_trace db (run_id run)))"

lemma step_run_eq:
  "step_run ar run version st = rt_bind (check_budget ar run (pl_budget (sv_plan version)) (step_trace (rs_db st) run version)) (\<lambda>_.
     if run_state run = Run_Pending
     then rt_bind (commit_checkpoint ar run (\<lambda>r. r\<lparr>run_state := Run_Running\<rparr>) (length (step_trace (rs_db st) run version)) None Trace_Trigger
            [(''accepted'', V_Boolean True)] [] []) (\<lambda>_. rt_return Step_Advanced)
     else rt_bind (rt_lift (ok_or (run_node_id run) Rt_InvalidPlan)) (\<lambda>n.
          rt_bind (rt_lift (ok_or (find (\<lambda>node. pn_id node = n) (pl_nodes (sv_plan version))) Rt_InvalidPlan)) (\<lambda>node.
          step_node ar run (sv_plan version) node (length (step_trace (rs_db st) run version))))) st"
  unfolding step_run_def bind_db load_trace_length repository_error_def sum.case Let_def step_trace_def ..

lemma step_run_commits:
  assumes "step_run ar run version st = (r, st')" "rs_db st' \<noteq> rs_db st"
  shows "\<exists>x w. r = Inr x \<and> x \<noteq> Step_NoWork \<and> step_write run (loaded_trace (rs_db st) run version) w \<and>
      loaded_trace (rs_db st) run version < rb_maximum_trace_steps (pl_budget (sv_plan version)) \<and>
      commit_step (ar_ids ar) w (rs_db st) = Inr ((), rs_db st')"
proof -
  let ?budget = "pl_budget (sv_plan version)"
  let ?trace = "step_trace (rs_db st) run version"
  have len: "length ?trace = loaded_trace (rs_db st) run version" by (simp add: loaded_trace_def step_trace_def min.commute)
  have reads: "reads (check_budget ar run ?budget trace)" for trace
    unfolding check_budget_def by (auto intro!: reads_bind)
  obtain u st1 where checked: "check_budget ar run ?budget ?trace st = (Inr u, st1)"
    using assms readsD [OF reads [of ?trace]]
    by (cases "check_budget ar run ?budget ?trace st") (auto simp: step_run_eq rt_bind_def [of "check_budget ar run ?budget ?trace"] split: sum.splits)
  then have bound: "length ?trace < rb_maximum_trace_steps ?budget"
    by (auto simp: check_budget_def rt_error_def split: if_splits)
  have same: "rs_db st1 = rs_db st" using readsD [OF reads checked] .
  let ?rest = "if run_state run = Run_Pending
     then rt_bind (commit_checkpoint ar run (\<lambda>r. r\<lparr>run_state := Run_Running\<rparr>) (length ?trace) None Trace_Trigger [(''accepted'', V_Boolean True)] [] []) (\<lambda>_.
          rt_return Step_Advanced)
     else rt_bind (rt_lift (ok_or (run_node_id run) Rt_InvalidPlan)) (\<lambda>n.
          rt_bind (rt_lift (ok_or (find (\<lambda>node. pn_id node = n) (pl_nodes (sv_plan version))) Rt_InvalidPlan)) (\<lambda>node.
          step_node ar run (sv_plan version) node (length ?trace)))"
  have rest: "?rest st1 = (r, st')"
    using assms(1) unfolding step_run_eq rt_bind_def [of "check_budget ar run ?budget ?trace"] checked by simp
  have "commits ar (step_write run (length ?trace)) stepped ?rest"
    by (intro committing step_node_commits) (simp_all add: same_run_def)
  from commitsD [OF this rest] assms(2) same bound show ?thesis unfolding len by auto
qed

lemma runtime_step_commits:
  assumes "runtime_step ar i st = (r, st')" "rs_db st' \<noteq> rs_db st"
  obtains run identity version x w where "map_of (ad_runs (rs_db st)) i = Some run" "\<not> AutomationRunState_is_terminal (run_state run)"
    "map_of (ad_identities (rs_db st)) (run_automation_id run) = Some identity" "ids_active_version identity = Some (run_version run)"
    "map_of (ad_versions (rs_db st)) (run_automation_id run, run_version run) = Some version"
    "r = Inr x" "x \<noteq> Step_NoWork" "step_write run (loaded_trace (rs_db st) run version) w"
    "loaded_trace (rs_db st) run version < rb_maximum_trace_steps (pl_budget (sv_plan version))"
    "commit_step (ar_ids ar) w (rs_db st) = Inr ((), rs_db st')"
proof -
  obtain run where run: "map_of (ad_runs (rs_db st)) i = Some run" "\<not> AutomationRunState_is_terminal (run_state run)"
    using assms by (auto simp: runtime_step_def bind_db rt_return_def split: option.splits if_splits)
  obtain identity where identity: "map_of (ad_identities (rs_db st)) (run_automation_id run) = Some identity" "ids_active_version identity = Some (run_version run)"
    using assms run by (auto simp: runtime_step_def bind_db rt_return_def split: option.splits if_splits)
  obtain version where version: "map_of (ad_versions (rs_db st)) (run_automation_id run, run_version run) = Some version"
    "step_run ar run version st = (r, st')"
    using assms run identity by (auto simp: runtime_step_def bind_db repository_error_def load_version_def result_simps split: sum.splits option.splits)
  from step_run_commits [OF version(2) assms(2)] show thesis using that run identity version(1) by blast
qed

text \<open>The commit of a step in a database with contiguous traces: the sequence number it was given is
  the length of the trace, so the trace was read completely.\<close>

lemma step_write_effect:
  assumes traced: "traced db" and run: "map_of (ad_runs db) i = Some run" "\<not> AutomationRunState_is_terminal (run_state run)"
    and w: "step_write run n w" "commit_step ids w db = Inr ((), db')"
  obtains s where "n = length (run_trace db i)" "map_of (ad_runs db') = (map_of (ad_runs db))(i \<mapsto> sw_run w)" "ad_trace db' = ad_trace db @ [s]"
    "ts_run_id s = i" "ts_sequence s = n" "run_revision (sw_run w) = saturating_add u64_max (run_revision run) 1"
    "AutomationRunState_allows_revision_to (run_state run) (run_state (sw_run w))"
proof -
  have id: "run_id run = i" using tracedD(5) [OF traced run(1)] .
  obtain s where s: "sw_trace w = [s]" "ts_run_id s = i" "ts_sequence s = n" and w_id: "run_id (sw_run w) = i" "sw_expected_run_revision w = run_revision run"
    using w(1) id by (auto simp: step_write_def)
  obtain current where eff: "map_of (ad_runs db) i = Some current" "run_revision (sw_run w) = saturating_add u64_max (run_revision run) 1"
    "AutomationRunState_allows_revision_to (run_state current) (run_state (sw_run w))"
    "map_of (ad_runs db') = (map_of (ad_runs db))(i \<mapsto> sw_run w)" "ad_trace db' = ad_trace db @ [s]"
    "int n = expected_sequence db i" "n \<notin> ts_sequence ` set (run_trace db i)"
    using commit_step_effect [OF w(2) s(1)] s w_id by metis
  have contiguous: "map ts_sequence (run_trace db i) = [0..<length (run_trace db i)]" using tracedD(4) [OF traced run] .
  have "ts_sequence ` set (run_trace db i) = {0..<length (run_trace db i)}" using arg_cong [OF contiguous, of set] by simp
  then have "n = length (run_trace db i)" using eff(6,7) expected_sequence_contiguous [OF contiguous] by (auto split: if_splits)
  then show thesis using that eff s run(1) by auto
qed

lemma long_trace_frozen:
  assumes "traced (rs_db st)" "map_of (ad_runs (rs_db st)) i = Some run" "\<not> AutomationRunState_is_terminal (run_state run)"
    and "MAX_QUERY_PAGE < length (run_trace (rs_db st) i)"
  shows "rs_db (snd (runtime_step ar i st)) = rs_db st"
proof (rule ccontr)
  assume changed: "rs_db (snd (runtime_step ar i st)) \<noteq> rs_db st"
  obtain r st' where step: "runtime_step ar i st = (r, st')" by (cases "runtime_step ar i st")
  with changed have "rs_db st' \<noteq> rs_db st" by simp
  from runtime_step_commits [OF step this] obtain run' version w where
    run': "map_of (ad_runs (rs_db st)) i = Some run'" and w: "step_write run' (loaded_trace (rs_db st) run' version) w"
      "commit_step (ar_ids ar) w (rs_db st) = Inr ((), rs_db st')"
    by metis
  have "run' = run" using run' assms(2) by simp
  from step_write_effect [OF assms(1-3) w [unfolded this]] have "loaded_trace (rs_db st) run version = length (run_trace (rs_db st) i)" by blast
  then show False using assms(4) by (simp add: loaded_trace_def)
qed

end
