(* ===== verification/Compiler_Correctness.thy ===== *)
theory Compiler_Correctness
  imports Automation_Compiler
begin

text \<open>
  What the automation compiler guarantees. The passes that only validate leave the state alone
  except for findings; the passes that emit nodes extend the state by a preorder that keeps node
  numbers equal to positions, edges pointing to smaller numbers and, while there are no findings,
  every node within its contract. The plan properties follow from it by induction over the
  lowering.
\<close>

named_theorems compiler_records \<open>passes that only record findings\<close>

section \<open>Passes that only record findings\<close>

definition records :: "Compiler \<Rightarrow> Compiler \<Rightarrow> bool" where
  "records st st' \<longleftrightarrow> (\<exists>fs. st' = st\<lparr>cp_findings := cp_findings st @ fs\<rparr>)"

interpretation rec: state_preorder records
proof
  show "records s s" for s
    unfolding records_def by (rule exI [of _ "[]"]) simp
  show "records s t \<Longrightarrow> records t u \<Longrightarrow> records s u" for s t u
    unfolding records_def by auto
qed

lemma records_clean: "records st st' \<Longrightarrow> cp_findings st' = [] \<Longrightarrow> st' = st"
  by (auto simp: records_def)

lemma records_findings: "records st st' \<Longrightarrow> cp_findings st' = [] \<Longrightarrow> cp_findings st = []"
  by (auto simp: records_def)

text \<open>Each step is stated as one more step after a recording pass.\<close>

lemma records_finding [compiler_records]:
  "records s st \<Longrightarrow> records s (finding code path reason remediation reference st)"
  by (auto simp: records_def finding_def)

lemma records_named [compiler_records]:
  assumes "records s st"
  shows "records s (required path reason st)" "records s (bound path reason st)"
    "records s (incompatible path reason st)" "records s (type_mismatch path reason st)"
    "records s (invalid_schedule path reason st)"
  using assms
  by (simp_all add: required_def bound_def incompatible_def type_mismatch_def invalid_schedule_def records_finding)

lemma records_check [compiler_records]:
  "records s st \<Longrightarrow> (records s st \<Longrightarrow> records s (f st)) \<Longrightarrow> records s (check b f st)"
  by (simp add: check_def)

text \<open>Every finding shows: a pass that ends without findings took none of them.\<close>

lemma finding_nonempty [simp]:
  "cp_findings (finding code path reason remediation reference st) \<noteq> []"
  "cp_findings (required path reason st) \<noteq> []"
  "cp_findings (bound path reason st) \<noteq> []"
  "cp_findings (incompatible path reason st) \<noteq> []"
  "cp_findings (type_mismatch path reason st) \<noteq> []"
  "cp_findings (invalid_schedule path reason st) \<noteq> []"
  by (simp_all add: finding_def required_def bound_def incompatible_def type_mismatch_def invalid_schedule_def)

lemma check_clean [simp]:
  assumes "cp_findings (f st) \<noteq> []"
  shows "cp_findings (check b f st) = [] \<longleftrightarrow> \<not> b \<and> cp_findings st = []"
  using assms by (cases b) (simp_all add: check_def)

lemma check_False [simp]: "check False f st = st"
  by (simp add: check_def)

lemma records_validate_timer [compiler_records]: "records s st \<Longrightarrow> records s (validate_timer d path st)"
  unfolding validate_timer_def by (intro compiler_records)

lemma validate_timer_clean [simp]:
  "cp_findings (validate_timer d path st) = [] \<longleftrightarrow> \<not> timer_out_of_range d \<and> cp_findings st = []"
  unfolding validate_timer_def by simp

lemma records_validate_value [compiler_records]: "records s st \<Longrightarrow> records s (validate_value v path st)"
  unfolding validate_value_def by (cases v) (simp_all add: compiler_records)

lemma records_observation_field [compiler_records]:
  "records s st \<Longrightarrow> records s (snd (validate_observation_field capability field path st))"
  by (simp add: validate_observation_field_def compiler_records split: option.split)

lemma records_resolve_devices:
  "records s st \<Longrightarrow> records s (snd (resolve_devices env target path ds acc st))"
  by (induction env target path ds acc st rule: resolve_devices.induct)
    (simp_all add: Let_def compiler_records)

lemma records_resolve_target [compiler_records]:
  "records s st \<Longrightarrow> records s (snd (resolve_target env target path st))"
  using records_resolve_devices
  by (simp add: resolve_target_def Let_def compiler_records case_prod_unfold split: option.split)

lemma records_compile_expression [compiler_records]:
  "records s st \<Longrightarrow> records s (snd (compile_expression env e path st))"
  by (simp add: compile_expression_def compiler_records case_prod_unfold Let_def
      split: AutomationExpression.split option.split)

lemma records_compile_comparison [compiler_records]:
  "records s st \<Longrightarrow> records s (snd (compile_comparison env l op r path st))"
  by (simp add: compile_comparison_def compiler_records case_prod_unfold Let_def split: option.split)

lemma records_compile_condition [compiler_records]:
  shows "records s st \<Longrightarrow> records s (snd (compile_condition env c path depth st))"
    and "records s st \<Longrightarrow> records s (snd (compile_conditions env cs i path depth st))"
    and "records s st \<Longrightarrow> records s (snd (compile_condition_list env cs path depth st))"
proof (induction env c path depth st and env cs i path depth st and env cs path depth st
    rule: compile_condition_compile_conditions_compile_condition_list.induct)
  case (1 env c path depth st)
  then show ?case
    by (cases c) (simp_all add: compile_condition.simps [of env _ path depth st] compiler_records case_prod_unfold Let_def)
next
  case (3 env c cs i path depth st)
  then show ?case by (auto split: prod.splits)
qed (simp_all add: compiler_records case_prod_unfold Let_def)

section \<open>Passes without findings\<close>

definition device_targets :: "AutomationTargetReference \<Rightarrow> DeviceRecord \<Rightarrow> ResolvedAutomationTarget list" where
  "device_targets target device =
     map (\<lambda>e. \<lparr>rt_device_id = ds_id (dr_snapshot device), rt_endpoint_id = e,
               rt_capability = tr_capability target\<rparr>) (matching_endpoints target device)"

lemma resolve_devices_result:
  "case resolve_devices env target path ds acc st of
     (None, st') \<Rightarrow> cp_findings st' \<noteq> []
   | (Some ts, st') \<Rightarrow> st' = st \<and> ts = acc @ concat (map (device_targets target) ds) \<and>
       (\<forall>d \<in> set ds. matching_endpoints target d \<noteq> [])"
  by (induction env target path ds acc st rule: resolve_devices.induct)
    (auto simp: Let_def device_targets_def split: prod.splits option.splits)

lemma set_insert_target [simp]: "set (insert_target t us) = insert t (set us)"
  by (induction us) auto

lemma set_sort_targets [simp]: "set (sort_targets ts) = set ts"
  by (induction ts) (simp_all add: sort_targets_def)

lemma length_insert_target [simp]: "length (insert_target t us) = Suc (length us)"
  by (induction us) auto

lemma length_sort_targets [simp]: "length (sort_targets ts) = length ts"
  by (induction ts) (simp_all add: sort_targets_def)

definition selected_devices :: "CompilerEnv \<Rightarrow> AutomationTargetReference \<Rightarrow> DeviceRecord list" where
  "selected_devices env target = filter (device_selected (tr_device target)) (fs_devices (env_snapshot env))"

text \<open>Without findings a target resolves to every matching endpoint of every selected device, and
  all of these devices are enrolled.\<close>

lemma resolve_target_clean:
  assumes "cp_findings (snd (resolve_target env target path st)) = []"
  obtains ts where "resolve_target env target path st = (Some ts, st)" and "ts \<noteq> []"
    and "set ts = (\<Union>d \<in> set (selected_devices env target). set (device_targets target d))"
    and "\<forall>d \<in> set (selected_devices env target). dr_lifecycle d = Enrolled \<and> matching_endpoints target d \<noteq> []"
proof -
  let ?ds = "selected_devices env target"
  obtain r st' where rd: "resolve_devices env target path ?ds [] st = (r, st')" by (cases "resolve_devices env target path ?ds [] st")
  from assms have ne: "?ds \<noteq> []" and enrolled: "\<forall>d \<in> set ?ds. dr_lifecycle d = Enrolled"
    and clean: "cp_findings (snd (case (r, st') of (None, st1) \<Rightarrow> (None, st1) | (Some ts, st1) \<Rightarrow> (Some (sort_targets ts), st1))) = []"
    and eq: "resolve_target env target path st =
      (case (r, st') of (None, st1) \<Rightarrow> (None, st1) | (Some ts, st1) \<Rightarrow> (Some (sort_targets ts), st1))"
    unfolding resolve_target_def selected_devices_def [symmetric] Let_def rd
    by (auto simp: list_ex_iff split: if_splits)
  note result = resolve_devices_result [where env = env and target = target and path = path and ds = ?ds and acc = "[]" and st = st,
    unfolded rd]
  from clean result obtain ts where r: "r = Some ts" by (cases r) auto
  with result have res: "st' = st" "ts = concat (map (device_targets target) ?ds)"
    "\<forall>d \<in> set ?ds. matching_endpoints target d \<noteq> []" by simp_all
  from ne res(3) have "ts \<noteq> []" unfolding res(2) by (cases ?ds) (auto simp: device_targets_def)
  then have "sort_targets ts \<noteq> []" by (metis length_0_conv length_sort_targets)
  moreover have "set (sort_targets ts) = (\<Union>d \<in> set ?ds. set (device_targets target d))" by (simp add: res(2))
  moreover have "resolve_target env target path st = (Some (sort_targets ts), st)" by (simp add: eq r res(1))
  ultimately show thesis using that [of "sort_targets ts"] enrolled res(3) by blast
qed

text \<open>The registry knows a target: an enrolled device exposes the capability at the endpoint.\<close>

definition target_registered :: "FoundationSnapshot \<Rightarrow> ResolvedAutomationTarget \<Rightarrow> bool" where
  "target_registered snapshot t \<longleftrightarrow>
     (\<exists>d \<in> set (fs_devices snapshot). ds_id (dr_snapshot d) = rt_device_id t \<and> dr_lifecycle d = Enrolled \<and>
        (\<exists>(e, ds) \<in> set (dr_capability_descriptors d). e = rt_endpoint_id t \<and>
           (\<exists>c \<in> set ds. CapabilityDescriptor_schema c = rt_capability t)))"

lemma device_targets_registered:
  assumes "d \<in> set (selected_devices env target)" "dr_lifecycle d = Enrolled" "t \<in> set (device_targets target d)"
  shows "target_registered (env_snapshot env) t"
proof -
  from assms(1) have d: "d \<in> set (fs_devices (env_snapshot env))" by (simp add: selected_devices_def)
  from assms(3) obtain e where t: "t = \<lparr>rt_device_id = ds_id (dr_snapshot d), rt_endpoint_id = e, rt_capability = tr_capability target\<rparr>"
    and "e \<in> set (matching_endpoints target d)" by (auto simp: device_targets_def)
  then obtain ds where "(e, ds) \<in> set (dr_capability_descriptors d)"
    "list_ex (\<lambda>c. CapabilityDescriptor_schema c = tr_capability target) ds" by (auto simp: matching_endpoints_def)
  with d assms(2) t show ?thesis by (fastforce simp: target_registered_def list_ex_iff)
qed

lemma resolved_capability:
  assumes "cp_findings (snd (resolve_target env target path st)) = []"
  obtains ts where "resolve_target env target path st = (Some ts, st)" "ts \<noteq> []"
    "\<forall>t \<in> set ts. rt_capability t = tr_capability target \<and> target_registered (env_snapshot env) t"
proof (rule resolve_target_clean [OF assms])
  fix ts
  assume *: "resolve_target env target path st = (Some ts, st)" "ts \<noteq> []"
    "set ts = (\<Union>d \<in> set (selected_devices env target). set (device_targets target d))"
    "\<forall>d \<in> set (selected_devices env target). dr_lifecycle d = Enrolled \<and> matching_endpoints target d \<noteq> []"
  have "rt_capability t = tr_capability target \<and> target_registered (env_snapshot env) t" if "t \<in> set ts" for t
    using that *(3,4) device_targets_registered by (fastforce simp: device_targets_def)
  with *(1,2) show thesis using that [of ts] by blast
qed

section \<open>Types of compiled conditions\<close>

text \<open>A value whose comparison with a value of its type cannot fail.\<close>

definition value_proper :: "AutomationValue \<Rightarrow> bool" where
  "value_proper v = (case v of
       V_Decimal d \<Rightarrow> (case parse_f64 d of None \<Rightarrow> False | Some f \<Rightarrow> \<not> f64_is_nan f)
     | _ \<Rightarrow> True)"

type_synonym declarations = "(string, AutomationVariableDefinition) btree"

fun expression_type :: "declarations \<Rightarrow> ResolvedAutomationExpression \<Rightarrow> AutomationValueType option" where
  "expression_type vars (R_Literal v) = (if value_proper v then Some (AutomationValue_value_type v) else None)"
| "expression_type vars (R_Variable name) = map_option vd_value_type (map_of vars name)"
| "expression_type vars (R_Observation [t] field) = observation_field_type (rt_capability t) field"
| "expression_type vars (R_Observation _ field) = None"

fun condition_typed :: "Calendar \<Rightarrow> declarations \<Rightarrow> ResolvedAutomationCondition \<Rightarrow> bool" where
  "condition_typed cal vars (RC_Literal b) = True"
| "condition_typed cal vars (RC_Compare l op r) =
     (expression_type vars l \<noteq> None \<and> expression_type vars l = expression_type vars r \<and>
      (ordered_operator op \<longrightarrow> expression_type vars l \<notin> {Some T_Null, Some T_Boolean}))"
| "condition_typed cal vars (RC_All cs) = (cs \<noteq> [] \<and> list_all (condition_typed cal vars) cs)"
| "condition_typed cal vars (RC_Any cs) = (cs \<noteq> [] \<and> list_all (condition_typed cal vars) cs)"
| "condition_typed cal vars (RC_Not c) = condition_typed cal vars c"
| "condition_typed cal vars (RC_TimeWindow tz start end_time) = (\<not> window_invalid cal tz start end_time)"
| "condition_typed cal vars (RC_StateDuration c d) = (\<not> timer_out_of_range d \<and> condition_typed cal vars c)"

section \<open>Canonical decimals\<close>

lemma split_at_char_no: "d \<notin> set s \<Longrightarrow> split_at_char d s = [s]"
  by (induction s) auto

lemma split_at_char_Cons:
  obtains p ps where "split_at_char d s = p # ps" "d \<notin> set p" "ps = [] \<longrightarrow> s = p"
    "\<forall>r rs. ps = r # rs \<longrightarrow> (\<exists>u. s = p @ d # u \<and> split_at_char d u = r # rs)"
proof (induction s arbitrary: thesis)
  case Nil
  then show ?case by simp
next
  case (Cons c cs)
  from Cons.IH obtain p ps where ih: "split_at_char d cs = p # ps" "d \<notin> set p" "ps = [] \<longrightarrow> cs = p"
    "\<forall>r rs. ps = r # rs \<longrightarrow> (\<exists>u. cs = p @ d # u \<and> split_at_char d u = r # rs)" by blast
  show ?case
  proof (cases "c = d")
    case True
    then show ?thesis using ih by (intro Cons.prems [of "[]" "p # ps"]) auto
  next
    case False
    then show ?thesis using ih by (intro Cons.prems [of "c # p" ps]) auto
  qed
qed

definition decimal_body :: "string \<Rightarrow> string option \<Rightarrow> string" where
  "decimal_body whole fraction = whole @ (case fraction of None \<Rightarrow> [] | Some f \<Rightarrow> CHR ''.'' # f)"

lemma canonical_decimal_cases:
  assumes "canonical_decimal v"
  obtains negative whole fraction where
    "v = (if negative then ''-'' else []) @ decimal_body whole fraction"
    "whole \<noteq> []" "list_all is_ascii_digit whole" "\<forall>f. fraction = Some f \<longrightarrow> list_all is_ascii_digit f"
proof -
  define unsigned where "unsigned = (case v of c # cs \<Rightarrow> if c = CHR ''-'' then cs else v | [] \<Rightarrow> v)"
  define negative where "negative = (v \<noteq> [] \<and> hd v = CHR ''-'')"
  have v: "v = (if negative then ''-'' else []) @ unsigned"
    by (cases v) (auto simp: unsigned_def negative_def)
  obtain p ps where s: "split_at_char (CHR ''.'') unsigned = p # ps" "ps = [] \<longrightarrow> unsigned = p"
    "\<forall>r rs. ps = r # rs \<longrightarrow> (\<exists>u. unsigned = p @ CHR ''.'' # u \<and> split_at_char (CHR ''.'') u = r # rs)"
    by (rule split_at_char_Cons)
  from assms have p: "p \<noteq> []" "list_all is_ascii_digit p" "length ps \<le> 1"
    unfolding canonical_decimal_def unsigned_def [symmetric] Let_def s(1) by (auto split: if_splits)
  show thesis
  proof (cases ps)
    case Nil
    then show thesis using s(2) v p that [of negative p None] by (simp add: decimal_body_def)
  next
    case (Cons r rs)
    with p(3) have ps: "ps = [r]" by simp
    with s(3) obtain u where u: "unsigned = p @ CHR ''.'' # u" "split_at_char (CHR ''.'') u = [r]" by blast
    have "u = r" using split_at_char_Cons [of "CHR ''.''" u] u(2) by (metis list.inject)
    moreover have "list_all is_ascii_digit r"
      using assms unfolding canonical_decimal_def unsigned_def [symmetric] Let_def s(1) ps by (auto split: if_splits)
    ultimately show thesis using u(1) v p that [of negative p "Some r"] by (simp add: decimal_body_def)
  qed
qed

text \<open>The number a canonical decimal denotes, as a signed numerator over a power of ten.\<close>

definition decimal_ratio :: "string \<Rightarrow> int \<times> nat" where
  "decimal_ratio v =
     (let (negative, body) = split_sign v;
          (whole, rest) = span_digits body;
          fraction = (case rest of [] \<Rightarrow> [] | _ # f \<Rightarrow> f)
      in (signed negative (nat_of_digits 0 (whole @ fraction)), 10 ^ length fraction))"

lemma takeWhile_digits: "list_all is_ascii_digit w \<Longrightarrow> rest = [] \<or> \<not> is_ascii_digit (hd rest) \<Longrightarrow>
    takeWhile is_ascii_digit (w @ rest) = w \<and> dropWhile is_ascii_digit (w @ rest) = rest"
  by (induction w) (auto intro: list.exhaust [of rest] simp: takeWhile_eq_Nil_iff dropWhile_eq_self_iff)

lemma digit_range: "is_ascii_digit c \<Longrightarrow> (of_char c :: nat) \<in> {48..57}"
  by (simp add: is_ascii_digit_def)

lemma digit_not_letter:
  assumes "is_ascii_digit c"
  shows "c \<noteq> CHR ''-''" "c \<noteq> CHR ''+''" "c \<noteq> CHR ''.''" "c \<noteq> CHR ''i''" "c \<noteq> CHR ''n''"
  using digit_range [OF assms] by auto

lemma lowercase_digit: "is_ascii_digit c \<Longrightarrow> to_ascii_lowercase (c # cs) = c # to_ascii_lowercase cs"
  using digit_range [of c] by (auto simp: to_ascii_lowercase_def)

lemma parse_canonical:
  assumes "canonical_decimal v"
  obtains negative p q where "parse_f64 v = Some (f64_of_ratio negative p q)" "0 < q"
    "decimal_ratio v = (signed negative p, q)"
proof -
  from assms obtain negative whole fraction where
    v: "v = (if negative then ''-'' else []) @ decimal_body whole fraction"
    and whole: "whole \<noteq> []" "list_all is_ascii_digit whole"
    and fraction: "\<forall>f. fraction = Some f \<longrightarrow> list_all is_ascii_digit f"
    by (rule canonical_decimal_cases)
  let ?body = "decimal_body whole fraction"
  let ?f = "case fraction of None \<Rightarrow> [] | Some f \<Rightarrow> f"
  obtain c cs where cw: "whole = c # cs" "is_ascii_digit c" using whole by (cases whole) auto
  then obtain body where bodyc: "?body = c # body" by (simp add: decimal_body_def)
  have sign: "split_sign v = (negative, ?body)"
    using digit_not_letter [OF cw(2)] unfolding v bodyc by (simp add: split_sign_def)
  have lower: "to_ascii_lowercase ?body = c # to_ascii_lowercase body"
    unfolding bodyc by (rule lowercase_digit [OF cw(2)])
  have rest: "\<not> is_ascii_digit (CHR ''.'')" by (simp add: is_ascii_digit_def)
  have span: "span_digits ?body = (whole, case fraction of None \<Rightarrow> [] | Some f \<Rightarrow> CHR ''.'' # f)"
    using takeWhile_digits [OF whole(2)] rest whole(2)
    by (cases fraction) (simp_all add: span_digits_def decimal_body_def list_all_iff)
  have span_f: "span_digits f = (f, [])" if "fraction = Some f" for f
    using that fraction takeWhile_digits [of f "[]"] by (simp add: span_digits_def)
  have "parse_decimal negative ?body =
      Some (f64_of_ratio negative (nat_of_digits 0 (whole @ ?f)) (10 ^ length ?f))"
    using whole(1) unfolding parse_decimal_def span Let_def
    by (cases fraction) (simp_all add: span_f parse_exponent_def scaled_ratio_def)
  then have parse: "parse_f64 v = Some (f64_of_ratio negative (nat_of_digits 0 (whole @ ?f)) (10 ^ length ?f))"
    using digit_not_letter [OF cw(2)] by (simp add: parse_f64_def sign lower Let_def)
  moreover have "decimal_ratio v = (signed negative (nat_of_digits 0 (whole @ ?f)), 10 ^ length ?f)"
    unfolding decimal_ratio_def sign Let_def prod.case span by (cases fraction) simp_all
  ultimately show thesis using that [of negative "nat_of_digits 0 (whole @ ?f)" "10 ^ length ?f"] by simp
qed

lemma canonical_proper: "canonical_decimal d \<Longrightarrow> value_proper (V_Decimal d)"
  by (erule parse_canonical) (simp add: value_proper_def f64_of_ratio_not_nan)

section \<open>Typing of compiled conditions\<close>

lemma validate_value_clean: "cp_findings (validate_value v path st) = [] \<Longrightarrow> value_proper v \<and> cp_findings st = []"
  by (cases v) (simp_all add: validate_value_def value_proper_def canonical_proper [unfolded value_proper_def, simplified])

lemma compile_expression_clean:
  assumes "cp_findings (snd (compile_expression env e path st)) = []"
  shows "\<exists>x t. compile_expression env e path st = (Some (x, t), st) \<and>
     expression_type (doc_variables (env_document env)) x = Some t"
proof -
  have same: "snd (compile_expression env e path st) = st"
    using records_clean [OF records_compile_expression [OF rec.rel_refl] assms] .
  show ?thesis
  proof (cases e)
    case (E_Literal v)
    with assms have "cp_findings (validate_value v (path @ ''/value'') st) = []" by (simp add: compile_expression_def)
    then have "value_proper v" using validate_value_clean by blast
    with E_Literal same show ?thesis by (simp add: compile_expression_def)
  next
    case (E_Variable name)
    with assms show ?thesis by (auto simp: compile_expression_def split: option.splits)
  next
    case (E_Observation target field)
    obtain t st1 where f: "validate_observation_field (tr_capability target) field (path @ ''/field'') st = (t, st1)"
      by (cases "validate_observation_field (tr_capability target) field (path @ ''/field'') st")
    obtain ts st2 where r: "resolve_target env target (path @ ''/target'') st1 = (ts, st2)"
      by (cases "resolve_target env target (path @ ''/target'') st1")
    have "cp_findings st2 = []"
      using assms E_Observation f r by (auto simp: compile_expression_def split: option.splits if_splits)
    then have "cp_findings (snd (resolve_target env target (path @ ''/target'') st1)) = []" by (simp add: r)
    then obtain us where us: "resolve_target env target (path @ ''/target'') st1 = (Some us, st1)"
      "us \<noteq> []" "\<forall>u \<in> set us. rt_capability u = tr_capability target \<and> target_registered (env_snapshot env) u"
      by (rule resolved_capability)
    with r have st2: "st2 = st1" "ts = Some us" by simp_all
    with \<open>cp_findings st2 = []\<close> f obtain vt where o: "observation_field_type (tr_capability target) field = Some vt"
      by (auto simp: validate_observation_field_def split: option.splits)
    with f have vt: "t = Some vt" "st1 = st" by (simp_all add: validate_observation_field_def)
    note vt = vt o
    have "length us = 1"
      using assms E_Observation f r st2 vt by (auto simp: compile_expression_def split: if_splits)
    then obtain u where "us = [u]" by (auto simp: length_Suc_conv)
    then show ?thesis using E_Observation f r st2 vt us(3) by (simp add: compile_expression_def)
  qed
qed

lemma compile_comparison_clean:
  assumes "cp_findings (snd (compile_comparison env l op r path st)) = []"
  shows "\<exists>c. fst (compile_comparison env l op r path st) = Some c \<and>
     condition_typed cal (doc_variables (env_document env)) c"
proof -
  obtain ro st2 where er: "compile_expression env r (path @ ''/right'') (snd (compile_expression env l (path @ ''/left'') st)) = (ro, st2)"
    by (cases "compile_expression env r (path @ ''/right'') (snd (compile_expression env l (path @ ''/left'') st))")
  obtain lo st1 where el: "compile_expression env l (path @ ''/left'') st = (lo, st1)"
    by (cases "compile_expression env l (path @ ''/left'') st")
  have "cp_findings st2 = []"
    using assms er el by (auto simp: compile_comparison_def split: option.splits)
  with er el obtain b tb where b: "ro = Some (b, tb)" "st2 = st1"
    "expression_type (doc_variables (env_document env)) b = Some tb"
    using compile_expression_clean [of env r "path @ ''/right''" st1] by auto
  with \<open>cp_findings st2 = []\<close> el obtain a ta where a: "lo = Some (a, ta)"
    "expression_type (doc_variables (env_document env)) a = Some ta"
    using compile_expression_clean [of env l "path @ ''/left''" st] by auto
  from assms er el a b show ?thesis
    by (auto simp: compile_comparison_def)
qed

lemma compile_condition_clean:
  shows "cp_findings (snd (compile_condition env c path depth st)) = [] \<Longrightarrow>
      \<exists>r. fst (compile_condition env c path depth st) = Some r \<and>
        condition_typed (lib_calendar (env_library env)) (doc_variables (env_document env)) r"
    and "cp_findings (snd (compile_conditions env cs i path depth st)) = [] \<Longrightarrow>
      length (fst (compile_conditions env cs i path depth st)) = length cs \<and>
      list_all (condition_typed (lib_calendar (env_library env)) (doc_variables (env_document env)))
        (fst (compile_conditions env cs i path depth st))"
    and "cp_findings (snd (compile_condition_list env cs path depth st)) = [] \<Longrightarrow> cs \<noteq> [] \<and>
      (\<exists>rs. fst (compile_condition_list env cs path depth st) = Some rs \<and> rs \<noteq> [] \<and>
        list_all (condition_typed (lib_calendar (env_library env)) (doc_variables (env_document env))) rs)"
proof (induction env c path depth st and env cs i path depth st and env cs path depth st
    rule: compile_condition_compile_conditions_compile_condition_list.induct)
  case (1 env c path depth st)
  let ?max = "rb_maximum_nesting_depth (doc_budget (env_document env))"
  have d: "\<not> ?max < depth" using 1(5) by (rule contrapos_pn) (simp add: compile_condition.simps [of env c path depth st])
  note eq = compile_condition.simps [of env c path depth st, unfolded if_not_P [OF d]]
  show ?case
  proof (cases c)
    case (C_Literal b)
    show ?thesis unfolding eq unfolding C_Literal by simp
  next
    case (C_Compare l op r)
    show ?thesis using 1(5) compile_comparison_clean [of env l op r path st] unfolding eq unfolding C_Compare by simp
  next
    case (C_All cs)
    show ?thesis using 1(1) [OF d C_All] 1(5) unfolding eq unfolding C_All
      by (auto simp: case_prod_unfold Let_def simp del: compile_condition_list.simps)
  next
    case (C_Any cs)
    show ?thesis using 1(2) [OF d C_Any] 1(5) unfolding eq unfolding C_Any
      by (auto simp: case_prod_unfold Let_def simp del: compile_condition_list.simps)
  next
    case (C_Not e)
    show ?thesis using 1(3) [OF d C_Not] 1(5) unfolding eq unfolding C_Not by (auto simp: case_prod_unfold Let_def)
  next
    case (C_TimeWindow tz start end_time)
    show ?thesis using 1(5) unfolding eq unfolding C_TimeWindow by simp
  next
    case (C_StateDuration e ms)
    let ?st = "validate_timer ms (path @ ''/duration_ms'') st"
    have clean: "cp_findings (snd (compile_condition env e (path @ ''/condition'') (depth + 1) ?st)) = []"
      using 1(5) unfolding eq unfolding C_StateDuration by (simp add: case_prod_unfold Let_def)
    have "cp_findings ?st = []"
      by (rule records_findings [OF records_compile_condition(1) [OF rec.rel_refl] clean])
    then show ?thesis using 1(4) [OF d C_StateDuration] clean
      unfolding eq unfolding C_StateDuration by (auto simp: case_prod_unfold Let_def)
  qed
next
  case (3 env c cs i path depth st)
  obtain r st1 where c: "compile_condition env c (path @ ''/conditions/'' @ show_nat i) (depth + 1) st = (r, st1)"
    by (cases "compile_condition env c (path @ ''/conditions/'' @ show_nat i) (depth + 1) st")
  obtain rs st2 where cs: "compile_conditions env cs (Suc i) path depth st1 = (rs, st2)"
    by (cases "compile_conditions env cs (Suc i) path depth st1")
  have "cp_findings st1 = []" if "cp_findings st2 = []"
    using that records_findings [OF records_compile_condition(2) [OF rec.rel_refl], of env cs "Suc i" path depth st1] cs by simp
  with 3 c cs show ?case by auto
next
  case (4 env cs path depth st)
  obtain rs st2 where cs: "compile_conditions env cs 0 path depth
      (check (cs = []) (required (path @ ''/conditions'') ''condition list must not be empty'') st) = (rs, st2)"
    by (cases "compile_conditions env cs 0 path depth
      (check (cs = []) (required (path @ ''/conditions'') ''condition list must not be empty'') st)")
  have "cs \<noteq> []" if "cp_findings st2 = []"
  proof
    assume "cs = []"
    with cs that show False by (auto simp: check_def)
  qed
  with 4 cs show ?case by (auto simp: Let_def)
qed simp

section \<open>Plans under construction\<close>

text \<open>Every node number a node mentions.\<close>

definition option_refs :: "'a option \<Rightarrow> 'a list" where
  "option_refs m = (case m of None \<Rightarrow> [] | Some x \<Rightarrow> [x])"

fun failure_refs :: "AutomationPlanFailurePolicy \<Rightarrow> node_id list" where
  "failure_refs (PF_Fallback entry) = option_refs entry"
| "failure_refs _ = []"

fun node_refs :: "AutomationPlanNodeKind \<Rightarrow> node_id list" where
  "node_refs (N_Command _ _ _ _ f n) = failure_refs f @ option_refs n"
| "node_refs (N_Delay _ n) = option_refs n"
| "node_refs (N_Wait _ _ f n) = failure_refs f @ option_refs n"
| "node_refs (N_SetVariable _ _ n) = option_refs n"
| "node_refs (N_Branch _ t e j) = option_refs t @ option_refs e @ option_refs j"
| "node_refs (N_Parallel bs _ j) = bs @ option_refs j"
| "node_refs (N_Race bs _ j) = bs @ option_refs j"
| "node_refs (N_Join n) = option_refs n"
| "node_refs N_Complete = []"

text \<open>Nodes are numbered by position and mention only smaller numbers.\<close>

definition nodes_wf :: "AutomationPlanNode list \<Rightarrow> bool" where
  "nodes_wf ns \<longleftrightarrow> (\<forall>i < length ns. pn_id (ns ! i) = min u32_max i \<and> pn_order (ns ! i) = min u32_max i \<and>
     (\<forall>r \<in> set (node_refs (pn_kind (ns ! i))). r < i))"

text \<open>What a node promises once the compiler has no findings.\<close>

definition width_ok :: "CompilerEnv \<Rightarrow> node_id list \<Rightarrow> nat \<Rightarrow> bool" where
  "width_ok env entries width \<longleftrightarrow> 0 < width \<and> width \<le> length entries \<and>
     length entries \<le> rb_maximum_parallel_width (doc_budget (env_document env))"

definition command_ok ::
  "CompilerEnv \<Rightarrow> AutomationSafetyProfile set \<Rightarrow> AutomationSafetyRequirement set \<Rightarrow> ResolvedAutomationTarget list \<Rightarrow>
   CommandPayload \<Rightarrow> AutomationRetryPolicy \<Rightarrow> bool" where
  "command_ok env profiles reqs ts payload retry \<longleftrightarrow>
     ts \<noteq> [] \<and>
     (\<forall>t \<in> set ts. rt_capability t = CommandPayload_schema payload \<and> target_registered (env_snapshot env) t) \<and>
     CommandPayload_validate payload = Inr () \<and>
     rp_maximum_retries retry \<le> MAX_AUTOMATION_RETRIES \<and> rp_backoff_ms retry \<le> MAX_AUTOMATION_TIMER_MILLIS \<and>
     (if resolved_risk (env_snapshot env) ts = Some Security then Profile_Security \<in> profiles
      else if is_position payload then ComfortMotion \<in> profiles \<and> {FreshState, StopSupport} \<subseteq> reqs \<and>
        (is_go_to payload \<longrightarrow> {Calibration, Position_requirement} \<subseteq> reqs)
      else Profile_Comfort \<in> profiles)"

definition node_ok ::
  "CompilerEnv \<Rightarrow> AutomationSafetyProfile set \<Rightarrow> AutomationSafetyRequirement set \<Rightarrow> AutomationPlanNodeKind \<Rightarrow> bool" where
  "node_ok env profiles reqs k =
     (let cal = lib_calendar (env_library env); vars = doc_variables (env_document env) in
      case k of
        N_Command ts payload _ retry _ _ \<Rightarrow> command_ok env profiles reqs ts payload retry
      | N_Delay ms _ \<Rightarrow> \<not> timer_out_of_range ms
      | N_Wait c ms _ _ \<Rightarrow> \<not> timer_out_of_range ms \<and> condition_typed cal vars c
      | N_SetVariable name e _ \<Rightarrow>
          (case expression_type vars e of None \<Rightarrow> False | Some t \<Rightarrow> map_option vd_value_type (map_of vars name) = Some t)
      | N_Branch c _ _ _ \<Rightarrow> condition_typed cal vars c
      | N_Parallel entries width _ \<Rightarrow> width_ok env entries width
      | N_Race entries width _ \<Rightarrow> width_ok env entries width
      | _ \<Rightarrow> True)"

definition nodes_ok :: "CompilerEnv \<Rightarrow> Compiler \<Rightarrow> bool" where
  "nodes_ok env st \<longleftrightarrow>
     (\<forall>n \<in> set (cp_nodes st). node_ok env (cp_profiles st) (cp_requirements st) (pn_kind n))"

lemma command_ok_mono:
  "command_ok env p q ts payload retry \<Longrightarrow> p \<subseteq> p' \<Longrightarrow> q \<subseteq> q' \<Longrightarrow> command_ok env p' q' ts payload retry"
  unfolding command_ok_def by (auto split: if_splits)

lemma node_ok_mono: "node_ok env p q k \<Longrightarrow> p \<subseteq> p' \<Longrightarrow> q \<subseteq> q' \<Longrightarrow> node_ok env p' q' k"
  by (cases k) (simp_all add: node_ok_def Let_def command_ok_mono)

text \<open>The profiles a command with one of the known payload schemas can have.\<close>

definition schema_profiles :: "AutomationSafetyProfile set" where
  "schema_profiles = {Profile_Comfort, ComfortMotion, Profile_Security}"

definition extends :: "CompilerEnv \<Rightarrow> Compiler \<Rightarrow> Compiler \<Rightarrow> bool" where
  "extends env st st' \<longleftrightarrow>
     prefix (cp_findings st) (cp_findings st') \<and> prefix (cp_nodes st) (cp_nodes st') \<and>
     cp_profiles st \<subseteq> cp_profiles st' \<and> cp_requirements st \<subseteq> cp_requirements st' \<and>
     (nodes_wf (cp_nodes st) \<longrightarrow> nodes_wf (cp_nodes st')) \<and>
     (cp_findings st' = [] \<longrightarrow> cp_profiles st \<subseteq> schema_profiles \<longrightarrow> cp_profiles st' \<subseteq> schema_profiles) \<and>
     (cp_findings st' = [] \<longrightarrow> nodes_ok env st \<longrightarrow> nodes_ok env st')"

interpretation ext: state_preorder "extends env" for env
proof
  show "extends env s s" for s by (simp add: extends_def)
  fix s t u
  assume st: "extends env s t" and tu: "extends env t u"
  have clean: "cp_findings t = []" if "cp_findings u = []" using tu that by (simp add: extends_def)
  have "prefix (cp_findings s) (cp_findings u)" "prefix (cp_nodes s) (cp_nodes u)"
    using st tu prefix_order.trans unfolding extends_def by blast+
  moreover have "cp_profiles s \<subseteq> cp_profiles u" "cp_requirements s \<subseteq> cp_requirements u"
    using st tu unfolding extends_def by blast+
  ultimately show "extends env s u"
    using st tu clean by (simp add: extends_def)
qed

lemma extends_clean: "extends env st st' \<Longrightarrow> cp_findings st' = [] \<Longrightarrow> cp_findings st = []"
  by (simp add: extends_def)

lemma extends_length: "extends env st st' \<Longrightarrow> length (cp_nodes st) \<le> length (cp_nodes st')"
  by (simp add: extends_def prefix_length_le)

lemma records_extends: "records st st' \<Longrightarrow> extends env st st'"
  by (auto simp: records_def extends_def nodes_ok_def)

definition ref_ok :: "Compiler \<Rightarrow> node_id option \<Rightarrow> bool" where
  "ref_ok st r \<longleftrightarrow> (\<forall>x \<in> set (option_refs r). x < length (cp_nodes st))"

lemma ref_ok_extends: "ref_ok st r \<Longrightarrow> extends env st st' \<Longrightarrow> ref_ok st' r"
  unfolding ref_ok_def using extends_length by (meson less_le_trans)

lemma nodes_wf_snoc:
  assumes "nodes_wf ns" "\<forall>r \<in> set (node_refs k). r < length ns"
  shows "nodes_wf (ns @ [\<lparr>pn_id = min u32_max (length ns), pn_order = min u32_max (length ns), pn_kind = k\<rparr>])"
  using assms by (auto simp: nodes_wf_def nth_append less_Suc_eq)

lemma push_node_extends:
  assumes "\<forall>r \<in> set (node_refs k). r < length (cp_nodes st)"
    and "cp_findings st = [] \<Longrightarrow> node_ok env (cp_profiles st) (cp_requirements st) k"
  shows "extends env st (snd (push_node k st))" "ref_ok (snd (push_node k st)) (Some (fst (push_node k st)))"
proof -
  show "extends env st (snd (push_node k st))"
    using assms nodes_wf_snoc [OF _ assms(1)]
    by (auto simp: push_node_def extends_def nodes_ok_def Let_def)
  show "ref_ok (snd (push_node k st)) (Some (fst (push_node k st)))"
    by (auto simp: push_node_def ref_ok_def option_refs_def Let_def)
qed

lemma push_node_findings [simp]: "cp_findings (snd (push_node k st)) = cp_findings st"
  by (simp add: push_node_def Let_def)

text \<open>The schemas of command payloads name none of the words the classification looks for.\<close>

lemma lowercase_schema: "to_ascii_lowercase (CommandPayload_schema p) = CommandPayload_schema p"
  by (cases p) (simp_all add: to_ascii_lowercase_def)
lemma schema_words:
  assumes "w \<in> {''lock'', ''door'', ''valve'', ''flow'', ''camera'', ''security''}"
  shows "\<not> str_contains (to_ascii_lowercase (CommandPayload_schema p)) w"
  using assms unfolding lowercase_schema
  by (cases p) (auto simp: str_contains_def sublist_Cons_right)

lemma command_profile_schema:
  assumes "tr_capability target = CommandPayload_schema payload"
  shows "command_profile env target ts payload =
     (if resolved_risk (env_snapshot env) ts = Some Security then Profile_Security
      else if is_position payload then ComfortMotion else Profile_Comfort)"
  using schema_words [of _ payload] by (simp add: command_profile_def assms Let_def)

lemma classify_extends:
  assumes "cp_findings st = [] \<Longrightarrow> tr_capability target = CommandPayload_schema payload"
  shows "extends env st (classify_command env target ts payload path st)"
proof -
  let ?st = "classify_command env target ts payload path st"
  have fields: "prefix (cp_findings st) (cp_findings ?st)" "cp_nodes ?st = cp_nodes st"
    "cp_profiles ?st = insert (command_profile env target ts payload) (cp_profiles st)"
    "cp_requirements st \<subseteq> cp_requirements ?st"
    by (auto simp: classify_command_def Let_def require_def check_def finding_def)
  have profile: "command_profile env target ts payload \<in> schema_profiles" if "cp_findings ?st = []"
  proof -
    have "cp_findings st = []" using that fields(1) by simp
    then show ?thesis using command_profile_schema [OF assms] by (simp add: schema_profiles_def)
  qed
  have "nodes_ok env ?st" if "nodes_ok env st"
    unfolding nodes_ok_def fields(2)
  proof
    fix n
    assume "n \<in> set (cp_nodes st)"
    with that have "node_ok env (cp_profiles st) (cp_requirements st) (pn_kind n)" by (simp add: nodes_ok_def)
    then show "node_ok env (cp_profiles ?st) (cp_requirements ?st) (pn_kind n)"
      by (rule node_ok_mono) (use fields in auto)
  qed
  with fields profile show ?thesis unfolding extends_def by auto
qed

section \<open>The lowering extends the plan\<close>

definition lowered :: "CompilerEnv \<Rightarrow> Compiler \<Rightarrow> node_id option \<Rightarrow> node_id option \<times> Compiler \<Rightarrow> bool" where
  "lowered env st following q \<longleftrightarrow> extends env st (snd q) \<and> ref_ok (snd q) (fst q) \<and>
     (cp_findings (snd q) = [] \<longrightarrow> following \<noteq> None \<longrightarrow> fst q \<noteq> None)"

lemma loweredD:
  assumes "lowered env st following (r, st')"
  shows "extends env st st'" "ref_ok st' r" "cp_findings st' = [] \<Longrightarrow> following \<noteq> None \<Longrightarrow> r \<noteq> None"
  using assms by (auto simp: lowered_def)

text \<open>A node pushed at the end of a pass.\<close>

lemma lowered_push:
  assumes "extends env st st'" "\<forall>r \<in> set (node_refs k). r < length (cp_nodes st')"
    and "cp_findings st' = [] \<Longrightarrow> node_ok env (cp_profiles st') (cp_requirements st') k"
  shows "lowered env st following (let (i, st'') = push_node k st' in (Some i, st''))"
  using push_node_extends [OF assms(2,3)] ext.rel_trans [OF assms(1)]
  by (simp add: lowered_def case_prod_unfold Let_def)

lemma lowered_None:
  "extends env st st' \<Longrightarrow> cp_findings st' \<noteq> [] \<Longrightarrow> lowered env st following (None, st')"
  by (simp add: lowered_def ref_ok_def option_refs_def)

lemma lowered_trans: "extends env s st \<Longrightarrow> lowered env st following q \<Longrightarrow> lowered env s following q"
  unfolding lowered_def using ext.rel_trans by blast

lemma records_validate_command [compiler_records]:
  "records s st \<Longrightarrow> records s (validate_command target payload retry path st)"
  by (simp add: validate_command_def Let_def compiler_records split: sum.split)

lemma validate_command_clean:
  "cp_findings (validate_command target payload retry path st) = [] \<Longrightarrow>
     tr_capability target = CommandPayload_schema payload \<and> CommandPayload_validate payload = Inr () \<and>
     rp_maximum_retries retry \<le> MAX_AUTOMATION_RETRIES \<and> rp_backoff_ms retry \<le> MAX_AUTOMATION_TIMER_MILLIS"
  by (cases "CommandPayload_validate payload") (auto simp: validate_command_def Let_def)

lemma records_validate_group [compiler_records]:
  "records s st \<Longrightarrow> records s (validate_group env branches width path st)"
  by (simp add: validate_group_def Let_def compiler_records)

lemma validate_group_clean:
  "cp_findings (validate_group env branches width path st) = [] \<Longrightarrow>
     branches \<noteq> [] \<and> 0 < width \<and> width \<le> length branches \<and>
     length branches \<le> rb_maximum_parallel_width (doc_budget (env_document env))"
  by (auto simp: validate_group_def Let_def)

lemma classify_ok:
  assumes "cp_findings (classify_command env target ts payload path st) = []"
    and "tr_capability target = CommandPayload_schema payload" "ts \<noteq> []"
    and "\<forall>t \<in> set ts. rt_capability t = tr_capability target \<and> target_registered (env_snapshot env) t"
    and "CommandPayload_validate payload = Inr ()"
    and "rp_maximum_retries retry \<le> MAX_AUTOMATION_RETRIES" "rp_backoff_ms retry \<le> MAX_AUTOMATION_TIMER_MILLIS"
  shows "command_ok env (cp_profiles (classify_command env target ts payload path st))
     (cp_requirements (classify_command env target ts payload path st)) ts payload retry"
  using assms
  by (auto simp: command_ok_def classify_command_def Let_def command_profile_schema require_def check_def
      split: if_splits)

lemma lowered_assignment:
  assumes "ref_ok st following"
  shows "lowered env st following (compile_assignment env name ex following path st)"
proof -
  obtain e st1 where ce: "compile_expression env ex (path @ ''/value'') st = (e, st1)"
    by (cases "compile_expression env ex (path @ ''/value'') st")
  then have r1: "records st st1"
    using records_compile_expression [OF rec.rel_refl, of st env ex "path @ ''/value''"] by simp
  note e1 = records_extends [OF r1, of env]
  show ?thesis
  proof (cases "map_of (doc_variables (env_document env)) name")
    case None
    then show ?thesis
      using records_extends [OF records_named(4) [OF r1], of env]
      by (simp add: compile_assignment_def ce lowered_None)
  next
    case (Some def)
    show ?thesis
    proof (cases e)
      case None
      then have "cp_findings st1 \<noteq> []"
        using compile_expression_clean [of env ex "path @ ''/value''" st] ce by auto
      with None Some e1 show ?thesis by (simp add: compile_assignment_def ce lowered_None)
    next
      case (Some xt)
      obtain x t where xt: "xt = (x, t)" by (cases xt)
      let ?st = "check (vd_value_type def \<noteq> t)
          (type_mismatch (path @ ''/value'') ''assigned expression does not match the variable type'') st1"
      have r2: "records st ?st" by (simp add: compiler_records r1)
      have "\<forall>r \<in> set (node_refs (N_SetVariable name x following)). r < length (cp_nodes ?st)"
        using ref_ok_extends [OF assms records_extends [OF r2]] by (simp add: ref_ok_def)
      moreover have "node_ok env (cp_profiles ?st) (cp_requirements ?st) (N_SetVariable name x following)"
        if "cp_findings ?st = []"
        using that \<open>map_of _ name = Some def\<close> Some xt ce
          compile_expression_clean [of env ex "path @ ''/value''" st] by (auto simp: node_ok_def)
      ultimately have "lowered env st following (let (i, st'') = push_node (N_SetVariable name x following) ?st in (Some i, st''))"
        by (intro lowered_push records_extends r2)
      then show ?thesis using \<open>map_of _ name = Some def\<close> Some xt by (simp add: compile_assignment_def ce)
    qed
  qed
qed

lemma segment_extends [simp]: "extends env (st\<lparr>cp_next_segment := n\<rparr>) st' \<longleftrightarrow> extends env st st'"
  by (simp add: extends_def nodes_ok_def)

lemma segment_ref [simp]: "ref_ok (st\<lparr>cp_next_segment := n\<rparr>) r \<longleftrightarrow> ref_ok st r"
  by (simp add: ref_ok_def)

lemma segment_lowered [simp]: "lowered env (st\<lparr>cp_next_segment := n\<rparr>) following q \<longleftrightarrow> lowered env st following q"
  by (simp add: lowered_def)

lemma lowered_same: "ref_ok st following \<Longrightarrow> lowered env st following (following, st)"
  by (simp add: lowered_def ext.rel_refl)

lemma lowered_record: "records st st' \<Longrightarrow> ref_ok st following \<Longrightarrow> lowered env st following (following, st')"
  using records_extends ref_ok_extends by (auto simp: lowered_def)

lemma lowered_command:
  assumes st1: "st1 = validate_command target payload retry path st"
    and st2: "resolve_target env target (path @ ''/target'') st1 = (targets, st2)"
    and ext3: "extends env st2 st3" and refs: "\<forall>r \<in> set (failure_refs failure). r < length (cp_nodes st3)"
    and following: "ref_ok st following"
  shows "lowered env st following
     (case targets of
        None \<Rightarrow> (None, st3)
      | Some ts \<Rightarrow>
          (let (i, st4) = push_node (N_Command ts payload segment retry failure following)
                 (classify_command env target ts payload path st3)
           in (Some i, st4)))"
proof -
  have r1: "records st st1" by (simp add: st1 compiler_records rec.rel_refl)
  moreover have "records st1 st2"
    using records_resolve_target [OF rec.rel_refl, of st1 env target "path @ ''/target''"] by (simp add: st2)
  ultimately have ext2: "extends env st st2" using rec.rel_trans records_extends by blast
  then have ext: "extends env st st3" using ext3 by (rule ext.rel_trans)
  have clean1: "cp_findings st1 = []" if "cp_findings st3 = []"
    using that extends_clean [OF ext3] records_findings [OF \<open>records st1 st2\<close>] by blast
  show ?thesis
  proof (cases targets)
    case None
    have "cp_findings st3 \<noteq> []"
    proof
      assume "cp_findings st3 = []"
      with extends_clean [OF ext3] have "cp_findings (snd (resolve_target env target (path @ ''/target'') st1)) = []"
        by (simp add: st2)
      then show False by (rule resolved_capability) (simp add: st2 None)
    qed
    with None ext show ?thesis by (simp add: lowered_None)
  next
    case (Some ts)
    let ?st = "classify_command env target ts payload path st3"
    have cap: "tr_capability target = CommandPayload_schema payload" if "cp_findings st3 = []"
      using validate_command_clean [of target payload retry path st] clean1 [OF that] st1 by simp
    have class_ext: "extends env st3 ?st" using cap by (rule classify_extends)
    have ext4: "extends env st ?st" using ext class_ext by (rule ext.rel_trans)
    have "length (cp_nodes st3) \<le> length (cp_nodes ?st)" using extends_length [OF class_ext] .
    then have "\<forall>r \<in> set (node_refs (N_Command ts payload segment retry failure following)). r < length (cp_nodes ?st)"
      using refs ref_ok_extends [OF following ext4] by (auto simp: ref_ok_def)
    moreover have "node_ok env (cp_profiles ?st) (cp_requirements ?st) (N_Command ts payload segment retry failure following)"
      if clean: "cp_findings ?st = []"
    proof -
      have c3: "cp_findings st3 = []" using extends_clean [OF class_ext clean] .
      have "cp_findings (snd (resolve_target env target (path @ ''/target'') st1)) = []"
        using extends_clean [OF ext3 c3] by (simp add: st2)
      then obtain us where "resolve_target env target (path @ ''/target'') st1 = (Some us, st1)" "us \<noteq> []"
        "\<forall>t \<in> set us. rt_capability t = tr_capability target \<and> target_registered (env_snapshot env) t"
        by (rule resolved_capability)
      then have "ts \<noteq> []" "\<forall>t \<in> set ts. rt_capability t = tr_capability target \<and> target_registered (env_snapshot env) t"
        using Some st2 by simp_all
      then show ?thesis
        using classify_ok [OF clean] validate_command_clean [of target payload retry path st] clean1 [OF c3]
        by (simp add: node_ok_def st1)
    qed
    ultimately show ?thesis using Some lowered_push [OF ext4] by simp
  qed
qed

definition group_entries_ok :: "CompilerEnv \<Rightarrow> Compiler \<Rightarrow> AutomationAction list list \<Rightarrow> node_id list \<times> Compiler \<Rightarrow> bool" where
  "group_entries_ok env st bs q \<longleftrightarrow> extends env st (snd q) \<and>
     (\<forall>e \<in> set (fst q). e < length (cp_nodes (snd q))) \<and>
     (cp_findings (snd q) = [] \<longrightarrow> length (fst q) = length bs)"

lemma lowered_group:
  assumes following: "ref_ok st following"
    and join: "push_node (N_Join following) (validate_group env branches width path st) = (join, st1)"
    and entries: "group_entries_ok env st1 branches (entries, st2)"
    and kind: "kind = N_Parallel entries width (Some join) \<or> kind = N_Race entries width (Some join)"
  shows "lowered env st following (let (i, st3) = push_node kind st2 in (Some i, st3))"
proof -
  let ?st0 = "validate_group env branches width path st"
  have r0: "records st ?st0" by (simp add: compiler_records rec.rel_refl)
  have refs0: "\<forall>r \<in> set (node_refs (N_Join following)). r < length (cp_nodes ?st0)"
    using ref_ok_extends [OF following records_extends [OF r0]] by (simp add: ref_ok_def)
  have push0: "extends env ?st0 st1" "ref_ok st1 (Some join)"
    using push_node_extends [OF refs0, of env] join by (simp_all add: node_ok_def)
  have e12: "extends env st1 st2" and ents: "\<forall>e \<in> set entries. e < length (cp_nodes st2)"
    and len: "cp_findings st2 = [] \<Longrightarrow> length entries = length branches"
    using entries by (simp_all add: group_entries_ok_def)
  have ext: "extends env st st2"
    using records_extends [OF r0] push0(1) e12 ext.rel_trans by blast
  have "\<forall>r \<in> set (node_refs kind). r < length (cp_nodes st2)"
    using kind ents ref_ok_extends [OF push0(2) e12] by (auto simp: ref_ok_def)
  moreover have "node_ok env (cp_profiles st2) (cp_requirements st2) kind" if "cp_findings st2 = []"
  proof -
    have "cp_findings ?st0 = []" using extends_clean [OF ext.rel_trans [OF push0(1) e12] that] .
    then show ?thesis
      using validate_group_clean [of env branches width path st] len [OF that] kind
      by (auto simp: node_ok_def width_ok_def)
  qed
  ultimately show ?thesis by (intro lowered_push [OF ext]) auto
qed

lemma lowered_branch:
  assumes following: "ref_ok st following" and r0: "records st st0"
    and join: "push_node (N_Join following) st0 = (join, st1)"
    and t: "lowered env st1 (Some join) (then_node, st2)"
    and e: "lowered env st2 (Some join) (else_node, st3)"
    and c: "compile_condition env cond path depth st3 = (condition, st4)"
  shows "lowered env st following (case condition of
      None \<Rightarrow> (None, st4)
    | Some r \<Rightarrow> (let (i, st5) = push_node (N_Branch r then_node else_node (Some join)) st4 in (Some i, st5)))"
proof -
  have refs0: "\<forall>r \<in> set (node_refs (N_Join following)). r < length (cp_nodes st0)"
    using ref_ok_extends [OF following records_extends [OF r0]] by (simp add: ref_ok_def)
  have push0: "extends env st0 st1" "ref_ok st1 (Some join)"
    using push_node_extends [OF refs0, of env] join by (simp_all add: node_ok_def)
  have "records st3 st4"
    using records_compile_condition(1) [OF rec.rel_refl, of st3 env cond path depth] c by simp
  then have e34: "extends env st3 st4" by (rule records_extends)
  note e12 = loweredD(1) [OF t] and e23 = loweredD(1) [OF e]
  have ext: "extends env st st4"
    using records_extends [OF r0] push0(1) e12 e23 e34 ext.rel_trans by blast
  show ?thesis
  proof (cases condition)
    case None
    then have "cp_findings st4 \<noteq> []" using compile_condition_clean(1) [of env cond path depth st3] c by auto
    with None ext show ?thesis by (simp add: lowered_None)
  next
    case (Some r)
    have "ref_ok st4 then_node" "ref_ok st4 else_node" "ref_ok st4 (Some join)"
      using ref_ok_extends loweredD(2) [OF t] loweredD(2) [OF e] push0(2) e12 e23 e34 ext.rel_trans by blast+
    then have "\<forall>x \<in> set (node_refs (N_Branch r then_node else_node (Some join))). x < length (cp_nodes st4)"
      by (auto simp: ref_ok_def)
    moreover have "node_ok env (cp_profiles st4) (cp_requirements st4) (N_Branch r then_node else_node (Some join))"
      if "cp_findings st4 = []"
      using that compile_condition_clean(1) [of env cond path depth st3] c Some by (auto simp: node_ok_def)
    ultimately show ?thesis using Some lowered_push [OF ext] by simp
  qed
qed

lemma lowered_wait:
  assumes following: "ref_ok st following"
    and c: "compile_condition env cond cpath depth (validate_timer ms tpath st) = (condition, st1)"
    and ext2: "extends env st1 st2" and refs: "\<forall>r \<in> set (failure_refs policy). r < length (cp_nodes st2)"
  shows "lowered env st following (case condition of
      None \<Rightarrow> (None, st2)
    | Some r \<Rightarrow> (let (i, st3) = push_node (N_Wait r ms policy following) st2 in (Some i, st3)))"
proof -
  let ?st0 = "validate_timer ms tpath st"
  have r1: "records st st1"
    using records_compile_condition(1) [of st ?st0 env cond cpath depth] c by (simp add: compiler_records rec.rel_refl)
  have ext: "extends env st st2" using records_extends [OF r1] ext2 by (rule ext.rel_trans)
  have r01: "records ?st0 st1"
    using records_compile_condition(1) [OF rec.rel_refl, of ?st0 env cond cpath depth] c by simp
  show ?thesis
  proof (cases condition)
    case None
    then have "cp_findings st2 \<noteq> []"
      using compile_condition_clean(1) [of env cond cpath depth ?st0] c extends_clean [OF ext2] by auto
    with None ext show ?thesis by (simp add: lowered_None)
  next
    case (Some r)
    have "\<forall>x \<in> set (node_refs (N_Wait r ms policy following)). x < length (cp_nodes st2)"
      using refs ref_ok_extends [OF following ext] by (auto simp: ref_ok_def)
    moreover have "node_ok env (cp_profiles st2) (cp_requirements st2) (N_Wait r ms policy following)"
      if "cp_findings st2 = []"
      using compile_condition_clean(1) [of env cond cpath depth ?st0] c Some extends_clean [OF ext2 that]
        records_findings [OF r01] by (auto simp: node_ok_def)
    ultimately show ?thesis using Some lowered_push [OF ext] by simp
  qed
qed


declare compile_actions.simps [simp del]

definition policy_lowered ::
  "CompilerEnv \<Rightarrow> Compiler \<Rightarrow> AutomationPlanFailurePolicy \<times> Compiler \<Rightarrow> bool" where
  "policy_lowered env st q \<longleftrightarrow> extends env st (snd q) \<and>
     (\<forall>r \<in> set (failure_refs (fst q)). r < length (cp_nodes (snd q)))"

lemma join_ref_ok:
  assumes "ref_ok st following" "records st st0" "push_node (N_Join following) st0 = (join, st1)"
  shows "ref_ok st1 (Some join)"
proof -
  have "\<forall>r \<in> set (node_refs (N_Join following)). r < length (cp_nodes st0)"
    using ref_ok_extends [OF assms(1) records_extends [OF assms(2)]] by (simp add: ref_ok_def)
  then show ?thesis using push_node_extends(2) [of "N_Join following" st0] assms(3) by (simp add: node_ok_def)
qed

lemma group_entries_Cons:
  assumes "extends env st st1" "lowered env st1 (Some join) (entry, st2)" "group_entries_ok env st2 bs (entries, st3)"
  shows "group_entries_ok env st (b # bs) (case entry of None \<Rightarrow> entries | Some e \<Rightarrow> e # entries, st3)"
proof -
  note e12 = loweredD(1) [OF assms(2)]
  have e23: "extends env st2 st3" using assms(3) by (simp add: group_entries_ok_def)
  have "extends env st st3" using assms(1) e12 e23 ext.rel_trans by blast
  moreover have "ref_ok st3 entry" using ref_ok_extends [OF loweredD(2) [OF assms(2)] e23] .
  moreover have "entry \<noteq> None" if "cp_findings st3 = []"
    using loweredD(3) [OF assms(2)] extends_clean [OF e23 that] by simp
  ultimately show ?thesis
    using assms(3) by (auto simp: group_entries_ok_def ref_ok_def option_refs_def split: option.splits)
qed

text \<open>The lowering as a whole, by induction over its calls.\<close>

lemma compile_lowered:
  shows "ref_ok st following \<Longrightarrow> lowered env st following (compile_actions env as following path depth st)"
    and "ref_ok st following \<Longrightarrow> lowered env st following (compile_sequence env as segs i following path depth st)"
    and "ref_ok st following \<Longrightarrow> lowered env st following (compile_action env a following path depth seg st)"
    and "ref_ok st (Some join) \<Longrightarrow> group_entries_ok env st bs (compile_branches env bs i join path depth st)"
    and "ref_ok st following \<Longrightarrow> policy_lowered env st (compile_failure env f following path depth st)"
proof (induction env as following path depth st and env as segs i following path depth st and
    env a following path depth seg st and env bs i join path depth st and env f following path depth st
    rule: compile_actions_compile_sequence_compile_action_compile_branches_compile_failure.induct)
  case (1 env actions following path depth st)
  show ?case
  proof (cases "rb_maximum_nesting_depth (doc_budget (env_document env)) < depth")
    case True
    have "records st (bound path ''action nesting exceeds the declared depth budget'' st)"
      by (simp add: compiler_records rec.rel_refl)
    with True 1(2) show ?thesis by (simp add: compile_actions.simps lowered_record)
  next
    case False
    obtain segments fresh where s: "assign_segments None (cp_next_segment st) actions = (segments, fresh)"
      by (cases "assign_segments None (cp_next_segment st) actions")
    with 1 False show ?thesis by (simp add: compile_actions.simps)
  qed
next
  case (2 env segments i following path depth st)
  then show ?case by (simp add: lowered_same)
next
  case (3 env a as segments i following path depth st)
  obtain rest st1 where s: "compile_sequence env as segments (Suc i) following path depth st = (rest, st1)"
    by (cases "compile_sequence env as segments (Suc i) following path depth st")
  have l1: "lowered env st following (rest, st1)" using 3 s by simp
  have "lowered env st1 rest (compile_action env a rest (path @ ''/'' @ show_nat i) depth (segments ! i) st1)"
    using 3(2) [OF s [symmetric] refl] loweredD(2) [OF l1] by simp
  then show ?case
    using l1 ext.rel_trans extends_clean s by (auto simp: lowered_def)
next
  case (4 env target payload retry on_failure following path depth segment st)
  obtain targets st2 where r: "resolve_target env target (path @ ''/target'') (validate_command target payload retry path st) = (targets, st2)"
    by (cases "resolve_target env target (path @ ''/target'') (validate_command target payload retry path st)")
  obtain failure st3 where f: "compile_failure env on_failure following (path @ ''/on_failure'') (Suc depth) st2 = (failure, st3)"
    by (cases "compile_failure env on_failure following (path @ ''/on_failure'') (Suc depth) st2")
  have "records st st2"
    using records_resolve_target [of st "validate_command target payload retry path st" env target "path @ ''/target''"] r
    by (simp add: compiler_records rec.rel_refl)
  then have "ref_ok st2 following" using 4(2) records_extends ref_ok_extends by blast
  then have "policy_lowered env st2 (failure, st3)" using 4(1) [OF refl r [symmetric] refl] f by simp
  then have "extends env st2 st3" "\<forall>x \<in> set (failure_refs failure). x < length (cp_nodes st3)"
    by (simp_all add: policy_lowered_def)
  from lowered_command [OF refl r this 4(2)] show ?case by (simp add: r f)
next
  case (5 env ms following path depth segment st)
  have "records st (validate_timer ms (path @ ''/duration_ms'') st)" by (simp add: compiler_records rec.rel_refl)
  note e = records_extends [OF this, of env]
  show ?case
    unfolding compile_action.simps
    by (rule lowered_push [OF e]) (use ref_ok_extends [OF 5 e] in \<open>simp_all add: ref_ok_def node_ok_def\<close>)
next
  case (6 env c ms on_timeout following path depth segment st)
  obtain condition st1 where c: "compile_condition env c (path @ ''/condition'') (Suc depth)
      (validate_timer ms (path @ ''/timeout_ms'') st) = (condition, st1)"
    by (cases "compile_condition env c (path @ ''/condition'') (Suc depth) (validate_timer ms (path @ ''/timeout_ms'') st)")
  obtain policy st2 where f: "compile_failure env on_timeout following (path @ ''/on_timeout'') (Suc depth) st1 = (policy, st2)"
    by (cases "compile_failure env on_timeout following (path @ ''/on_timeout'') (Suc depth) st1")
  have "records st st1"
    using records_compile_condition(1) [of st "validate_timer ms (path @ ''/timeout_ms'') st" env c "path @ ''/condition''" "Suc depth"] c
    by (simp add: compiler_records rec.rel_refl)
  then have "ref_ok st1 following" using 6(2) records_extends ref_ok_extends by blast
  then have "policy_lowered env st1 (policy, st2)" using 6(1) [folded Suc_eq_plus1, OF c [symmetric] refl] f by simp
  then have "extends env st1 st2" "\<forall>x \<in> set (failure_refs policy). x < length (cp_nodes st2)"
    by (simp_all add: policy_lowered_def)
  from lowered_wait [OF 6(2) c this] show ?case by (simp add: c f)
next
  case (7 env name ex following path depth segment st)
  then show ?case by (simp add: lowered_assignment)
next
  case (8 env actions following path depth segment st)
  then show ?case by simp
next
  case (9 env c then_actions else_actions following path depth segment st)
  let ?st1 = "check (is_literal c)
        (finding ImpossibleBranch (path @ ''/condition'') ''literal condition makes one branch unreachable''
           (Some ''Remove the unreachable branch or use a dynamic condition'') None) st"
  have r0: "records st ?st1" by (simp add: compiler_records rec.rel_refl)
  obtain join st2 where j: "push_node (N_Join following) ?st1 = (join, st2)" by (cases "push_node (N_Join following) ?st1")
  obtain then_node st3 where t: "compile_actions env (reduce_actions then_actions) (Some join) (path @ ''/then_actions'') (Suc depth) st2 = (then_node, st3)"
    by (cases "compile_actions env (reduce_actions then_actions) (Some join) (path @ ''/then_actions'') (Suc depth) st2")
  obtain else_node st4 where e: "compile_actions env (reduce_actions else_actions) (Some join) (path @ ''/else_actions'') (Suc depth) st3 = (else_node, st4)"
    by (cases "compile_actions env (reduce_actions else_actions) (Some join) (path @ ''/else_actions'') (Suc depth) st3")
  obtain condition st5 where c: "compile_condition env c (path @ ''/condition'') (Suc depth) st4 = (condition, st5)"
    by (cases "compile_condition env c (path @ ''/condition'') (Suc depth) st4")
  have rj: "ref_ok st2 (Some join)" by (rule join_ref_ok [OF 9(3) r0 j])
  have lt: "lowered env st2 (Some join) (then_node, st3)" using 9(1) [folded Suc_eq_plus1, OF refl j [symmetric] refl rj] t by simp
  have le: "lowered env st3 (Some join) (else_node, st4)"
    using 9(2) [folded Suc_eq_plus1, OF refl j [symmetric] refl t [symmetric] refl] ref_ok_extends [OF rj loweredD(1) [OF lt]] e by simp
  from lowered_branch [OF 9(3) r0 j lt le c] show ?case by (simp add: j t e c)
next
  case (10 env branches width following path depth segment st)
  obtain join st1 where j: "push_node (N_Join following) (validate_group env branches width path st) = (join, st1)"
    by (cases "push_node (N_Join following) (validate_group env branches width path st)")
  obtain entries st2 where b: "compile_branches env branches 0 join path depth st1 = (entries, st2)"
    by (cases "compile_branches env branches 0 join path depth st1")
  have "group_entries_ok env st1 branches (entries, st2)"
    using 10(1) [OF j [symmetric] refl join_ref_ok [OF 10(2) _ j]] b by (simp add: compiler_records rec.rel_refl)
  from lowered_group [OF 10(2) j this] show ?case by (simp add: j b)
next
  case (11 env branches width following path depth segment st)
  obtain join st1 where j: "push_node (N_Join following) (validate_group env branches width path st) = (join, st1)"
    by (cases "push_node (N_Join following) (validate_group env branches width path st)")
  obtain entries st2 where b: "compile_branches env branches 0 join path depth st1 = (entries, st2)"
    by (cases "compile_branches env branches 0 join path depth st1")
  have "group_entries_ok env st1 branches (entries, st2)"
    using 11(1) [OF j [symmetric] refl join_ref_ok [OF 11(2) _ j]] b by (simp add: compiler_records rec.rel_refl)
  from lowered_group [OF 11(2) j this] show ?case by (simp add: j b)
next
  case (12 env i join path depth st)
  then show ?case by (simp add: group_entries_ok_def ext.rel_refl)
next
  case (13 env b bs i join path depth st)
  let ?path = "path @ ''/branches/'' @ show_nat i"
  let ?st1 = "check (b = []) (required ?path ''parallel branch must not be empty'') st"
  have r: "records st ?st1" by (simp add: compiler_records rec.rel_refl)
  obtain entry st2 where a: "compile_actions env (reduce_actions b) (Some join) ?path (Suc depth) ?st1 = (entry, st2)"
    by (cases "compile_actions env (reduce_actions b) (Some join) ?path (Suc depth) ?st1")
  obtain entries st3 where bs: "compile_branches env bs (Suc i) join path depth st2 = (entries, st3)"
    by (cases "compile_branches env bs (Suc i) join path depth st2")
  have rj: "ref_ok ?st1 (Some join)" using 13(3) records_extends [OF r] ref_ok_extends by blast
  have l: "lowered env ?st1 (Some join) (entry, st2)" using 13(1) [folded Suc_eq_plus1, OF refl rj] a by simp
  have g: "group_entries_ok env st2 bs (entries, st3)"
    using 13(2) [folded Suc_eq_plus1, OF refl a [symmetric] refl] ref_ok_extends [OF rj loweredD(1) [OF l]] bs by simp
  show ?case
    unfolding compile_branches.simps Let_def Suc_eq_plus1 [symmetric] a bs prod.case
    by (rule group_entries_Cons [OF records_extends [OF r] l g])
next
  case (17 env actions following path depth st)
  let ?st1 = "check (actions = []) (required (path @ ''/actions'') ''fallback actions must not be empty'') st"
  have r: "records st ?st1" by (simp add: compiler_records rec.rel_refl)
  obtain entry st2 where a: "compile_actions env (reduce_actions actions) following (path @ ''/actions'') depth ?st1 = (entry, st2)"
    by (cases "compile_actions env (reduce_actions actions) following (path @ ''/actions'') depth ?st1")
  have "lowered env ?st1 following (entry, st2)"
    using 17(1) [OF refl] ref_ok_extends [OF 17(2) records_extends [OF r]] a by simp
  then show ?case
    using ext.rel_trans [OF records_extends [OF r]] by (simp add: a policy_lowered_def lowered_def ref_ok_def)
qed (simp_all add: policy_lowered_def ext.rel_refl)

section \<open>Structural validation\<close>

lemma records_validate_variable [compiler_records]: "records s st \<Longrightarrow> records s (validate_variable x st)"
  by (simp add: validate_variable_def Let_def case_prod_unfold compiler_records split: option.split)

lemma records_validate_structure [compiler_records]: "records s st \<Longrightarrow> records s (validate_structure env st)"
proof -
  assume r: "records s st"
  have fold: "records t (fold validate_variable xs t)" for xs t
    by (rule rec.rel_fold) (simp add: compiler_records rec.rel_refl)
  show ?thesis
    unfolding validate_structure_def Let_def
    by (rule rec.rel_trans [OF _ fold])
      (simp add: validate_run_mode_def validate_serialized_def r compiler_records
        split: AutomationRunMode.split sum.split)
qed

lemma fold_clean:
  assumes "\<And>x s. records s (f x s)" "cp_findings (fold f xs st) = []"
  shows "cp_findings st = [] \<and> (\<forall>x \<in> set xs. cp_findings (f x st) = [])"
  using assms(2)
proof (induction xs arbitrary: st)
  case (Cons x xs)
  have *: "cp_findings (f x st) = []" "\<forall>y \<in> set xs. cp_findings (f y (f x st)) = []"
    using Cons.IH [of "f x st"] Cons.prems by simp_all
  have "f x st = st" by (rule records_clean [OF assms(1) *(1)])
  with * show ?case by simp
qed simp

definition variable_ok :: "string \<times> AutomationVariableDefinition \<Rightarrow> bool" where
  "variable_ok x = (case vd_initial (snd x) of
       None \<Rightarrow> True
     | Some v \<Rightarrow> value_proper v \<and> AutomationValue_value_type v = vd_value_type (snd x))"

lemma validate_variable_clean: "cp_findings (validate_variable x st) = [] \<Longrightarrow> variable_ok x"
  by (auto simp: validate_variable_def variable_ok_def Let_def case_prod_unfold split: option.splits
      dest: validate_value_clean)

lemma validate_structure_clean:
  assumes "cp_findings (validate_structure env st) = []"
  shows "AutomationResourceBudget_validate (doc_budget (env_document env)) = Inr () \<and>
    list_all variable_ok (doc_variables (env_document env)) \<and>
    doc_triggers (env_document env) \<noteq> [] \<and> doc_actions (env_document env) \<noteq> []"
proof -
  let ?doc = "env_document env"
  have *: "\<And>x s. records s (validate_variable x s)" by (simp add: compiler_records rec.rel_refl)
  note fold = fold_clean [of validate_variable, OF *]
  from assms have vars: "\<forall>x \<in> set (doc_variables ?doc). variable_ok x"
    unfolding validate_structure_def Let_def by (blast dest: fold validate_variable_clean)
  from assms have "cp_findings (validate_run_mode ?doc
      (case AutomationResourceBudget_validate (doc_budget ?doc) of
         Inl e \<Rightarrow> finding ResourceBoundExceeded (''/budget/'' @ budget_field e)
           ''declared budget is zero or exceeds the engine limit''
           (Some ''Choose a positive value within the documented engine bound'') None
           (check (doc_actions ?doc = []) (required ''/actions'' ''at least one action is required'')
             (check (doc_triggers ?doc = []) (required ''/triggers'' ''at least one trigger is required'') s))
       | Inr _ \<Rightarrow> check (doc_actions ?doc = []) (required ''/actions'' ''at least one action is required'')
             (check (doc_triggers ?doc = []) (required ''/triggers'' ''at least one trigger is required'') s))) = []"
    if "s = check (trim_is_empty (prov_rationale (doc_provenance ?doc)))
              (required ''/provenance/rationale'' ''rationale must not be empty'')
            (check (trim_is_empty (prov_source_request (doc_provenance ?doc)))
              (required ''/provenance/source_request'' ''source request must not be empty'')
            (check (trim_is_empty (doc_name ?doc)) (required ''/name'' ''automation name must not be empty'')
              (validate_serialized env st)))" for s
    unfolding validate_structure_def Let_def that by (blast dest: fold)
  then have "AutomationResourceBudget_validate (doc_budget ?doc) = Inr () \<and> doc_triggers ?doc \<noteq> [] \<and> doc_actions ?doc \<noteq> []"
    by (auto simp: validate_run_mode_def split: AutomationRunMode.splits sum.splits)
  with vars show ?thesis by (simp add: list_all_iff)
qed

lemma records_compile_trigger [compiler_records]: "records s st \<Longrightarrow> records s (snd (compile_trigger env path t st))"
  by (simp add: compile_trigger_def Let_def case_prod_unfold validate_schedule_def compiler_records
      split: AutomationTrigger.split option.split)

lemma records_compile_triggers_from [compiler_records]:
  "records s st \<Longrightarrow> records s (snd (compile_triggers_from env i ts st))"
  by (induction ts arbitrary: i st) (simp_all add: case_prod_unfold compiler_records Let_def)

end
