(* ===== verification/Compiler_Properties.thy ===== *)
theory Compiler_Properties
  imports Compiler_Correctness
begin

text \<open>
  The properties of the automation compiler: the shape of its plans, the approval it asks for,
  the reduction of adjacent commands, target resolution and the comparison of decimals. A small
  document over one or two lamps instantiates them.
\<close>

section \<open>Successful compilations\<close>

definition compile_env :: "AutomationLibrary \<Rightarrow> AutomationDocument \<Rightarrow> FoundationSnapshot \<Rightarrow> CompilerEnv" where
  "compile_env lib doc snapshot = \<lparr>env_library = lib, env_document = doc, env_snapshot = snapshot\<rparr>"

lemma compile_env_sel [simp]:
  "env_library (compile_env lib doc snapshot) = lib" "env_document (compile_env lib doc snapshot) = doc"
  "env_snapshot (compile_env lib doc snapshot) = snapshot"
  by (simp_all add: compile_env_def)

lemma compile_success:
  assumes "AutomationCompiler_compile lib doc snapshot = Inr plan"
  obtains triggers condition entry st hash plan_hash where
    "compile_passes (compile_env lib doc snapshot) = (triggers, condition, Some entry, st)"
    "cp_findings st = []"
    "plan = (assemble_plan (compile_env lib doc snapshot) triggers condition entry hash st)\<lparr>pl_plan_hash := plan_hash\<rparr>"
    "canonical_automation_hash lib doc = Inr hash"
    "canonical_automation_plan_hash lib plan = Inr plan_hash"
proof -
  obtain triggers condition entry st where p:
    "compile_passes (compile_env lib doc snapshot) = (triggers, condition, entry, st)"
    by (cases "compile_passes (compile_env lib doc snapshot)")
  have "canonical_automation_plan_hash lib (x\<lparr>pl_plan_hash := h\<rparr>) = canonical_automation_plan_hash lib x" for x h
    by (simp add: canonical_automation_plan_hash_def)
  with assms p that show thesis
    unfolding AutomationCompiler_compile_def compile_env_def [symmetric] Let_def
    by (auto split: if_splits option.splits sum.splits)
qed

definition plan_wf :: "AutomationExecutionPlan \<Rightarrow> bool" where
  "plan_wf plan \<longleftrightarrow>
     (\<forall>i < length (pl_nodes plan). pn_id (pl_nodes plan ! i) = i \<and> pn_order (pl_nodes plan ! i) = i \<and>
        (\<forall>r \<in> set (node_refs (pn_kind (pl_nodes plan ! i))). r < i)) \<and>
     pl_entry plan < length (pl_nodes plan)"

lemma sort_key_sorted: "sorted (map f xs) \<Longrightarrow> sort_key f xs = xs"
  by (induction xs) (auto simp: insort_is_Cons)

lemma nodes_wf_sorted: "nodes_wf ns \<Longrightarrow> sort_key pn_id ns = ns"
  by (rule sort_key_sorted) (auto simp: nodes_wf_def sorted_iff_nth_mono)

lemma compile_passes_ok:
  assumes passes: "compile_passes env = (triggers, condition, entry, st)" and clean: "cp_findings st = []"
  shows "nodes_wf (cp_nodes st)" "nodes_ok env st" "entry \<noteq> None" "ref_ok st entry"
    "length (cp_nodes st) \<le> rb_maximum_nodes (doc_budget (env_document env))"
    "AutomationResourceBudget_validate (doc_budget (env_document env)) = Inr ()"
    "list_all variable_ok (doc_variables (env_document env))"
    "\<forall>c. condition = Some c \<longrightarrow> condition_typed (lib_calendar (env_library env)) (doc_variables (env_document env)) c"
    "condition = None \<longleftrightarrow> doc_condition (env_document env) = None"
    "cp_profiles st \<subseteq> schema_profiles"
proof -
  let ?doc = "env_document env"
  define st0 where "st0 = validate_structure env Compiler_new"
  obtain st1 where t: "compile_triggers env st0 = (triggers, st1)"
    using passes by (auto simp: compile_passes_def Let_def st0_def split: prod.splits)
  define cst where "cst = (case doc_condition ?doc of None \<Rightarrow> (None, st1) | Some c \<Rightarrow> compile_condition env c ''/condition'' 1 st1)"
  obtain st2 where c: "cst = (condition, st2)"
    using passes t by (auto simp: compile_passes_def Let_def st0_def cst_def split: prod.splits)
  obtain complete st3 where k: "push_node N_Complete st2 = (complete, st3)" by (cases "push_node N_Complete st2")
  obtain e st4 where a: "compile_actions env (reduce_actions (doc_actions ?doc)) (Some complete) ''/actions'' 1 st3 = (e, st4)"
    by (cases "compile_actions env (reduce_actions (doc_actions ?doc)) (Some complete) ''/actions'' 1 st3")
  have fin: "entry = e" "st = check (rb_maximum_nodes (doc_budget ?doc) < length (cp_nodes st4))
            (finding ResourceBoundExceeded ''/budget/maximum_nodes'' ''compiled plan exceeds the declared node budget''
               (Some ''Increase maximum_nodes or simplify the automation'') None) st4"
    using passes t c k a unfolding compile_passes_def Let_def st0_def [symmetric] t prod.case cst_def [symmetric]
    by (simp_all del: One_nat_def)
  with clean have c4: "cp_findings st4 = []" "st = st4"
    and len: "length (cp_nodes st4) \<le> rb_maximum_nodes (doc_budget ?doc)" by (auto simp: check_def split: if_splits)
  have r0: "records Compiler_new st0" by (simp add: st0_def compiler_records rec.rel_refl)
  have r1: "records st0 st1"
    using records_compile_triggers_from [OF rec.rel_refl, of st0 env 0 "doc_triggers ?doc"] t by (simp add: compile_triggers_def)
  have r2: "records st1 st2"
    using records_compile_condition(1) [OF rec.rel_refl, of st1 env _ "''/condition''" 1] c
    by (cases "doc_condition ?doc") (simp_all add: cst_def rec.rel_refl, metis snd_conv)
  have r02: "records Compiler_new st2" using r0 r1 r2 rec.rel_trans by blast
  have push: "extends env st2 st3" "ref_ok st3 (Some complete)"
    using push_node_extends [of N_Complete st2 env] k by (simp_all add: node_ok_def)
  have low: "lowered env st3 (Some complete) (e, st4)"
    using compile_lowered(1) [OF push(2), of env "reduce_actions (doc_actions ?doc)" "''/actions''" 1] a by simp
  have ext: "extends env Compiler_new st4"
    using records_extends [OF r02] push(1) loweredD(1) [OF low] ext.rel_trans by blast
  have new: "nodes_wf (cp_nodes Compiler_new)" "nodes_ok env Compiler_new"
    by (simp_all add: Compiler_new_def nodes_wf_def nodes_ok_def)
  have c2: "cp_findings st2 = []"
    using extends_clean [OF push(1) extends_clean [OF loweredD(1) [OF low] c4(1)]] .
  have c0: "cp_findings st0 = []"
    using records_findings [OF r1 records_findings [OF r2 c2]] .
  note valid = validate_structure_clean [of env Compiler_new, folded st0_def, OF c0]
  show "nodes_wf (cp_nodes st)" "nodes_ok env st" "cp_profiles st \<subseteq> schema_profiles"
    using ext new c4 by (simp_all add: extends_def Compiler_new_def)
  show "entry \<noteq> None" "ref_ok st entry" using low fin(1) c4 loweredD by auto
  show "length (cp_nodes st) \<le> rb_maximum_nodes (doc_budget ?doc)" using len c4 by simp
  show "AutomationResourceBudget_validate (doc_budget ?doc) = Inr ()" "list_all variable_ok (doc_variables ?doc)"
    using valid by simp_all
  have "\<exists>r. condition = Some r \<and> condition_typed (lib_calendar (env_library env)) (doc_variables ?doc) r"
    if "doc_condition ?doc = Some x" for x
    using that c c2 compile_condition_clean(1) [of env x "''/condition''" 1 st1] by (simp add: cst_def)
  then show "\<forall>c. condition = Some c \<longrightarrow> condition_typed (lib_calendar (env_library env)) (doc_variables ?doc) c"
    "condition = None \<longleftrightarrow> doc_condition ?doc = None"
    using c by (cases "doc_condition ?doc"; auto simp: cst_def)+
qed

section \<open>Risk of registered targets\<close>

definition registry_consistent :: "FoundationSnapshot \<Rightarrow> bool" where
  "registry_consistent snapshot \<longleftrightarrow>
     distinct (map (\<lambda>d. ds_id (dr_snapshot d)) (fs_devices snapshot)) \<and>
     (\<forall>d \<in> set (fs_devices snapshot). dr_capability_descriptors d = descriptors (dr_snapshot d) \<and>
        distinct (map es_id (ds_endpoints (dr_snapshot d))))"

lemma find_unique: "distinct (map f xs) \<Longrightarrow> x \<in> set xs \<Longrightarrow> find (\<lambda>y. f y = f x) xs = Some x"
  by (induction xs) (auto simp: image_iff)

lemma descriptors_entry:
  assumes "distinct (map es_id (ds_endpoints s))" "(e, ds) \<in> set (descriptors s)"
  obtains x where "x \<in> set (ds_endpoints s)" "es_id x = e" "ds = map CapabilitySnapshot_descriptor (es_capabilities x)"
proof -
  let ?l = "map (\<lambda>x. (es_id x, map CapabilitySnapshot_descriptor (es_capabilities x))) (ds_endpoints s)"
  have "map_of (descriptors s) e = Some ds"
    using assms(2) bt.entry_lookup [of "descriptors s" e ds] by (simp add: descriptors_def)
  then have "map_of (rev ?l) e = Some ds" by (simp add: descriptors_def map_of_btree_of_list)
  then have "(e, ds) \<in> set ?l" by (metis map_of_SomeD set_rev)
  then show thesis using that by auto
qed

lemma access_control_risk:
  "CapabilitySnapshot_schema c = ''access_control.v1'' \<Longrightarrow> cd_risk (CapabilitySnapshot_descriptor c) = Security"
  by (cases c) (simp_all add: CapabilitySnapshot_descriptor_def Let_def)

lemma registered_access_control_risk:
  assumes "registry_consistent snapshot" "target_registered snapshot t" "rt_capability t = ''access_control.v1''"
  shows "target_risk snapshot t = Some Security"
proof -
  from assms(2) obtain d ds where d: "d \<in> set (fs_devices snapshot)" "ds_id (dr_snapshot d) = rt_device_id t"
    and ds: "(rt_endpoint_id t, ds) \<in> set (dr_capability_descriptors d)"
      "\<exists>c \<in> set ds. CapabilityDescriptor_schema c = rt_capability t"
    by (auto simp: target_registered_def)
  from assms(1) d(1) have dd: "dr_capability_descriptors d = descriptors (dr_snapshot d)"
    "distinct (map es_id (ds_endpoints (dr_snapshot d)))"
    "distinct (map (\<lambda>d. ds_id (dr_snapshot d)) (fs_devices snapshot))" by (auto simp: registry_consistent_def)
  obtain x where x: "x \<in> set (ds_endpoints (dr_snapshot d))" "es_id x = rt_endpoint_id t"
    "ds = map CapabilitySnapshot_descriptor (es_capabilities x)"
    using descriptors_entry [OF dd(2)] ds(1) dd(1) by metis
  have fd: "find (\<lambda>d. ds_id (dr_snapshot d) = rt_device_id t) (fs_devices snapshot) = Some d"
    using find_unique [OF dd(3) d(1)] d(2) by simp
  have fe: "find (\<lambda>e. es_id e = rt_endpoint_id t) (ds_endpoints (dr_snapshot d)) = Some x"
    using find_unique [OF dd(2) x(1)] x(2) by simp
  obtain c where c: "find (\<lambda>c. CapabilityDescriptor_schema c = rt_capability t) ds = Some c"
    using ds(2) find_None_iff [of "\<lambda>c. CapabilityDescriptor_schema c = rt_capability t" ds]
    by (cases "find (\<lambda>c. CapabilityDescriptor_schema c = rt_capability t) ds") auto
  then have "c \<in> set ds" "CapabilityDescriptor_schema c = rt_capability t" by (auto simp: find_Some_iff)
  then have "cd_risk c = Security"
    using x(3) assms(3) access_control_risk by (auto simp: schema_of_snapshot_descriptor)
  with fd fe c x(3) show ?thesis by (simp add: target_risk_def)
qed

section \<open>What a successful compilation guarantees\<close>

lemma compiled_plan_checked:
  assumes "AutomationCompiler_compile lib doc snapshot = Inr plan"
  shows "plan_wf plan"
    and "n \<in> set (pl_nodes plan) \<Longrightarrow>
      node_ok (compile_env lib doc snapshot) (pl_safety_profiles plan) (pl_safety_requirements plan) (pn_kind n)"
    and "length (pl_nodes plan) \<le> rb_maximum_nodes (pl_budget plan)"
    and "AutomationResourceBudget_validate (pl_budget plan) = Inr ()"
    and "pl_variables plan = doc_variables doc" "list_all variable_ok (doc_variables doc)"
    and "pl_condition plan = Some c \<Longrightarrow> condition_typed (lib_calendar lib) (doc_variables doc) c"
proof -
  obtain triggers condition entry st hash plan_hash where
    passes: "compile_passes (compile_env lib doc snapshot) = (triggers, condition, Some entry, st)"
    and clean: "cp_findings st = []"
    and plan: "plan = (assemble_plan (compile_env lib doc snapshot) triggers condition entry hash st)\<lparr>pl_plan_hash := plan_hash\<rparr>"
    using assms by (rule compile_success)
  note ok = compile_passes_ok [OF passes clean]
  have fields: "pl_nodes plan = cp_nodes st" "pl_entry plan = entry" "pl_budget plan = doc_budget doc"
    "pl_safety_profiles plan = cp_profiles st" "cp_requirements st \<subseteq> pl_safety_requirements plan"
    "pl_condition plan = condition"
    using nodes_wf_sorted [OF ok(1)] by (auto simp: plan assemble_plan_def Let_def)
  show "length (pl_nodes plan) \<le> rb_maximum_nodes (pl_budget plan)" "AutomationResourceBudget_validate (pl_budget plan) = Inr ()"
    "list_all variable_ok (doc_variables doc)"
    using ok(5,6,7) fields by simp_all
  have "rb_maximum_nodes (doc_budget doc) \<le> MAX_AUTOMATION_PLAN_NODES"
    using ok(6) by (auto simp: AutomationResourceBudget_validate_def split: if_splits)
  then have "length (cp_nodes st) \<le> u32_max" using ok(5) by (simp add: MAX_AUTOMATION_PLAN_NODES_def)
  then show "plan_wf plan"
    using ok(1,4) by (auto simp: plan_wf_def fields nodes_wf_def ref_ok_def option_refs_def min_def)
  show "node_ok (compile_env lib doc snapshot) (pl_safety_profiles plan) (pl_safety_requirements plan) (pn_kind n)"
    if "n \<in> set (pl_nodes plan)"
    using that ok(2) node_ok_mono fields by (fastforce simp: nodes_ok_def)
  show "pl_variables plan = doc_variables doc" by (simp add: plan assemble_plan_def Let_def)
  show "condition_typed (lib_calendar lib) (doc_variables doc) c" if "pl_condition plan = Some c"
    using that ok(8) fields(6) by simp
qed

section \<open>Reduction\<close>

lemma flush_subset: "set (flush as) \<subseteq> set as"
  by (induction as) auto

lemma flush_targets [simp]: "action_target ` set (flush as) = action_target ` set as"
  by (induction as) (auto simp: list_ex_iff image_iff, metis)

lemma flush_distinct: "distinct (map action_target (flush as))"
proof (induction as)
  case (Cons a as)
  have "action_target a \<notin> action_target ` set (flush as)" if "\<not> list_ex (\<lambda>b. action_target b = action_target a) as"
    using that by (auto simp: list_ex_iff)
  with Cons show ?case by auto
qed simp

lemma flush_distinct_id: "distinct (map action_target as) \<Longrightarrow> flush as = as"
  by (induction as) (auto simp: list_ex_iff image_iff)

lemma flush_idem [simp]: "flush (flush as) = flush as"
  by (rule flush_distinct_id) (rule flush_distinct)

definition by_target :: "AutomationAction list \<Rightarrow> AutomationTargetReference option \<rightharpoonup> AutomationAction" where
  "by_target as = map_of (map (\<lambda>a. (action_target a, a)) as)"

lemma flush_lookup: "by_target (flush as) = by_target (rev as)"
proof (induction as)
  case (Cons a as)
  have "by_target (rev as) (action_target a) = None \<longleftrightarrow> \<not> list_ex (\<lambda>b. action_target b = action_target a) as"
    by (auto simp: by_target_def map_of_eq_None_iff list_ex_iff image_iff)
  then have "by_target (rev (a # as)) =
      (if list_ex (\<lambda>b. action_target b = action_target a) as then by_target (rev as) else (by_target (rev as))(action_target a \<mapsto> a))"
    by (auto simp: by_target_def map_add_def fun_eq_iff split: option.splits)
  with Cons.IH show ?case by (auto simp: by_target_def)
qed (simp add: by_target_def)

lemma reduce_from_commands: "list_all is_command s \<Longrightarrow> reduce_from p (s @ r) = reduce_from (p @ s) r"
  by (induction s arbitrary: p) auto

lemma flush_commands: "list_all is_command s \<Longrightarrow> list_all is_command (flush s)"
  using flush_subset [of s] by (auto simp: list_all_iff)

lemma is_command_nested [simp]: "is_command (reduce_nested a) \<longleftrightarrow> is_command a"
  by (cases a) (simp_all add: is_command_def action_target_def)

lemma reduce_idem:
  shows "list_all is_command segment \<Longrightarrow> reduce_from [] (reduce_from segment as) = reduce_from segment as"
    and "reduce_nested (reduce_nested a) = reduce_nested a"
    and "reduce_branches (reduce_branches bs) = reduce_branches bs"
    and "reduce_failure (reduce_failure f) = reduce_failure f"
proof (induction segment as and a and bs and f rule: reduce_from_reduce_nested_reduce_branches_reduce_failure.induct)
  case (1 segment)
  then show ?case using reduce_from_commands [OF flush_commands [OF 1], of "[]" "[]"] by simp
next
  case (2 segment a as)
  then show ?case
    using reduce_from_commands [OF flush_commands [OF 2(4)], of "[]" "reduce_nested a # reduce_from [] as"]
    by (cases "is_command a") simp_all
qed simp_all

lemma reduce_from_others:
  "list_all is_command segment \<Longrightarrow>
     filter (\<lambda>a. \<not> is_command a) (reduce_from segment as) = map reduce_nested (filter (\<lambda>a. \<not> is_command a) as)"
proof (induction as arbitrary: segment)
  case Nil
  then show ?case using flush_commands by (auto simp: filter_empty_conv list_all_iff)
next
  case (Cons a as)
  have "filter (\<lambda>a. \<not> is_command a) (flush segment) = []"
    using flush_commands [OF Cons.prems] by (auto simp: filter_empty_conv list_all_iff)
  with Cons show ?case by simp
qed

lemma reduce_from_split:
  "\<not> is_command b \<Longrightarrow> reduce_from segment (as @ b # bs) = reduce_from segment as @ reduce_nested b # reduce_from [] bs"
  by (induction as arbitrary: segment) simp_all

section \<open>A sample automation\<close>

definition sample_calendar :: Calendar where
  "sample_calendar = \<lparr>cal_timezone = (\<lambda>_. Some (\<lambda>t. nat (t mod 86400))), cal_naive_time = (\<lambda>s. Some (length s)),
     cal_schedule_valid = (\<lambda>_. True)\<rparr>"

definition sample_library :: AutomationLibrary where
  "sample_library = \<lparr>lib_calendar = sample_calendar, lib_document_json = (\<lambda>_. Inr ''{}''),
     lib_plan_json = (\<lambda>_. Inr ''{}''), lib_trace_json = (\<lambda>_. Inr ''[]''), lib_sha256 = (\<lambda>_. replicate 32 0),
     lib_show_uuid = show_nat\<rparr>"

definition sample_lamp :: "uuid \<Rightarrow> RiskClass \<Rightarrow> DeviceRecord" where
  "sample_lamp i risk =
     (DeviceRecord_candidate 1 2
        \<lparr>ds_id = i, ds_native_id = ''lamp'', ds_integration = ''shelly'', ds_name = ''Lamp'', ds_manufacturer = ''Shelly'',
         ds_model = ''Plus'', ds_network = [],
         ds_endpoints = [\<lparr>es_id = ''relay:0'', es_name = None, es_capabilities = [OnOff_snapshot False risk]\<rparr>],
         ds_observed_at = 0, ds_vendor_data = []\<rparr> 0)
     \<lparr>dr_lifecycle := Enrolled, dr_spaces := {4}\<rparr>"

definition sample_snapshot :: "DeviceRecord list \<Rightarrow> FoundationSnapshot" where
  "sample_snapshot ds = \<lparr>fs_installations = [], fs_integrations = [], fs_spaces = [], fs_devices = ds,
     fs_observations = [], fs_repairs = [], fs_event_cursor = Some 3\<rparr>"

definition lamp_target :: AutomationTargetReference where
  "lamp_target = \<lparr>tr_device = Space_ref 4, tr_endpoint_id = None, tr_capability = ''on_off.v1''\<rparr>"

definition no_retry :: AutomationRetryPolicy where
  "no_retry = \<lparr>rp_maximum_retries = 1, rp_backoff_ms = 10, rp_retryable_command_errors = [TransportFailure]\<rparr>"

definition sample_document :: "AutomationAction list \<Rightarrow> AutomationDocument" where
  "sample_document actions = \<lparr>doc_schema = Document_V1, doc_id = 1, doc_version = 1, doc_name = ''Evening'',
     doc_provenance = \<lparr>prov_author_id = 1, prov_agent_id = None, prov_source_request = ''Lights'', prov_rationale = ''Comfort''\<rparr>,
     doc_variables = [(''n'', \<lparr>vd_value_type = T_Integer, vd_initial = Some (V_Integer 0)\<rparr>)],
     doc_triggers = [Trigger_Schedule \<lparr>sc_cron = ''0 18 * * *'', sc_timezone = ''UTC'', sc_occurrence_window_ms = 60000\<rparr>],
     doc_condition = None, doc_actions = actions, doc_run_mode = Single, doc_self_trigger = SuppressSameVersion,
     doc_budget = AutomationResourceBudget_default, doc_created_at = 0\<rparr>"

definition lamp_on :: AutomationAction where
  "lamp_on = A_Command lamp_target (OnOff (OnOff_Set True)) no_retry F_StopRun"

definition lamp_off :: AutomationAction where
  "lamp_off = A_Command lamp_target (OnOff (OnOff_Set False)) no_retry F_StopRun"

definition sample_actions :: "AutomationAction list" where
  "sample_actions =
     [A_SetVariable ''n'' (E_Literal (V_Integer 2)), lamp_on, A_Delay 1000,
      A_If (C_Compare (E_Variable ''n'') LessThan (E_Literal (V_Integer 5))) [A_Delay 5] [lamp_on]]"


definition sample_env :: "AutomationAction list \<Rightarrow> DeviceRecord list \<Rightarrow> CompilerEnv" where
  "sample_env actions ds = \<lparr>env_library = sample_library, env_document = sample_document actions, env_snapshot = sample_snapshot ds\<rparr>"

lemma sample_env_sel [simp]:
  "env_library (sample_env actions ds) = sample_library" "env_document (sample_env actions ds) = sample_document actions"
  "env_snapshot (sample_env actions ds) = sample_snapshot ds"
  by (simp_all add: sample_env_def)

lemma sample_document_sel [simp]:
  "doc_actions (sample_document actions) = actions" "doc_budget (sample_document actions) = AutomationResourceBudget_default"
  "doc_condition (sample_document actions) = None"
  "doc_variables (sample_document actions) = [(''n'', \<lparr>vd_value_type = T_Integer, vd_initial = Some (V_Integer 0)\<rparr>)]"
  by (simp_all add: sample_document_def)

lemma budget_default_ok: "AutomationResourceBudget_validate AutomationResourceBudget_default = Inr ()"
  by (simp add: AutomationResourceBudget_validate_def AutomationResourceBudget_default_def MAX_AUTOMATION_PLAN_NODES_def
     MAX_AUTOMATION_NESTING_DEPTH_def MAX_AUTOMATION_PARALLEL_WIDTH_def MAX_AUTOMATION_QUEUE_LENGTH_def
     MAX_AUTOMATION_TRACE_STEPS_def MAX_AUTOMATION_RUN_MILLIS_def)

lemma sample_structure:
  assumes "actions \<noteq> []"
  shows "validate_structure (sample_env actions ds) st = st"
  using assms
  by (simp add: validate_structure_def Let_def validate_serialized_def sample_library_def check_def validate_run_mode_def
      sample_document_def budget_default_ok MAX_AUTOMATION_DOCUMENT_BYTES_def trim_is_empty_def rust_chars_def is_whitespace_def
      validate_variable_def validate_value_def)

lemma sample_triggers:
  "compile_triggers (sample_env actions ds) st = ([RT_Schedule \<lparr>sc_cron = ''0 18 * * *'', sc_timezone = ''UTC'', sc_occurrence_window_ms = 60000\<rparr>], st)"
  by (simp add: compile_triggers_def sample_document_def compile_trigger_def validate_schedule_def Let_def check_def
    sample_library_def sample_calendar_def split_whitespace_count_def rust_chars_def is_whitespace_def timer_out_of_range_def
    MAX_AUTOMATION_TIMER_MILLIS_def)

lemma sample_descriptors: "descriptors (dr_snapshot (sample_lamp i risk)) = [(''relay:0'', [\<lparr>cd_name = ''on_off'', cd_version = 1, cd_risk = risk\<rparr>])]"
  by (simp add: descriptors_def sample_lamp_def DeviceRecord_candidate_def btree_of_list_def CapabilitySnapshot_descriptor_def
     trim_schema trim_no_suffix suffix_to_prefix)

lemma sample_lamp_sel [simp]:
  "dr_capability_descriptors (sample_lamp i risk) = [(''relay:0'', [\<lparr>cd_name = ''on_off'', cd_version = 1, cd_risk = risk\<rparr>])]"
  "dr_lifecycle (sample_lamp i risk) = Enrolled" "dr_spaces (sample_lamp i risk) = {4}"
  "ds_id (dr_snapshot (sample_lamp i risk)) = i"
  "ds_endpoints (dr_snapshot (sample_lamp i risk)) = [\<lparr>es_id = ''relay:0'', es_name = None, es_capabilities = [OnOff_snapshot False risk]\<rparr>]"
  using sample_descriptors [of i risk] by (simp_all add: sample_lamp_def DeviceRecord_candidate_def)

abbreviation lamp_resolved :: "uuid \<Rightarrow> ResolvedAutomationTarget" where
  "lamp_resolved i \<equiv> \<lparr>rt_device_id = i, rt_endpoint_id = ''relay:0'', rt_capability = ''on_off.v1''\<rparr>"

lemma lamp_endpoints: "matching_endpoints lamp_target (sample_lamp i risk) = [''relay:0'']"
  by (simp add: matching_endpoints_def lamp_target_def CapabilityDescriptor_schema_def)

lemma lamp_resolves:
  "resolve_target (sample_env actions [sample_lamp 10 r1]) lamp_target path st = (Some [lamp_resolved 10], st)"
  "resolve_target (sample_env actions [sample_lamp 10 r1, sample_lamp 11 r2]) lamp_target path st =
     (Some [lamp_resolved 10, lamp_resolved 11], st)"
  using lamp_endpoints
  by (simp_all add: resolve_target_def sample_snapshot_def device_selected_def is_alias_def Let_def sort_targets_def target_key_def lamp_target_def)

lemma lamp_risk: "target_risk (sample_snapshot (sample_lamp i r # ds)) (lamp_resolved i) = Some r"
  by (simp add: target_risk_def sample_snapshot_def CapabilityDescriptor_schema_def CapabilitySnapshot_descriptor_def
     trim_schema trim_no_suffix suffix_to_prefix)


lemma lamp_capability [simp]: "tr_capability lamp_target = ''on_off.v1''"
  by (simp add: lamp_target_def)

definition emit :: "AutomationPlanNodeKind \<Rightarrow> Compiler \<Rightarrow> node_id option \<times> Compiler" where
  "emit k st = (let (i, st') = push_node k st in (Some i, st'))"

definition with_profile :: "AutomationSafetyProfile \<Rightarrow> Compiler \<Rightarrow> Compiler" where
  "with_profile p st = st\<lparr>cp_profiles := insert p (cp_profiles st)\<rparr>"

lemma lamp_profile:
  "command_profile (sample_env actions (sample_lamp 10 Comfort # ds)) lamp_target (lamp_resolved 10 # ts) (OnOff c) = Profile_Comfort"
  by (subst command_profile_schema) (simp_all add: lamp_risk is_position_def)

lemma lamp_lowers:
  assumes "resolve_target (sample_env actions (sample_lamp 10 Comfort # ds)) lamp_target (path @ ''/target'') st =
    (Some (lamp_resolved 10 # ts), st)"
  shows "compile_action (sample_env actions (sample_lamp 10 Comfort # ds)) lamp_on following path depth (Some s) st =
     emit (N_Command (lamp_resolved 10 # ts) (OnOff (OnOff_Set True)) s no_retry PF_StopRun following) (with_profile Profile_Comfort st)"
  by (simp add: lamp_on_def validate_command_def no_retry_def MAX_AUTOMATION_RETRIES_def MAX_AUTOMATION_TIMER_MILLIS_def
      assms lamp_profile classify_command_def emit_def with_profile_def check_def)

lemma delay_lowers:
  assumes "\<not> timer_out_of_range ms"
  shows "compile_action env (A_Delay ms) following path depth seg st = emit (N_Delay ms following) st"
  using assms by (simp add: emit_def validate_timer_def check_def)

lemma set_lowers:
  "compile_action (sample_env actions ds) (A_SetVariable ''n'' (E_Literal (V_Integer 2))) following path depth seg st =
     emit (N_SetVariable ''n'' (R_Literal (V_Integer 2)) following) st"
  by (simp add: compile_assignment_def compile_expression_def validate_value_def emit_def check_def)

lemma sample_timers [simp]: "\<not> timer_out_of_range 1000" "\<not> timer_out_of_range 5"
  by (simp_all add: timer_out_of_range_def MAX_AUTOMATION_TIMER_MILLIS_def)

abbreviation small_n :: AutomationCondition where
  "small_n \<equiv> C_Compare (E_Variable ''n'') LessThan (E_Literal (V_Integer 5))"

abbreviation small_n_resolved :: ResolvedAutomationCondition where
  "small_n_resolved \<equiv> RC_Compare (R_Variable ''n'') LessThan (R_Literal (V_Integer 5))"

lemma small_n_lowers:
  "depth \<le> 16 \<Longrightarrow> compile_condition (sample_env actions ds) small_n path depth st = (Some small_n_resolved, st)"
  by (simp add: compile_condition.simps AutomationResourceBudget_default_def compile_comparison_def compile_expression_def
      validate_value_def check_def)

lemma actions_lower:
  assumes "depth \<le> 16"
  shows "compile_actions (sample_env actions ds) as following path depth st =
     (let (segments, fresh) = assign_segments None (cp_next_segment st) as
      in compile_sequence (sample_env actions ds) as segments 0 following path depth (st\<lparr>cp_next_segment := fresh\<rparr>))"
  using assms by (simp add: compile_actions.simps AutomationResourceBudget_default_def)

lemma is_command_simps [simp]:
  "is_command lamp_on" "\<not> is_command (A_Delay ms)" "\<not> is_command (A_SetVariable x e)" "\<not> is_command (A_If c as bs)"
  by (simp_all add: is_command_def action_target_def lamp_on_def)

definition sample_plan :: AutomationExecutionPlan where
  "sample_plan = projr (AutomationCompiler_compile sample_library (sample_document sample_actions) (sample_snapshot [sample_lamp 10 Comfort]))"

lemma sample_nodes:
 "compile_actions (sample_env sample_actions [sample_lamp 10 Comfort]) (reduce_actions sample_actions) (Some 0) ''/actions'' 1
     (snd (push_node N_Complete Compiler_new)) =
   (Some 7, \<lparr>cp_findings = [],
      cp_nodes = map (\<lambda>(i, k). \<lparr>pn_id = i, pn_order = i, pn_kind = k\<rparr>)
        [(0, N_Complete), (1, N_Join (Some 0)), (2, N_Delay 5 (Some 1)),
         (3, N_Command [lamp_resolved 10] (OnOff (OnOff_Set True)) 1 no_retry PF_StopRun (Some 1)),
         (4, N_Branch small_n_resolved (Some 2) (Some 3) (Some 1)), (5, N_Delay 1000 (Some 4)),
         (6, N_Command [lamp_resolved 10] (OnOff (OnOff_Set True)) 0 no_retry PF_StopRun (Some 5)),
         (7, N_SetVariable ''n'' (R_Literal (V_Integer 2)) (Some 6))],
      cp_profiles = {Profile_Comfort}, cp_requirements = {}, cp_next_segment = 2\<rparr>)"
  apply (simp add: sample_actions_def reduce_actions_def actions_lower saturating_add_def lamp_lowers lamp_resolves delay_lowers set_lowers
     small_n_lowers emit_def with_profile_def push_node_def Let_def is_literal_def check_def Compiler_new_def del: compile_action.simps(1,2,4))
  done

lemma sample_passes:
  "compile_passes (sample_env sample_actions [sample_lamp 10 Comfort]) =
     ([RT_Schedule \<lparr>sc_cron = ''0 18 * * *'', sc_timezone = ''UTC'', sc_occurrence_window_ms = 60000\<rparr>], None, Some 7,
      snd (compile_actions (sample_env sample_actions [sample_lamp 10 Comfort]) (reduce_actions sample_actions) (Some 0) ''/actions'' 1
        (snd (push_node N_Complete Compiler_new))))"
proof -
  have ne: "sample_actions \<noteq> []" by (simp add: sample_actions_def)
  have push: "push_node N_Complete Compiler_new = (0, snd (push_node N_Complete Compiler_new))"
    by (simp add: push_node_def Compiler_new_def)
  show ?thesis
    unfolding compile_passes_def Let_def sample_structure [OF ne] sample_triggers prod.case sample_env_sel sample_document_sel
      option.case
    by (subst push) (simp add: sample_nodes check_def AutomationResourceBudget_default_def del: One_nat_def)
qed

lemma hex_zeros: "hex (replicate n 0) = replicate (2 * n) (CHR ''0'')"
  by (induction n) (simp_all add: hex_digits_def)

lemmas zero_digest [simp] = hex_zeros [of 32, simplified]

lemma sample_digest: "digest_hash sample_library (Inr bytes) = Inr (replicate 64 (CHR ''0''))"
  by (simp add: digest_hash_def sample_library_def AutomationContentHash_new_def is_ascii_digit_def list_all_iff)

lemma sample_hashes:
  "canonical_automation_hash sample_library doc = Inr (replicate 64 (CHR ''0''))"
  "canonical_automation_plan_hash sample_library plan = Inr (replicate 64 (CHR ''0''))"
  using sample_digest by (simp_all add: canonical_automation_hash_def canonical_automation_plan_hash_def sample_library_def)

lemma sample_compiles:
  "AutomationCompiler_compile sample_library (sample_document sample_actions) (sample_snapshot [sample_lamp 10 Comfort]) =
     Inr sample_plan"
  unfolding sample_plan_def AutomationCompiler_compile_def sample_env_def [symmetric] Let_def sample_passes sample_nodes
  by (simp add: sample_hashes)

lemma sample_registry: "registry_consistent (sample_snapshot [sample_lamp 10 r])"
  using sample_descriptors [of 10 r] by (simp add: registry_consistent_def sample_snapshot_def)

section \<open>Properties\<close>

text \<open>C8: Every plan the compiler returns is a closed acyclic graph: nodes are numbered by position,
  a node mentions only smaller numbers, the entry exists, and every node satisfies its contract
  (typed conditions and assignments, timers, retries and widths in range, commands addressed to
  enrolled devices that expose the capability, each classified by its risk). The plan stays
  within the declared budget, which is itself within the engine's bounds.\<close>

theorem compiled_plan_well_formed:
  assumes "AutomationCompiler_compile lib doc snapshot = Inr plan"
  shows "plan_wf plan \<and>
    (\<forall>n \<in> set (pl_nodes plan). node_ok (compile_env lib doc snapshot) (pl_safety_profiles plan)
       (pl_safety_requirements plan) (pn_kind n)) \<and>
    length (pl_nodes plan) \<le> rb_maximum_nodes (pl_budget plan) \<and> rb_maximum_nodes (pl_budget plan) \<le> MAX_AUTOMATION_PLAN_NODES"
  using compiled_plan_checked [OF assms] by (auto simp: AutomationResourceBudget_validate_def split: if_splits)

theorem compiled_plan_well_formed_witness: "plan_wf sample_plan \<and> pl_nodes sample_plan \<noteq> []"
  using compiled_plan_well_formed [OF sample_compiles] by (auto simp: plan_wf_def)

text \<open>C9: Approval follows risk: a plan asks for explicit user approval exactly when it has the security
  profile; no other profile that needs approval can occur, because command payloads only exist
  for capabilities whose names match none of the access or flow words; and with a consistent
  registry every plan that locks or unlocks asks for explicit approval.\<close>

theorem sensitive_plans_need_approval:
  assumes "AutomationCompiler_compile lib doc snapshot = Inr plan"
  shows "(pl_approval plan = ExplicitUserApproval \<longleftrightarrow> Profile_Security \<in> pl_safety_profiles plan) \<and>
    pl_safety_profiles plan \<subseteq> {Profile_Comfort, ComfortMotion, Profile_Security} \<and>
    (pl_approval plan = ExplicitUserApproval \<longrightarrow> ExplicitApproval \<in> pl_safety_requirements plan) \<and>
    (registry_consistent snapshot \<longrightarrow>
       (\<forall>n \<in> set (pl_nodes plan). \<forall>ts c s r f x. pn_kind n = N_Command ts (AccessControl c) s r f x \<longrightarrow>
          pl_approval plan = ExplicitUserApproval))"
proof (rule compile_success [OF assms])
  fix triggers condition entry st hash plan_hash
  assume passes: "compile_passes (compile_env lib doc snapshot) = (triggers, condition, Some entry, st)"
    and clean: "cp_findings st = []"
    and plan: "plan = (assemble_plan (compile_env lib doc snapshot) triggers condition entry hash st)\<lparr>pl_plan_hash := plan_hash\<rparr>"
  note ok = compile_passes_ok [OF passes clean]
  have profiles: "cp_profiles st \<subseteq> schema_profiles" by (rule ok(10))
  then have approval: "pl_approval plan = ExplicitUserApproval \<longleftrightarrow> Profile_Security \<in> cp_profiles st"
    by (auto simp: plan assemble_plan_def Let_def explicit_profiles_def schema_profiles_def)
  have "Profile_Security \<in> cp_profiles st"
    if reg: "registry_consistent snapshot" and n: "n \<in> set (pl_nodes plan)" "pn_kind n = N_Command ts (AccessControl c) s r f x"
    for n ts c s r f x
  proof -
    have "n \<in> set (cp_nodes st)" using n(1) by (simp add: plan assemble_plan_def Let_def)
    then have "command_ok (compile_env lib doc snapshot) (cp_profiles st) (cp_requirements st) ts (AccessControl c) r"
      using ok(2) n(2) by (force simp: nodes_ok_def node_ok_def)
    then obtain t us where "ts = t # us" "rt_capability t = ''access_control.v1''" "target_registered snapshot t"
      and p: "resolved_risk snapshot ts = Some Security \<Longrightarrow> Profile_Security \<in> cp_profiles st"
      by (cases ts) (auto simp: command_ok_def)
    then show ?thesis using registered_access_control_risk [OF reg] by simp
  qed
  moreover have "pl_safety_profiles plan = cp_profiles st" by (simp add: plan assemble_plan_def Let_def)
  moreover have "pl_approval plan = ExplicitUserApproval \<longrightarrow> ExplicitApproval \<in> pl_safety_requirements plan"
    by (auto simp: plan assemble_plan_def Let_def)
  ultimately show ?thesis using approval profiles by (auto simp: schema_profiles_def)
qed

theorem sensitive_plans_need_approval_witness:
  "pl_approval sample_plan = ExplicitUserApproval \<longleftrightarrow> Profile_Security \<in> pl_safety_profiles sample_plan"
  using sensitive_plans_need_approval [OF sample_compiles] by blast

text \<open>C10: The reducer is exact. It splits at every action that is not a command, keeps those in order and only
  reduces inside them; in a run of adjacent commands it keeps, for each authored target, the command
  authored last and no other; and reducing again changes nothing.\<close>

theorem reduction_keeps_last_command:
  "(\<not> is_command b \<longrightarrow>
      reduce_actions (as @ b # bs) = reduce_actions as @ reduce_nested b # reduce_actions bs) \<and>
   (list_all is_command as \<longrightarrow>
      by_target (reduce_actions as) = by_target (rev as) \<and> distinct (map action_target (reduce_actions as)) \<and>
      set (reduce_actions as) \<subseteq> set as) \<and>
   filter (\<lambda>a. \<not> is_command a) (reduce_actions as) = map reduce_nested (filter (\<lambda>a. \<not> is_command a) as) \<and>
   reduce_actions (reduce_actions as) = reduce_actions as"
  using reduce_from_split [of b "[]" as bs] reduce_from_commands [of as "[]" "[]"] flush_lookup [of as] flush_distinct [of as]
    flush_subset [of as] reduce_from_others [of "[]" as] reduce_idem(1) [of "[]" as]
  by (auto simp: reduce_actions_def)

theorem reduction_keeps_last_command_witness:
  "reduce_actions (lamp_off # [lamp_on] @ A_Delay 5 # [lamp_off]) = [lamp_on, A_Delay 5, lamp_off]"
  using reduction_keeps_last_command [of "A_Delay 5" "[lamp_off, lamp_on]" "[lamp_off]"]
  by (simp add: reduce_actions_def is_command_def action_target_def lamp_on_def lamp_off_def)

text \<open>C11: Comparing canonical decimals never fails and respects their exact rational order: a value that is
  exactly smaller or equal never compares greater after both are rounded to binary floating point,
  and equal values compare equal.\<close>

theorem decimal_comparison_respects_order:
  assumes "canonical_decimal a" "canonical_decimal b"
    and "decimal_ratio a = (p, q)" "decimal_ratio b = (p', q')"
  shows "\<exists>r. value_ordering (V_Decimal a) (V_Decimal b) = Some r \<and>
      (p * int q' < p' * int q \<longrightarrow> r \<noteq> Greater) \<and> (p * int q' = p' * int q \<longrightarrow> r = Ordering_Equal) \<and>
      (p * int q' > p' * int q \<longrightarrow> r \<noteq> Less) \<and>
      (\<forall>op. compare_values (V_Decimal a) op (V_Decimal b) = Inr (comparison_holds op r))"
proof -
  obtain n m where a: "parse_f64 a = Some (f64_of_ratio n m q)" "0 < q" "p = signed n m"
    using parse_canonical [OF assms(1)] assms(3) by auto
  obtain n' m' where b: "parse_f64 b = Some (f64_of_ratio n' m' q')" "0 < q'" "p' = signed n' m'"
    using parse_canonical [OF assms(2)] assms(4) by auto
  note le = f64_of_ratio_mono [OF a(2) b(2), of n m n' m', folded a(3) b(3)]
  note ge = f64_of_ratio_mono [OF b(2) a(2), of n' m' n m, folded a(3) b(3)]
  show ?thesis
    using le ge by (auto simp: a(1) b(1) f64_of_ratio_not_nan f64_partial_cmp_def f64_lt_def f64_eq_def compare_values_def)
qed

theorem decimal_comparison_respects_order_witness:
  "compare_values (V_Decimal ''0.1'') LessThanOrEqual (V_Decimal ''0.25'') = Inr True"
proof -
  have "canonical_decimal ''0.1''" "canonical_decimal ''0.25''"
    "decimal_ratio ''0.1'' = (1, 10)" "decimal_ratio ''0.25'' = (25, 100)" by code_simp+
  from decimal_comparison_respects_order [OF this] show ?thesis by auto
qed

text \<open>C35: A rejected automation always says why: every failing compilation returns at least one finding, and a
  document whose own bounds are invalid is always rejected.\<close>

theorem rejection_has_findings:
  "AutomationCompiler_compile lib doc snapshot \<noteq> Inl [] \<and>
   (AutomationResourceBudget_validate (doc_budget doc) \<noteq> Inr () \<longrightarrow>
     (\<exists>f fs. AutomationCompiler_compile lib doc snapshot = Inl (f # fs)))"
proof -
  have ne: "AutomationCompiler_compile lib doc snapshot \<noteq> Inl []"
    by (auto simp: AutomationCompiler_compile_def Let_def single_finding_def split: prod.splits option.splits sum.splits)
  moreover have "AutomationResourceBudget_validate (doc_budget doc) = Inr ()"
    if "AutomationCompiler_compile lib doc snapshot = Inr plan" for plan
    using that by (rule compile_success) (use compile_passes_ok(6) in fastforce)
  ultimately show ?thesis
    by (cases "AutomationCompiler_compile lib doc snapshot") (auto simp: neq_Nil_conv)
qed

theorem rejection_has_findings_witness:
  "\<exists>f fs. AutomationCompiler_compile sample_library (sample_document sample_actions
      \<lparr>doc_budget := AutomationResourceBudget_default\<lparr>rb_maximum_nodes := 0\<rparr>\<rparr>) (sample_snapshot []) = Inl (f # fs)"
  using rejection_has_findings [of sample_library "sample_document sample_actions
      \<lparr>doc_budget := AutomationResourceBudget_default\<lparr>rb_maximum_nodes := 0\<rparr>\<rparr>" "sample_snapshot []"]
  by (simp add: AutomationResourceBudget_validate_def AutomationResourceBudget_default_def)


end
