(* ===== verification/Command_Properties.thy ===== *)
theory Command_Properties
  imports Command_Safety
begin

text \<open>
  The properties of the command service, with a small service on which they are evaluated: one
  actor, one grant, one lamp, an adapter that acknowledges, a confirmation source that confirms
  and a dispatch control that manages nothing.
\<close>

section \<open>A small service\<close>

definition sample_device :: DeviceRecord where
  "sample_device =
     \<lparr>dr_installation_id = 50, dr_integration_id = 51,
      dr_snapshot = \<lparr>ds_id = 10, ds_native_id = ''n'', ds_integration = ''shelly'', ds_name = ''lamp'',
        ds_manufacturer = ''m'', ds_model = ''x'', ds_network = [],
        ds_endpoints = [\<lparr>es_id = ''relay:0'', es_name = None, es_capabilities = [OnOff_snapshot False Comfort]\<rparr>],
        ds_observed_at = 0, ds_vendor_data = []\<rparr>,
      dr_lifecycle = Enrolled, dr_availability = Availability_unknown 0,
      dr_timestamps = \<lparr>ts_first_seen = 0, ts_last_seen = 0, ts_last_success = Some 0\<rparr>,
      dr_aliases = {}, dr_spaces = {},
      dr_capability_descriptors = [(''relay:0'', [\<lparr>cd_name = ''on_off'', cd_version = 1, cd_risk = Comfort\<rparr>])]\<rparr>"

definition sample_service :: "CommandDispatchControl option \<Rightarrow> CommandService" where
  "sample_service control =
     \<lparr>cs_limits = CommandLimitConfig_default, cs_freshness = FreshnessPolicy_default,
      cs_dispatcher = (\<lambda>_ e. Inr \<lparr>aa_acknowledged_at = 6, aa_code = ''ok''\<rparr>),
      cs_confirmation = (\<lambda>_ c. Inr (Outcome_Confirmed \<lparr>oc_confirmed_at = 7, oc_observation_at = 7\<rparr>)),
      cs_audits = (\<lambda>_ a. Inr ()), cs_clock = (\<lambda>n. 8 + int n), cs_fresh_id = (\<lambda>n. 1000 + n),
      cs_encode = (\<lambda>_. Some []), cs_sha256 = (\<lambda>_. replicate 32 170), cs_dispatch_control = control\<rparr>"

definition sample_world :: World where
  "sample_world = \<lparr>w_db = sample_db, w_limits = LimitState_default, w_foundation = Inr [sample_device],
     w_ids = 0, w_clock = 0, w_confirmations = 0, w_dispatched = [], w_published = []\<rparr>"

definition sample_request :: "CommandPayload \<Rightarrow> bool \<Rightarrow> CommandRequest" where
  "sample_request payload dry =
     \<lparr>rq_device_id = 10, rq_endpoint_id = ''relay:0'', rq_payload = payload, rq_idempotency_key = ''key-1'',
      rq_deadline = 1000, rq_expected = None, rq_dry_run = dry, rq_correlation_id = 7,
      rq_causation_event_id = None, rq_automation_causation = None\<rparr>"

lemma sample_world_inv: "world_inv sample_world"
  by (simp add: world_inv_def sample_world_def dispatch_count_def store_inv_def rows_inv_def chain_inv_def
      sample_db_def Database_empty_def)

lemma sample_service_ok: "service_ok (sample_service (Some unmanaged_control))"
  using unmanaged_control_ok by (simp add: service_ok_def sample_service_def)

lemma sample_canonical_hash:
  "canonical_hash (sample_service ctl) sample_actor (sample_request p dry) = Inr sample_hash"
proof -
  have "CanonicalRequestHash_new (hex (replicate 32 170)) = Inr sample_hash" by code_simp
  then show ?thesis by (simp add: canonical_hash_def sample_service_def)
qed

lemma sample_find_device: "find_device 10 sample_world = (Inr sample_device, sample_world)"
  by (simp add: find_device_def svc_lift_def sample_world_def sample_device_def)

lemma sample_descriptor:
  "requested_descriptor (OnOff x) = Inr \<lparr>cd_name = ''on_off'', cd_version = 1, cd_risk = Comfort\<rparr>"
  by (simp add: requested_descriptor_def CapabilityDescriptor_new_def trim_is_empty_def rust_chars_def
      is_whitespace_def)

lemma sample_request_envelope:
  "request_envelope (sample_service ctl) cid sample_actor (sample_request (OnOff Toggle) dry) sample_device f 5 =
     (sample_envelope dry)\<lparr>ce_id := cid\<rparr>"
  by (simp add: request_envelope_def sample_service_def sample_actor_def sample_request_def sample_device_def
      CapabilityDescriptor_schema_def effective_payload_def DeviceRecord_freshness_at_def
      FreshnessPolicy_evaluate_def FreshnessPolicy_default_def num_seconds_def Let_def
      Availability_unknown_def sample_envelope_def)

lemma sample_request_fields:
  "rq_device_id (sample_request p dry) = 10" "rq_payload (sample_request p dry) = p"
  by (simp_all add: sample_request_def)

text \<open>Definitions that evaluate a request on the small service.\<close>

lemmas service_eval = svc_bind_def svc_lift_def fresh_id_def Let_def store_create_def create_command_def
  find_idempotent_def validate_receipt_def sample_db_def sample_world_def Database_empty_def
  CommandAggregate_received_def CommandAggregate_is_terminal_def command_audit_def storage_to_i64_def
  try_i64_def insert_command_row_def insert_audit_def new_command_row_def sample_lower publish_def
  sample_service_def sample_envelope_def continue_received_def validate_target_def
  CommandEnvelope_validate_def constraint_state_def sample_device_def CapabilityDescriptor_schema_def
  actor_security_def load_actor_security_def sample_actor_def acquire_def CommandLimits_try_acquire_def
  limit_admit_def LimitState_default_def CommandLimitConfig_default_def limit_take_def
  available_permits_def holding_def decide_received_def PolicyEvaluator_evaluate_def denial_reasons_def
  scoped_grants_def risk_matched_grants_def risk_reasons_def execute_policy_input_def sample_grant_def
  RiskClass_permits_def transition_def CommandAggregate_transition_def saturating_add_def
  store_transition_def transition_command_def find_command_def validate_transition_def svc_return_def
  update_command_row_def dispatch_def dispatch_committed_def adapter_dispatch_def clock_now_def confirm_def
  with_control_def unmanaged_control_def

text \<open>A toggle of a lamp that is off becomes an order to switch it on and is confirmed.\<close>

lemma sample_execute_run:
  "case execute (sample_service (Some unmanaged_control)) sample_actor
       (sample_request (OnOff Toggle) False) 5 sample_world of (r, w) \<Rightarrow>
     (case r of Inl _ \<Rightarrow> False | Inr c \<Rightarrow>
       ca_state c = Confirmed \<and> ca_version c = 4 \<and> ce_id (ca_envelope c) = 1000) \<and>
     map ce_payload (w_dispatched w) = [OnOff (OnOff_Set True)] \<and> w_foundation w = Inr [sample_device] \<and>
     map au_to (w_published w) = [Received, Validated, Dispatched, Acknowledged, Confirmed]"
  unfolding execute_def sample_request_fields svc_bind_def [of "find_device 10"] sample_find_device
  apply (simp add: svc_bind_def sample_descriptor svc_lift_def fresh_id_def sample_canonical_hash
      sample_request_envelope Let_def)
  apply (simp add: service_eval)
  done

lemma sample_execute:
  "\<exists>c w. execute (sample_service (Some unmanaged_control)) sample_actor
       (sample_request (OnOff Toggle) False) 5 sample_world = (Inr c, w) \<and>
     ca_state c = Confirmed \<and> ca_version c = 4 \<and> ce_id (ca_envelope c) = 1000 \<and>
     map ce_payload (w_dispatched w) = [OnOff (OnOff_Set True)] \<and> w_foundation w = Inr [sample_device] \<and>
     map au_to (w_published w) = [Received, Validated, Dispatched, Acknowledged, Confirmed]"
  using sample_execute_run by (auto split: prod.splits sum.splits)

section \<open>Properties\<close>

text \<open>C1: A command reaches the adapter at most once, and only after its dispatch is durable: whatever
  sequence of requests, retries, cancellations, recoveries after restart, unlock approvals,
  administrative changes and device updates a service performs, every envelope the adapter was
  handed belongs to a stored command with that envelope whose audit trail holds a dispatch
  record with an allowed policy decision, and no command was handed over twice.\<close>

theorem dispatched_at_most_once_with_durable_permission:
  assumes "service_ok cs" and "store_inv (w_db w)" and "w_dispatched w = []"
  shows "let w' = foldl (perform cs) w ops in
    (\<forall>cid. dispatch_count w' cid \<le> 1) \<and>
    (\<forall>e \<in> set (w_dispatched w'). \<exists>c a. load_command (w_db w') (ce_id e) = Some c \<and> ca_envelope c = e \<and>
       a \<in> set (audit_trail (w_db w') (ce_id e)) \<and> audit_allows a)"
proof -
  define v where "v = foldl (perform cs) w ops"
  have "world_inv w" using assms(2,3) by (simp add: world_inv_def dispatch_count_def)
  with performs_keep [OF assms(1)] have inv: "world_inv v" by (simp add: keeps_inv_def v_def)
  then have counts: "dispatch_count v cid \<le> dispatch_records (w_db v) cid" and sinv: "store_inv (w_db v)" for cid
    by (simp_all add: world_inv_def)
  have "dispatch_count v cid \<le> 1" for cid
    using counts [of cid] dispatch_records_le_1 [OF sinv, of cid] by linarith
  moreover have "\<exists>c a. load_command (w_db v) (ce_id e) = Some c \<and> ca_envelope c = e \<and>
       a \<in> set (audit_trail (w_db v) (ce_id e)) \<and> audit_allows a" if e: "e \<in> set (w_dispatched v)" for e
  proof -
    have "0 < dispatch_count v (ce_id e)"
      using e unfolding dispatch_count_def by (auto simp: filter_empty_conv)
    with counts [of "ce_id e"] have "0 < length (filter audit_allows (audit_trail (w_db v) (ce_id e)))"
      unfolding dispatch_records_def by linarith
    then obtain a where "a \<in> set (audit_trail (w_db v) (ce_id e))" "audit_allows a"
      unfolding length_greater_0_conv by (auto simp: filter_empty_conv)
    moreover obtain c where "load_command (w_db v) (ce_id e) = Some c" "ca_envelope c = e"
      using inv e unfolding world_inv_def by blast
    ultimately show ?thesis by blast
  qed
  ultimately show ?thesis unfolding Let_def v_def [symmetric] by blast
qed

theorem dispatched_at_most_once_with_durable_permission_witness:
  "let w' = foldl (perform (sample_service (Some unmanaged_control))) sample_world
       [Do_execute sample_actor (sample_request (OnOff Toggle) False) 5,
        Do_execute sample_actor (sample_request (OnOff Toggle) False) 6, Do_recover 7]
   in \<forall>cid. dispatch_count w' cid \<le> 1"
  using dispatched_at_most_once_with_durable_permission [OF sample_service_ok, of sample_world
      "[Do_execute sample_actor (sample_request (OnOff Toggle) False) 5,
        Do_execute sample_actor (sample_request (OnOff Toggle) False) 6, Do_recover 7]"] sample_world_inv
  unfolding world_inv_def Let_def by (simp add: sample_world_def)

text \<open>C5: What an execution returns is what is stored: on every successful branch (confirmed,
  acknowledged and pending, failed, timed out, rejected, superseded, awaiting approval, dry run
  or an equivalent earlier request) the returned aggregate is the durable one.\<close>

theorem execute_returns_durable_command:
  assumes "service_ok cs" and "world_inv w" and "execute cs actor r now w = (Inr c, w')"
  shows "load_command (w_db w') (ce_id (ca_envelope c)) = Some c \<and> world_inv w'"
proof -
  have "settled w' (ce_id (ca_envelope c)) c" using assms by (rule execute_result)
  moreover have "world_inv w'" using keeps_world [OF keeps_execute [OF assms(1)] assms(2,3)] by simp
  ultimately show ?thesis by (simp add: settled_def)
qed

theorem execute_returns_durable_command_witness:
  "\<exists>c w'. execute (sample_service (Some unmanaged_control)) sample_actor
       (sample_request (OnOff Toggle) False) 5 sample_world = (Inr c, w') \<and>
     ca_state c = Confirmed \<and> load_command (w_db w') 1000 = Some c"
proof -
  obtain c w where run: "execute (sample_service (Some unmanaged_control)) sample_actor
       (sample_request (OnOff Toggle) False) 5 sample_world = (Inr c, w)"
      "ca_state c = Confirmed" "ce_id (ca_envelope c) = 1000"
    using sample_execute by blast
  with execute_returns_durable_command [OF sample_service_ok sample_world_inv run(1)] show ?thesis by auto
qed



text \<open>C7: A dry run validates and authorises like a real command but never reaches the adapter, not
  on any branch and not through recovery: a recoverable dry run is stopped again.\<close>

theorem dry_run_never_dispatches:
  assumes "rq_dry_run r" and "store_inv db" and "load_recoverable_commands db limit = Inr commands"
    and "c \<in> set commands" and "ce_dry_run (ca_envelope c)"
  shows "w_dispatched (snd (execute cs actor r now w)) = w_dispatched w \<and>
    w_dispatched (snd (recover_one cs now c w)) = w_dispatched w"
  using quiet_execute_dry [OF assms(1), of cs actor now]
    quiet_recover_dry [OF assms(5), of cs now] recoverable_not_terminal [OF assms(2-4)]
  by (simp add: svc_rel_def quiet_def)

definition sample_dry_db :: Database where
  "sample_dry_db = (case create_command sample_db (CommandAggregate_received (sample_envelope True)) sample_hash
      (sample_audit 200 (CommandAggregate_received (sample_envelope True)) None) of
      Inr (_, db) \<Rightarrow> db | Inl _ \<Rightarrow> sample_db)"

theorem dry_run_never_dispatches_witness:
  "w_dispatched (snd (execute (sample_service None) sample_actor (sample_request (OnOff Toggle) True) 5
       sample_world)) = [] \<and>
   w_dispatched (snd (recover_one (sample_service None) 5 (CommandAggregate_received (sample_envelope True))
       (sample_world\<lparr>w_db := sample_dry_db\<rparr>))) = []"
proof -
  let ?c = "CommandAggregate_received (sample_envelope True)" and ?w = "sample_world\<lparr>w_db := sample_dry_db\<rparr>"
  have "\<exists>db. create_command sample_db ?c sample_hash (sample_audit 200 ?c None) = Inr (Created ?c, db) \<and>
      load_recoverable_commands db 5 = Inr [?c]"
    by (simp add: create_command_def find_idempotent_def sample_db_def Database_empty_def validate_receipt_def
        CommandAggregate_received_def CommandAggregate_is_terminal_def sample_envelope_def
        sample_audit_def storage_to_i64_def try_i64_def insert_command_row_def insert_audit_def
        new_command_row_def sample_lower load_recoverable_commands_def bounded_limit_def MAX_QUERY_PAGE_def)
  then have cr: "create_command sample_db ?c sample_hash (sample_audit 200 ?c None) = Inr (Created ?c, sample_dry_db)"
    and rec: "load_recoverable_commands sample_dry_db 5 = Inr [?c]"
    by (auto simp: sample_dry_db_def)
  have "store_inv sample_db" using sample_world_inv by (simp add: world_inv_def sample_world_def)
  from sql.create_inv [OF this cr] have inv: "store_inv sample_dry_db" .
  have "rq_dry_run (sample_request (OnOff Toggle) True)" "ce_dry_run (ca_envelope ?c)"
    by (simp_all add: sample_request_def sample_envelope_def)
  with dry_run_never_dispatches [of "sample_request (OnOff Toggle) True" sample_dry_db 5 "[?c]" ?c
      "sample_service None" sample_actor 5 sample_world] 
    dry_run_never_dispatches [of "sample_request (OnOff Toggle) True" sample_dry_db 5 "[?c]" ?c
      "sample_service None" sample_actor 5 ?w] inv rec
  show ?thesis by (simp add: sample_world_def)
qed

text \<open>C6: A cancelled command is never dispatched: once a cancellation has succeeded, no later
  sequence of operations hands the command to the adapter, and it had not been handed over
  before either.\<close>

theorem cancelled_command_never_dispatched:
  assumes "service_ok cs" and "world_inv w" and "cancel cs actor cid now w = (Inr c, w')"
  shows "ca_state c = Cancelled \<and> ce_actor_id (ca_envelope c) = actor \<and>
    dispatch_count (foldl (perform cs) w' ops) cid = 0"
  using assms(3)
proof (rule cancel_Inr)
  fix d
  assume d: "load_command (w_db w) cid = Some d" "ce_actor_id (ca_envelope d) = actor"
    "ca_state d \<in> {Received, Validated}" and tr: "transition cs d Cancelled now w = (Inr c, w')"
  have id: "ce_id (ca_envelope d) = cid" using load_command_id [OF _ d(1)] assms(2) by (simp add: world_inv_def)
  have w': "world_inv w'" and c: "load_command (w_db w') cid = Some c"
    using transition_settled [OF assms(2) tr] id by (simp_all add: settled_def)
  obtain a where a: "audit_trail (w_db w') cid = audit_trail (w_db w) cid @ [a]" "au_to a = Cancelled"
      "ca_state c = Cancelled" "ca_envelope c = ca_envelope d"
    using transition_trail_append [OF assms(2) tr] id by metis
  define v where "v = foldl (perform cs) w' ops"
  have v: "world_inv v" "store_extends (w_db w') (w_db v)"
    using performs_keep [OF assms(1), of w' ops] w' by (simp_all add: keeps_inv_def v_def)
  have "audit_trail (w_db v) cid = audit_trail (w_db w') cid"
    using terminal_trail_fixed [OF _ c _ v(2)] w' a(3) by (simp add: world_inv_def)
  then have "dispatch_records (w_db v) cid = 0"
    using undispatched_records [OF assms(2) d(1,3)] a by (simp add: dispatch_records_def audit_allows_def)
  then have "dispatch_count v cid = 0" using v(1) unfolding world_inv_def by (metis le_zero_eq)
  with a d(2) show ?thesis by (simp add: v_def)
qed

theorem cancelled_command_never_dispatched_witness:
  "\<exists>c w'. cancel (sample_service None) 1 100 6 (sample_world\<lparr>w_db := sample_created_db\<rparr>) = (Inr c, w') \<and>
     dispatch_count (foldl (perform (sample_service None)) w' [Do_recover 7]) 100 = 0"
proof -
  let ?w = "sample_world\<lparr>w_db := sample_created_db\<rparr>"
  have "load_command (w_db ?w) 100 = Some sample_received" by (simp add: sample_load)
  moreover have "\<exists>c w'. transition (sample_service None) sample_received Cancelled 6 ?w = (Inr c, w')"
    by (simp add: sample_created_db_def sample_received_def sample_audit_def service_eval)
  ultimately obtain c w' where run: "cancel (sample_service None) 1 100 6 ?w = (Inr c, w')"
    by (auto simp: cancel_def svc_bind_def get_def svc_lift_def sample_received_def
        CommandAggregate_received_def sample_envelope_def CommandAggregate_is_terminal_def)
  have "world_inv ?w" using sample_inv by (simp add: world_inv_def sample_world_def dispatch_count_def)
  moreover have "service_ok (sample_service None)" by (simp add: service_ok_def sample_service_def)
  ultimately show ?thesis using cancelled_command_never_dispatched [OF _ _ run, of "[Do_recover 7]"] run by blast
qed

end
