(* ===== verification/Runtime_Properties.thy ===== *)
theory Runtime_Properties
  imports Runtime_Safety Compiler_Properties Command_Properties
begin

text \<open>
  Properties of the automation store and the durable interpreter, and the small automation their
  witnesses run.
\<close>

section \<open>A sample automation\<close>

definition zeros :: string where "zeros = replicate 64 (CHR ''0'')"

definition done_plan :: AutomationExecutionPlan where
  "done_plan = \<lparr>pl_schema = Plan_V1, pl_automation_id = 1, pl_automation_version = 1, pl_document_hash = zeros, pl_plan_hash = zeros,
     pl_registry_revision = 3, pl_variables = [], pl_triggers = [RT_CommandOutcome None {Confirmed}], pl_condition = None, pl_run_mode = Single,
     pl_self_trigger = SuppressSameVersion, pl_entry = 0, pl_nodes = [\<lparr>pn_id = 0, pn_order = 0, pn_kind = N_Complete\<rparr>],
     pl_safety_profiles = {}, pl_safety_requirements = {}, pl_approval = ExplicitUserApproval, pl_budget = AutomationResourceBudget_default\<rparr>"

definition done_evidence :: AutomationSimulationEvidence where
  "done_evidence = \<lparr>sev_document_hash = zeros, sev_plan_hash = zeros, sev_registry_revision = 3, sev_trace_hash = zeros,
     sev_succeeded = True, sev_simulated_at = 2\<rparr>"

definition done_version :: "AutomationVersionState \<Rightarrow> AutomationSimulationEvidence option \<Rightarrow> StoredAutomationVersion" where
  "done_version state simulation = \<lparr>sv_document = sample_document [], sv_plan = done_plan, sv_state = state,
     sv_validation = \<lparr>vev_document_hash = zeros, vev_plan_hash = zeros, vev_registry_revision = 3, vev_validated_at = 1\<rparr>,
     sv_simulation = simulation\<rparr>"

definition done_approval :: AutomationApprovalRecord where
  "done_approval = \<lparr>apr_id = 9, apr_automation_id = 1, apr_version = 1, apr_document_hash = zeros, apr_plan_hash = zeros, apr_actor_id = 1,
     apr_state = Approval_Approved, apr_rationale = None, apr_decided_at = 3\<rparr>"

definition done_activation :: AutomationActivation where
  "done_activation = \<lparr>act_automation_id = 1, act_version = 1, act_expected_revision = 0, act_document_hash = zeros, act_plan_hash = zeros,
     act_registry_revision = 3, act_activated_at = 4\<rparr>"

definition done_occurrence :: AutomationOccurrence where
  "done_occurrence = \<lparr>occ_id = 5, occ_automation_id = 1, occ_version = 1, occ_occurred_at = 5, occ_window_ends_at = 6,
     occ_state = Occurrence_Scheduled, occ_event_cursor = None, occ_correlation_id = 8, occ_causation_event_id = None, occ_catch_up = None\<rparr>"

definition done_run :: AutomationRun where
  "done_run = \<lparr>run_id = 6, run_automation_id = 1, run_version = 1, run_occurrence_id = 5, run_actor_id = 1, run_state = Run_Pending,
     run_revision = 0, run_node_id = Some 0, run_variables = [], run_command_ids = [], run_command_attempt = None,
     run_condition_durations = [], run_continuations = [], run_correlation_id = 8, run_causation_event_id = None,
     run_created_at = 5, run_updated_at = 5\<rparr>"

lemma done_version_valid [simp]:
  "validate_version sample_library (done_version state None) = Inr ()" "validate_version sample_library (done_version state (Some done_evidence)) = Inr ()"
  by (simp_all add: validate_version_def done_version_def done_plan_def sample_hashes zeros_def sample_document_def done_evidence_def)

definition done_steps :: "AutomationDatabase \<Rightarrow> AutomationDatabase \<Rightarrow> bool" where
  "done_steps = (store_step sample_library sample_supply)\<^sup>*\<^sup>*"

lemma done_version_sel [simp]:
  "doc_id (sv_document (done_version state simulation)) = 1" "doc_version (sv_document (done_version state simulation)) = 1"
  "sv_plan (done_version state simulation) = done_plan" "sv_state (done_version state simulation) = state"
  "sv_simulation (done_version state simulation) = simulation" "version_key (done_version state simulation) = (1, 1)"
  "sv_document (done_version state simulation) = sv_document (done_version state' simulation') \<longleftrightarrow> True"
  "sv_validation (done_version state simulation) = sv_validation (done_version state' simulation') \<longleftrightarrow> True"
  "pl_document_hash done_plan = zeros" "pl_plan_hash done_plan = zeros" "pl_registry_revision done_plan = 3" "length zeros = 64"
  "pl_approval done_plan = ExplicitUserApproval"
  by (simp_all add: done_version_def sample_document_def version_key_def done_plan_def zeros_def)

lemma done_approval_sel [simp]:
  "sev_document_hash done_evidence = zeros" "sev_plan_hash done_evidence = zeros" "sev_registry_revision done_evidence = 3" "sev_succeeded done_evidence"
  "apr_id done_approval = 9" "apr_automation_id done_approval = 1" "apr_version done_approval = 1" "apr_document_hash done_approval = zeros"
  "apr_plan_hash done_approval = zeros" "apr_state done_approval = Approval_Approved"
  by (simp_all add: done_evidence_def done_approval_def)

lemma i64_small [simp]: "storage_to_i64 (Suc 0) = Inr 1" "storage_to_i64 3 = Inr 3" "storage_to_i64 0 = Inr 0"
  by (simp_all add: storage_to_i64_def try_i64_def)

lemma version_event_occurrences [simp]:
  "ad_occurrences (version_event ids v f at db) = ad_occurrences db" "ad_occurrences (operational_event ids i f2 a db) = ad_occurrences db"
  by (simp_all add: version_event_def operational_event_def)

lemma done_stored:
  "\<exists>db i. store_version sample_library sample_supply (done_version Version_Validated None) AutomationDatabase_empty = Inr ((), db) \<and>
     ad_versions db = [((1, 1), done_version Version_Validated None)] \<and> ad_identities db = [(1, i)] \<and> ids_revision i = 0 \<and>
     ids_state i = Operational_Inactive \<and> ad_runs db = [] \<and> ad_trace db = [] \<and> ad_occurrences db = [] \<and> ad_approvals db = []"
  by (simp add: store_version_def AutomationDatabase_empty_def ensure_identity_def version_row_ignored_def)

text \<open>The automation is stored, simulated, approved and activated.\<close>

lemma done_activated:
  "\<exists>db i. done_steps AutomationDatabase_empty db \<and> ad_runs db = [] \<and> ad_trace db = [] \<and> ad_occurrences db = [] \<and>
     ad_versions db = [((1, 1), done_version Version_Simulated (Some done_evidence))] \<and> ad_approvals db = [(9, done_approval)] \<and>
     ad_identities db = [(1, i)] \<and> ids_active_version i = Some 1 \<and> ids_state i = Operational_Active"
proof -
  let ?v = "done_version Version_Validated None" and ?s = "done_version Version_Simulated (Some done_evidence)"
  obtain db1 i1 where db1: "store_version sample_library sample_supply ?v AutomationDatabase_empty = Inr ((), db1)"
    "ad_versions db1 = [((1, 1), ?v)]" "ad_identities db1 = [(1, i1)]" "ids_revision i1 = 0" "ids_state i1 = Operational_Inactive"
    "ad_runs db1 = []" "ad_trace db1 = []" "ad_occurrences db1 = []" "ad_approvals db1 = []"
    using done_stored by blast
  obtain db2 where db2: "transition_version sample_library sample_supply ?s Version_Validated db1 = Inr ((), db2)"
    "ad_versions db2 = [((1, 1), ?s)]" "ad_identities db2 = [(1, i1)]" "ad_approvals db2 = []"
    "ad_runs db2 = []" "ad_trace db2 = []" "ad_occurrences db2 = []"
    using db1 by (simp add: transition_version_def require_version_def load_version_def)
  obtain db3 where db3: "append_approval done_approval db2 = Inr ((), db3)"
    "ad_versions db3 = [((1, 1), ?s)]" "ad_identities db3 = [(1, i1)]" "ad_approvals db3 = [(9, done_approval)]"
    "ad_runs db3 = []" "ad_trace db3 = []" "ad_occurrences db3 = []"
    using db2 by (simp add: append_approval_def require_version_def load_version_def insert_idempotent_def)
  obtain db4 i4 where db4: "activate sample_supply done_activation db3 = Inr (i4, db4)"
    "ad_versions db4 = [((1, 1), ?s)]" "ad_identities db4 = [(1, i4)]" "ad_approvals db4 = [(9, done_approval)]"
    "ids_active_version i4 = Some 1" "ids_state i4 = Operational_Active"
    "ad_runs db4 = []" "ad_trace db4 = []" "ad_occurrences db4 = []"
    using db3 db1(4,5) by (simp add: activate_def require_version_def load_version_def done_activation_def has_exact_approval_def
        saturating_add_def Let_def)
  have "done_steps AutomationDatabase_empty db4"
    unfolding done_steps_def
    using step_version [OF db1(1)] step_transition_version [OF db2(1)] step_approval [OF db3(1)] step_activate [OF db4(1)]
    by (meson converse_rtranclp_into_rtranclp rtranclp.rtrancl_refl)
  then show ?thesis using db4 by blast
qed

section \<open>Governance\<close>

text \<open>C15: Only evidenced automations become active. In every database the repository can reach, each version the
  engine loads as active is the one its identity points to, is filed under the identity and version of
  its document, carries the digests of exactly its document and plan, rests on a
  successful simulation of that plan and, when the plan asks for explicit approval, on a
  recorded approval of exactly these digests.\<close>

theorem active_versions_are_evidenced:
  assumes "(store_step lib ids)\<^sup>*\<^sup>* AutomationDatabase_empty db" and "active \<in> set (load_active_versions db limit)"
  shows "\<exists>i version v. (i, aav_identity active) \<in> set (ad_identities db) \<and> ids_active_version (aav_identity active) = Some version \<and>
    v = aav_version active \<and> doc_id (sv_document v) = i \<and> doc_version (sv_document v) = version \<and>
    canonical_automation_hash lib (sv_document v) = Inr (pl_document_hash (sv_plan v)) \<and>
    canonical_automation_plan_hash lib (sv_plan v) = Inr (pl_plan_hash (sv_plan v)) \<and>
    (\<exists>s. sv_simulation v = Some s \<and> sev_succeeded s \<and> sev_plan_hash s = pl_plan_hash (sv_plan v) \<and>
       sev_document_hash s = pl_document_hash (sv_plan v)) \<and>
    (pl_approval (sv_plan v) = ExplicitUserApproval \<longrightarrow>
       (\<exists>(_, a) \<in> set (ad_approvals db). apr_automation_id a = i \<and> apr_version a = version \<and> apr_state a = Approval_Approved \<and>
          apr_document_hash a = pl_document_hash (sv_plan v) \<and> apr_plan_hash a = pl_plan_hash (sv_plan v)))"
proof -
  have inv: "governed lib db" using governance_invariant.reachable [OF assms(1)] .
  obtain i version where row: "(i, aav_identity active) \<in> set (ad_identities db)" "ids_active_version (aav_identity active) = Some version"
    "map_of (ad_versions db) (i, version) = Some (aav_version active)"
    using assms(2) by (auto simp: load_active_versions_def map_filter_def dest!: in_set_takeD split: if_splits option.splits)
  have "map_of (ad_identities db) i = Some (aav_identity active)"
    using bt.entry_lookup [OF governedD(3) [OF inv]] row(1) by blast
  from governedD(2) [OF inv this row(2)] row(3) have evidence: "evidenced db i version (aav_version active)" by auto
  have "version_wf lib (i, version) (aav_version active)" using governedD(1) [OF inv map_of_SomeD [OF row(3)]] .
  then have key: "doc_id (sv_document (aav_version active)) = i" "doc_version (sv_document (aav_version active)) = version"
    and valid: "validate_version lib (aav_version active) = Inr ()"
    by (simp_all add: version_wf_def version_key_def)
  from valid have "canonical_automation_hash lib (sv_document (aav_version active)) = Inr (pl_document_hash (sv_plan (aav_version active)))"
    "canonical_automation_plan_hash lib (sv_plan (aav_version active)) = Inr (pl_plan_hash (sv_plan (aav_version active)))"
    by (auto simp: validate_version_def Let_def split: sum.splits if_splits)
  with row key evidence show ?thesis unfolding evidenced_def approved_def by blast
qed

theorem active_versions_are_evidenced_witness:
  "\<exists>db active. done_steps AutomationDatabase_empty db \<and> load_active_versions db 10 = [active] \<and>
     pl_approval (sv_plan (aav_version active)) = ExplicitUserApproval \<and>
     (\<exists>(_, a) \<in> set (ad_approvals db). apr_version a = 1 \<and> apr_state a = Approval_Approved)"
proof -
  obtain db i where db: "done_steps AutomationDatabase_empty db" "ad_versions db = [((1, 1), done_version Version_Simulated (Some done_evidence))]"
    "ad_identities db = [(1, i)]" "ids_active_version i = Some 1" "ids_state i = Operational_Active"
    using done_activated by blast
  let ?active = "\<lparr>aav_identity = i, aav_version = done_version Version_Simulated (Some done_evidence)\<rparr>"
  have loaded: "load_active_versions db 10 = [?active]"
    using db(2-5) by (simp add: load_active_versions_def MAX_QUERY_PAGE_def)
  have "pl_approval (sv_plan (aav_version ?active)) = ExplicitUserApproval" by simp
  moreover from active_versions_are_evidenced [OF db(1) [unfolded done_steps_def], of ?active 10] loaded db(4)
  have "\<exists>(_, a) \<in> set (ad_approvals db). apr_version a = 1 \<and> apr_state a = Approval_Approved" by auto
  ultimately show ?thesis using db(1) loaded by blast
qed

section \<open>Steps of a run\<close>

definition done_runtime :: AutomationRuntime where
  "done_runtime = \<lparr>ar_ids = sample_supply, ar_clock = (\<lambda>n. 6), ar_foundation = (\<lambda>_. Inl ''unavailable''), ar_commands = None,
     ar_calendar = sample_calendar, ar_condition_hash = (\<lambda>_ _. None), ar_checked_add_signed = (\<lambda>at ms. Some (at + ms)),
     ar_number_text = (\<lambda>_. [])\<rparr>"

definition done_state :: "AutomationDatabase \<Rightarrow> RuntimeState" where
  "done_state db = \<lparr>rs_db = db, rs_world = sample_world, rs_clock = 0, rs_loads = 0\<rparr>"

text \<open>A run of the activated automation is admitted.\<close>

lemma done_admitted:
  "\<exists>db i. done_steps AutomationDatabase_empty db \<and> ad_runs db = [(6, done_run)] \<and> ad_trace db = [] \<and>
     ad_versions db = [((1, 1), done_version Version_Simulated (Some done_evidence))] \<and>
     ad_identities db = [(1, i)] \<and> ids_active_version i = Some 1"
proof -
  obtain db i where db: "done_steps AutomationDatabase_empty db" "ad_runs db = []" "ad_trace db = []" "ad_occurrences db = []"
     "ad_versions db = [((1, 1), done_version Version_Simulated (Some done_evidence))]" "ad_identities db = [(1, i)]" "ids_active_version i = Some 1"
    using done_activated by blast
  have exists: "version_exists d 1 1" if "ad_versions d = ad_versions db" for d using db that by (simp add: version_exists_def)
  let ?db = "db\<lparr>ad_occurrences := [(5, done_occurrence)]\<rparr>"
  have first: "create_occurrence done_occurrence db = Inr ((), ?db)"
    using db exists [of db] by (simp add: create_occurrence_def insert_idempotent_def require_row_def done_occurrence_def)
  have second: "create_run sample_supply done_run ?db = Inr ((), run_event sample_supply done_run None (?db\<lparr>ad_runs := [(6, done_run)]\<rparr>))"
    using db exists [of ?db] by (simp add: create_run_def insert_idempotent_def require_row_def done_run_def)
  have "done_steps AutomationDatabase_empty (run_event sample_supply done_run None (?db\<lparr>ad_runs := [(6, done_run)]\<rparr>))"
    using db(1) step_occurrence [OF first, of sample_library sample_supply] step_run [OF second, of sample_library]
    unfolding done_steps_def by (meson rtranclp.rtrancl_into_rtrancl)
  then show ?thesis using db by (intro exI [of _ "run_event sample_supply done_run None (?db\<lparr>ad_runs := [(6, done_run)]\<rparr>)"] exI [of _ i]) simp
qed

text \<open>C16: A step commits once or not at all. In every reachable database, a call of the interpreter on a run either leaves the
  database as it was or commits exactly one step, and then reports success: the run was active and unfinished, it belongs to the active version of its automation,
  its revision grows by one, its new state is one the state machine allows, every other run
  is unchanged, one trace step is appended whose sequence number is the number of steps the run had, and the run had not used up the trace budget of its
  plan. The database after the step is reachable again.\<close>

theorem steps_commit_once:
  assumes "(store_step lib (ar_ids ar))\<^sup>*\<^sup>* AutomationDatabase_empty (rs_db st)" and "runtime_step ar i st = (r, st')" and "rs_db st' \<noteq> rs_db st"
  shows "\<exists>run next_run identity version s.
    map_of (ad_runs (rs_db st)) i = Some run \<and> \<not> AutomationRunState_is_terminal (run_state run) \<and>
    map_of (ad_identities (rs_db st)) (run_automation_id run) = Some identity \<and> ids_active_version identity = Some (run_version run) \<and>
    map_of (ad_versions (rs_db st)) (run_automation_id run, run_version run) = Some version \<and>
    map_of (ad_runs (rs_db st')) = (map_of (ad_runs (rs_db st)))(i \<mapsto> next_run) \<and>
    run_revision next_run = saturating_add u64_max (run_revision run) 1 \<and>
    AutomationRunState_allows_revision_to (run_state run) (run_state next_run) \<and>
    ad_trace (rs_db st') = ad_trace (rs_db st) @ [s] \<and> ts_run_id s = i \<and> ts_sequence s = length (run_trace (rs_db st) i) \<and>
    length (run_trace (rs_db st) i) < rb_maximum_trace_steps (pl_budget (sv_plan version)) \<and>
    r \<in> {Inr Step_Advanced, Inr Step_Waiting, Inr Step_Completed} \<and>
    (store_step lib (ar_ids ar))\<^sup>*\<^sup>* AutomationDatabase_empty (rs_db st')"
proof -
  have traced: "traced (rs_db st)" using trace_invariant.reachable [OF assms(1)] .
  obtain run identity version x w where run: "map_of (ad_runs (rs_db st)) i = Some run" "\<not> AutomationRunState_is_terminal (run_state run)"
    and id: "map_of (ad_identities (rs_db st)) (run_automation_id run) = Some identity" "ids_active_version identity = Some (run_version run)"
      "map_of (ad_versions (rs_db st)) (run_automation_id run, run_version run) = Some version"
    and x: "r = Inr x" "x \<noteq> Step_NoWork" and w: "step_write run (loaded_trace (rs_db st) run version) w"
      "commit_step (ar_ids ar) w (rs_db st) = Inr ((), rs_db st')"
    and bound: "loaded_trace (rs_db st) run version < rb_maximum_trace_steps (pl_budget (sv_plan version))"
    using runtime_step_commits [OF assms(2,3)] by metis
  obtain s where s: "loaded_trace (rs_db st) run version = length (run_trace (rs_db st) i)"
    "map_of (ad_runs (rs_db st')) = (map_of (ad_runs (rs_db st)))(i \<mapsto> sw_run w)" "ad_trace (rs_db st') = ad_trace (rs_db st) @ [s]"
    "ts_run_id s = i" "ts_sequence s = loaded_trace (rs_db st) run version"
    "run_revision (sw_run w) = saturating_add u64_max (run_revision run) 1"
    "AutomationRunState_allows_revision_to (run_state run) (run_state (sw_run w))"
    using step_write_effect [OF traced run w] by blast
  have "r \<in> {Inr Step_Advanced, Inr Step_Waiting, Inr Step_Completed}" using x by (cases x) simp_all
  moreover have "(store_step lib (ar_ids ar))\<^sup>*\<^sup>* AutomationDatabase_empty (rs_db st')"
    using assms(1) step_commit [OF w(2)] by (rule rtranclp.rtrancl_into_rtrancl)
  ultimately show ?thesis using run id s bound by (intro exI [of _ run] exI [of _ "sw_run w"] exI [of _ identity] exI [of _ version] exI [of _ s]) simp
qed

lemma done_commits:
  assumes "ad_runs db = [(6, done_run)]" "ad_trace db = []" "ad_versions db = [((1, 1), done_version Version_Simulated (Some done_evidence))]"
    "ad_identities db = [(1, i)]" "ids_active_version i = Some 1"
  shows "\<exists>st'. runtime_step done_runtime 6 (done_state db) = (Inr Step_Advanced, st') \<and> length (ad_trace (rs_db st')) = 1"
proof -
  have budget: "pl_budget done_plan = AutomationResourceBudget_default" by (simp add: done_plan_def)
  have eq: "runtime_step done_runtime 6 (done_state db) = step_run done_runtime done_run (done_version Version_Simulated (Some done_evidence)) (done_state db)"
    using assms by (simp add: runtime_step_def bind_db done_state_def done_run_def load_version_def repository_error_def result_simps AutomationRunState_is_terminal_def)
  show ?thesis
    unfolding eq step_run_eq using assms
    by (simp add: step_trace_def run_trace_def done_state_def check_budget_def budget AutomationResourceBudget_default_def rt_bind_def
      rt_now_def rt_return_def done_runtime_def budget_millis_def try_i64_def done_run_def commit_checkpoint_def commit_def Let_def commit_step_def
      transition_run_def run_trace_step_def checkpoint_def saturating_add_def append_trace_def expected_sequence_def require_row_def
      AutomationRunState_allows_revision_to_def)
qed

theorem steps_commit_once_witness:
  "\<exists>db st' s. done_steps AutomationDatabase_empty db \<and> runtime_step done_runtime 6 (done_state db) = (Inr Step_Advanced, st') \<and>
     ad_trace (rs_db st') = ad_trace db @ [s] \<and> ts_sequence s = length (run_trace db 6)"
proof -
  obtain db i where db: "done_steps AutomationDatabase_empty db" "ad_runs db = [(6, done_run)]" "ad_trace db = []"
    "ad_versions db = [((1, 1), done_version Version_Simulated (Some done_evidence))]" "ad_identities db = [(1, i)]" "ids_active_version i = Some 1"
    using done_admitted by blast
  obtain st' where st': "runtime_step done_runtime 6 (done_state db) = (Inr Step_Advanced, st')" "length (ad_trace (rs_db st')) = 1"
    using done_commits [OF db(2-6)] by blast
  have sel: "rs_db (done_state db) = db" "ar_ids done_runtime = sample_supply" by (simp_all add: done_state_def done_runtime_def)
  have changed: "rs_db st' \<noteq> rs_db (done_state db)" using st'(2) db(3) by (auto simp: sel)
  have "(store_step sample_library (ar_ids done_runtime))\<^sup>*\<^sup>* AutomationDatabase_empty (rs_db (done_state db))"
    using db(1) by (simp add: sel done_steps_def)
  from steps_commit_once [OF this st'(1) changed] show ?thesis using db(1) st'(1) unfolding sel by blast
qed

section \<open>Long traces\<close>

lemma frozen_forever:
  assumes "traced (rs_db st)" "map_of (ad_runs (rs_db st)) i = Some run" "\<not> AutomationRunState_is_terminal (run_state run)"
    and "MAX_QUERY_PAGE < length (run_trace (rs_db st) i)"
  shows "rs_db (((\<lambda>st. snd (runtime_step ar i st)) ^^ n) st) = rs_db st"
  by (induction n) (use assms in \<open>simp_all add: long_trace_frozen\<close>)

text \<open>C38: A run whose trace outgrows one query page never moves again. The interpreter numbers its next step by the trace it
  loads, which the repository caps at a page of 1000 steps. Once an unfinished run of a reachable database has more steps than that, no
  number of calls on it changes the database: it neither proceeds nor fails nor reaches its trace budget, which is
  10000 steps by default.\<close>

theorem long_traces_stall:
  assumes "(store_step lib ids)\<^sup>*\<^sup>* AutomationDatabase_empty (rs_db st)" "map_of (ad_runs (rs_db st)) i = Some run"
    and "\<not> AutomationRunState_is_terminal (run_state run)" "MAX_QUERY_PAGE < length (run_trace (rs_db st) i)"
  shows "rs_db (((\<lambda>st. snd (runtime_step ar i st)) ^^ n) st) = rs_db st"
  using frozen_forever [OF trace_invariant.reachable [OF assms(1)] assms(2-4)] .

definition done_trace_step :: "nat \<Rightarrow> AutomationTraceStep" where
  "done_trace_step n = \<lparr>ts_id = n, ts_run_id = 6, ts_sequence = n, ts_node_id = None, ts_kind = Trace_Trigger, ts_details = [],
     ts_occurred_at = 6, ts_correlation_id = 8, ts_causation_event_id = None\<rparr>"

lemma done_traced:
  "n \<le> 2000 \<Longrightarrow> \<exists>db. done_steps AutomationDatabase_empty db \<and> ad_runs db = [(6, done_run)] \<and> ad_trace db = map done_trace_step [0..<n]"
proof (induction n)
  case 0
  then show ?case using done_admitted by fastforce
next
  case (Suc n)
  then obtain db where db: "done_steps AutomationDatabase_empty db" "ad_runs db = [(6, done_run)]" "ad_trace db = map done_trace_step [0..<n]" by auto
  have run_trace: "run_trace db 6 = map done_trace_step [0..<n]" by (simp add: run_trace_def db filter_map comp_def done_trace_step_def)
  then have "map ts_sequence (run_trace db 6) = [0..<length (run_trace db 6)]" by (simp add: comp_def done_trace_step_def)
  from expected_sequence_contiguous [OF this] have "expected_sequence db 6 = int n" using Suc.prems by (auto simp: run_trace)
  then have "append_trace (done_trace_step n) db = Inr (db\<lparr>ad_trace := ad_trace db @ [done_trace_step n]\<rparr>)"
    using Suc.prems unfolding append_trace_Inr by (auto simp: done_trace_step_def try_i64_def db run_trace image_iff)
  from db(1) step_trace [OF this, of sample_library sample_supply] have
    "done_steps AutomationDatabase_empty (db\<lparr>ad_trace := ad_trace db @ [done_trace_step n]\<rparr>)"
    unfolding done_steps_def by (rule rtranclp.rtrancl_into_rtrancl)
  then show ?case using db by (intro exI [of _ "db\<lparr>ad_trace := ad_trace db @ [done_trace_step n]\<rparr>"]) simp
qed

theorem long_traces_stall_witness:
  "\<exists>db. done_steps AutomationDatabase_empty db \<and> length (run_trace db 6) = 1001 \<and>
     rb_maximum_trace_steps (pl_budget done_plan) = 10000 \<and>
     rs_db (((\<lambda>st. snd (runtime_step done_runtime 6 st)) ^^ 50) (done_state db)) = db"
proof -
  obtain db where db: "done_steps AutomationDatabase_empty db" "ad_runs db = [(6, done_run)]" "ad_trace db = map done_trace_step [0..<1001]"
    using done_traced [of 1001] by auto
  have len: "length (run_trace db 6) = 1001" by (simp add: run_trace_def db(3) filter_map comp_def done_trace_step_def)
  have sel: "rs_db (done_state db) = db" by (simp add: done_state_def)
  have "rs_db (((\<lambda>st. snd (runtime_step done_runtime 6 st)) ^^ 50) (done_state db)) = rs_db (done_state db)"
    by (rule long_traces_stall [of sample_library sample_supply _ _ done_run])
      (use db(1) in \<open>simp_all add: sel db(2) len done_steps_def done_run_def MAX_QUERY_PAGE_def AutomationRunState_is_terminal_def\<close>)
  then show ?thesis using db(1) len by (auto simp: sel done_plan_def AutomationResourceBudget_default_def)
qed

end
