(* ===== verification/Application.thy ===== *)
theory Application
  imports Reconciliation
begin

text \<open>
  The registry facade (\<open>homemagic-application/src/lib.rs\<close>, \<open>registry.rs\<close>, \<open>memory.rs\<close>): the device
  registry, the in-memory repository, and the application's refresh, metadata, removal and
  freshness operations. A durable repository is a record of functions over its own state; the
  event sink, the sessions, the scanners, the clock and the identifiers are parameters. An
  operation returns its result and the state it leaves, also when it fails: earlier commits stay.
\<close>

section \<open>Device registry\<close>

type_synonym DeviceRegistry = "(uuid, DeviceRecord) btree"

definition upsert_all :: "DeviceRecord list \<Rightarrow> DeviceRegistry \<Rightarrow> DeviceRegistry" where
  "upsert_all rs registry = fold (\<lambda>r m. btree_insert (ds_id (dr_snapshot r)) r m) rs registry"

definition registry_load :: "DeviceRecord list \<Rightarrow> DeviceRegistry" where
  "registry_load rs = btree_of_list (map (\<lambda>r. (ds_id (dr_snapshot r), r)) rs)"

definition registry_list :: "DeviceRegistry \<Rightarrow> DeviceSnapshot list" where
  "registry_list registry = map (\<lambda>(_, r). dr_snapshot r) registry"

definition registry_records :: "DeviceRegistry \<Rightarrow> DeviceRecord list" where
  "registry_records registry = map snd registry"

definition registry_get :: "DeviceRegistry \<Rightarrow> uuid \<Rightarrow> DeviceSnapshot option" where
  "registry_get registry i = map_option dr_snapshot (map_of registry i)"

definition get_record :: "DeviceRegistry \<Rightarrow> uuid \<Rightarrow> DeviceRecord option" where
  "get_record registry i = map_of registry i"

section \<open>In-memory repository\<close>

record MemoryState =
  ms_snapshot :: FoundationSnapshot
  ms_events :: "CursorEvent list"

definition upsert_by :: "('a \<Rightarrow> 'k::linorder) \<Rightarrow> 'a list \<Rightarrow> 'a list \<Rightarrow> 'a list" where
  "upsert_by key current incoming =
     map snd (fold (\<lambda>x m. btree_insert (key x) x m) incoming (btree_of_list (map (\<lambda>x. (key x, x)) current)))"

definition upsert_installations :: "Installation list \<Rightarrow> Installation list \<Rightarrow> Installation list" where
  "upsert_installations = upsert_by inst_id"

definition upsert_integrations :: "IntegrationInstance list \<Rightarrow> IntegrationInstance list \<Rightarrow> IntegrationInstance list" where
  "upsert_integrations = upsert_by ii_id"

definition upsert_spaces :: "Space list \<Rightarrow> Space list \<Rightarrow> Space list" where
  "upsert_spaces = upsert_by sp_id"

definition upsert_devices :: "DeviceRecord list \<Rightarrow> DeviceRecord list \<Rightarrow> DeviceRecord list" where
  "upsert_devices = upsert_by (\<lambda>r. ds_id (dr_snapshot r))"

definition upsert_repairs :: "RepairRecord list \<Rightarrow> RepairRecord list \<Rightarrow> RepairRecord list" where
  "upsert_repairs = upsert_by rr_id"

text \<open>The first stored observation of the same target is replaced; otherwise the new one is appended.\<close>

fun upsert_observation :: "CapabilityObservation \<Rightarrow> CapabilityObservation list \<Rightarrow> CapabilityObservation list" where
  "upsert_observation x [] = [x]"
| "upsert_observation x (y # ys) =
     (if co_device_id y = co_device_id x \<and> co_endpoint_id y = co_endpoint_id x \<and> co_capability y = co_capability x
      then x # ys else y # upsert_observation x ys)"

definition append_events :: "DomainEvent list \<Rightarrow> MemoryState \<Rightarrow> MemoryState" where
  "append_events events st =
     (if events = [] then st
      else let current = (case fs_event_cursor (ms_snapshot st) of None \<Rightarrow> 0 | Some c \<Rightarrow> c);
               stored = map (\<lambda>(offset, e). \<lparr>cev_cursor = saturating_add u64_max (saturating_add u64_max current offset) 1, cev_event = e\<rparr>)
                 (enumerate 0 events);
               all = ms_events st @ stored
           in st\<lparr>ms_events := all, ms_snapshot := (ms_snapshot st)\<lparr>fs_event_cursor := Some (cev_cursor (last all))\<rparr>\<rparr>)"

definition memory_apply :: "FoundationWrite \<Rightarrow> MemoryState \<Rightarrow> MemoryState" where
  "memory_apply w st =
     append_events (fw_events w) (st\<lparr>ms_snapshot := (ms_snapshot st)
       \<lparr>fs_installations := upsert_installations (fs_installations (ms_snapshot st)) (fw_installations w),
        fs_integrations := upsert_integrations (fs_integrations (ms_snapshot st)) (fw_integrations w),
        fs_spaces := upsert_spaces (fs_spaces (ms_snapshot st)) (fw_spaces w),
        fs_devices := upsert_devices (fs_devices (ms_snapshot st)) (fw_devices w),
        fs_repairs := upsert_repairs (fs_repairs (ms_snapshot st)) (fw_repairs w),
        fs_observations := fold upsert_observation (fw_observations w) (fs_observations (ms_snapshot st))\<rparr>\<rparr>)"

definition memory_events_after :: "MemoryState \<Rightarrow> nat \<Rightarrow> nat \<Rightarrow> EventPage" where
  "memory_events_after st cursor limit =
     \<lparr>ep_earliest_cursor = (case ms_events st of [] \<Rightarrow> None | e # _ \<Rightarrow> Some (cev_cursor e)),
      ep_latest_cursor = (if ms_events st = [] then None else Some (cev_cursor (last (ms_events st)))),
      ep_events = take limit (filter (\<lambda>e. cursor < cev_cursor e) (ms_events st))\<rparr>"

definition MemoryState_default :: MemoryState where
  "MemoryState_default = \<lparr>ms_snapshot = \<lparr>fs_installations = [], fs_integrations = [], fs_spaces = [], fs_devices = [],
     fs_observations = [], fs_repairs = [], fs_event_cursor = None\<rparr>, ms_events = []\<rparr>"

section \<open>Ports, errors and state\<close>

text \<open>An error erased at a port boundary is its text.\<close>

type_synonym box_error = string

record 'r FoundationRepository =
  repo_load :: "'r \<Rightarrow> box_error + FoundationSnapshot"
  repo_apply :: "FoundationWrite \<Rightarrow> 'r \<Rightarrow> (box_error + unit) \<times> 'r"
  repo_events_after :: "'r \<Rightarrow> nat \<Rightarrow> nat \<Rightarrow> box_error + EventPage"

definition MemoryFoundationRepository :: "MemoryState FoundationRepository" where
  "MemoryFoundationRepository = \<lparr>repo_load = (\<lambda>st. Inr (ms_snapshot st)), repo_apply = (\<lambda>w st. (Inr (), memory_apply w st)),
     repo_events_after = (\<lambda>st cursor limit. Inr (memory_events_after st cursor limit))\<rparr>"

datatype ApplicationError =
    App_Integration string box_error
  | App_Repository string box_error
  | App_EventDelivery box_error
  | App_DomainInvariant InvariantCause
  | App_DeviceNotFound uuid
  | App_SpaceNotFound uuid
  | App_InvalidMetadata string string
  | App_CursorExpired nat nat
  | App_Session string box_error

record DeviceMetadataUpdate =
  mu_name :: "string option"
  mu_aliases :: "string set option"
  mu_spaces :: "uuid set option"
  mu_actor :: "string option"

record IntegrationRefresh =
  ir_integration :: string
  ir_devices :: nat
  ir_repairs :: nat

text \<open>Sessions answer a start or a stop; absent sessions are never asked. A scanner has a name and one
  answer per scan.\<close>

record SessionPort =
  ses_start :: "DeviceRecord \<Rightarrow> box_error + unit"
  ses_stop :: "uuid \<Rightarrow> box_error + unit"

record 'r HomeMagicApplication =
  ha_repository :: "'r FoundationRepository"
  ha_publish :: "DomainEvent list \<Rightarrow> box_error + unit"
  ha_sessions :: "SessionPort option"
  ha_freshness_policy :: FreshnessPolicy
  ha_ids :: IdSupply

record 'r AppState =
  aps_registry :: DeviceRegistry
  aps_repository :: 'r
  aps_repairs :: "(uuid, RepairRecord) btree"
  aps_next :: nat

type_synonym ('r, 'a) app = "'r AppState \<Rightarrow> (ApplicationError + 'a) \<times> 'r AppState"

definition app_bind :: "('r, 'a) app \<Rightarrow> ('a \<Rightarrow> ('r, 'b) app) \<Rightarrow> ('r, 'b) app" where
  "app_bind m f st = (case m st of (Inl e, st') \<Rightarrow> (Inl e, st') | (Inr x, st') \<Rightarrow> f x st')"

definition app_return :: "'a \<Rightarrow> ('r, 'a) app" where
  "app_return x st = (Inr x, st)"

definition app_error :: "ApplicationError \<Rightarrow> ('r, 'a) app" where
  "app_error e st = (Inl e, st)"

definition app_lift :: "ApplicationError + 'a \<Rightarrow> ('r, 'a) app" where
  "app_lift r st = (r, st)"

definition app_fresh :: "'r HomeMagicApplication \<Rightarrow> ('r, uuid) app" where
  "app_fresh ha st = (Inr (sup_fresh (ha_ids ha) (aps_next st)), st\<lparr>aps_next := aps_next st + 1\<rparr>)"

definition app_record :: "uuid \<Rightarrow> ('r, DeviceRecord) app" where
  "app_record i st = (ok_or (get_record (aps_registry st) i) (App_DeviceNotFound i), st)"

definition app_load :: "'r HomeMagicApplication \<Rightarrow> string \<Rightarrow> ('r, FoundationSnapshot) app" where
  "app_load ha operation st =
     (case repo_load (ha_repository ha) (aps_repository st) of Inl e \<Rightarrow> Inl (App_Repository operation e) | Inr s \<Rightarrow> Inr s, st)"

definition FoundationWrite_devices :: "DeviceRecord list \<Rightarrow> DomainEvent list \<Rightarrow> RepairRecord list \<Rightarrow> FoundationWrite" where
  "FoundationWrite_devices ds es rs = \<lparr>fw_installations = [], fw_integrations = [], fw_spaces = [], fw_devices = ds,
     fw_observations = [], fw_events = es, fw_repairs = rs\<rparr>"

text \<open>The write every operation ends with: durable first, then the registry.\<close>

definition app_commit :: "'r HomeMagicApplication \<Rightarrow> string \<Rightarrow> DeviceRecord list \<Rightarrow> DomainEvent list \<Rightarrow> RepairRecord list \<Rightarrow> ('r, unit) app" where
  "app_commit ha operation ds es rs st =
     (case repo_apply (ha_repository ha) (FoundationWrite_devices ds es rs) (aps_repository st) of
        (Inl e, repo) \<Rightarrow> (Inl (App_Repository operation e), st\<lparr>aps_repository := repo\<rparr>)
      | (Inr _, repo) \<Rightarrow> (Inr (), st\<lparr>aps_repository := repo, aps_registry := upsert_all ds (aps_registry st)\<rparr>))"

definition app_publish :: "'r HomeMagicApplication \<Rightarrow> DomainEvent list \<Rightarrow> ('r, unit) app" where
  "app_publish ha es = app_lift (case ha_publish ha es of Inl e \<Rightarrow> Inl (App_EventDelivery e) | Inr _ \<Rightarrow> Inr ())"

definition app_session :: "string \<Rightarrow> box_error + unit \<Rightarrow> ('r, unit) app" where
  "app_session operation r = app_lift (case r of Inl e \<Rightarrow> Inl (App_Session operation e) | Inr _ \<Rightarrow> Inr ())"

section \<open>Reads\<close>

definition events_after :: "'r HomeMagicApplication \<Rightarrow> nat \<Rightarrow> nat \<Rightarrow> ('r, EventPage) app" where
  "events_after ha cursor limit st =
     (case repo_events_after (ha_repository ha) (aps_repository st) cursor (min 128 (max 1 limit)) of
        Inl e \<Rightarrow> Inl (App_Repository ''events_after'' e)
      | Inr page \<Rightarrow>
          (case ep_earliest_cursor page of
             None \<Rightarrow> Inr page
           | Some earliest \<Rightarrow>
               if saturating_add u64_max cursor 1 < earliest then Inl (App_CursorExpired cursor earliest) else Inr page), st)"

record ConnectionSummary =
  cs_availability :: AvailabilityState
  cs_reason :: "string option"
  cs_freshness :: FreshnessState
  cs_last_seen :: "datetime option"
  cs_last_success :: "datetime option"

record DeviceDetails =
  dd_device :: DeviceRecord
  dd_connection :: ConnectionSummary
  dd_observations :: "CapabilityObservation list"
  dd_repairs :: "RepairRecord list"

definition device_details :: "'r HomeMagicApplication \<Rightarrow> uuid \<Rightarrow> datetime \<Rightarrow> ('r, DeviceDetails) app" where
  "device_details ha i now =
     app_bind (app_record i) (\<lambda>device.
     app_bind (app_load ha ''device_details'') (\<lambda>snapshot.
     app_return \<lparr>dd_device = device,
       dd_connection = \<lparr>cs_availability = av_state (dr_availability device), cs_reason = av_reason (dr_availability device),
         cs_freshness = DeviceRecord_freshness_at device (ha_freshness_policy ha) now,
         cs_last_seen = Some (ts_last_seen (dr_timestamps device)), cs_last_success = ts_last_success (dr_timestamps device)\<rparr>,
       dd_observations = filter (\<lambda>x. co_device_id x = i) (fs_observations snapshot),
       dd_repairs = filter (\<lambda>x. rr_device_id x = Some i) (fs_repairs snapshot)\<rparr>))"

definition app_repairs :: "'r AppState \<Rightarrow> RepairRecord list" where
  "app_repairs st = map snd (aps_repairs st)"

definition app_repair :: "'r AppState \<Rightarrow> uuid \<Rightarrow> RepairRecord option" where
  "app_repair st i = map_of (aps_repairs st) i"

section \<open>Metadata\<close>

text \<open>The characters of a UTF-8 string as byte sequences, and \<open>str::trim\<close>.\<close>

function utf8_chunks :: "string \<Rightarrow> string list" where
  "utf8_chunks [] = []"
| "utf8_chunks (c # cs) =
     (let n = (if (of_char c :: nat) < 128 then 0 else if (of_char c :: nat) < 224 then 1 else if (of_char c :: nat) < 240 then 2 else 3)
      in (c # take n cs) # utf8_chunks (drop n cs))"
  by pat_completeness auto
termination
  by (relation "measure length") (auto simp: Let_def)

definition str_trim :: "string \<Rightarrow> string" where
  "str_trim s = concat (dropWhile trim_is_empty (rev (dropWhile trim_is_empty (rev (utf8_chunks s)))))"

definition validated_text :: "string \<Rightarrow> string \<Rightarrow> ApplicationError + string" where
  "validated_text field s =
     (let t = str_trim s in
      if t = [] then Inl (App_InvalidMetadata field ''empty'')
      else if 128 < length (rust_chars t) then Inl (App_InvalidMetadata field ''too_long'')
      else Inr t)"

definition validated_name :: "string \<Rightarrow> ApplicationError + string" where
  "validated_name = validated_text ''name''"

fun collect_aliases :: "string list \<Rightarrow> ApplicationError + string set" where
  "collect_aliases [] = Inr {}"
| "collect_aliases (a # as) =
     and_then (validated_text ''aliases'' a) (\<lambda>t. and_then (collect_aliases as) (\<lambda>ts. Inr (insert t ts)))"

definition validated_aliases :: "string set \<Rightarrow> ApplicationError + string set" where
  "validated_aliases aliases =
     (if 32 < card aliases then Inl (App_InvalidMetadata ''aliases'' ''too_many'')
      else collect_aliases (sorted_list_of_set aliases))"

definition with_name :: "string option \<Rightarrow> DeviceRecord \<times> string list \<Rightarrow> ApplicationError + DeviceRecord \<times> string list" where
  "with_name update x = (case (update, x) of
       (None, _) \<Rightarrow> Inr x
     | (Some name, device, names) \<Rightarrow>
         and_then (validated_name name) (\<lambda>name'.
         Inr (if ds_name (dr_snapshot device) \<noteq> name'
              then (device\<lparr>dr_snapshot := (dr_snapshot device)\<lparr>ds_name := name'\<rparr>\<rparr>, names @ [''name'']) else x)))"

definition with_aliases :: "string set option \<Rightarrow> DeviceRecord \<times> string list \<Rightarrow> ApplicationError + DeviceRecord \<times> string list" where
  "with_aliases update x = (case (update, x) of
       (None, _) \<Rightarrow> Inr x
     | (Some aliases, device, names) \<Rightarrow>
         and_then (validated_aliases aliases) (\<lambda>aliases'.
         Inr (if dr_aliases device \<noteq> aliases' then (device\<lparr>dr_aliases := aliases'\<rparr>, names @ [''aliases'']) else x)))"

definition with_spaces ::
  "'r HomeMagicApplication \<Rightarrow> uuid set option \<Rightarrow> DeviceRecord \<times> string list \<Rightarrow> ('r, DeviceRecord \<times> string list) app" where
  "with_spaces ha update x = (case (update, x) of
       (None, _) \<Rightarrow> app_return x
     | (Some spaces, device, names) \<Rightarrow>
         app_bind (app_load ha ''validate_spaces'') (\<lambda>snapshot.
         case find (\<lambda>space. \<not> list_ex (\<lambda>known. sp_id known = space) (fs_spaces snapshot)) (sorted_list_of_set spaces) of
           Some space \<Rightarrow> app_error (App_SpaceNotFound space)
         | None \<Rightarrow> app_return (if dr_spaces device \<noteq> spaces then (device\<lparr>dr_spaces := spaces\<rparr>, names @ [''spaces'']) else x)))"

definition user_causation :: "uuid \<Rightarrow> string option \<Rightarrow> CausationMetadata" where
  "user_causation correlation actor =
     \<lparr>cm_correlation_id = correlation, cm_causation_event_id = None, cm_actor = actor, cm_automation = None\<rparr>"

definition update_device_metadata ::
  "'r HomeMagicApplication \<Rightarrow> datetime \<Rightarrow> uuid \<Rightarrow> DeviceMetadataUpdate \<Rightarrow> ('r, DeviceRecord) app" where
  "update_device_metadata ha now i update =
     app_bind (app_record i) (\<lambda>device.
     app_bind (app_lift (with_name (mu_name update) (device, []))) (\<lambda>x.
     app_bind (app_lift (with_aliases (mu_aliases update) x)) (\<lambda>y.
     app_bind (with_spaces ha (mu_spaces update) y) (\<lambda>(device', names).
     if names = [] then app_return device'
     else app_bind (app_fresh ha) (\<lambda>eid.
          app_bind (app_fresh ha) (\<lambda>correlation.
          let event = \<lparr>de_id = eid, de_device_id = Some i, de_occurred_at = now,
                de_causation = user_causation correlation (mu_actor update), de_kind = MetadataChanged names\<rparr> in
          app_bind (app_commit ha ''update_device_metadata'' [device'] [event] []) (\<lambda>_.
          app_bind (app_publish ha [event]) (\<lambda>_.
          app_return device'))))))))"

section \<open>Refresh\<close>

fun start_sessions :: "'r HomeMagicApplication \<Rightarrow> DeviceRecord list \<Rightarrow> ('r, unit) app" where
  "start_sessions ha [] = app_return ()"
| "start_sessions ha (d # ds) =
     app_bind (case ha_sessions ha of
         None \<Rightarrow> app_return ()
       | Some s \<Rightarrow> if dr_lifecycle d = Enrolled then app_session ''start'' (ses_start s d) else app_return ()) (\<lambda>_.
     start_sessions ha ds)"

definition app_reconcile :: "'r HomeMagicApplication \<Rightarrow> DiscoveryCandidate list \<Rightarrow> ('r, ReconciliationOutcome) app" where
  "app_reconcile ha candidates st =
     (case reconcile (ha_ids ha) (registry_records (aps_registry st)) candidates (aps_next st) of
        Inl e \<Rightarrow> (Inl (App_DomainInvariant e), st)
      | Inr (out, n) \<Rightarrow> (Inr out, st\<lparr>aps_next := n\<rparr>))"

definition remember_repairs :: "RepairRecord list \<Rightarrow> ('r, unit) app" where
  "remember_repairs rs st = (Inr (), st\<lparr>aps_repairs := fold (\<lambda>r m. btree_insert (rr_id r) r m) rs (aps_repairs st)\<rparr>)"

definition refresh_one :: "'r HomeMagicApplication \<Rightarrow> string \<Rightarrow> box_error + DiscoveryCandidate list \<Rightarrow> ('r, IntegrationRefresh) app" where
  "refresh_one ha integration scanned =
     app_bind (app_lift (case scanned of Inl e \<Rightarrow> Inl (App_Integration integration e) | Inr cs \<Rightarrow> Inr cs)) (\<lambda>candidates.
     app_bind (app_reconcile ha candidates) (\<lambda>out.
     app_bind (app_commit ha ''reconcile'' (ro_devices out) (ro_events out) (ro_repairs out)) (\<lambda>_.
     app_bind (start_sessions ha (ro_devices out)) (\<lambda>_.
     app_bind (remember_repairs (ro_repairs out)) (\<lambda>_.
     app_bind (app_publish ha (ro_events out)) (\<lambda>_.
     app_return \<lparr>ir_integration = integration, ir_devices = ro_accepted out, ir_repairs = length (ro_repairs out)\<rparr>))))))"

fun refresh_scanners :: "'r HomeMagicApplication \<Rightarrow> (string \<times> (box_error + DiscoveryCandidate list)) list \<Rightarrow> ('r, IntegrationRefresh list) app" where
  "refresh_scanners ha [] = app_return []"
| "refresh_scanners ha ((integration, scanned) # rest) =
     app_bind (refresh_one ha integration scanned) (\<lambda>summary.
     app_bind (refresh_scanners ha rest) (\<lambda>summaries. app_return (summary # summaries)))"

text \<open>The scanners answer once per refresh, so their answers are an argument.\<close>

definition refresh :: "'r HomeMagicApplication \<Rightarrow> (string \<times> (box_error + DiscoveryCandidate list)) list \<Rightarrow> ('r, IntegrationRefresh list) app" where
  "refresh ha scans = refresh_scanners ha scans"

section \<open>Removal\<close>

definition lift_cause :: "InvariantCause + 'a \<Rightarrow> ApplicationError + 'a" where
  "lift_cause r = (case r of Inl e \<Rightarrow> Inl (App_DomainInvariant e) | Inr x \<Rightarrow> Inr x)"

definition domain_event :: "uuid \<Rightarrow> uuid \<Rightarrow> datetime \<Rightarrow> CausationMetadata \<Rightarrow> DomainEventKind \<Rightarrow> DomainEvent" where
  "domain_event eid device at causation kind =
     \<lparr>de_id = eid, de_device_id = Some device, de_occurred_at = at, de_causation = causation, de_kind = kind\<rparr>"

definition remove_device :: "'r HomeMagicApplication \<Rightarrow> datetime \<Rightarrow> uuid \<Rightarrow> string option \<Rightarrow> ('r, unit) app" where
  "remove_device ha now i actor =
     app_bind (app_record i) (\<lambda>r.
     if dr_lifecycle r = Removed then app_return ()
     else app_bind (app_lift (lift_cause (record_transition r Remove))) (\<lambda>r1.
       let r2 = r1\<lparr>dr_availability := Availability_transition (dr_availability r1) AvailabilityState.Offline now (Some ''removed'')\<rparr> in
       app_bind (app_fresh ha) (\<lambda>correlation. app_bind (app_fresh ha) (\<lambda>e1. app_bind (app_fresh ha) (\<lambda>e2.
       let causation = user_causation correlation actor;
           events = [domain_event e1 i now causation (LifecycleChanged (dr_lifecycle r) Removed Remove),
                     domain_event e2 i now causation
                       (AvailabilityChanged (av_state (dr_availability r1)) AvailabilityState.Offline (Some ''removed''))] in
       app_bind (app_commit ha ''remove_device'' [r2] events []) (\<lambda>_.
       app_bind (case ha_sessions ha of None \<Rightarrow> app_return () | Some s \<Rightarrow> app_session ''stop'' (ses_stop s i)) (\<lambda>_.
       app_publish ha events)))))))"

section \<open>Freshness\<close>

definition freshness_target :: "DeviceRecord \<Rightarrow> LifecycleTrigger option \<Rightarrow> AvailabilityState \<Rightarrow> string option \<Rightarrow> datetime \<Rightarrow>
   InvariantCause + DeviceRecord" where
  "freshness_target d trigger availability reason now =
     and_then (case trigger of None \<Rightarrow> Inr d | Some t \<Rightarrow> record_transition d t) (\<lambda>d'.
     Inr (d'\<lparr>dr_availability := Availability_transition (dr_availability d') availability now reason\<rparr>))"

text \<open>What one device becomes; absent when the device is skipped.\<close>

definition age_device :: "FreshnessPolicy \<Rightarrow> datetime \<Rightarrow> DeviceRecord \<Rightarrow> InvariantCause + DeviceRecord option" where
  "age_device policy now d =
     (if dr_lifecycle d \<in> {Candidate, Removed} then Inr None
      else case DeviceRecord_freshness_at d policy now of
        FreshnessState.Unknown \<Rightarrow> Inr None
      | FreshnessState.Sleeping \<Rightarrow> Inr None
      | FreshnessState.Fresh \<Rightarrow>
          and_then (freshness_target d (if dr_lifecycle d = DeviceLifecycle.Stale then Some Rediscover else None) Online None now) (\<lambda>x. Inr (Some x))
      | FreshnessState.Stale \<Rightarrow>
          and_then (freshness_target d (if dr_lifecycle d = Enrolled then Some MarkStale else None) Degraded (Some ''stale'') now) (\<lambda>x. Inr (Some x))
      | FreshnessState.Offline \<Rightarrow>
          and_then (freshness_target d (if dr_lifecycle d = Enrolled then Some MarkStale else None) AvailabilityState.Offline
            (Some ''freshness_timeout'') now) (\<lambda>x. Inr (Some x)))"

definition aging_events :: "IdSupply \<Rightarrow> nat \<Rightarrow> CausationMetadata \<Rightarrow> datetime \<Rightarrow> DeviceRecord \<Rightarrow> DeviceRecord \<Rightarrow> DomainEvent list" where
  "aging_events ids n causation now d d' =
     (let i = ds_id (dr_snapshot d');
          lifecycle = (if dr_lifecycle d' \<noteq> dr_lifecycle d
            then [LifecycleChanged (dr_lifecycle d) (dr_lifecycle d')
                    (if dr_lifecycle d' = DeviceLifecycle.Stale then MarkStale else Rediscover)] else []);
          availability = (if av_state (dr_availability d') \<noteq> av_state (dr_availability d)
            then [AvailabilityChanged (av_state (dr_availability d)) (av_state (dr_availability d')) (av_reason (dr_availability d'))] else [])
      in map (\<lambda>(k, kind). domain_event (sup_fresh ids (n + k)) i now causation kind) (enumerate 0 (lifecycle @ availability)))"

fun age_all :: "IdSupply \<Rightarrow> CausationMetadata \<Rightarrow> FreshnessPolicy \<Rightarrow> datetime \<Rightarrow> DeviceRecord list \<Rightarrow> nat \<Rightarrow>
   InvariantCause + DeviceRecord list \<times> DomainEvent list \<times> nat" where
  "age_all ids causation policy now [] n = Inr ([], [], n)"
| "age_all ids causation policy now (d # ds) n =
     and_then (age_device policy now d) (\<lambda>aged.
     let (changed, events) = (case aged of
           None \<Rightarrow> ([], [])
         | Some d' \<Rightarrow>
             (if dr_lifecycle d' \<noteq> dr_lifecycle d \<or> av_state (dr_availability d') \<noteq> av_state (dr_availability d) then [d'] else [],
              aging_events ids n causation now d d'))
     in and_then (age_all ids causation policy now ds (n + length events)) (\<lambda>(cs, es, n'). Inr (changed @ cs, events @ es, n')))"

definition app_age :: "'r HomeMagicApplication \<Rightarrow> FreshnessPolicy \<Rightarrow> datetime \<Rightarrow> uuid \<Rightarrow> ('r, DeviceRecord list \<times> DomainEvent list) app" where
  "app_age ha policy now correlation st =
     (case age_all (ha_ids ha) (system_causation correlation ''system:freshness'') policy now (registry_records (aps_registry st)) (aps_next st) of
        Inl e \<Rightarrow> (Inl (App_DomainInvariant e), st)
      | Inr (changed, events, n) \<Rightarrow> (Inr (changed, events), st\<lparr>aps_next := n\<rparr>))"

definition evaluate_freshness :: "'r HomeMagicApplication \<Rightarrow> FreshnessPolicy \<Rightarrow> datetime \<Rightarrow> ('r, nat) app" where
  "evaluate_freshness ha policy now =
     app_bind (app_fresh ha) (\<lambda>correlation.
     app_bind (app_age ha policy now correlation) (\<lambda>(changed, events).
     if changed = [] then app_return 0
     else app_bind (app_commit ha ''freshness'' changed events []) (\<lambda>_.
          app_bind (app_publish ha events) (\<lambda>_. app_return (length changed)))))"

section \<open>Live observations\<close>

record LiveObservationBatch =
  lb_observations :: "CapabilityObservation list"
  lb_events :: "DomainEvent list"

definition observed_at :: "CapabilityObservation \<Rightarrow> datetime" where
  "observed_at x = (case map (\<lambda>(_, v). ov_observed_at v) (co_values x) of [] \<Rightarrow> co_received_at x | t # ts \<Rightarrow> fold max ts t)"

definition batch_successes :: "CapabilityObservation list \<Rightarrow> (uuid, datetime) btree" where
  "batch_successes xs = fold (\<lambda>x m. btree_insert (co_device_id x)
     (case map_of m (co_device_id x) of None \<Rightarrow> observed_at x | Some current \<Rightarrow> max current (observed_at x)) m) xs []"

definition observed_device :: "DeviceRecord \<Rightarrow> datetime \<Rightarrow> TimestampError + DeviceRecord" where
  "observed_device d at =
     and_then (DeviceTimestamps_record_success (dr_timestamps d) at) (\<lambda>t.
     let d' = d\<lparr>dr_timestamps := t\<rparr> in
     Inr (if av_state (dr_availability d') \<noteq> AvailabilityState.Sleeping
          then d'\<lparr>dr_availability := Availability_transition (dr_availability d') Online at None\<rparr> else d'))"

fun observed_devices :: "DeviceRegistry \<Rightarrow> (uuid, datetime) btree \<Rightarrow> TimestampError + DeviceRecord list" where
  "observed_devices registry [] = Inr []"
| "observed_devices registry ((i, at) # rest) =
     (case get_record registry i of
        None \<Rightarrow> observed_devices registry rest
      | Some d \<Rightarrow> and_then (observed_device d at) (\<lambda>d'. and_then (observed_devices registry rest) (\<lambda>ds. Inr (d' # ds))))"

datatype LiveError = Live_Timestamp TimestampError | Live_Port box_error

text \<open>The sink with the registry attached, as the executable builds it.\<close>

definition live_publish :: "'r HomeMagicApplication \<Rightarrow> LiveObservationBatch \<Rightarrow> 'r AppState \<Rightarrow> (LiveError + unit) \<times> 'r AppState" where
  "live_publish ha batch st =
     (case observed_devices (aps_registry st) (batch_successes (lb_observations batch)) of
        Inl e \<Rightarrow> (Inl (Live_Timestamp e), st)
      | Inr devices \<Rightarrow>
          (case repo_apply (ha_repository ha) \<lparr>fw_installations = [], fw_integrations = [], fw_spaces = [], fw_devices = devices,
                  fw_observations = lb_observations batch, fw_events = lb_events batch, fw_repairs = []\<rparr> (aps_repository st) of
             (Inl e, repo) \<Rightarrow> (Inl (Live_Port e), st\<lparr>aps_repository := repo\<rparr>)
           | (Inr _, repo) \<Rightarrow>
               (case ha_publish ha (lb_events batch) of Inl e \<Rightarrow> Inl (Live_Port e) | Inr _ \<Rightarrow> Inr (),
                st\<lparr>aps_repository := repo, aps_registry := upsert_all devices (aps_registry st)\<rparr>)))"

section \<open>Start-up\<close>

definition from_repository :: "'r FoundationRepository \<Rightarrow> 'r \<Rightarrow> nat \<Rightarrow> ApplicationError + 'r AppState" where
  "from_repository repo r n =
     (case repo_load repo r of
        Inl e \<Rightarrow> Inl (App_Repository ''load'' e)
      | Inr snapshot \<Rightarrow> Inr \<lparr>aps_registry = registry_load (fs_devices snapshot), aps_repository = r,
          aps_repairs = btree_of_list (map (\<lambda>x. (rr_id x, x)) (fs_repairs snapshot)), aps_next = n\<rparr>)"

text \<open>What callers do to a running application, each with whatever its ports answer; failures leave
  the state the operation had reached.\<close>

datatype app_request =
    Refresh "(string \<times> (box_error + DiscoveryCandidate list)) list"
  | UpdateMetadata datetime uuid DeviceMetadataUpdate
  | RemoveDevice datetime uuid "string option"
  | EvaluateFreshness FreshnessPolicy datetime
  | PublishLive LiveObservationBatch

fun serve :: "'r HomeMagicApplication \<Rightarrow> app_request \<Rightarrow> 'r AppState \<Rightarrow> 'r AppState" where
  "serve ha (Refresh scans) st = snd (refresh ha scans st)"
| "serve ha (UpdateMetadata now i update) st = snd (update_device_metadata ha now i update st)"
| "serve ha (RemoveDevice now i actor) st = snd (remove_device ha now i actor st)"
| "serve ha (EvaluateFreshness policy now) st = snd (evaluate_freshness ha policy now st)"
| "serve ha (PublishLive batch) st = snd (live_publish ha batch st)"

section \<open>The registry mirrors the store\<close>

text \<open>What the application relies on of a repository: loads show the stored devices, a committed
  write upserts its devices, a failed one leaves them alone.\<close>

locale foundation_store =
  fixes repo :: "'r FoundationRepository"
    and stored :: "'r \<Rightarrow> DeviceRegistry"
  assumes load_stored: "repo_load repo r = Inr s \<Longrightarrow> registry_load (fs_devices s) = stored r"
    and apply_ok: "repo_apply repo w r = (Inr u, r') \<Longrightarrow> stored r' = upsert_all (fw_devices w) (stored r)"
    and apply_error: "repo_apply repo w r = (Inl e, r') \<Longrightarrow> stored r' = stored r"
begin

definition mirrored :: "'r AppState \<Rightarrow> bool" where
  "mirrored st \<longleftrightarrow> aps_registry st = stored (aps_repository st)"

definition keeps :: "('r, 'a) app \<Rightarrow> bool" where
  "keeps m \<longleftrightarrow> (\<forall>st. mirrored st \<longrightarrow> mirrored (snd (m st)))"

lemma keeps_bind: "keeps m \<Longrightarrow> (\<And>x. keeps (f x)) \<Longrightarrow> keeps (app_bind m f)"
  by (fastforce simp: keeps_def app_bind_def split: prod.splits sum.splits)

lemma keeps_pure: "keeps (app_return x)" "keeps (app_error e)" "keeps (app_lift r)" "keeps (app_fresh ha)" "keeps (app_record i)"
    "keeps (app_load ha operation)" "keeps (app_publish ha es)" "keeps (app_session operation a)" "keeps (app_reconcile ha cs)"
    "keeps (remember_repairs rs)" "keeps (app_age ha policy now correlation)"
  by (auto simp: keeps_def mirrored_def app_return_def app_error_def app_lift_def app_fresh_def app_record_def app_load_def
      app_publish_def app_session_def app_reconcile_def remember_repairs_def app_age_def split: sum.splits)

lemma mirrored_write:
  assumes "ha_repository ha = repo" "mirrored st"
  shows "repo_apply (ha_repository ha) w (aps_repository st) = (Inr u, r') \<Longrightarrow>
      mirrored (st\<lparr>aps_repository := r', aps_registry := upsert_all (fw_devices w) (aps_registry st)\<rparr>)"
    and "repo_apply (ha_repository ha) w (aps_repository st) = (Inl e, r') \<Longrightarrow> mirrored (st\<lparr>aps_repository := r'\<rparr>)"
  using assms apply_ok [of w "aps_repository st" u r'] apply_error [of w "aps_repository st" e r'] by (simp_all add: mirrored_def)

lemma keeps_commit: "ha_repository ha = repo \<Longrightarrow> keeps (app_commit ha operation ds es rs)"
  using mirrored_write [where w = "FoundationWrite_devices ds es rs"]
  by (fastforce simp: keeps_def app_commit_def FoundationWrite_devices_def split: prod.splits sum.splits)

lemma keeps_if: "(b \<Longrightarrow> keeps m) \<Longrightarrow> (\<not> b \<Longrightarrow> keeps m') \<Longrightarrow> keeps (if b then m else m')"
  by simp

lemmas keeping = keeps_bind keeps_pure keeps_commit keeps_if

lemma keeps_start_sessions: "keeps (start_sessions ha ds)"
  by (induction ds) (auto intro!: keeping split: option.split)

lemma keeps_refresh_scanners: "ha_repository ha = repo \<Longrightarrow> keeps (refresh_scanners ha scans)"
  by (induction scans) (auto simp: refresh_one_def intro!: keeping keeps_start_sessions split: option.split)

lemma keeps_with_spaces: "keeps (with_spaces ha spaces x)"
proof (cases spaces)
  case (Some s)
  show ?thesis
    by (cases x) (simp only: with_spaces_def Some option.case prod.case, intro keeps_bind keeps_pure,
      simp add: keeps_pure split: option.split)
qed (simp add: with_spaces_def keeps_pure)

lemma keeps_update_device_metadata: "ha_repository ha = repo \<Longrightarrow> keeps (update_device_metadata ha now i update)"
  unfolding update_device_metadata_def Let_def case_prod_unfold
  by (intro keeping keeps_with_spaces)

lemma keeps_remove_device: "ha_repository ha = repo \<Longrightarrow> keeps (remove_device ha now i actor)"
  unfolding remove_device_def Let_def by (auto intro!: keeping split: option.split)

lemma keeps_evaluate_freshness: "ha_repository ha = repo \<Longrightarrow> keeps (evaluate_freshness ha policy now)"
  unfolding evaluate_freshness_def case_prod_unfold by (auto intro!: keeping)

lemma mirrored_live_publish: "ha_repository ha = repo \<Longrightarrow> mirrored st \<Longrightarrow> mirrored (snd (live_publish ha batch st))"
  using mirrored_write [of ha st]
  by (fastforce simp: live_publish_def split: prod.splits sum.splits)

lemma mirrored_serve: "ha_repository ha = repo \<Longrightarrow> mirrored st \<Longrightarrow> mirrored (serve ha request st)"
  using keeps_refresh_scanners keeps_update_device_metadata keeps_remove_device keeps_evaluate_freshness mirrored_live_publish
  by (cases request) (auto simp: keeps_def refresh_def)

lemma mirrored_start: "from_repository repo r n = Inr st \<Longrightarrow> mirrored st"
  by (auto simp: from_repository_def mirrored_def dest: load_stored split: sum.splits)

lemma mirrored_run: "ha_repository ha = repo \<Longrightarrow> mirrored st \<Longrightarrow> mirrored (fold (serve ha) requests st)"
  by (induction requests arbitrary: st) (simp_all add: mirrored_serve)

lemma restart:
  assumes "ha_repository ha = repo" "from_repository repo r n = Inr st"
    and "from_repository repo (aps_repository (fold (serve ha) requests st)) m = Inr st'"
  shows "aps_registry st' = aps_registry (fold (serve ha) requests st)"
  using mirrored_run [OF assms(1) mirrored_start [OF assms(2)], of requests] mirrored_start [OF assms(3)] assms(3)
  by (auto simp: mirrored_def from_repository_def split: sum.splits)

end

text \<open>The in-memory repository keeps these promises.\<close>

definition keyed :: "DeviceRegistry \<Rightarrow> bool" where
  "keyed m \<longleftrightarrow> btree_wf m \<and> (\<forall>(i, r) \<in> set m. ds_id (dr_snapshot r) = i)"

lemma upsert_all_fold:
  "upsert_all rs m = fold (\<lambda>(k, v) m. btree_insert k v m) (map (\<lambda>r. (ds_id (dr_snapshot r), r)) rs) m"
  by (simp add: upsert_all_def fold_map comp_def)

lemma keyed_upsert_all: "keyed m \<Longrightarrow> keyed (upsert_all rs m)"
proof (induction rs arbitrary: m)
  case (Cons r rs)
  have wf: "btree_wf (btree_insert (ds_id (dr_snapshot r)) r m)" using Cons.prems by (simp add: keyed_def)
  have m: "btree_wf m" "map_of m i = Some r' \<Longrightarrow> ds_id (dr_snapshot r') = i" for i r'
    using Cons.prems by (auto simp: keyed_def dest: map_of_SomeD)
  have "ds_id (dr_snapshot r') = i" if "(i, r') \<in> set (btree_insert (ds_id (dr_snapshot r)) r m)" for i r'
    using that m(2) [of i r'] unfolding bt.entry_lookup [OF wf] by (simp split: if_splits)
  then have "keyed (btree_insert (ds_id (dr_snapshot r)) r m)" using wf by (auto simp: keyed_def)
  then show ?case using Cons.IH by (simp add: upsert_all_def)
qed (simp add: upsert_all_def)

lemma keyed_registry_load: "keyed (registry_load rs)"
proof -
  have "registry_load rs = upsert_all rs []" by (simp add: registry_load_def upsert_all_fold btree_of_list_def)
  then show ?thesis using keyed_upsert_all [of "[]" rs] by (simp add: keyed_def)
qed

lemma registry_load_values: "keyed m \<Longrightarrow> registry_load (map snd m) = m"
proof -
  assume m: "keyed m"
  then have "map (\<lambda>r. (ds_id (dr_snapshot r), r)) (map snd m) = m" by (auto simp: keyed_def intro!: map_idI)
  moreover have "btree_of_list m = m"
    using m bt.distinct_keys [of m] by (intro btree_ext) (auto simp: keyed_def map_of_btree_of_list map_of_rev_distinct)
  ultimately show ?thesis by (simp add: registry_load_def)
qed

lemma registry_load_upsert: "registry_load (upsert_devices current incoming) = upsert_all incoming (registry_load current)"
proof -
  have "upsert_devices current incoming = map snd (upsert_all incoming (registry_load current))"
    by (simp add: upsert_devices_def upsert_by_def upsert_all_def registry_load_def)
  then show ?thesis by (simp add: registry_load_values keyed_upsert_all keyed_registry_load)
qed

lemma append_events_devices [simp]: "fs_devices (ms_snapshot (append_events es st)) = fs_devices (ms_snapshot st)"
  by (simp add: append_events_def Let_def)

interpretation memory: foundation_store MemoryFoundationRepository "\<lambda>st. registry_load (fs_devices (ms_snapshot st))"
  by unfold_locales (auto simp: MemoryFoundationRepository_def memory_apply_def registry_load_upsert)

section \<open>Event history\<close>

text \<open>A subscriber that reads page after page, each from the last cursor it has seen, until a page is empty.\<close>

fun follow_events :: "'r HomeMagicApplication \<Rightarrow> nat \<Rightarrow> nat \<Rightarrow> nat \<Rightarrow> 'r AppState \<Rightarrow> ApplicationError + CursorEvent list" where
  "follow_events ha limit 0 cursor st = Inr []"
| "follow_events ha limit (Suc fuel) cursor st =
     and_then (fst (events_after ha cursor limit st)) (\<lambda>page.
     if ep_events page = [] then Inr []
     else and_then (follow_events ha limit fuel (cev_cursor (last (ep_events page))) st) (\<lambda>rest. Inr (ep_events page @ rest)))"

definition history :: "DomainEvent list \<Rightarrow> CursorEvent list" where
  "history es = map (\<lambda>(k, e). \<lparr>cev_cursor = Suc k, cev_event = e\<rparr>) (enumerate 0 es)"

lemma history_props [simp]: "length (history es) = length es" "history es = [] \<longleftrightarrow> es = []" "map cev_event (history es) = es"
  by (simp_all add: history_def comp_def case_prod_unfold enumerate_eq_zip)

lemma history_nth: "k < length es \<Longrightarrow> history es ! k = \<lparr>cev_cursor = Suc k, cev_event = es ! k\<rparr>"
  by (simp add: history_def nth_enumerate_eq)

lemma history_append:
  "history (xs @ ys) = history xs @ map (\<lambda>(k, e). \<lparr>cev_cursor = length xs + Suc k, cev_event = e\<rparr>) (enumerate 0 ys)"
  by (rule nth_equalityI) (auto simp: history_def nth_append nth_enumerate_eq)

lemma history_last: "es \<noteq> [] \<Longrightarrow> cev_cursor (last (history es)) = length es"
  by (simp add: last_conv_nth history_nth)

lemma history_after: "filter (\<lambda>e. cursor < cev_cursor e) (history es) = drop cursor (history es)"
proof -
  have "filter (\<lambda>e. cursor < cev_cursor e) (history es) =
      filter (\<lambda>e. cursor < cev_cursor e) (take cursor (history es)) @ filter (\<lambda>e. cursor < cev_cursor e) (drop cursor (history es))"
    by (metis append_take_drop_id filter_append)
  moreover have "filter (\<lambda>e. cursor < cev_cursor e) (take cursor (history es)) = []"
    by (auto simp: filter_empty_conv in_set_conv_nth history_nth)
  moreover have "filter (\<lambda>e. cursor < cev_cursor e) (drop cursor (history es)) = drop cursor (history es)"
    by (auto simp: filter_id_conv in_set_conv_nth history_nth)
  ultimately show ?thesis by simp
qed

definition logged :: "DomainEvent list \<Rightarrow> MemoryState \<Rightarrow> bool" where
  "logged es st \<longleftrightarrow> ms_events st = history es \<and> fs_event_cursor (ms_snapshot st) = (if es = [] then None else Some (length es))"

lemma logged_append:
  assumes "logged es st" "length es + length new \<le> u64_max"
  shows "logged (es @ new) (append_events new st)"
proof (cases "new = []")
  case False
  have current: "(case fs_event_cursor (ms_snapshot st) of None \<Rightarrow> 0 | Some c \<Rightarrow> c) = length es" using assms(1) by (simp add: logged_def)
  have "saturating_add u64_max (saturating_add u64_max (length es) k) 1 = length es + Suc k" if "k < length new" for k
    using that assms(2) by (simp add: saturating_add_exact)
  then have all: "ms_events st @ map (\<lambda>(offset, e). \<lparr>cev_cursor = saturating_add u64_max (saturating_add u64_max (length es) offset) 1, cev_event = e\<rparr>)
      (enumerate 0 new) = history (es @ new)"
    using assms(1) by (auto simp: logged_def history_append enumerate_eq_zip in_set_zip intro!: map_cong)
  have "append_events new st = st\<lparr>ms_events := history (es @ new),
      ms_snapshot := (ms_snapshot st)\<lparr>fs_event_cursor := Some (cev_cursor (last (history (es @ new))))\<rparr>\<rparr>"
    using False unfolding append_events_def current Let_def all by simp
  then show ?thesis using False by (simp add: logged_def history_last)
qed (use assms in \<open>simp add: append_events_def\<close>)

lemma logged_cong: "ms_events st = ms_events st' \<Longrightarrow> fs_event_cursor (ms_snapshot st) = fs_event_cursor (ms_snapshot st') \<Longrightarrow> logged es st = logged es st'"
  by (simp add: logged_def)

lemma logged_apply: "logged es st \<Longrightarrow> length es + length (fw_events w) \<le> u64_max \<Longrightarrow> logged (es @ fw_events w) (memory_apply w st)"
  unfolding memory_apply_def by (rule logged_append) (simp_all add: logged_def)

lemma logged_writes:
  "logged es st \<Longrightarrow> length es + length (concat (map fw_events writes)) \<le> u64_max \<Longrightarrow>
     logged (es @ concat (map fw_events writes)) (fold memory_apply writes st)"
proof (induction writes arbitrary: es st)
  case (Cons w ws)
  from Cons.prems have "logged (es @ fw_events w) (memory_apply w st)" by (intro logged_apply) simp_all
  from Cons.IH [OF this] Cons.prems(2) show ?case by simp
qed simp

lemma events_after_logged:
  assumes "ha_repository ha = MemoryFoundationRepository" "logged es (aps_repository st)" 
  shows "\<exists>page. events_after ha cursor limit st = (Inr page, st) \<and> ep_events page = take (min 128 (max 1 limit)) (drop cursor (history es))"
proof -
  have events: "ms_events (aps_repository st) = history es" using assms(2) by (simp add: logged_def)
  let ?page = "memory_events_after (aps_repository st) cursor (min 128 (max 1 limit))"
  have page: "repo_events_after (ha_repository ha) (aps_repository st) cursor (min 128 (max 1 limit)) = Inr ?page"
    by (simp add: assms(1) MemoryFoundationRepository_def)
  have earliest: "\<not> saturating_add u64_max cursor 1 < e" if "ep_earliest_cursor ?page = Some e" for e
    using that unfolding memory_events_after_def events
    by (cases es) (simp_all add: history_def saturating_add_def)
  have "events_after ha cursor limit st = (Inr ?page, st)"
    unfolding events_after_def page using earliest by (simp split: option.split)
  moreover have "ep_events ?page = take (min 128 (max 1 limit)) (drop cursor (history es))"
    by (simp add: memory_events_after_def events history_after)
  ultimately show ?thesis by blast
qed

lemma follow_events_logged:
  assumes "ha_repository ha = MemoryFoundationRepository" "logged es (aps_repository st)"
  shows "length es < fuel + cursor \<Longrightarrow> follow_events ha limit fuel cursor st = Inr (drop cursor (history es))"
proof (induction fuel arbitrary: cursor)
  case (Suc fuel)
  let ?n = "min 128 (max 1 limit)"
  obtain page where page: "events_after ha cursor limit st = (Inr page, st)" "ep_events page = take ?n (drop cursor (history es))"
    using events_after_logged [OF assms] by blast
  show ?case
  proof (cases "cursor < length es")
    case True
    define m where "m = min (length es) (cursor + ?n)"
    have m: "cursor < m" "m \<le> length es" using True by (auto simp: m_def min_def max_def)
    have events: "ep_events page = take (m - cursor) (drop cursor (history es))"
      unfolding page(2) m_def by (simp add: min_def)
    then have nonempty: "ep_events page \<noteq> []" using True m(1) by simp
    have "last (ep_events page) = take (m - cursor) (drop cursor (history es)) ! (m - cursor - 1)"
      using nonempty m unfolding events by (simp add: last_conv_nth)
    also have "\<dots> = history es ! (m - 1)" using m by simp
    finally have seen: "cev_cursor (last (ep_events page)) = m" using m by (simp add: history_nth)
    have "follow_events ha limit fuel m st = Inr (drop m (history es))" using Suc m(1) by simp
    moreover have "ep_events page @ drop m (history es) = drop cursor (history es)"
      unfolding events using m by (metis append_take_drop_id drop_drop le_add_diff_inverse2 less_imp_le_nat)
    ultimately show ?thesis using page(1) nonempty seen by simp
  qed (use page in simp)
qed simp

section \<open>Rediscovery after a metadata update\<close>

text \<open>One candidate against a filed registry that already knows its device: the record is updated, and
  listed as changed unless nothing of it differs.\<close>

lemma reconcile_known:
  assumes "distinct (map (\<lambda>r. ds_id (dr_snapshot r)) existing)"
    and "\<forall>r \<in> set existing. ds_id (dr_snapshot r) = derived_id ids (native_key r)" "inj (derived_id ids)"
    and r: "r \<in> set existing" "(dc_integration_id c, ds_native_id (dc_snapshot c)) = native_key r"
      "ds_id (dc_snapshot c) = ds_id (dr_snapshot r)"
    and out: "reconcile ids existing [c] n = Inr (out, n')"
  obtains r' events m where
    "update_record ids r c (system_causation (sup_fresh ids n) ''system:discovery'') (n + 1) = Inr (r', events, m)"
    "ro_devices out = (if DeviceRecord_eq r' r then [] else [r'])"
proof -
  let ?st = "initial_reconciling existing (n + 1)"
  let ?update = "update_record ids r c (system_causation (sup_fresh ids n) ''system:discovery'') (n + 1)"
  note init = initial_pass [OF assms(1-3), of "n + 1"]
  have known: "known_devices existing (ds_id (dr_snapshot r)) = Some r"
    using assms(1) r(1) unfolding known_devices_def by (intro map_of_is_SomeI) (simp_all add: comp_def rev_image_eqI)
  then have records: "map_of (rc_records ?st) (ds_id (dr_snapshot r)) = Some r" using init(2) by simp
  have index: "rc_native_index ?st (native_key r) = Some (ds_id (dr_snapshot r))" using pass_okD(2) [OF init(1) records] by simp
  have id: "ds_id (dr_snapshot r) = DeviceId_from_integration (sup_v5 ids) (sup_text ids) (dc_integration_id c) (ds_native_id (dc_snapshot c))"
    using assms(2) r(1,2) by (metis derived_id_def fst_conv snd_conv)
  have base: "rc_changed (initial_reconciling existing k) = []" "rc_next (initial_reconciling existing k) = k" for k by (simp_all add: initial_reconciling_def Let_def)
  have step: "reconcile_candidate ids (system_causation (sup_fresh ids n) ''system:discovery'') c ?st =
      and_then ?update (\<lambda>(r', events, m). Inr (accept_record r' events m (\<not> DeviceRecord_eq r' r) (?st\<lparr>rc_repairs := rc_repairs ?st @ dc_repairs c\<rparr>)))"
    using index records r id by (simp add: reconcile_candidate_def base)
  obtain r' events m where u: "?update = Inr (r', events, m)"
    using out unfolding reconcile_def reconcile_all.simps step by (cases ?update) auto
  have "ro_devices out = (if DeviceRecord_eq r' r then [] else [r'])"
    using out unfolding reconcile_def reconcile_all.simps step u by (auto simp: accept_record_def base)
  with u show thesis using that by blast
qed

lemma update_record_name: "update_record ids r c causation n = Inr (r', events, m) \<Longrightarrow> ds_name (dr_snapshot r') = ds_name (dc_snapshot c)"
  by (auto simp: update_record_def Let_def result_simps record_timestamps_def rediscovery_enrolls
      DeviceRecord_replace_snapshot_def bring_online_def split: sum.splits if_splits)

lemma DeviceRecord_eq_name:
  assumes "DeviceRecord_eq a b"
  shows "ds_name (dr_snapshot a) = ds_name (dr_snapshot b)"
proof -
  have "(dr_snapshot a)\<lparr>ds_endpoints := [], ds_vendor_data := []\<rparr> = (dr_snapshot b)\<lparr>ds_endpoints := [], ds_vendor_data := []\<rparr>"
    using assms by (simp add: DeviceRecord_eq_def DeviceSnapshot_eq_def)
  from arg_cong [OF this, of ds_name] show ?thesis by simp
qed

definition rename_only :: "string \<Rightarrow> string option \<Rightarrow> DeviceMetadataUpdate" where
  "rename_only name actor = \<lparr>mu_name = Some name, mu_aliases = None, mu_spaces = None, mu_actor = actor\<rparr>"

lemma registry_entry: "keyed m \<Longrightarrow> map_of m i = Some r \<Longrightarrow> ds_id (dr_snapshot r) = i"
  by (auto simp: keyed_def dest: map_of_SomeD)

lemma rename_result:
  assumes "map_of (aps_registry st) i = Some r" "keyed (aps_registry st)"
    and "update_device_metadata ha now i (rename_only name actor) st = (Inr r1, st1)"
  shows "r1 = r\<lparr>dr_snapshot := (dr_snapshot r)\<lparr>ds_name := str_trim name\<rparr>\<rparr>" "aps_registry st1 = btree_insert i r1 (aps_registry st)"
proof -
  have id: "ds_id (dr_snapshot r) = i" using registry_entry assms by blast
  have same: "btree_insert i r (aps_registry st) = aps_registry st"
    using assms(1,2) by (intro btree_ext) (auto simp: keyed_def)
  have triv: "r\<lparr>dr_snapshot := (dr_snapshot r)\<lparr>ds_name := ds_name (dr_snapshot r)\<rparr>\<rparr> = r" by (cases r) simp
  show "r1 = r\<lparr>dr_snapshot := (dr_snapshot r)\<lparr>ds_name := str_trim name\<rparr>\<rparr>" "aps_registry st1 = btree_insert i r1 (aps_registry st)"
    using assms(1,3) id same triv
    by (auto simp: update_device_metadata_def rename_only_def app_bind_def app_record_def get_record_def app_lift_def with_name_def
        validated_name_def validated_text_def Let_def with_aliases_def with_spaces_def app_return_def app_fresh_def app_commit_def
        upsert_all_def app_publish_def FoundationWrite_devices_def result_simps split: if_splits sum.splits prod.splits)
qed

lemma start_sessions_state [simp]: "snd (start_sessions ha ds st) = st"
  by (induction ds) (auto simp: app_bind_def app_return_def app_session_def app_lift_def split: prod.split sum.split option.split)

lemma refresh_result:
  assumes "refresh ha [(integration, Inr cs)] st = (Inr summaries, st')"
  obtains out n where "reconcile (ha_ids ha) (registry_records (aps_registry st)) cs (aps_next st) = Inr (out, n)"
    "aps_registry st' = upsert_all (ro_devices out) (aps_registry st)"
proof -
  have sessions: "st1 = st2" if "start_sessions ha ds st2 = (x, st1)" for ds x st1 st2
    using start_sessions_state [of ha ds st2] that by simp
  show thesis
    using assms that
    by (auto simp: refresh_def refresh_one_def app_bind_def app_lift_def app_reconcile_def app_commit_def FoundationWrite_devices_def
        remember_repairs_def app_publish_def app_return_def dest!: sessions split: sum.splits prod.splits)
qed

section \<open>A running application\<close>

definition sample_application :: "MemoryState HomeMagicApplication" where
  "sample_application = \<lparr>ha_repository = MemoryFoundationRepository, ha_publish = (\<lambda>_. Inr ()), ha_sessions = None,
     ha_freshness_policy = FreshnessPolicy_default, ha_ids = sample_supply\<rparr>"

definition sample_start :: "MemoryState AppState" where
  "sample_start = \<lparr>aps_registry = [], aps_repository = MemoryState_default, aps_repairs = [], aps_next = 0\<rparr>"

lemma sample_start: "from_repository MemoryFoundationRepository MemoryState_default 0 = Inr sample_start"
  by (simp add: from_repository_def MemoryFoundationRepository_def MemoryState_default_def sample_start_def registry_load_def btree_of_list_def)

lemma sample_refresh:
  "aps_registry (snd (refresh sample_application [(''shelly'', Inr [sample_candidate name])] sample_start)) =
     [(ds_id (dc_snapshot (sample_candidate name)), enrolled_record (sample_candidate name))]"
  by (simp add: refresh_def refresh_one_def app_bind_def app_lift_def app_reconcile_def sample_application_def sample_start_def
      registry_records_def sample_reconcile app_commit_def MemoryFoundationRepository_def app_return_def remember_repairs_def app_publish_def
      upsert_all_def)

section \<open>Properties\<close>



text \<open>C20: A new name does not survive rediscovery. In a registry filed by derived identities, renaming a device
  succeeds, but the next successful refresh that sees the device under the name it reports itself puts that
  name back: the update writes the name into the snapshot that discovery replaces as a whole.\<close>

theorem rename_lost_on_rediscovery:
  assumes registry: "keyed (aps_registry st)" "\<forall>(_, x) \<in> set (aps_registry st). ds_id (dr_snapshot x) = derived_id (ha_ids ha) (native_key x)"
      "inj (derived_id (ha_ids ha))"
    and device: "map_of (aps_registry st) i = Some r"
    and renamed: "update_device_metadata ha now i (rename_only name actor) st = (Inr r1, st1)"
    and candidate: "(dc_integration_id c, ds_native_id (dc_snapshot c)) = native_key r" "ds_id (dc_snapshot c) = i"
      "ds_name (dc_snapshot c) = ds_name (dr_snapshot r)"
    and refreshed: "refresh ha [(integration, Inr [c])] st1 = (Inr summaries, st2)"
  shows "map_option ds_name (registry_get (aps_registry st1) i) = Some (str_trim name) \<and>
    map_option ds_name (registry_get (aps_registry st2) i) = Some (ds_name (dr_snapshot r))"
proof -
  have id: "ds_id (dr_snapshot r) = i" using registry_entry registry(1) device by blast
  note r1 = rename_result [OF device registry(1) renamed]
  have id1: "ds_id (dr_snapshot r1) = i" and key1: "native_key r1 = native_key r" using id by (simp_all add: r1(1) native_key_def)
  have keyed: "keyed (aps_registry st1)"
    using keyed_upsert_all [OF registry(1), of "[r1]"] id1 r1(2) by (simp add: upsert_all_def)
  have wf: "btree_wf (aps_registry st1)" using keyed by (simp add: keyed_def)
  have ids: "map (\<lambda>x. ds_id (dr_snapshot x)) (registry_records (aps_registry st1)) = map fst (aps_registry st1)"
    using keyed by (auto simp: registry_records_def keyed_def)
  have distinct: "distinct (map (\<lambda>x. ds_id (dr_snapshot x)) (registry_records (aps_registry st1)))"
    unfolding ids by (rule bt.distinct_keys [OF wf])
  have old: "ds_id (dr_snapshot r) = derived_id (ha_ids ha) (native_key r)" using registry(2) map_of_SomeD [OF device] by auto
  have "ds_id (dr_snapshot x) = derived_id (ha_ids ha) (native_key x)" if "(j, x) \<in> set (aps_registry st1)" for j x
  proof (cases "j = i")
    case True
    then have "x = r1" using that unfolding bt.entry_lookup [OF wf] by (simp add: r1(2))
    then show ?thesis using old id id1 key1 by simp
  next
    case False
    then have "map_of (aps_registry st) j = Some x" using that unfolding bt.entry_lookup [OF wf] by (simp add: r1(2))
    then show ?thesis using registry(2) by (auto dest: map_of_SomeD)
  qed
  then have filed: "\<forall>x \<in> set (registry_records (aps_registry st1)). ds_id (dr_snapshot x) = derived_id (ha_ids ha) (native_key x)"
    by (auto simp: registry_records_def)
  have lookup: "map_of (aps_registry st1) i = Some r1" by (simp add: r1(2))
  then have member: "r1 \<in> set (registry_records (aps_registry st1))" by (force simp: registry_records_def dest: map_of_SomeD)
  obtain out n where out: "reconcile (ha_ids ha) (registry_records (aps_registry st1)) [c] (aps_next st1) = Inr (out, n)"
    "aps_registry st2 = upsert_all (ro_devices out) (aps_registry st1)"
    by (rule refresh_result [OF refreshed])
  have match: "(dc_integration_id c, ds_native_id (dc_snapshot c)) = native_key r1" "ds_id (dc_snapshot c) = ds_id (dr_snapshot r1)"
    using candidate key1 id1 by simp_all
  obtain r' events m causation k where r': "update_record (ha_ids ha) r1 c causation k = Inr (r', events, m)"
    "ro_devices out = (if DeviceRecord_eq r' r1 then [] else [r'])"
    using reconcile_known [OF distinct filed registry(3) member match out(1)] by metis
  have name: "ds_name (dr_snapshot r') = ds_name (dr_snapshot r)" using update_record_name [OF r'(1)] candidate(3) by simp
  have id': "ds_id (dr_snapshot r') = i"
    using r'(1) id1 by (cases rule: update_record_cases [of "ha_ids ha" r1 c causation k]) (auto simp: same_device_def)
  have "map_option ds_name (registry_get (aps_registry st2) i) = Some (ds_name (dr_snapshot r))"
    using name id' lookup unfolding out(2) r'(2)
    by (auto simp: upsert_all_def registry_get_def DeviceRecord_eq_name)
  then show ?thesis using lookup by (simp add: registry_get_def r1(1))
qed

definition sample_known :: "MemoryState AppState" where
  "sample_known = sample_start\<lparr>aps_registry := [(ds_id (dc_snapshot (sample_candidate ''Lamp'')), enrolled_record (sample_candidate ''Lamp''))]\<rparr>"

lemma sample_trim: "str_trim '' Hall '' = ''Hall''"
  by (simp add: str_trim_def trim_is_empty_def rust_chars_def is_whitespace_def)

lemma sample_rename:
  "\<exists>r1 st1. update_device_metadata sample_application 11 (ds_id (dc_snapshot (sample_candidate ''Lamp''))) (rename_only '' Hall '' None) sample_known =
     (Inr r1, st1)"
  by (simp add: update_device_metadata_def rename_only_def app_bind_def app_record_def get_record_def app_lift_def with_name_def
        validated_name_def validated_text_def sample_trim rust_chars_def with_aliases_def with_spaces_def app_return_def app_fresh_def app_commit_def
        upsert_all_def app_publish_def sample_known_def sample_start_def sample_application_def MemoryFoundationRepository_def)

lemma sample_update:
  "\<exists>x. update_record ids ((enrolled_record (sample_candidate ''Lamp''))\<lparr>dr_snapshot := dr_snapshot (enrolled_record (sample_candidate ''Lamp''))\<lparr>ds_name := name\<rparr>\<rparr>)
     (sample_candidate ''Lamp'') causation k = Inr x"
  by (simp add: update_record_def enrolled_record_def Let_def DeviceRecord_replace_snapshot_def DeviceRecord_candidate_def bring_online_def
      record_timestamps_def DeviceTimestamps_record_seen_def DeviceTimestamps_record_success_def DeviceTimestamps_validate_def sample_candidate_def)

lemma sample_rediscovery:
  assumes "aps_registry st = [(ds_id (dc_snapshot (sample_candidate ''Lamp'')),
    (enrolled_record (sample_candidate ''Lamp''))\<lparr>dr_snapshot := dr_snapshot (enrolled_record (sample_candidate ''Lamp''))\<lparr>ds_name := name\<rparr>\<rparr>)]"
  shows "\<exists>summaries st'. refresh sample_application [(''shelly'', Inr [sample_candidate ''Lamp''])] st = (Inr summaries, st')"
proof -
  let ?c = "sample_candidate ''Lamp''"
  let ?r = "(enrolled_record ?c)\<lparr>dr_snapshot := dr_snapshot (enrolled_record ?c)\<lparr>ds_name := name\<rparr>\<rparr>"
  let ?cause = "system_causation (sup_fresh sample_supply (aps_next st)) ''system:discovery''"
  obtain r' es n where u: "update_record sample_supply ?r ?c ?cause (Suc (aps_next st)) = Inr (r', es, n)"
    using sample_update [of sample_supply name ?cause "Suc (aps_next st)"] by auto
  have id: "DeviceId_from_integration (sup_v5 sample_supply) (sup_text sample_supply) (dc_integration_id ?c) (ds_native_id (dc_snapshot ?c)) =
      ds_id (dc_snapshot ?c)"
    by (simp add: sample_candidate_def derived_id_def)
  have "\<exists>out. reconcile sample_supply [?r] [?c] (aps_next st) = Inr out"
    using u id by (simp add: reconcile_def initial_reconciling_def reconcile_candidate_def native_index_def btree_of_list_def Let_def)
  then obtain out m where "reconcile sample_supply [?r] [?c] (aps_next st) = Inr (out, m)" by auto
  moreover have "registry_records (aps_registry st) = [?r]" by (simp add: assms registry_records_def)
  moreover have "ha_repository sample_application = MemoryFoundationRepository" "ha_ids sample_application = sample_supply"
      "ha_publish sample_application es = Inr ()" for es
    by (simp_all add: sample_application_def)
  moreover have "start_sessions sample_application ds st0 = (Inr (), st0)" for ds st0
    by (induction ds) (simp_all add: app_bind_def app_return_def sample_application_def)
  ultimately show ?thesis
    by (simp add: refresh_def refresh_one_def app_bind_def app_lift_def app_reconcile_def app_commit_def remember_repairs_def app_publish_def
      app_return_def MemoryFoundationRepository_def)
qed

theorem rename_lost_on_rediscovery_witness:
  "\<exists>r1 st1 summaries st2.
     update_device_metadata sample_application 11 (ds_id (dc_snapshot (sample_candidate ''Lamp''))) (rename_only '' Hall '' None) sample_known = (Inr r1, st1) \<and>
     refresh sample_application [(''shelly'', Inr [sample_candidate ''Lamp''])] st1 = (Inr summaries, st2) \<and>
     map_option ds_name (registry_get (aps_registry st1) (ds_id (dc_snapshot (sample_candidate ''Lamp'')))) = Some ''Hall'' \<and>
     map_option ds_name (registry_get (aps_registry st2) (ds_id (dc_snapshot (sample_candidate ''Lamp'')))) = Some ''Lamp''"
proof -
  let ?c = "sample_candidate ''Lamp''" and ?i = "ds_id (dc_snapshot (sample_candidate ''Lamp''))"
  have registry: "keyed (aps_registry sample_known)"
    "\<forall>(_, x) \<in> set (aps_registry sample_known). ds_id (dr_snapshot x) = derived_id (ha_ids sample_application) (native_key x)"
    "inj (derived_id (ha_ids sample_application))" "map_of (aps_registry sample_known) ?i = Some (enrolled_record ?c)"
    by (simp_all add: sample_known_def keyed_def btree_wf_def sample_application_def sample_supply_inj native_key_def)
      (simp add: sample_candidate_def)
  obtain r1 st1 where renamed: "update_device_metadata sample_application 11 ?i (rename_only '' Hall '' None) sample_known = (Inr r1, st1)"
    using sample_rename by blast
  note r1 = rename_result [OF registry(4,1) renamed, unfolded sample_trim]
  obtain summaries st2 where refreshed: "refresh sample_application [(''shelly'', Inr [?c])] st1 = (Inr summaries, st2)"
    using sample_rediscovery [of st1 "''Hall''"] r1(2) unfolding r1(1) by (auto simp: sample_known_def)
  have name: "ds_name (dc_snapshot ?c) = ''Lamp''" by (simp add: sample_candidate_def)
  have "map_option ds_name (registry_get (aps_registry st1) ?i) = Some ''Hall'' \<and> map_option ds_name (registry_get (aps_registry st2) ?i) = Some ''Lamp''"
    using rename_lost_on_rediscovery [OF registry(1-4) renamed _ _ _ refreshed] name by (simp add: sample_trim native_key_def)
  with renamed refreshed show ?thesis by blast
qed


definition sample_write :: "uuid \<Rightarrow> FoundationWrite" where
  "sample_write eid = FoundationWrite_devices [] [domain_event eid 5 10 (user_causation 3 None) (MetadataChanged [''name''])] []"


end
