(* ===== verification/Evaluation_Safety.thy ===== *)
theory Evaluation_Safety
  imports Compiler_Correctness
begin

text \<open>
  Type safety of evaluation. A host that answers observations with values of the declared type
  and whose timed conditions raise only admissible errors evaluates every typed condition to a
  truth value or an admissible error: comparisons never fail and time windows are always valid.
\<close>

section \<open>Typed values\<close>

definition value_of_type :: "AutomationValueType \<Rightarrow> AutomationValue \<Rightarrow> bool" where
  "value_of_type t v \<longleftrightarrow> AutomationValue_value_type v = t \<and> value_proper v"

definition vars_typed :: "declarations \<Rightarrow> variables \<Rightarrow> bool" where
  "vars_typed decls vars \<longleftrightarrow> (\<forall>name v. map_of vars name = Some v \<longrightarrow>
     (\<exists>d. map_of decls name = Some d \<and> value_of_type (vd_value_type d) v))"

text \<open>An observation of a field the schema knows has the field's type.\<close>

definition observation_typed :: "ResolvedAutomationTarget \<Rightarrow> string \<Rightarrow> AutomationValue \<Rightarrow> bool" where
  "observation_typed target field v \<longleftrightarrow>
     (\<forall>t. observation_field_type (rt_capability target) field = Some t \<longrightarrow> value_of_type t v)"

lemma proper_ordering:
  assumes "value_of_type t a" "value_of_type t b"
  shows "value_ordering a b \<noteq> None"
proof -
  have "f64_partial_cmp x y \<noteq> None" if "\<not> f64_is_nan x" "\<not> f64_is_nan y" for x y
    using that by (auto simp: f64_partial_cmp_def f64_lt_def f64_eq_def)
  then show ?thesis
    using assms by (cases a; cases b) (auto simp: value_of_type_def value_proper_def split: option.splits)
qed

lemma compare_typed:
  assumes "value_of_type t a" "value_of_type t b"
  obtains r where "compare_values a op b = Inr r"
  using proper_ordering [OF assms] that by (auto simp: compare_values_def)

lemma vars_typed_insert:
  "vars_typed decls vars \<Longrightarrow> map_of decls name = Some d \<Longrightarrow> value_of_type (vd_value_type d) v \<Longrightarrow>
   vars_typed decls (btree_insert name v vars)"
  by (auto simp: vars_typed_def)

section \<open>Hosts\<close>

definition evaluation_good ::
  "(AutomationEvaluationError \<Rightarrow> bool) \<Rightarrow> ('s \<Rightarrow> bool) \<Rightarrow> (AutomationEvaluationError + bool) \<times> 's \<Rightarrow> bool" where
  "evaluation_good A Q r \<longleftrightarrow> Q (snd r) \<and> (case fst r of Inl e \<Rightarrow> A e | Inr _ \<Rightarrow> True)"

lemma evaluation_good_simps [simp]:
  "evaluation_good A Q (Inl e, s) \<longleftrightarrow> Q s \<and> A e" "evaluation_good A Q (Inr b, s) \<longleftrightarrow> Q s"
  by (auto simp: evaluation_good_def)

lemma good_bind:
  "evaluation_good A Q r \<Longrightarrow> (\<And>b s. Q s \<Longrightarrow> evaluation_good A Q (f b s)) \<Longrightarrow>
   evaluation_good A Q (case r of (Inl e, s) \<Rightarrow> (Inl e, s) | (Inr b, s) \<Rightarrow> f b s)"
  by (cases r; cases "fst r") auto

locale evaluation_host =
  fixes cal :: Calendar and cx :: "'s AutomationEvaluationContext" and decls :: declarations
    and A :: "AutomationEvaluationError \<Rightarrow> bool" and Q :: "'s \<Rightarrow> bool"
  assumes missing_allowed: "A (MissingValue what)"
    and observes: "Q s \<Longrightarrow> cx_observation cx s target field = Some v \<Longrightarrow> observation_typed target field v"
    and lasts: "Q s \<Longrightarrow> \<not> timer_out_of_range d \<Longrightarrow> (\<And>s. Q s \<Longrightarrow> evaluation_good A Q (evaluate s)) \<Longrightarrow>
       evaluation_good A Q (cx_state_duration cx c d evaluate s)"
begin

lemma expression_safe:
  assumes "expression_type decls e = Some t" "vars_typed decls vars" "Q s"
  shows "case evaluate_automation_expression cx vars e s of Inl err \<Rightarrow> A err | Inr v \<Rightarrow> value_of_type t v"
proof (cases e)
  case (R_Literal v)
  then show ?thesis using assms by (auto simp: value_of_type_def split: if_splits)
next
  case (R_Variable name)
  then show ?thesis using assms missing_allowed
    by (cases "map_of vars name") (fastforce simp: vars_typed_def)+
next
  case (R_Observation targets field)
  with assms(1) obtain target where t: "targets = [target]" "observation_field_type (rt_capability target) field = Some t"
    by (cases targets; cases "tl targets") auto
  then show ?thesis using R_Observation missing_allowed observes [OF assms(3), of target field]
    by (cases "cx_observation cx s target field") (auto simp: observation_typed_def)
qed

lemma window_safe: "\<not> window_invalid cal tz start finish \<Longrightarrow> \<exists>b. evaluate_time_window cal now tz start finish = Inr b"
  by (auto simp: window_invalid_def evaluate_time_window_def Let_def)

lemma comparison_safe:
  assumes "expression_type decls l = Some t" "expression_type decls r = Some t" "vars_typed decls vars" "Q s"
  shows "evaluation_good A Q (evaluate_automation_condition cal cx vars (RC_Compare l op r) s)"
  using expression_safe [OF assms(1,3,4)] expression_safe [OF assms(2,3,4)] assms(4)
  by (cases "evaluate_automation_expression cx vars l s"; cases "evaluate_automation_expression cx vars r s")
    (auto elim: compare_typed [of t _ _ op])

lemma all_safe:
  assumes "\<And>c s. c \<in> set cs \<Longrightarrow> Q s \<Longrightarrow> evaluation_good A Q (evaluate_automation_condition cal cx vars c s)"
  shows "Q s \<Longrightarrow> evaluation_good A Q (evaluate_all cal cx vars cs s)"
  using assms by (induction cs arbitrary: s) (simp_all add: good_bind)

lemma any_safe:
  assumes "\<And>c s. c \<in> set cs \<Longrightarrow> Q s \<Longrightarrow> evaluation_good A Q (evaluate_automation_condition cal cx vars c s)"
  shows "Q s \<Longrightarrow> evaluation_good A Q (evaluate_any cal cx vars cs s)"
  using assms by (induction cs arbitrary: s) (simp_all add: good_bind)

lemma condition_safe:
  assumes "vars_typed decls vars"
  shows "condition_typed cal decls c \<Longrightarrow> Q s \<Longrightarrow> evaluation_good A Q (evaluate_automation_condition cal cx vars c s)"
proof (induction c arbitrary: s)
  case (RC_Compare l op r)
  then show ?case using comparison_safe [OF _ _ assms] by auto
next
  case (RC_All cs)
  then show ?case using all_safe [of cs vars s] by (auto simp: list_all_iff)
next
  case (RC_Any cs)
  then show ?case using any_safe [of cs vars s] by (auto simp: list_all_iff)
next
  case (RC_Not c)
  then show ?case by (simp add: good_bind)
next
  case (RC_TimeWindow tz start finish)
  then show ?case using window_safe [of tz start finish "cx_now cx s"] by (auto simp: evaluation_good_def)
next
  case (RC_StateDuration c d)
  then show ?case by (auto intro!: lasts)
qed simp

end

end
