(* ===== verification/Simulator_Properties.thy ===== *)
theory Simulator_Properties
  imports Automation_Simulator Compiler_Properties Evaluation_Safety
begin

text \<open>
  Properties of the simulator. An interface locale lists what the interpreter's primitive steps keep
  of an invariant and which errors they may raise; its client lemmas carry the invariant through
  node execution and the node loop once. Instances count steps (termination), describe the trace
  and the command intents, and type the variables and observations (absence of type errors for
  compiled plans).
\<close>

section \<open>Outcomes\<close>

definition yields :: "(AutomationSimulationError \<Rightarrow> bool) \<Rightarrow> (StepInterpreter \<Rightarrow> bool) \<Rightarrow> 'a interpreted \<Rightarrow> bool" where
  "yields E P r = (case r of Inl e \<Rightarrow> E e | Inr (_, st) \<Rightarrow> P st)"

definition outcome_ok ::
  "bool \<Rightarrow> (AutomationSimulationError \<Rightarrow> bool) \<Rightarrow> (StepInterpreter \<Rightarrow> bool) \<Rightarrow> 'a fuelled \<Rightarrow> bool" where
  "outcome_ok D E P r = (case r of None \<Rightarrow> D | Some r \<Rightarrow> yields E P r)"

lemma yields_simps [simp]: "yields E P (Inl e) = E e" "yields E P (Inr (x, st)) = P st"
  by (simp_all add: yields_def)

lemma outcome_ok_simps [simp]: "outcome_ok D E P None = D" "outcome_ok D E P (Some r) = yields E P r"
  by (simp_all add: outcome_ok_def)

lemma outcome_returns: "outcome_ok False E P r \<Longrightarrow> \<exists>x. r = Some x"
  by (cases r) simp_all

lemma yields_bind: "yields E P r \<Longrightarrow> (\<And>x st. r = Inr (x, st) \<Longrightarrow> P st \<Longrightarrow> yields E P (f (x, st))) \<Longrightarrow> yields E P (and_then r f)"
  by (cases r) auto

lemma outcome_bind:
  "yields E P r \<Longrightarrow> (\<And>x st. r = Inr (x, st) \<Longrightarrow> P st \<Longrightarrow> outcome_ok D E P (f x st)) \<Longrightarrow> outcome_ok D E P (then_run r f)"
  by (cases r) (auto simp: then_run_def)

lemma outcome_group:
  "outcome_ok D E P r \<Longrightarrow> (\<And>st. P st \<Longrightarrow> outcome_ok D E P (f st)) \<Longrightarrow> outcome_ok D E P (after_group r f)"
  by (cases r) (auto simp: after_group_def split: sum.splits)

lemma yields_mono: "yields E P r \<Longrightarrow> (\<And>e. E e \<Longrightarrow> E' e) \<Longrightarrow> (\<And>st. P st \<Longrightarrow> P' st) \<Longrightarrow> yields E' P' r"
  by (auto simp: yields_def split: sum.splits)

text \<open>What a finished simulation reports of the last state.\<close>

definition reported ::
  "SimulationLibrary \<Rightarrow> (AutomationSimulationError \<Rightarrow> bool) \<Rightarrow> (StepInterpreter \<Rightarrow> bool) \<Rightarrow>
   AutomationSimulationError + AutomationSimulationResult \<Rightarrow> bool" where
  "reported sl E P r = (case r of Inl e \<Rightarrow> E e \<or> e = Sim_TraceHash
     | Inr res \<Rightarrow> \<exists>status st. P st \<and> finish sl status st = Inr res)"

lemma finish_reported: "P st \<Longrightarrow> reported sl E P (finish sl status st)"
proof (cases "finish sl status st")
  case (Inl e)
  then have "e = Sim_TraceHash" by (simp add: finish_def split: sum.splits)
  then show ?thesis using Inl by (simp add: reported_def)
qed (auto simp: reported_def)

lemma finish_fields:
  assumes "finish sl status st = Inr res"
  shows "res_status res = status" "res_trace res = si_trace st" "res_command_intents res = si_intents st"
    "res_variables res = si_variables st" "res_finished_at res = vp_now (si_ports st)"
  using assms by (auto simp: finish_def split: sum.splits)

section \<open>Ports and evaluation\<close>

lemma advance_changes: "length (vp_changes (advance_to p at)) \<le> length (vp_changes p)"
  by (simp add: advance_to_def length_dropWhile_le)

lemma next_change_advance:
  "next_change_through p deadline = Some at \<Longrightarrow> length (vp_changes (advance_to p at)) < length (vp_changes p)"
  by (auto simp: next_change_through_def advance_to_def length_dropWhile_le le_imp_less_Suc split: list.splits if_splits)

text \<open>Evaluation only advances the ports: whatever advancing keeps, evaluation keeps.\<close>

lemma hold_through_keeps:
  assumes adv: "\<And>p at. Q p \<Longrightarrow> Q (advance_to p at)" and ev: "\<And>p. Q p \<Longrightarrow> Q (snd (evaluate p))"
  shows "Q p \<Longrightarrow> Q (snd (hold_through n evaluate deadline p))"
proof (induction n arbitrary: p)
  case 0
  then show ?case by (simp add: adv ev)
next
  case (Suc n)
  have keep: "evaluate (advance_to p at) = (r, p') \<Longrightarrow> Q p'" for at r p'
    using ev [OF adv [OF Suc.prems], of at] by simp
  show ?case using Suc.prems Suc.IH by (auto simp: adv ev dest: keep split: option.splits prod.splits sum.splits)
qed

lemma state_duration_keeps:
  assumes "\<And>p at. Q p \<Longrightarrow> Q (advance_to p at)" "\<And>p. Q p \<Longrightarrow> Q (snd (evaluate p))"
  shows "Q p \<Longrightarrow> Q (snd (state_duration sl c d evaluate p))"
  using hold_through_keeps [where Q = Q, OF assms] assms(2) [of p]
  by (auto simp: state_duration_def split: prod.splits sum.splits option.splits)

lemma evaluation_keeps:
  assumes adv: "\<And>p at. Q p \<Longrightarrow> Q (advance_to p at)"
  shows "Q p \<Longrightarrow> Q (snd (evaluate_automation_condition cal (SimulationEvaluationContext sl) vars c p))"
    and "Q p \<Longrightarrow> Q (snd (evaluate_all cal (SimulationEvaluationContext sl) vars cs p))"
    and "Q p \<Longrightarrow> Q (snd (evaluate_any cal (SimulationEvaluationContext sl) vars cs p))"
proof (induction cal "SimulationEvaluationContext sl" vars c p and cal "SimulationEvaluationContext sl" vars cs p
    and cal "SimulationEvaluationContext sl" vars cs p
    rule: evaluate_automation_condition_evaluate_all_evaluate_any.induct)
  case (7 cal vars c d s)
  then show ?case by (simp add: SimulationEvaluationContext_def state_duration_keeps [where Q = Q, OF adv])
qed (auto split: prod.splits sum.splits)

section \<open>The interpreter's contract\<close>

fun node_condition :: "AutomationPlanNodeKind \<Rightarrow> ResolvedAutomationCondition option" where
  "node_condition (N_Wait c _ _ _) = Some c"
| "node_condition (N_Branch c _ _ _) = Some c"
| "node_condition _ = None"

definition command_intent ::
  "AutomationSimulationFixture \<Rightarrow> node_id \<Rightarrow> ResolvedAutomationTarget list \<Rightarrow> CommandPayload \<Rightarrow> nat \<Rightarrow> VirtualSimulationPorts \<Rightarrow>
   SimulatedCommandIntent" where
  "command_intent fx node targets payload attempt p =
     \<lparr>in_node_id = node, in_targets = targets, in_payload = payload, in_attempt = attempt, in_at = vp_now p,
      in_outcome = fst (command_outcome p), in_safety_profiles = pl_safety_profiles (fx_plan fx),
      in_approval = pl_approval (fx_plan fx)\<rparr>"

lemma outcome_now [simp]: "vp_now (snd (command_outcome p)) = vp_now p"
  by (simp add: command_outcome_def split: list.splits)

locale interpreter_contract =
  fixes sl :: SimulationLibrary and fx :: AutomationSimulationFixture
    and E :: "AutomationSimulationError \<Rightarrow> bool" and P :: "StepInterpreter \<Rightarrow> bool"
    and valid :: "node_id \<Rightarrow> bool" and fine :: "AutomationPlanNodeKind \<Rightarrow> bool"
  assumes budget_error: "E Sim_BudgetExceeded"
    and resolved: "valid n \<Longrightarrow> case find_node fx n of None \<Rightarrow> E (Sim_MissingNode n)
       | Some k \<Rightarrow> fine k \<and> (\<forall>r \<in> set (node_refs k). valid r)"
    and counted: "P st \<Longrightarrow> P (st\<lparr>si_steps := saturating_add u32_max (si_steps st) 1\<rparr>)"
    and traced: "P st \<Longrightarrow> yields E P (trace_step sl fx kind node details st)"
    and advanced: "P st \<Longrightarrow> P (st\<lparr>si_ports := advance_to (si_ports st) at\<rparr>)"
    and intended: "P st \<Longrightarrow> find_node fx n = Some (N_Command ts payload seg retry failure following) \<Longrightarrow>
       attempt \<le> rp_maximum_retries retry \<Longrightarrow>
       P (st\<lparr>si_ports := snd (command_outcome (si_ports st)),
             si_intents := si_intents st @ [command_intent fx n ts payload attempt (si_ports st)]\<rparr>)"
    and evaluated: "P st \<Longrightarrow> fine k \<Longrightarrow> node_condition k = Some c \<Longrightarrow> yields E P (evaluate_condition sl c st)"
    and gated: "P st \<Longrightarrow> pl_condition (fx_plan fx) = Some c \<Longrightarrow> yields E P (evaluate_condition sl c st)"
    and assigned: "P st \<Longrightarrow> fine (N_SetVariable name e following) \<Longrightarrow> case evaluate_expression sl e st of Inl err \<Rightarrow> E err
       | Inr v \<Rightarrow> P (st\<lparr>si_variables := btree_insert name v (si_variables st)\<rparr>)"
begin

lemma budgeted: "P st \<Longrightarrow> yields E P (consume_budget fx st)"
  using counted [of st] budget_error by (simp add: consume_budget_def Let_def)

lemma attempted:
  assumes "find_node fx node = Some (N_Command targets payload seg retry failure following)"
  shows "P st \<Longrightarrow> attempt \<le> rp_maximum_retries retry \<Longrightarrow>
    yields E P (command_attempts sl fx node targets payload retry attempt st)"
proof (induction "rp_maximum_retries retry - attempt" arbitrary: attempt st rule: less_induct)
  case less
  let ?st1 = "st\<lparr>si_ports := snd (command_outcome (si_ports st)),
     si_intents := si_intents st @ [command_intent fx node targets payload attempt (si_ports st)]\<rparr>"
  let ?out = "fst (command_outcome (si_ports st))"
  let ?r = "trace_step sl fx Trace_Command (Some node)
     [(''attempt'', V_Integer (int attempt)), (''state'', V_String (CommandState_json (out_state ?out)))] ?st1"
  have r: "yields E P ?r" using traced [OF intended [OF less.prems(1) assms less.prems(2)]] .
  have retry: "yields E P (command_attempts sl fx node targets payload retry (attempt + 1) (st2\<lparr>si_ports := advance_to (si_ports st2) at\<rparr>))"
    if "P st2" "attempt < rp_maximum_retries retry" for st2 at
    using that by (intro less.hyps advanced) auto
  show ?case
    using r retry budget_error unfolding command_attempts.simps [of sl fx node targets payload retry attempt] command_intent_def
    by (auto simp: case_prod_unfold Let_def add_millis_def try_i64_def ok_or_def and_then_def split: sum.splits option.splits)
qed

lemma wait_rounds_ok: "P st \<Longrightarrow> fine k \<Longrightarrow> node_condition k = Some c \<Longrightarrow> yields E P (wait_rounds sl n c deadline st)"
proof (induction n arbitrary: st)
  case (Suc n)
  show ?case
  proof (cases "next_change_through (si_ports st) deadline")
    case (Some at)
    have "yields E P (evaluate_condition sl c (st\<lparr>si_ports := advance_to (si_ports st) at\<rparr>))"
      using evaluated [OF advanced [OF Suc.prems(1)] Suc.prems(2,3)] .
    then show ?thesis using Some Suc.IH Suc.prems(2,3) by (auto split: sum.splits)
  qed (simp add: Suc.prems)
qed simp

lemma waited: "P st \<Longrightarrow> fine k \<Longrightarrow> node_condition k = Some c \<Longrightarrow> yields E P (wait_for sl c deadline st)"
  unfolding wait_for_def by (rule yields_bind) (auto intro: evaluated wait_rounds_ok)

lemma proceed_ok:
  assumes "\<And>n stop st. valid n \<Longrightarrow> P st \<Longrightarrow> outcome_ok D E P (execute n stop st)"
    and "\<forall>r \<in> set (option_refs following). valid r" "P st"
  shows "outcome_ok D E P (proceed execute following stop st)"
  using assms by (auto simp: proceed_def option_refs_def split: option.splits)

lemma failure_ok:
  assumes "\<And>n stop st. valid n \<Longrightarrow> P st \<Longrightarrow> outcome_ok D E P (execute n stop st)"
    and "\<forall>r \<in> set (failure_refs policy @ option_refs following). valid r" "P st"
  shows "outcome_ok D E P (apply_failure execute policy following st)"
  using assms by (cases policy) (auto simp: apply_failure_def option_refs_def split: option.splits intro!: proceed_ok)

lemma parallel_ok:
  assumes "\<And>n stop st. valid n \<Longrightarrow> P st \<Longrightarrow> outcome_ok D E P (execute n stop st)"
  shows "\<forall>r \<in> set branches. valid r \<Longrightarrow> P st \<Longrightarrow> outcome_ok D E P (run_parallel execute branches join st)"
proof (induction branches arbitrary: st)
  case (Cons b bs)
  with assms [of b st join] show ?case by (auto split: option.splits sum.splits)
qed simp

lemma race_ok:
  assumes "\<And>n stop st. valid n \<Longrightarrow> P st \<Longrightarrow> outcome_ok D E P (execute n stop st)"
  shows "\<forall>r \<in> set branches. valid r \<Longrightarrow> P st \<Longrightarrow> outcome_ok D E P (run_race execute branches join st)"
proof (induction branches arbitrary: st)
  case (Cons b bs)
  with assms [of b st join] show ?case by (auto split: option.splits sum.splits Flow.splits)
qed simp

lemma execute_node_ok:
  assumes exec: "\<And>n stop st. valid n \<Longrightarrow> P st \<Longrightarrow> outcome_ok D E P (execute n stop st)"
    and node: "find_node fx node = Some k" "fine k" "\<forall>r \<in> set (node_refs k). valid r" and st: "P st"
  shows "outcome_ok D E P (execute_node sl fx execute node stop k st)"
proof (cases k)
  case (N_Command ts payload seg retry failure following)
  then show ?thesis using node attempted [of node ts payload seg retry failure following st 0] st
    by (auto simp: execute_node_def intro!: outcome_bind proceed_ok failure_ok exec)
next
  case (N_Delay ms following)
  then show ?thesis using node budget_error st
    by (auto simp: execute_node_def add_millis_def and_then_def ok_or_def split: sum.splits option.splits
        intro!: outcome_bind proceed_ok exec traced advanced)
next
  case (N_Wait c ms failure following)
  then show ?thesis using node budget_error st waited [of _ k c]
    by (auto simp: execute_node_def add_millis_def and_then_def ok_or_def split: sum.splits option.splits
        intro!: outcome_bind proceed_ok failure_ok exec traced advanced)
next
  case (N_SetVariable name e following)
  then show ?thesis using node st assigned [of st name e following]
    by (auto simp: execute_node_def split: sum.splits intro!: outcome_bind proceed_ok exec traced)
next
  case (N_Branch c then_node else_node join)
  then show ?thesis using node st evaluated [of _ k c]
    by (auto simp: execute_node_def option_refs_def split: option.splits intro!: outcome_bind proceed_ok exec traced)
next
  case (N_Parallel branches width join)
  then show ?thesis using node st parallel_ok [of D execute branches st join, OF exec]
    by (auto simp: execute_node_def intro!: outcome_group proceed_ok exec)
next
  case (N_Race branches width join)
  then show ?thesis using node st race_ok [of D execute branches st join, OF exec]
    by (auto simp: execute_node_def intro!: outcome_group proceed_ok exec)
next
  case (N_Join following)
  then show ?thesis using node st by (auto simp: execute_node_def intro!: proceed_ok exec)
next
  case N_Complete
  then show ?thesis using st by (auto simp: execute_node_def intro!: outcome_bind traced)
qed

lemma execute_step_ok:
  assumes exec: "\<And>n stop st. valid n \<Longrightarrow> P st \<Longrightarrow> outcome_ok D E P (execute_from fuel sl fx n stop st)"
    and "valid node" "P st"
  shows "outcome_ok D E P (execute_from (Suc fuel) sl fx node stop st)"
  using resolved [OF assms(2)] budgeted [OF assms(3)] assms(3)
  by (auto split: option.splits intro!: outcome_bind execute_node_ok exec)

lemma execute_from_ok: "valid node \<Longrightarrow> P st \<Longrightarrow> outcome_ok True E P (execute_from fuel sl fx node stop st)"
proof (induction fuel arbitrary: node stop st)
  case (Suc fuel)
  then show ?case by (blast intro: execute_step_ok)
qed simp

lemma accepted: "P st \<Longrightarrow> yields E P (accept_trigger sl fx st)"
  unfolding accept_trigger_def suppress_def Let_def
  by (auto simp: case_prod_unfold split: option.splits intro!: yields_bind traced gated)

lemma concluded: "P st \<Longrightarrow> reported sl E P (conclude sl fx status st)"
proof (cases "status = Sim_Failed")
  case True
  assume "P st"
  from traced [OF this, of Trace_Outcome None "[(''status'', V_String ''failed'')]"]
  show ?thesis
    by (cases "trace_step sl fx Trace_Outcome None [(''status'', V_String ''failed'')] st")
      (auto simp: conclude_def True finish_reported reported_def [of sl E P "Inl _"])
qed (simp add: conclude_def finish_reported)

lemma simulated:
  assumes sim: "AutomationSimulator_simulate fuel sl fx = Some r" and entry: "valid (pl_entry (fx_plan fx))"
    and init: "P (StepInterpreter_new fx (VirtualSimulationPorts_new fx))"
  shows "reported sl E P r"
proof (cases "accept_trigger sl fx (StepInterpreter_new fx (VirtualSimulationPorts_new fx))")
  case (Inl e)
  then show ?thesis using sim accepted [OF init] by (auto simp: AutomationSimulator_simulate_def reported_def)
next
  case (Inr a)
  obtain gate st where a: "a = (gate, st)" by (cases a)
  have st: "P st" using accepted [OF init] Inr a by simp
  show ?thesis
  proof (cases gate)
    case None
    then obtain x where x: "execute_from fuel sl fx (pl_entry (fx_plan fx)) None st = Some x"
      using sim Inr a by (auto simp: AutomationSimulator_simulate_def split: option.splits)
    then have "yields E P x" using execute_from_ok [OF entry st, of fuel None] by simp
    then show ?thesis using sim Inr a None x
      by (cases x) (auto simp: AutomationSimulator_simulate_def reported_def [of sl E P "Inl _"] concluded)
  next
    case (Some status)
    then show ?thesis using sim Inr a st by (auto simp: AutomationSimulator_simulate_def concluded)
  qed
qed

end

section \<open>Termination\<close>

lemma evaluate_condition_keeps:
  assumes "\<And>st p. P st \<Longrightarrow> P (st\<lparr>si_ports := p\<rparr>)"
  shows "P st \<Longrightarrow> yields (\<lambda>_. True) P (evaluate_condition sl c st)"
  using assms by (auto simp: evaluate_condition_def split: prod.splits sum.splits)

interpretation steps: interpreter_contract sl fx "\<lambda>_. True" "\<lambda>st. s \<le> si_steps st \<and> si_steps st \<le> u32_max" "\<lambda>_. True" "\<lambda>_. True"
  for sl fx s
proof
  show "yields (\<lambda>_. True) (\<lambda>st. s \<le> si_steps st \<and> si_steps st \<le> u32_max) (evaluate_condition sl c st)"
    if "s \<le> si_steps st \<and> si_steps st \<le> u32_max" for c st
    using that by (intro evaluate_condition_keeps) auto
  then show "yields (\<lambda>_. True) (\<lambda>st. s \<le> si_steps st \<and> si_steps st \<le> u32_max) (evaluate_condition sl c st)"
    if "s \<le> si_steps st \<and> si_steps st \<le> u32_max" for c st
    using that by blast
qed (auto simp: saturating_add_def trace_step_def split: option.splits sum.splits)

text \<open>Every node that runs counts one step, so the fuel the trace budget grants is enough.\<close>

lemma execute_from_terminates:
  assumes "rb_maximum_trace_steps (pl_budget (fx_plan fx)) < u32_max"
  shows "rb_maximum_trace_steps (pl_budget (fx_plan fx)) + 2 \<le> fuel + si_steps st \<Longrightarrow> si_steps st \<le> u32_max \<Longrightarrow>
    fuel \<noteq> 0 \<Longrightarrow> execute_from fuel sl fx node stop st \<noteq> None"
proof (induction fuel arbitrary: node stop st)
  case (Suc fuel)
  let ?m = "rb_maximum_trace_steps (pl_budget (fx_plan fx))" and ?s = "Suc (si_steps st)"
  show ?case
  proof (cases "consume_budget fx st")
    case (Inr a)
    then have st1: "snd a = st\<lparr>si_steps := ?s\<rparr>" "?s \<le> ?m"
      using assms Suc.prems(2) by (auto simp: consume_budget_def Let_def saturating_add_def split: if_splits)
    have exec: "outcome_ok False (\<lambda>_. True) (\<lambda>st. ?s \<le> si_steps st \<and> si_steps st \<le> u32_max) (execute_from fuel sl fx n stop st')"
      if "?s \<le> si_steps st' \<and> si_steps st' \<le> u32_max" for n stop st'
    proof -
      have "execute_from fuel sl fx n stop st' \<noteq> None" using that Suc.prems(1) st1 by (intro Suc.IH) linarith+
      then show ?thesis using steps.execute_from_ok [of ?s st' fuel sl fx n stop] that by (auto simp: outcome_ok_def)
    qed
    have "outcome_ok False (\<lambda>_. True) (\<lambda>st. ?s \<le> si_steps st \<and> si_steps st \<le> u32_max)
        (execute_node sl fx (execute_from fuel sl fx) node stop k (snd a))" if "find_node fx node = Some k" for k
      using that exec st1 assms by (intro steps.execute_node_ok) auto
    then show ?thesis using Inr outcome_returns by (auto simp: then_run_def case_prod_unfold split: option.splits)
  qed (simp add: then_run_def)
qed simp

text \<open>More fuel never changes a result.\<close>

definition refines :: "executor \<Rightarrow> executor \<Rightarrow> bool" where
  "refines execute execute' \<longleftrightarrow> (\<forall>n stop st r. execute n stop st = Some r \<longrightarrow> execute' n stop st = Some r)"

lemma refines_proceed: "refines x y \<Longrightarrow> proceed x following stop st = Some r \<Longrightarrow> proceed y following stop st = Some r"
  by (auto simp: refines_def proceed_def split: option.splits)

lemma refines_failure: "refines x y \<Longrightarrow> apply_failure x policy following st = Some r \<Longrightarrow> apply_failure y policy following st = Some r"
  by (cases policy) (auto simp: apply_failure_def refines_proceed)

lemma refines_parallel: "refines x y \<Longrightarrow> run_parallel x bs join st = Some r \<Longrightarrow> run_parallel y bs join st = Some r"
proof (induction bs arbitrary: st)
  case (Cons b bs)
  then obtain o1 where o1: "x b join st = Some o1" "y b join st = Some o1" by (auto simp: refines_def split: option.splits)
  then show ?case using Cons by (cases o1) (auto split: if_splits)
qed simp

lemma refines_race: "refines x y \<Longrightarrow> run_race x bs join st = Some r \<Longrightarrow> run_race y bs join st = Some r"
proof (induction bs arbitrary: st)
  case (Cons b bs)
  then obtain o1 where o1: "x b join st = Some o1" "y b join st = Some o1" by (auto simp: refines_def split: option.splits)
  then show ?case using Cons by (cases o1) (auto split: Flow.splits)
qed simp

lemma refines_group:
  "after_group a f = Some r \<Longrightarrow> (\<And>q. a = Some q \<Longrightarrow> b = Some q) \<Longrightarrow> (\<And>st. f st = Some r \<Longrightarrow> g st = Some r) \<Longrightarrow>
   after_group b g = Some r"
  by (auto simp: after_group_def split: option.splits sum.splits if_splits)

lemma refines_run: "then_run a f = Some r \<Longrightarrow> (\<And>q st. f q st = Some r \<Longrightarrow> g q st = Some r) \<Longrightarrow> then_run a g = Some r"
  by (auto simp: then_run_def split: sum.splits)

lemma refines_node:
  assumes ref: "refines x y" and node: "execute_node sl fx x node stop k st = Some r"
  shows "execute_node sl fx y node stop k st = Some r"
proof (cases k)
  case (N_Wait c ms failure following)
  then show ?thesis using node refines_proceed [OF ref] refines_failure [OF ref]
    by (auto simp: execute_node_def split: sum.splits elim!: refines_run)
next
  case (N_Parallel bs width join)
  then show ?thesis using node refines_parallel [OF ref] refines_proceed [OF ref]
    by (auto simp: execute_node_def elim!: refines_group)
next
  case (N_Race bs width join)
  then show ?thesis using node refines_race [OF ref] refines_proceed [OF ref]
    by (auto simp: execute_node_def elim!: refines_group)
qed (use node refines_proceed [OF ref] refines_failure [OF ref] in
    \<open>auto simp: execute_node_def split: sum.splits if_splits elim!: refines_run\<close>)

lemma more_fuel: "refines (execute_from fuel sl fx) (execute_from (fuel + k) sl fx)"
proof (induction fuel)
  case (Suc fuel)
  show ?case
    unfolding refines_def add_Suc execute_from.simps
    by (auto split: if_splits option.splits elim!: refines_run intro: refines_node [OF Suc])
qed (simp add: refines_def)

lemma simulation_returns:
  assumes "rb_maximum_trace_steps (pl_budget (fx_plan fx)) < u32_max"
  shows "\<exists>r. \<forall>fuel \<ge> rb_maximum_trace_steps (pl_budget (fx_plan fx)) + 2. AutomationSimulator_simulate fuel sl fx = Some r"
proof -
  let ?n = "rb_maximum_trace_steps (pl_budget (fx_plan fx)) + 2"
  have exec: "\<exists>r. \<forall>fuel \<ge> ?n. execute_from fuel sl fx node stop st = Some r" if le: "si_steps st \<le> u32_max" for node stop st
  proof -
    obtain r where "execute_from ?n sl fx node stop st = Some r"
      using execute_from_terminates [OF assms, of ?n st sl node stop] le
      by (cases "execute_from ?n sl fx node stop st") (simp_all del: execute_from.simps)
    then have "execute_from (?n + k) sl fx node stop st = Some r" for k
      using more_fuel [of ?n sl fx k] by (simp add: refines_def)
    then show ?thesis by (metis le_add_diff_inverse)
  qed
  have start: "si_steps st \<le> u32_max"
    if "accept_trigger sl fx (StepInterpreter_new fx (VirtualSimulationPorts_new fx)) = Inr (g, st)" for g st
    using steps.accepted [of 0 "StepInterpreter_new fx (VirtualSimulationPorts_new fx)" sl fx] that
    by (simp add: StepInterpreter_new_def)
  show ?thesis
  proof (cases "accept_trigger sl fx (StepInterpreter_new fx (VirtualSimulationPorts_new fx))")
    case (Inr a)
    obtain g st where a: "a = (g, st)" by (cases a)
    obtain r where "\<forall>fuel \<ge> ?n. execute_from fuel sl fx (pl_entry (fx_plan fx)) None st = Some r"
      using exec [OF start] Inr a by blast
    then show ?thesis using Inr a by (cases g; cases r) (auto simp: AutomationSimulator_simulate_def)
  qed (simp add: AutomationSimulator_simulate_def)
qed

section \<open>Trace and intents\<close>

definition trace_ok :: "SimulationLibrary \<Rightarrow> AutomationSimulationFixture \<Rightarrow> AutomationTraceStep list \<Rightarrow> bool" where
  "trace_ok sl fx steps \<longleftrightarrow>
     (\<forall>i < length steps. ts_sequence (steps ! i) = i \<and> ts_run_id (steps ! i) = fx_run_id fx \<and>
        ts_id (steps ! i) =
          AutomationTraceId_from_run_sequence (sl_uuid_v5 sl) (lib_show_uuid (sl_library sl)) (fx_run_id fx) i \<and>
        ts_correlation_id (steps ! i) = fx_correlation_id fx) \<and>
     length steps \<le> rb_maximum_trace_steps (pl_budget (fx_plan fx)) \<and>
     sorted (tg_accepted_at (fx_trigger fx) # map ts_occurred_at steps)"

definition intent_ok :: "AutomationSimulationFixture \<Rightarrow> SimulatedCommandIntent \<Rightarrow> bool" where
  "intent_ok fx i \<longleftrightarrow>
     (\<exists>seg retry failure following.
        find_node fx (in_node_id i) = Some (N_Command (in_targets i) (in_payload i) seg retry failure following) \<and>
        in_attempt i \<le> rp_maximum_retries retry) \<and>
     in_safety_profiles i = pl_safety_profiles (fx_plan fx) \<and> in_approval i = pl_approval (fx_plan fx) \<and>
     tg_accepted_at (fx_trigger fx) \<le> in_at i"

definition progress_ok :: "SimulationLibrary \<Rightarrow> AutomationSimulationFixture \<Rightarrow> StepInterpreter \<Rightarrow> bool" where
  "progress_ok sl fx st \<longleftrightarrow> trace_ok sl fx (si_trace st) \<and> list_all (intent_ok fx) (si_intents st) \<and>
     tg_accepted_at (fx_trigger fx) \<le> vp_now (si_ports st) \<and>
     (\<forall>t \<in> set (si_trace st). ts_occurred_at t \<le> vp_now (si_ports st))"

lemma evaluate_condition_ports:
  assumes "\<And>p at. Q p \<Longrightarrow> Q (advance_to p at)" "Q (si_ports st)" "\<And>p. Q p \<Longrightarrow> P (st\<lparr>si_ports := p\<rparr>)"
  shows "yields (\<lambda>_. True) P (evaluate_condition sl c st)"
  using assms(3) evaluation_keeps(1) [where Q = Q, OF assms(1) assms(2)]
  by (auto simp: evaluate_condition_def split: prod.splits sum.splits) (metis snd_conv)

lemma progress_advance:
  assumes "progress_ok sl fx st" "vp_now (si_ports st) \<le> vp_now p"
  shows "progress_ok sl fx (st\<lparr>si_ports := p\<rparr>)"
  using assms by (auto simp: progress_ok_def)

lemma advance_now: "t \<le> vp_now p \<Longrightarrow> t \<le> vp_now (advance_to p at)"
  by (simp add: advance_to_def)

lemma progress_trace:
  assumes "progress_ok sl fx st"
  shows "yields (\<lambda>_. True) (progress_ok sl fx) (trace_step sl fx kind node details st)"
  using assms by (auto simp: trace_step_def progress_ok_def trace_ok_def nth_append less_Suc_eq sorted_append)

interpretation progress: interpreter_contract sl fx "\<lambda>_. True" "progress_ok sl fx" "\<lambda>_. True" "\<lambda>_. True" for sl fx
proof
  have cond: "yields (\<lambda>_. True) (progress_ok sl fx) (evaluate_condition sl c st)" if "progress_ok sl fx st" for c st
    using that by (intro evaluate_condition_ports [where Q = "\<lambda>p. vp_now (si_ports st) \<le> vp_now p"] progress_advance)
      (auto intro: advance_now)
  show "yields (\<lambda>_. True) (progress_ok sl fx) (evaluate_condition sl c st)" if "progress_ok sl fx st" for c st
    using cond that .
  show "yields (\<lambda>_. True) (progress_ok sl fx) (evaluate_condition sl c st)" if "progress_ok sl fx st" for c st
    using cond that .
  show "progress_ok sl fx (st\<lparr>si_ports := advance_to (si_ports st) at\<rparr>)" if "progress_ok sl fx st" for st at
    using that by (rule progress_advance) (simp add: advance_now)
  show "yields (\<lambda>_. True) (progress_ok sl fx) (trace_step sl fx kind node details st)" if "progress_ok sl fx st"
    for kind node details st using that by (rule progress_trace)
qed (auto simp: progress_ok_def intent_ok_def command_intent_def split: option.splits sum.splits)

section \<open>Typed simulations\<close>

text \<open>Fixtures whose observations have the types the schemas declare.\<close>

definition change_typed :: "SimulationStateChange \<Rightarrow> bool" where
  "change_typed c \<longleftrightarrow> observation_typed (ok_target (ch_key c)) (ok_field (ch_key c)) (ch_value c)"

definition state_typed :: "(SimulationObservationKey \<rightharpoonup> AutomationValue) \<Rightarrow> bool" where
  "state_typed m \<longleftrightarrow> (\<forall>k v. m k = Some v \<longrightarrow> observation_typed (ok_target k) (ok_field k) v)"

definition ports_typed :: "VirtualSimulationPorts \<Rightarrow> bool" where
  "ports_typed p \<longleftrightarrow> state_typed (vp_state p) \<and> list_all change_typed (vp_changes p)"

definition fixture_typed :: "AutomationSimulationFixture \<Rightarrow> bool" where
  "fixture_typed fx \<longleftrightarrow> state_typed (fx_initial_state fx) \<and> list_all change_typed (fx_state_changes fx)"

lemma apply_change_typed: "change_typed c \<Longrightarrow> state_typed m \<Longrightarrow> state_typed (apply_change c m)"
  by (auto simp: state_typed_def change_typed_def apply_change_def)

lemma fold_changes_typed: "list_all change_typed cs \<Longrightarrow> state_typed m \<Longrightarrow> state_typed (fold apply_change cs m)"
  by (induction cs arbitrary: m) (auto simp: apply_change_typed)

lemma advance_typed: "ports_typed p \<Longrightarrow> ports_typed (advance_to p at)"
  by (auto simp: ports_typed_def advance_to_def list_all_iff dest!: set_takeWhileD set_dropWhileD intro!: fold_changes_typed)

text \<open>The errors a typed simulation may raise: a missing value, an exhausted budget, or the sum of an
  instant and a span that chrono refuses.\<close>

definition instants_bounded :: "SimulationLibrary \<Rightarrow> bool" where
  "instants_bounded sl \<longleftrightarrow> (\<exists>at d. sl_checked_add_signed sl at d = None)"

definition evaluation_allowed :: "SimulationLibrary \<Rightarrow> AutomationEvaluationError \<Rightarrow> bool" where
  "evaluation_allowed sl e \<longleftrightarrow> (\<exists>what. e = MissingValue what) \<or> (e = Eval_TypeMismatch \<and> instants_bounded sl)"

definition simulation_allowed :: "SimulationLibrary \<Rightarrow> AutomationSimulationError \<Rightarrow> bool" where
  "simulation_allowed sl e \<longleftrightarrow> (\<exists>what. e = Sim_MissingValue what) \<or> e = Sim_BudgetExceeded \<or>
     (e = Sim_TypeMismatch \<and> instants_bounded sl)"

lemma map_allowed: "evaluation_allowed sl e \<Longrightarrow> simulation_allowed sl (map_evaluation_error e)"
  by (auto simp: evaluation_allowed_def simulation_allowed_def)

lemma timer_i64: "\<not> timer_out_of_range d \<Longrightarrow> try_i64 d = Some (int d)"
  by (simp add: timer_out_of_range_def MAX_AUTOMATION_TIMER_MILLIS_def try_i64_def)

lemma hold_through_good:
  assumes "\<And>p. ports_typed p \<Longrightarrow> evaluation_good A ports_typed (evaluate p)"
  shows "ports_typed p \<Longrightarrow> evaluation_good A ports_typed (hold_through n evaluate deadline p)"
proof (induction n arbitrary: p)
  case (Suc n)
  have "evaluation_good A ports_typed (evaluate (advance_to p at))" for at
    using assms advance_typed [OF Suc.prems] .
  then show ?case using Suc.IH
    by (auto simp: good_bind split: option.splits)
qed (simp add: assms advance_typed)

interpretation simulated_host: evaluation_host cal "SimulationEvaluationContext sl" decls "evaluation_allowed sl" ports_typed
  for cal sl decls
proof
  show "evaluation_allowed sl (MissingValue what)" for what by (simp add: evaluation_allowed_def)
  show "observation_typed target field v"
    if "ports_typed p" "cx_observation (SimulationEvaluationContext sl) p target field = Some v" for p target field v
    using that by (fastforce simp: ports_typed_def state_typed_def SimulationEvaluationContext_def)
  show "evaluation_good (evaluation_allowed sl) ports_typed (cx_state_duration (SimulationEvaluationContext sl) c d evaluate p)"
    if p: "ports_typed p" and d: "\<not> timer_out_of_range d"
      and ev: "\<And>p. ports_typed p \<Longrightarrow> evaluation_good (evaluation_allowed sl) ports_typed (evaluate p)" for c d evaluate p
    using ev [OF p] timer_i64 [OF d] hold_through_good [OF ev]
    by (auto simp: SimulationEvaluationContext_def state_duration_def evaluation_good_def [of _ _ "(_, _)"] evaluation_allowed_def
        instants_bounded_def split: prod.splits sum.splits option.splits)
qed

definition typed_state :: "declarations \<Rightarrow> StepInterpreter \<Rightarrow> bool" where
  "typed_state decls st \<longleftrightarrow> vars_typed decls (si_variables st) \<and> ports_typed (si_ports st)"

lemma typed_condition:
  assumes "typed_state decls st" "condition_typed (lib_calendar (sl_library sl)) decls c"
  shows "yields (simulation_allowed sl) (typed_state decls) (evaluate_condition sl c st)"
  using simulated_host.condition_safe [of decls "si_variables st" "lib_calendar (sl_library sl)" c "si_ports st" sl] assms
  by (auto simp: typed_state_def evaluate_condition_def evaluation_good_def map_allowed split: prod.splits sum.splits)

lemma find_node_wf:
  assumes "plan_wf (fx_plan fx)" "n < length (pl_nodes (fx_plan fx))"
  shows "find_node fx n = Some (pn_kind (pl_nodes (fx_plan fx) ! n))"
proof -
  let ?ns = "pl_nodes (fx_plan fx)"
  have "pn_id (?ns ! n) = n" "\<forall>j < n. pn_id (?ns ! j) \<noteq> n"
    using assms by (auto simp: plan_wf_def)
  then have "find (\<lambda>m. pn_id m = n) ?ns = Some (?ns ! n)" using assms(2) by (auto simp: find_Some_iff)
  then show ?thesis by (simp add: find_node_def)
qed

lemma typed_contract:
  fixes env p q
  defines "decls \<equiv> doc_variables (env_document env)"
  assumes wf: "plan_wf (fx_plan fx)" and lib: "env_library env = sl_library sl"
    and nodes: "\<And>n. n \<in> set (pl_nodes (fx_plan fx)) \<Longrightarrow> node_ok env p q (pn_kind n)"
    and gate: "\<And>c. pl_condition (fx_plan fx) = Some c \<Longrightarrow> condition_typed (lib_calendar (sl_library sl)) decls c"
  shows "interpreter_contract sl fx (simulation_allowed sl) (typed_state decls)
    (\<lambda>n. n < length (pl_nodes (fx_plan fx))) (node_ok env p q)"
proof
  show "simulation_allowed sl Sim_BudgetExceeded" by (simp add: simulation_allowed_def)
  show "case find_node fx n of None \<Rightarrow> simulation_allowed sl (Sim_MissingNode n)
     | Some k \<Rightarrow> node_ok env p q k \<and> (\<forall>r \<in> set (node_refs k). r < length (pl_nodes (fx_plan fx)))"
    if "n < length (pl_nodes (fx_plan fx))" for n
    using find_node_wf [OF wf that] nodes [OF nth_mem [OF that]] wf that by (fastforce simp: plan_wf_def)
  show "yields (simulation_allowed sl) (typed_state decls) (evaluate_condition sl c st)"
    if "typed_state decls st" "node_ok env p q k" "node_condition k = Some c" for st k c
    using that by (intro typed_condition) (auto simp: node_ok_def Let_def decls_def lib split: AutomationPlanNodeKind.splits)
  show "yields (simulation_allowed sl) (typed_state decls) (evaluate_condition sl c st)"
    if "typed_state decls st" "pl_condition (fx_plan fx) = Some c" for st c
    using that gate by (intro typed_condition)
  show "case evaluate_expression sl e st of Inl err \<Rightarrow> simulation_allowed sl err
     | Inr v \<Rightarrow> typed_state decls (st\<lparr>si_variables := btree_insert name v (si_variables st)\<rparr>)"
    if st: "typed_state decls st" and ok: "node_ok env p q (N_SetVariable name e following)" for st name e following
  proof -
    obtain t d where t: "expression_type decls e = Some t" "map_of decls name = Some d" "vd_value_type d = t"
      using ok by (auto simp: node_ok_def Let_def decls_def split: option.splits)
    show ?thesis
      using simulated_host.expression_safe [OF t(1), of "si_variables st" "si_ports st" sl] st t map_allowed vars_typed_insert
      by (auto simp: evaluate_expression_def typed_state_def split: sum.splits)
  qed
  show "typed_state decls (st\<lparr>si_ports := advance_to (si_ports st) at\<rparr>)" if "typed_state decls st" for st at
    using that by (simp add: typed_state_def advance_typed)
qed (auto simp: typed_state_def trace_step_def simulation_allowed_def ports_typed_def command_outcome_def split: list.splits)

lemma initial_variables_typed:
  assumes "btree_wf decls" "list_all variable_ok decls"
  shows "vars_typed decls (List.map_filter (\<lambda>(name, def). map_option (Pair name) (vd_initial def)) decls)"
proof -
  have "\<exists>d. map_of decls name = Some d \<and> value_of_type (vd_value_type d) v"
    if "map_of (List.map_filter (\<lambda>(name, def). map_option (Pair name) (vd_initial def)) decls) name = Some v" for name v
  proof -
    note entry = map_of_SomeD [OF that]
    obtain d where d: "(name, d) \<in> set decls" "vd_initial d = Some v"
      using entry by (auto simp: List.map_filter_def)
    then have "map_of decls name = Some d" using bt.entry_lookup [OF assms(1), of name d] by simp
    then show ?thesis using d assms(2) by (force simp: value_of_type_def list_all_iff variable_ok_def)
  qed
  then show ?thesis by (simp add: vars_typed_def)
qed

lemma initial_typed:
  assumes "fixture_typed fx" "btree_wf (pl_variables (fx_plan fx))" "list_all variable_ok (pl_variables (fx_plan fx))"
  shows "typed_state (pl_variables (fx_plan fx)) (StepInterpreter_new fx (VirtualSimulationPorts_new fx))"
  using assms initial_variables_typed
  by (simp add: typed_state_def StepInterpreter_new_def ports_typed_def fixture_typed_def VirtualSimulationPorts_new_def list_all_iff)

section \<open>A sample simulation\<close>

definition sample_simulation_library :: SimulationLibrary where
  "sample_simulation_library = \<lparr>sl_library = sample_library, sl_checked_add_signed = (\<lambda>at d. Some (at + d)),
     sl_uuid_v5 = (\<lambda>_. number_of_text)\<rparr>"

definition sample_fixture :: "AutomationExecutionPlan \<Rightarrow> SimulationCommandOutcome list \<Rightarrow> AutomationSimulationFixture" where
  "sample_fixture plan outcomes = \<lparr>fx_plan = plan, fx_run_id = 20, fx_correlation_id = 21, fx_causation_event_id = None,
     fx_trigger = \<lparr>tg_kind = Sim_Schedule, tg_occurred_at = 0, tg_accepted_at = 0, tg_window_ends_at = 60000, tg_explicit_catch_up = False,
       tg_active_runs = 0, tg_queued_triggers = 0, tg_caused_by_version = None, tg_same_correlation = False\<rparr>,
     fx_initial_state = (\<lambda>_. None), fx_state_changes = [], fx_command_outcomes = outcomes\<rparr>"

lemma sample_fixture_sel [simp]:
  "fx_plan (sample_fixture plan outcomes) = plan" "fixture_typed (sample_fixture plan outcomes)"
  by (simp_all add: sample_fixture_def fixture_typed_def state_typed_def)

lemma sample_budget: "pl_budget sample_plan = AutomationResourceBudget_default"
  unfolding sample_plan_def AutomationCompiler_compile_def sample_env_def [symmetric] Let_def sample_passes sample_nodes
  by (simp add: sample_hashes assemble_plan_def Let_def)

text \<open>Explicit plans over one lamp, run on the schedule trigger.\<close>

definition lamp_plan :: "AutomationPlanNodeKind list \<Rightarrow> AutomationExecutionPlan" where
  "lamp_plan kinds = \<lparr>pl_schema = Plan_V1, pl_automation_id = 1, pl_automation_version = 1, pl_document_hash = [], pl_plan_hash = [],
     pl_registry_revision = 3, pl_variables = [],
     pl_triggers = [RT_Schedule \<lparr>sc_cron = ''0 18 * * *'', sc_timezone = ''UTC'', sc_occurrence_window_ms = 60000\<rparr>],
     pl_condition = None, pl_run_mode = Single, pl_self_trigger = SuppressSameVersion, pl_entry = length kinds - 1,
     pl_nodes = map (\<lambda>(i, k). \<lparr>pn_id = i, pn_order = i, pn_kind = k\<rparr>) (enumerate 0 kinds),
     pl_safety_profiles = {Profile_Comfort}, pl_safety_requirements = {}, pl_approval = ActivationGrant,
     pl_budget = AutomationResourceBudget_default\<rparr>"

abbreviation lamp_command :: "AutomationPlanFailurePolicy \<Rightarrow> node_id option \<Rightarrow> AutomationPlanNodeKind" where
  "lamp_command failure following \<equiv> N_Command [lamp_resolved 10] (OnOff (OnOff_Set True)) 0 no_retry failure following"

lemmas run_lamp = AutomationSimulator_simulate_def accept_trigger_def trigger_matches_def self_suppressed_def run_suppressed_def
  suppress_def sample_fixture_def lamp_plan_def sample_simulation_library_def AutomationResourceBudget_default_def trace_step_def
  StepInterpreter_new_def VirtualSimulationPorts_new_def then_run_def consume_budget_def saturating_add_def try_i64_def find_node_def
  execute_node_def proceed_def apply_failure_def after_group_def add_millis_def advance_to_def command_attempts.simps
  command_outcome_def no_retry_def conclude_def finish_def canonical_trace_hash_def nanos_per_milli_def

lemma execute_from_numeral [simp]:
  "execute_from (numeral v) sl fx node stop st =
     (if Some node = stop then Some (Inr (Flow_Completed, st))
      else
        then_run (consume_budget fx st) (\<lambda>_ st1.
        case find_node fx node of
          None \<Rightarrow> Some (Inl (Sim_MissingNode node))
        | Some kind \<Rightarrow> execute_node sl fx (execute_from (pred_numeral v) sl fx) node stop kind st1))"
  by (simp add: numeral_eq_Suc)

lemma sample_trace_json [simp]: "lib_trace_json sample_library = (\<lambda>_. Inr ''[]'')"
  by (simp add: sample_library_def)

definition sample_run :: AutomationSimulationFixture where
  "sample_run = sample_fixture (lamp_plan [N_Complete, N_Join (Some 0), lamp_command PF_Continue (Some 1), N_Delay 5 (Some 1),
     N_Parallel [2, 3] 2 (Some 1)]) [\<lparr>out_state = Failed, out_error = None\<rparr>]"

lemma sample_run_trace:
  "\<exists>res. AutomationSimulator_simulate 20 sample_simulation_library sample_run = Some (Inr res) \<and>
    map (\<lambda>t. (ts_kind t, ts_node_id t)) (res_trace res) =
      [(Trace_Trigger, None), (Trace_Command, Some 2), (Trace_Outcome, Some 0), (Trace_Timer, Some 3), (Trace_Outcome, Some 0)]"
  by (simp add: sample_run_def run_lamp sample_digest)

section \<open>Properties\<close>

text \<open>C13: The simulator always answers: whatever the plan's graph looks like, even a cyclic one, and whatever
  the fixture holds, fuel of two more than the trace budget yields a result or an error, and more
  fuel yields the same. The only hypothesis is that the budget is below the largest value of its
  counter, which every validated budget is.\<close>

theorem simulation_terminates:
  assumes "rb_maximum_trace_steps (pl_budget (fx_plan fx)) < u32_max"
  shows "\<exists>r. \<forall>fuel \<ge> rb_maximum_trace_steps (pl_budget (fx_plan fx)) + 2. AutomationSimulator_simulate fuel sl fx = Some r"
  using assms by (rule simulation_returns)

theorem simulation_terminates_witness:
  "\<exists>r. AutomationSimulator_simulate 10002 sample_simulation_library (sample_fixture sample_plan []) = Some r"
  using simulation_terminates [of "sample_fixture sample_plan []" sample_simulation_library]
  by (auto simp: sample_budget AutomationResourceBudget_default_def)

text \<open>C14: A simulation's trace is a faithful log: steps are numbered without gaps from zero, carry identities derived
  from the run and their number, never exceed the budget and never go back in time; and every
  command intent belongs to a command node of the plan, with its targets and payload, an attempt within the
  node's retry limit, and the profiles and approval the plan was reviewed with.\<close>

theorem simulation_trace_faithful:
  assumes "AutomationSimulator_simulate fuel sl fx = Some (Inr res)"
  shows "trace_ok sl fx (res_trace res) \<and> list_all (intent_ok fx) (res_command_intents res) \<and>
    tg_accepted_at (fx_trigger fx) \<le> res_finished_at res"
proof -
  have "progress_ok sl fx (StepInterpreter_new fx (VirtualSimulationPorts_new fx))"
    by (simp add: progress_ok_def StepInterpreter_new_def trace_ok_def VirtualSimulationPorts_new_def)
  from progress.simulated [OF assms _ this] obtain status st where "progress_ok sl fx st" "finish sl status st = Inr res"
    by (auto simp: reported_def)
  then show ?thesis using finish_fields by (auto simp: progress_ok_def)
qed

theorem simulation_trace_faithful_witness:
  "\<exists>res. AutomationSimulator_simulate 20 sample_simulation_library sample_run = Some (Inr res) \<and>
     length (res_trace res) = 5 \<and> trace_ok sample_simulation_library sample_run (res_trace res)"
proof -
  obtain res where res: "AutomationSimulator_simulate 20 sample_simulation_library sample_run = Some (Inr res)"
    "map (\<lambda>t. (ts_kind t, ts_node_id t)) (res_trace res) =
      [(Trace_Trigger, None), (Trace_Command, Some 2), (Trace_Outcome, Some 0), (Trace_Timer, Some 3), (Trace_Outcome, Some 0)]"
    using sample_run_trace by (elim exE conjE)
  have len: "length (res_trace res) = 5" using arg_cong [OF res(2), of length] by simp
  show ?thesis
    using res(1) len simulation_trace_faithful [OF res(1), THEN conjunct1] by (intro exI [of _ res] conjI)
qed




end
