(* ===== verification/Spec2Isabelle.thy ===== *)
theory Spec2Isabelle
  imports Automation_Scheduler Runtime_Properties Application Reconciliation Observation Device_Lifecycle Command_Properties Simulator_Properties
begin

text \<open>
  \<^bold>\<open>HomeMagic: the controller's core.\<close>

  HomeMagic is a home controller written in Rust. Device integrations report devices and
  observations; clients and automations ask for commands; the controller decides whether a command
  may run, records it durably, hands it to an integration and waits for confirmation. Automations
  are authored documents that a compiler lowers to execution plans, a simulator rehearses and a durable
  interpreter runs. This development models the parts of the program that decide: the domain types
  with their state machines, the policy, the command store and service, the device registry with
  its reconciliation, and automations from the compiler and the simulator to the store and the
  interpreter.

  \<^bold>\<open>Theories and the code they model.\<close>

  \<^item> \<open>HM_Prelude\<close>: shared lemmas. BTree maps and sets are strictly sorted association lists
    (\<open>btree\<close>, interface locale \<open>ordered_map\<close>), Rust results are sums with the error on the left and
    \<open>and_then\<close> as the question mark operator, saturating integers are explicit, and
    \<open>state_preorder\<close> is the contract of state passing passes that only add to their state.
  \<^item> \<open>Device_Lifecycle\<close>: \<open>homemagic-domain\<close> \<open>lifecycle.rs\<close>: availability, freshness policies,
    timestamps and repairs.
  \<^item> \<open>Json_Value\<close>: JSON values and IEEE doubles as their bit patterns with the order of Rust's \<open>f64\<close>.
  \<^item> \<open>Capability\<close>: \<open>capability.rs\<close> and device records: snapshots, descriptors, risk classes.
  \<^item> \<open>Observation\<close>: \<open>observation.rs\<close>: observation records and the partial merge.
  \<^item> \<open>Command_Domain\<close>: \<open>command.rs\<close>: payloads, validation, the command state machine and aggregate.
  \<^item> \<open>Policy\<close>: \<open>homemagic-application\<close> \<open>policy.rs\<close>: the evaluator, and the admission limits as a step
    relation over interleaved requests.
  \<^item> \<open>Command_Store\<close>: \<open>homemagic-storage\<close> \<open>command_repository.rs\<close>: the command tables as ordered
    maps, each transaction as a function from database to a result and the next database.
  \<^item> \<open>Command_Service\<close>: \<open>homemagic-application\<close> \<open>command.rs\<close>: execute, approve, cancel, recover, dispatch and
    confirm over a store, a policy, limits, an adapter and a clock. \<open>Command_Safety\<close> holds the invariant
    of the service and \<open>Command_Properties\<close> its properties.
  \<^item> \<open>Foundation\<close>: configuration, domain events, snapshots and writes of \<open>homemagic-application\<close>.
  \<^item> \<open>Automation_Domain\<close>: \<open>automation.rs\<close>: documents, plans, runs, traces and their state machines.
  \<^item> \<open>Decimal_Parse\<close>: the decimal notation Rust parses as \<open>f64\<close>, correctly rounded.
  \<^item> \<open>Automation_Evaluator\<close>: \<open>automation_evaluator.rs\<close>: conditions and expressions over a host.
  \<^item> \<open>Automation_Compiler\<close>: \<open>automation_compiler.rs\<close>: validation, target resolution, typing, reduction,
    lowering, classification and hashing. \<open>Compiler_Correctness\<close> shows that a pass without findings
    produces checked output, and \<open>Compiler_Properties\<close> states the result.
  \<^item> \<open>Identity\<close>: \<open>identity.rs\<close>: the derived identities with their namespaces and keys.
  \<^item> \<open>Automation_Simulator\<close>: \<open>automation_simulator.rs\<close>: fixtures, virtual ports and the step interpreter.
    \<open>Evaluation_Safety\<close> is the contract of evaluation on typed states and \<open>Simulator_Properties\<close> holds the properties.
  \<^item> \<open>Reconciliation\<close>: \<open>reconciliation.rs\<close>: the pass that folds discovered candidates into device records.
  \<^item> \<open>Application\<close>: \<open>lib.rs\<close>, \<open>registry.rs\<close> and \<open>memory.rs\<close> of \<open>homemagic-application\<close>: the registry
    facade over the interface locale \<open>foundation_store\<close>, interpreted on the in-memory repository.
  \<^item> \<open>Automation_Store\<close>: \<open>automation_repository.rs\<close> of \<open>homemagic-storage\<close>: the automation tables, every
    transaction as a function, \<open>store_step\<close> as their union, and the locale \<open>store_invariant\<close> interpreted on
    the governance of versions and on the contiguity of traces.
  \<^item> \<open>Automation_Runtime\<close>: \<open>automation_runtime.rs\<close>: one step of a run on that store and the command service.
    \<open>Runtime_Safety\<close> shows that a step is a sequence of reads with at most one commit, and \<open>Runtime_Properties\<close>
    states what follows in reachable databases.

  \<^bold>\<open>Parameters.\<close> Code outside the repository enters as an argument: the time zone database and cron parser
  (\<open>Calendar\<close>), serde's JSON rendering, SHA-256 and UUID printing (\<open>AutomationLibrary\<close>), the device
  adapter and the clock of the command service, the clock readings and loaded snapshots of the interpreter, and a
  supply of fresh identifiers. Nothing is assumed of them beyond what a theorem
  names. Identifiers are natural numbers, instants are integers, and machine integers are bounded
  or saturate where the code does.

  \<^bold>\<open>What the properties show.\<close> A command reaches the adapter at most once and only after a durable, allowed
  dispatch record; retries under an idempotency key are answered from the store; cancelled and dry
  run commands are never dispatched; the audit trail is contiguous in every reachable database; of
  two concurrent writers one is refused. The policy evaluator is equivalent to a declarative
  permission, and admission limits hold in every interleaving. Observations merge field by field.
  Lifecycles are sound, freshness decays at the announced instants. Compiled plans are closed,
  acyclic, typed and within budget, sensitive plans ask for approval, the reducer keeps the last
  command of a target, decimals compare in their exact order. Compiled plans simulate without type errors, every
  simulation ends, and its trace is gapless. A reconciliation pass keeps every device it does not see; the served registry equals what a
  restart would load, and following the event pages replays the log. Only simulated and, where asked for,
  approved versions are active, and a step of a run commits once or not at all. Some properties are about limits of the code:
  the two step permit check, retention blocked by a desired command slot, the risk of later
  targets, a continued failure that leaves its parallel branch, a rename undone by rediscovery, and runs that stall once their trace
  outgrows a query page.

  \<^bold>\<open>Bounds and fuel.\<close> The recursive functions are total. The compiler's lowering recurses over the authored
  tree, with the size of the reduced tree as measure. The simulator runs on fuel of the trace budget plus two,
  which is shown to be enough: every iteration consumes a step of the budget. Following event pages takes more rounds
  than there are events.

  \<^bold>\<open>Not modelled.\<close> HTTP, process start-up, serialization, SQL text, network adapters, the Matter sidecar and
  its protocol, secrets and authentication: input and output around the decisions above.
\<close>

end
